(* ===== verification/Prelude.thy ===== *)
theory Prelude
  imports Complex_Main "HOL-Library.Multiset"
begin

text \<open>
  Shared vocabulary of the development: the named theorem collections the
  component theories fill, the JavaScript array and number primitives the
  sources call (\<^verbatim>\<open>Array.prototype.findIndex\<close>, \<^verbatim>\<open>splice(i, 1)\<close>,
  \<^verbatim>\<open>Number(x.toFixed(2))\<close>), and the generic lemmas about them.
  JavaScript numbers are modelled as exact values: \<open>int\<close> where the code only
  ever stores integers (hit points, coins, grid cells), \<open>real\<close> where it stores
  fractions (positions, speeds, timestamps). IEEE rounding is not modelled.
\<close>

named_theorems stat_simps "facts that evaluate derived unit statistics"
named_theorems roster_simps "frame facts about list updates of the entity roster"

type_synonym entity_id = nat
type_synonym millis = real

subsection \<open>\<^verbatim>\<open>findIndex\<close>: the first index satisfying a predicate\<close>

text \<open>\<open>None\<close> stands for the \<open>-1\<close> that \<^verbatim>\<open>findIndex\<close> returns when nothing matches.\<close>

fun find_idx :: "('a \<Rightarrow> bool) \<Rightarrow> 'a list \<Rightarrow> nat option" where
  "find_idx P [] = None"
| "find_idx P (x # xs) = (if P x then Some 0 else map_option Suc (find_idx P xs))"

text \<open>\<^verbatim>\<open>splice(i, 1)\<close> removes one element.\<close>

definition remove_nth :: "nat \<Rightarrow> 'a list \<Rightarrow> 'a list" where
  "remove_nth i xs = take i xs @ drop (Suc i) xs"

text \<open>\<^verbatim>\<open>list[Math.floor(Math.random() * list.length)]\<close>, \<open>r\<close> being the draw.\<close>

definition pick :: "'a list \<Rightarrow> real \<Rightarrow> 'a" where
  "pick xs r = xs ! nat \<lfloor>r * real (length xs)\<rfloor>"

text \<open>
  \<^verbatim>\<open>toFixed\<close> takes the absolute value, picks the integer \<open>n\<close> nearest to
  \<open>|x| * 100\<close> (the larger one on a tie, which is \<open>round\<close>) and restores the sign.
\<close>

definition js_toFixed2 :: "real \<Rightarrow> real" where
  "js_toFixed2 x =
     (if x < 0 then - (of_int (round (- x * 100)) / 100) else of_int (round (x * 100)) / 100)"

subsection \<open>Facts about the primitives\<close>

lemma find_idx_None_iff: "find_idx P xs = None \<longleftrightarrow> (\<forall>x \<in> set xs. \<not> P x)"
  by (induction xs) auto

lemma find_idx_Some_iff:
  "find_idx P xs = Some i \<longleftrightarrow> i < length xs \<and> P (xs ! i) \<and> (\<forall>k < i. \<not> P (xs ! k))"
proof (induction xs arbitrary: i)
  case Nil
  then show ?case by simp
next
  case (Cons x xs)
  show ?case
  proof (cases i)
    case 0
    then show ?thesis by auto
  next
    case (Suc j)
    have "(\<forall>k < Suc j. \<not> P ((x # xs) ! k)) \<longleftrightarrow> \<not> P x \<and> (\<forall>k < j. \<not> P (xs ! k))"
      by (auto simp: less_Suc_eq_0_disj)
    with Cons.IH Suc show ?thesis by auto
  qed
qed

lemma find_idx_SomeD [dest]:
  "find_idx P xs = Some i \<Longrightarrow> i < length xs \<and> P (xs ! i)"
  by (simp add: find_idx_Some_iff)

lemma find_idx_unique:
  assumes "distinct (map f xs)" and "i < length xs"
  shows "find_idx (\<lambda>e. f e = f (xs ! i)) xs = Some i"
proof -
  have "\<forall>k < i. f (xs ! k) \<noteq> f (xs ! i)"
    using assms by (auto simp: distinct_conv_nth)
  with assms(2) show ?thesis by (simp add: find_idx_Some_iff)
qed

lemma find_idx_exists: "x \<in> set xs \<Longrightarrow> P x \<Longrightarrow> \<exists>j. find_idx P xs = Some j"
  using find_idx_None_iff [of P xs] by fastforce


subsection \<open>\<^verbatim>\<open>splice(i, 1)\<close>: removing one element\<close>

lemma length_remove_nth [simp]: "i < length xs \<Longrightarrow> length (remove_nth i xs) = length xs - 1"
  by (simp add: remove_nth_def)

lemma mset_remove_nth: "i < length xs \<Longrightarrow> mset (remove_nth i xs) = mset xs - {# xs ! i #}"
proof -
  assume i: "i < length xs"
  have "xs = take i xs @ xs ! i # drop (Suc i) xs"
    using i by (simp add: id_take_nth_drop)
  then have "mset xs = mset (remove_nth i xs) + {# xs ! i #}"
    by (metis add_mset_add_single mset.simps(2) mset_append remove_nth_def union_mset_add_mset_right)
  then show ?thesis by simp
qed

lemma set_remove_nth_subset: "set (remove_nth i xs) \<subseteq> set xs"
  by (auto simp: remove_nth_def dest: in_set_takeD in_set_dropD)

lemma remove_nth_map: "remove_nth i (map f xs) = map f (remove_nth i xs)"
  by (simp add: remove_nth_def take_map drop_map)

lemma distinct_remove_nth: "distinct xs \<Longrightarrow> distinct (remove_nth i xs)"
  by (simp add: remove_nth_def set_take_disj_set_drop_if_distinct)

lemma nth_remove_nth_notin:
  assumes "distinct xs" and "i < length xs"
  shows "xs ! i \<notin> set (remove_nth i xs)"
proof -
  have "xs = take i xs @ xs ! i # drop (Suc i) xs"
    using assms(2) by (simp add: id_take_nth_drop)
  with assms(1) have "distinct (take i xs @ xs ! i # drop (Suc i) xs)" by simp
  then show ?thesis by (simp add: remove_nth_def)
qed

lemma nth_in_remove_nth:
  assumes "j < length xs" and "j \<noteq> i"
  shows "xs ! j \<in> set (remove_nth i xs)"
proof (cases "j < i")
  case True
  then have "take i xs ! j = xs ! j" by simp
  moreover have "j < length (take i xs)" using True assms(1) by simp
  ultimately show ?thesis unfolding remove_nth_def by (metis UnCI nth_mem set_append)
next
  case False
  with assms(2) have ij: "i < j" by simp
  then have "drop (Suc i) xs ! (j - Suc i) = xs ! j" using assms(1) by simp
  moreover have "j - Suc i < length (drop (Suc i) xs)" using ij assms(1) by simp
  ultimately show ?thesis unfolding remove_nth_def by (metis UnCI nth_mem set_append)
qed

subsection \<open>Updating a list in place\<close>

lemma map_update_same:
  assumes "k < length xs" and "f v = f (xs ! k)"
  shows "map f (xs[k := v]) = map f xs"
proof -
  have "map f (xs[k := v]) = (map f xs)[k := map f xs ! k]"
    using assms by (simp add: map_update)
  then show ?thesis by simp
qed

subsection \<open>Random choice from a list\<close>

lemma pick_in_set:
  assumes "xs \<noteq> []" "0 \<le> r" "r < 1"
  shows "pick xs r \<in> set xs"
proof -
  have "r * real (length xs) < real (length xs)" using assms by simp
  then have "\<lfloor>r * real (length xs)\<rfloor> < int (length xs)" by linarith
  moreover have "0 \<le> \<lfloor>r * real (length xs)\<rfloor>" using assms by simp
  ultimately have "nat \<lfloor>r * real (length xs)\<rfloor> < length xs" by linarith
  then show ?thesis by (simp add: pick_def)
qed


subsection \<open>\<^verbatim>\<open>Number(x.toFixed(2))\<close>\<close>

lemma js_toFixed2_nonneg: "0 \<le> x \<Longrightarrow> js_toFixed2 x = of_int (round (x * 100)) / 100"
  by (simp add: js_toFixed2_def)

lemma js_toFixed2_close: "\<bar>js_toFixed2 x - x\<bar> \<le> 1 / 200"
proof -
  have r: "\<bar>of_int (round y) - y\<bar> \<le> 1 / 2" for y :: real
    using of_int_round_abs_le by (simp add: abs_minus_commute)
  show ?thesis
  proof (cases "x < 0")
    case True
    have "\<bar>of_int (round (- x * 100)) - (- x * 100)\<bar> \<le> 1 / 2" by (rule r)
    with True show ?thesis by (simp add: js_toFixed2_def abs_if split: if_splits)
  next
    case False
    have "\<bar>of_int (round (x * 100)) - x * 100\<bar> \<le> 1 / 2" by (rule r)
    with False show ?thesis by (simp add: js_toFixed2_def abs_if split: if_splits)
  qed
qed

lemma js_toFixed2_pos: "1 / 100 \<le> x \<Longrightarrow> 0 < js_toFixed2 x"
proof -
  assume x: "1 / 100 \<le> x"
  have "\<bar>js_toFixed2 x - x\<bar> \<le> 1 / 200" by (rule js_toFixed2_close)
  then have "x - 1 / 200 \<le> js_toFixed2 x" by linarith
  with x show ?thesis by linarith
qed

subsection \<open>Floors of products\<close>

lemma floor_mono_mult_ge1:
  fixes x c :: real
  assumes "0 \<le> x" and "1 \<le> c"
  shows "\<lfloor>x\<rfloor> \<le> \<lfloor>x * c\<rfloor>"
proof -
  have "x \<le> x * c" using assms by (simp add: mult_le_cancel_left1)
  then show ?thesis by (rule floor_mono)
qed

lemma floor_diff_close:
  fixes x y :: real
  shows "\<bar>real_of_int \<lfloor>y\<rfloor> - real_of_int \<lfloor>x\<rfloor> - (y - x)\<bar> < 1"
proof -
  have "real_of_int \<lfloor>y\<rfloor> \<le> y" "y < real_of_int \<lfloor>y\<rfloor> + 1"
    "real_of_int \<lfloor>x\<rfloor> \<le> x" "x < real_of_int \<lfloor>x\<rfloor> + 1"
    by linarith+
  then show ?thesis unfolding abs_less_iff by (intro conjI) linarith+
qed

end
