(* ===== verification/Game_Types.thy ===== *)
theory Game_Types
  imports Prelude
begin

text \<open>
  The data model of \<^verbatim>\<open>src/types.ts\<close>: every TypeScript \<^verbatim>\<open>enum\<close> is a
  \<^theory_text>\<open>datatype\<close> with the source's constructors in the source's order, every
  \<^verbatim>\<open>interface\<close> a \<^theory_text>\<open>record\<close>. Entity ids (random base-36 strings in the
  code) are natural numbers; the cosmetic fields \<^verbatim>\<open>color\<close> and \<^verbatim>\<open>icon\<close> of
  \<^verbatim>\<open>UnitStats\<close> and the display texts of \<^verbatim>\<open>Achievement\<close> are left out, since no
  computation reads them. Record fields carry a short prefix where two interfaces
  of the source share a field name (\<^verbatim>\<open>hp\<close>, \<^verbatim>\<open>type\<close>, \<^verbatim>\<open>level\<close>).
\<close>

datatype unit_type =
  INFANTRY | ARCHER | TANK | SPEARMAN | MAGE | ASSASSIN | GOLEM | DRAGON
  | PALADIN | SNIPER | VOID_WALKER

datatype unit_tier = COMMON | RARE | EPIC | LEGENDARY | MYTHIC

datatype side = PLAYER | ENEMY

datatype difficulty = NORMAL | HARD | HELL

datatype game_phase = DIFFICULTY_SELECT | PREPARATION | BATTLE | VICTORY | DEFEAT | GAME_CLEAR

datatype artifact_type = HOLY_SWORD | ANCIENT_SHIELD | WAR_DRUMS | WIND_CLOAK | MIDAS_TOUCH

datatype global_tech_type = CAPACITY | LUCK | MYTHIC_MASTERY

text \<open>\<^verbatim>\<open>Object.values(UnitType)\<close> and \<^verbatim>\<open>Object.values(ArtifactType)\<close>: declaration order.\<close>

definition all_unit_types :: "unit_type list" where
  "all_unit_types =
     [INFANTRY, ARCHER, TANK, SPEARMAN, MAGE, ASSASSIN, GOLEM, DRAGON, PALADIN, SNIPER, VOID_WALKER]"

definition all_artifact_types :: "artifact_type list" where
  "all_artifact_types = [HOLY_SWORD, ANCIENT_SHIELD, WAR_DRUMS, WIND_CLOAK, MIDAS_TOUCH]"

text \<open>The \<^verbatim>\<open>state\<close> union type of \<^verbatim>\<open>Entity\<close>.\<close>

datatype entity_state = IDLE | MOVING | ATTACKING | DEAD

text \<open>\<^verbatim>\<open>UnitStats\<close>: hit points and damage are integers in every table entry and
  after the flooring of \<^verbatim>\<open>getUnitStats\<close>; rates, ranges and speeds are fractions.\<close>

record unit_stats =
  tier :: unit_tier
  st_hp :: int
  st_damage :: int
  st_attackSpeed :: real
  st_range :: real
  st_moveSpeed :: real

text \<open>\<^verbatim>\<open>Entity\<close>: \<open>posX\<close>/\<open>posY\<close> are the continuous \<^verbatim>\<open>x\<close>/\<^verbatim>\<open>y\<close> of the source.\<close>

record entity =
  eid :: entity_id
  etype :: unit_type
  side :: side
  level :: nat
  gridX :: int
  gridY :: int
  posX :: real
  posY :: real
  hp :: int
  maxHp :: int
  lastAttackTime :: millis
  targetId :: "entity_id option"
  state :: entity_state
  facingRight :: bool

text \<open>An enemy roster entry of \<^verbatim>\<open>LevelConfig\<close> (an \<^verbatim>\<open>Entity\<close> without its
  combat fields).\<close>

record enemy_spec =
  sp_type :: unit_type
  sp_level :: nat
  sp_side :: side
  sp_gridX :: int
  sp_gridY :: int

record level_config =
  levelNumber :: nat
  enemies :: "enemy_spec list"

record game_stats =
  kills :: nat
  merges :: nat
  wins :: nat
  summons :: nat

text \<open>\<^verbatim>\<open>keyof GameStats\<close>, the counter an achievement watches.\<close>

datatype stat_key = Kills | Merges | Wins | Summons

primrec stat_value :: "game_stats \<Rightarrow> stat_key \<Rightarrow> nat" where
  "stat_value g Kills = kills g"
| "stat_value g Merges = merges g"
| "stat_value g Wins = wins g"
| "stat_value g Summons = summons g"

record achievement =
  ach_id :: string
  ach_type :: stat_key
  ach_target :: nat
  ach_reward :: int

record synthesis_recipe =
  recipe_id :: string
  result :: unit_type
  ingredients :: "unit_type list"
  minLevel :: nat
  cost :: int

subsection \<open>Enumerations\<close>

lemma set_all_unit_types [simp]: "set all_unit_types = UNIV"
proof -
  have "t \<in> set all_unit_types" for t by (cases t) (simp_all add: all_unit_types_def)
  then show ?thesis by blast
qed

lemma set_all_artifact_types [simp]: "set all_artifact_types = UNIV"
proof -
  have "a \<in> set all_artifact_types" for a by (cases a) (simp_all add: all_artifact_types_def)
  then show ?thesis by blast
qed

end
