(* ===== verification/Game_Constants.thy ===== *)
theory Game_Constants
  imports Game_Types
begin

text \<open>
  The configuration tables of \<^verbatim>\<open>src/constants.ts\<close>, one definition per exported
  constant (display names, colours and icons left out). \<^verbatim>\<open>Record<K, V>\<close> tables
  are functions by \<^theory_text>\<open>primrec\<close> over the key datatype; numbers keep the
  source's decimal literals.
\<close>

definition GRID_ROWS :: int where "GRID_ROWS = 8"
definition GRID_COLS :: int where "GRID_COLS = 7"

text \<open>\<^verbatim>\<open>TIER_INFO[t].costMult\<close>.\<close>

primrec tier_costMult :: "unit_tier \<Rightarrow> real" where
  "tier_costMult COMMON = 1.0"
| "tier_costMult RARE = 3.0"
| "tier_costMult EPIC = 8.0"
| "tier_costMult LEGENDARY = 20.0"
| "tier_costMult MYTHIC = 50.0"

text \<open>\<^verbatim>\<open>DIFFICULTY_SETTINGS[d].maxLevel\<close> and \<^verbatim>\<open>.enemyMult\<close>.\<close>

primrec diff_maxLevel :: "difficulty \<Rightarrow> nat" where
  "diff_maxLevel NORMAL = 30"
| "diff_maxLevel HARD = 40"
| "diff_maxLevel HELL = 50"

primrec diff_enemyMult :: "difficulty \<Rightarrow> real" where
  "diff_enemyMult NORMAL = 0.8"
| "diff_enemyMult HARD = 1.0"
| "diff_enemyMult HELL = 1.2"

text \<open>\<^verbatim>\<open>UNIT_BASE_STATS\<close>: the level-1 profile of every archetype.\<close>

primrec UNIT_BASE_STATS :: "unit_type \<Rightarrow> unit_stats" where
  "UNIT_BASE_STATS INFANTRY = \<lparr>tier = COMMON, st_hp = 120, st_damage = 15,
     st_attackSpeed = 1.2, st_range = 1.2, st_moveSpeed = 2.5\<rparr>"
| "UNIT_BASE_STATS ARCHER = \<lparr>tier = COMMON, st_hp = 80, st_damage = 25,
     st_attackSpeed = 1.0, st_range = 5.5, st_moveSpeed = 2.2\<rparr>"
| "UNIT_BASE_STATS TANK = \<lparr>tier = RARE, st_hp = 300, st_damage = 12,
     st_attackSpeed = 0.8, st_range = 1.2, st_moveSpeed = 1.8\<rparr>"
| "UNIT_BASE_STATS SPEARMAN = \<lparr>tier = RARE, st_hp = 150, st_damage = 22,
     st_attackSpeed = 1.1, st_range = 2.5, st_moveSpeed = 2.3\<rparr>"
| "UNIT_BASE_STATS MAGE = \<lparr>tier = EPIC, st_hp = 90, st_damage = 45,
     st_attackSpeed = 0.7, st_range = 6.0, st_moveSpeed = 2.0\<rparr>"
| "UNIT_BASE_STATS ASSASSIN = \<lparr>tier = EPIC, st_hp = 140, st_damage = 40,
     st_attackSpeed = 2.0, st_range = 1.2, st_moveSpeed = 3.5\<rparr>"
| "UNIT_BASE_STATS GOLEM = \<lparr>tier = LEGENDARY, st_hp = 600, st_damage = 25,
     st_attackSpeed = 0.6, st_range = 1.2, st_moveSpeed = 1.5\<rparr>"
| "UNIT_BASE_STATS DRAGON = \<lparr>tier = LEGENDARY, st_hp = 400, st_damage = 70,
     st_attackSpeed = 0.9, st_range = 3.5, st_moveSpeed = 2.5\<rparr>"
| "UNIT_BASE_STATS PALADIN = \<lparr>tier = MYTHIC, st_hp = 2000, st_damage = 100,
     st_attackSpeed = 1.0, st_range = 1.2, st_moveSpeed = 2.0\<rparr>"
| "UNIT_BASE_STATS SNIPER = \<lparr>tier = MYTHIC, st_hp = 350, st_damage = 400,
     st_attackSpeed = 0.6, st_range = 8.0, st_moveSpeed = 1.5\<rparr>"
| "UNIT_BASE_STATS VOID_WALKER = \<lparr>tier = MYTHIC, st_hp = 1000, st_damage = 150,
     st_attackSpeed = 1.6, st_range = 3.0, st_moveSpeed = 2.5\<rparr>"

definition HP_MULTIPLIER :: real where "HP_MULTIPLIER = 1.8"
definition DAMAGE_MULTIPLIER :: real where "DAMAGE_MULTIPLIER = 1.6"

definition RECRUIT_COST :: int where "RECRUIT_COST = 100"
definition RECRUIT_COST_INCREASE :: int where "RECRUIT_COST_INCREASE = 10"
definition TECH_COST_BASE :: int where "TECH_COST_BASE = 100"
definition TECH_COST_INCREASE :: int where "TECH_COST_INCREASE = 20"

text \<open>\<^verbatim>\<open>GLOBAL_TECH_INFO[g]\<close>: base cost, cost increase and maximum level.\<close>

primrec gt_baseCost :: "global_tech_type \<Rightarrow> int" where
  "gt_baseCost CAPACITY = 200"
| "gt_baseCost LUCK = 200"
| "gt_baseCost MYTHIC_MASTERY = 200"

primrec gt_costInc :: "global_tech_type \<Rightarrow> int" where
  "gt_costInc CAPACITY = 100"
| "gt_costInc LUCK = 100"
| "gt_costInc MYTHIC_MASTERY = 20"

primrec gt_maxLevel :: "global_tech_type \<Rightarrow> nat" where
  "gt_maxLevel CAPACITY = 20"
| "gt_maxLevel LUCK = 10"
| "gt_maxLevel MYTHIC_MASTERY = 100"

definition BASE_UNIT_CAP :: nat where "BASE_UNIT_CAP = 10"
definition UNIT_CAP_PER_LEVEL :: nat where "UNIT_CAP_PER_LEVEL = 2"

definition ARTIFACT_COST_BASE :: int where "ARTIFACT_COST_BASE = 200"
definition ARTIFACT_COST_INCREASE :: int where "ARTIFACT_COST_INCREASE = 50"

definition ACHIEVEMENTS :: "achievement list" where
  "ACHIEVEMENTS =
     [\<lparr>ach_id = ''kill_1'', ach_type = Kills, ach_target = 1, ach_reward = 100\<rparr>,
      \<lparr>ach_id = ''kill_100'', ach_type = Kills, ach_target = 100, ach_reward = 500\<rparr>,
      \<lparr>ach_id = ''kill_1000'', ach_type = Kills, ach_target = 1000, ach_reward = 2000\<rparr>,
      \<lparr>ach_id = ''merge_10'', ach_type = Merges, ach_target = 10, ach_reward = 200\<rparr>,
      \<lparr>ach_id = ''merge_100'', ach_type = Merges, ach_target = 100, ach_reward = 1000\<rparr>,
      \<lparr>ach_id = ''summon_50'', ach_type = Summons, ach_target = 50, ach_reward = 300\<rparr>,
      \<lparr>ach_id = ''summon_200'', ach_type = Summons, ach_target = 200, ach_reward = 1500\<rparr>,
      \<lparr>ach_id = ''win_10'', ach_type = Wins, ach_target = 10, ach_reward = 400\<rparr>,
      \<lparr>ach_id = ''win_50'', ach_type = Wins, ach_target = 50, ach_reward = 2500\<rparr>]"

definition SYNTHESIS_RECIPES :: "synthesis_recipe list" where
  "SYNTHESIS_RECIPES =
     [\<lparr>recipe_id = ''paladin'', result = PALADIN, ingredients = [INFANTRY, TANK],
       minLevel = 3, cost = 500\<rparr>,
      \<lparr>recipe_id = ''sniper'', result = SNIPER, ingredients = [ARCHER, SPEARMAN],
       minLevel = 3, cost = 500\<rparr>,
      \<lparr>recipe_id = ''void_walker'', result = VOID_WALKER, ingredients = [MAGE, GOLEM],
       minLevel = 3, cost = 500\<rparr>]"

text \<open>Facts about the tables that the stat and economy proofs share.\<close>

lemma base_hp_ge [stat_simps]: "80 \<le> st_hp (UNIT_BASE_STATS t)"
  by (cases t) simp_all

lemma base_damage_ge [stat_simps]: "12 \<le> st_damage (UNIT_BASE_STATS t)"
  by (cases t) simp_all

lemma base_attackSpeed_ge [stat_simps]: "0.6 \<le> st_attackSpeed (UNIT_BASE_STATS t)"
  by (cases t) simp_all

lemma base_moveSpeed_ge [stat_simps]: "1.5 \<le> st_moveSpeed (UNIT_BASE_STATS t)"
  by (cases t) simp_all

lemma base_range_ge [stat_simps]: "1.2 \<le> st_range (UNIT_BASE_STATS t)"
  by (cases t) simp_all

lemma HP_MULTIPLIER_ge1 [stat_simps]: "1 \<le> HP_MULTIPLIER"
  by (simp add: HP_MULTIPLIER_def)

lemma DAMAGE_MULTIPLIER_ge1 [stat_simps]: "1 \<le> DAMAGE_MULTIPLIER"
  by (simp add: DAMAGE_MULTIPLIER_def)

end
