(* ===== verification/Stats.thy ===== *)
theory Stats
  imports Game_Constants
begin

text \<open>
  The Stat Model: \<^verbatim>\<open>getUnitStats\<close> of \<^verbatim>\<open>src/services/gameLogic.ts\<close>, the
  tech-level lookups of \<^verbatim>\<open>src/App.tsx\<close> that feed it (\<^verbatim>\<open>getPlayerTechLevel\<close>,
  the enemy tech level of \<^verbatim>\<open>loadLevel\<close> and of \<^verbatim>\<open>battleTick\<close>), and what they
  guarantee: every derived stat is at least the archetype's base value, hit points
  and damage grow strictly with the level and monotonically with tech, one tech
  level adds 20 percent of the level-scaled value up to the final flooring, and the
  gold artifact leaves combat stats alone.
\<close>

text \<open>Artifact levels are a total map: \<^verbatim>\<open>artifactLevels[a] || 0\<close> reads a missing
  key as 0, so the enemy's \<^verbatim>\<open>{}\<close> is \<open>\<lambda>_. 0\<close>.\<close>

type_synonym artifact_levels = "artifact_type \<Rightarrow> nat"

definition no_artifacts :: artifact_levels where
  "no_artifacts = (\<lambda>_. 0)"

definition getUnitStats :: "unit_type \<Rightarrow> nat \<Rightarrow> int \<Rightarrow> artifact_levels \<Rightarrow> unit_stats" where
  "getUnitStats ty lvl techLevel arts =
     (let base = UNIT_BASE_STATS ty;
          techMult = 1 + (real_of_int techLevel - 1) * 0.2;
          damageMult = 1 + real (arts HOLY_SWORD) * 0.05;
          hpMult = 1 + real (arts ANCIENT_SHIELD) * 0.05;
          atkSpeedMult = 1 + real (arts WAR_DRUMS) * 0.03;
          moveSpeedMult = 1 + real (arts WIND_CLOAK) * 0.05
      in base\<lparr>
           st_hp := \<lfloor>real_of_int (st_hp base) * HP_MULTIPLIER ^ (lvl - 1) * techMult * hpMult\<rfloor>,
           st_damage := \<lfloor>real_of_int (st_damage base) * DAMAGE_MULTIPLIER ^ (lvl - 1)
                          * techMult * damageMult\<rfloor>,
           st_attackSpeed := js_toFixed2 (st_attackSpeed base * atkSpeedMult),
           st_moveSpeed := js_toFixed2 (st_moveSpeed base * moveSpeedMult),
           st_range := st_range base\<rparr>)"

text \<open>\<^verbatim>\<open>getPlayerTechLevel\<close>: mythic units read the shared mastery track.\<close>

definition getPlayerTechLevel ::
  "(global_tech_type \<Rightarrow> int) \<Rightarrow> (unit_type \<Rightarrow> int) \<Rightarrow> unit_type \<Rightarrow> int" where
  "getPlayerTechLevel globalTech techLevels ty =
     (if tier (UNIT_BASE_STATS ty) = MYTHIC then globalTech MYTHIC_MASTERY else techLevels ty)"

text \<open>The enemy tech level as \<^verbatim>\<open>loadLevel\<close> computes it (it sets the enemies'
  hit points) and as \<^verbatim>\<open>battleTick\<close> computes it (it sets their damage, attack rate,
  speed and range in battle).\<close>

definition enemyTechLevel_load :: "nat \<Rightarrow> difficulty \<Rightarrow> int" where
  "enemyTechLevel_load lvl diff = max 1 \<lceil>real lvl / 10 * diff_enemyMult diff\<rceil>"

definition enemyTechLevel_battle :: "nat \<Rightarrow> int" where
  "enemyTechLevel_battle lvl = max 1 \<lceil>real lvl / 5\<rceil>"

subsection \<open>Field equations\<close>

text \<open>The multipliers, named once so that the proofs below can speak of them.\<close>

definition tech_mult :: "int \<Rightarrow> real" where
  "tech_mult T = 1 + (real_of_int T - 1) * 0.2"

definition hp_scale :: "unit_type \<Rightarrow> nat \<Rightarrow> artifact_levels \<Rightarrow> real" where
  "hp_scale ty lvl arts =
     real_of_int (st_hp (UNIT_BASE_STATS ty)) * HP_MULTIPLIER ^ (lvl - 1)
       * (1 + real (arts ANCIENT_SHIELD) * 0.05)"

definition dmg_scale :: "unit_type \<Rightarrow> nat \<Rightarrow> artifact_levels \<Rightarrow> real" where
  "dmg_scale ty lvl arts =
     real_of_int (st_damage (UNIT_BASE_STATS ty)) * DAMAGE_MULTIPLIER ^ (lvl - 1)
       * (1 + real (arts HOLY_SWORD) * 0.05)"

lemma st_hp_getUnitStats [stat_simps]:
  "st_hp (getUnitStats ty lvl T arts) = \<lfloor>hp_scale ty lvl arts * tech_mult T\<rfloor>"
  by (simp add: getUnitStats_def hp_scale_def tech_mult_def Let_def algebra_simps)

lemma st_damage_getUnitStats [stat_simps]:
  "st_damage (getUnitStats ty lvl T arts) = \<lfloor>dmg_scale ty lvl arts * tech_mult T\<rfloor>"
  by (simp add: getUnitStats_def dmg_scale_def tech_mult_def Let_def algebra_simps)

lemma st_attackSpeed_getUnitStats [stat_simps]:
  "st_attackSpeed (getUnitStats ty lvl T arts) =
     js_toFixed2 (st_attackSpeed (UNIT_BASE_STATS ty) * (1 + real (arts WAR_DRUMS) * 0.03))"
  by (simp add: getUnitStats_def Let_def)

lemma st_moveSpeed_getUnitStats [stat_simps]:
  "st_moveSpeed (getUnitStats ty lvl T arts) =
     js_toFixed2 (st_moveSpeed (UNIT_BASE_STATS ty) * (1 + real (arts WIND_CLOAK) * 0.05))"
  by (simp add: getUnitStats_def Let_def)

lemma st_range_getUnitStats [stat_simps]:
  "st_range (getUnitStats ty lvl T arts) = st_range (UNIT_BASE_STATS ty)"
  by (simp add: getUnitStats_def Let_def)

lemma tier_getUnitStats [stat_simps]:
  "tier (getUnitStats ty lvl T arts) = tier (UNIT_BASE_STATS ty)"
  by (simp add: getUnitStats_def Let_def)

lemma tech_mult_ge1: "1 \<le> T \<Longrightarrow> 1 \<le> tech_mult T"
  by (simp add: tech_mult_def)

lemma tech_mult_mono: "T \<le> T' \<Longrightarrow> tech_mult T \<le> tech_mult T'"
  by (simp add: tech_mult_def)

lemma hp_scale_ge: "80 \<le> hp_scale ty lvl arts"
proof -
  have b: "80 \<le> real_of_int (st_hp (UNIT_BASE_STATS ty))"
    using base_hp_ge [of ty] by linarith
  have p: "1 \<le> HP_MULTIPLIER ^ (lvl - 1)"
    using HP_MULTIPLIER_ge1 by (rule one_le_power)
  have a: "1 \<le> 1 + real (arts ANCIENT_SHIELD) * 0.05" by simp
  have "80 * 1 * 1 \<le> real_of_int (st_hp (UNIT_BASE_STATS ty)) * HP_MULTIPLIER ^ (lvl - 1)
          * (1 + real (arts ANCIENT_SHIELD) * 0.05)"
    using b p a by (intro mult_mono) auto
  then show ?thesis by (simp add: hp_scale_def)
qed

lemma dmg_scale_ge: "12 \<le> dmg_scale ty lvl arts"
proof -
  have b: "12 \<le> real_of_int (st_damage (UNIT_BASE_STATS ty))"
    using base_damage_ge [of ty] by linarith
  have p: "1 \<le> DAMAGE_MULTIPLIER ^ (lvl - 1)"
    using DAMAGE_MULTIPLIER_ge1 by (rule one_le_power)
  have a: "1 \<le> 1 + real (arts HOLY_SWORD) * 0.05" by simp
  have "12 * 1 * 1 \<le> real_of_int (st_damage (UNIT_BASE_STATS ty)) * DAMAGE_MULTIPLIER ^ (lvl - 1)
          * (1 + real (arts HOLY_SWORD) * 0.05)"
    using b p a by (intro mult_mono) auto
  then show ?thesis by (simp add: dmg_scale_def)
qed

lemma hp_scale_Suc: "1 \<le> lvl \<Longrightarrow> hp_scale ty (Suc lvl) arts = hp_scale ty lvl arts * 1.8"
proof -
  assume "1 \<le> lvl"
  then obtain k where k: "lvl = Suc k" by (cases lvl) auto
  have "hp_scale ty (Suc lvl) arts = hp_scale ty lvl arts * HP_MULTIPLIER"
    unfolding hp_scale_def k by (simp add: mult_ac)
  then show ?thesis by (simp add: HP_MULTIPLIER_def)
qed

lemma dmg_scale_Suc: "1 \<le> lvl \<Longrightarrow> dmg_scale ty (Suc lvl) arts = dmg_scale ty lvl arts * 1.6"
proof -
  assume "1 \<le> lvl"
  then obtain k where k: "lvl = Suc k" by (cases lvl) auto
  have "dmg_scale ty (Suc lvl) arts = dmg_scale ty lvl arts * DAMAGE_MULTIPLIER"
    unfolding dmg_scale_def k by (simp add: mult_ac)
  then show ?thesis by (simp add: DAMAGE_MULTIPLIER_def)
qed

text \<open>A value of at least \<open>x\<close>, grown by at least one, floors strictly higher.\<close>

lemma floor_less_floor_grow:
  fixes x y :: real
  assumes "x + 1 \<le> y"
  shows "\<lfloor>x\<rfloor> < \<lfloor>y\<rfloor>"
proof -
  have "\<lfloor>x\<rfloor> + 1 = \<lfloor>x + 1\<rfloor>" by simp
  also have "\<dots> \<le> \<lfloor>y\<rfloor>" using assms by (rule floor_mono)
  finally show ?thesis by simp
qed

lemma hp_scale_ge_base: "real_of_int (st_hp (UNIT_BASE_STATS ty)) \<le> hp_scale ty lvl arts"
proof -
  have b: "0 \<le> real_of_int (st_hp (UNIT_BASE_STATS ty))"
    using base_hp_ge [of ty] by linarith
  have p: "1 \<le> HP_MULTIPLIER ^ (lvl - 1)"
    using HP_MULTIPLIER_ge1 by (rule one_le_power)
  have a: "1 \<le> 1 + real (arts ANCIENT_SHIELD) * 0.05" by simp
  have "real_of_int (st_hp (UNIT_BASE_STATS ty)) * 1 * 1
          \<le> real_of_int (st_hp (UNIT_BASE_STATS ty)) * HP_MULTIPLIER ^ (lvl - 1)
              * (1 + real (arts ANCIENT_SHIELD) * 0.05)"
    using b p a by (intro mult_mono mult_nonneg_nonneg) auto
  then show ?thesis by (simp add: hp_scale_def)
qed

lemma dmg_scale_ge_base: "real_of_int (st_damage (UNIT_BASE_STATS ty)) \<le> dmg_scale ty lvl arts"
proof -
  have b: "0 \<le> real_of_int (st_damage (UNIT_BASE_STATS ty))"
    using base_damage_ge [of ty] by linarith
  have p: "1 \<le> DAMAGE_MULTIPLIER ^ (lvl - 1)"
    using DAMAGE_MULTIPLIER_ge1 by (rule one_le_power)
  have a: "1 \<le> 1 + real (arts HOLY_SWORD) * 0.05" by simp
  have "real_of_int (st_damage (UNIT_BASE_STATS ty)) * 1 * 1
          \<le> real_of_int (st_damage (UNIT_BASE_STATS ty)) * DAMAGE_MULTIPLIER ^ (lvl - 1)
              * (1 + real (arts HOLY_SWORD) * 0.05)"
    using b p a by (intro mult_mono mult_nonneg_nonneg) auto
  then show ?thesis by (simp add: dmg_scale_def)
qed

text \<open>A base value of at least \<open>b\<close>, scaled by factors of at least one, floors to at
  least \<open>b\<close>: the shape of both the hit point and the damage bound.\<close>

lemma floor_scaled_ge:
  fixes s t :: real
  assumes "0 \<le> b" and "real_of_int b \<le> s" and "1 \<le> t"
  shows "b \<le> \<lfloor>s * t\<rfloor>"
proof -
  have "0 \<le> s" using assms(1,2) by linarith
  with assms(3) have "s * 1 \<le> s * t" by (rule mult_left_mono)
  with assms(2) have "real_of_int b \<le> s * t" by linarith
  then show ?thesis by linarith
qed

lemma speed_scaled_pos:
  fixes v m :: real
  assumes "1 / 100 \<le> v" and "1 \<le> m"
  shows "0 < js_toFixed2 (v * m)"
proof -
  have "v \<le> v * m" using assms by (simp add: mult_le_cancel_left1)
  with assms(1) show ?thesis by (intro js_toFixed2_pos) linarith
qed

lemma ge_scaled:
  fixes a t c :: real
  assumes "c \<le> a" and "1 \<le> t" and "0 \<le> c"
  shows "c \<le> a * t"
proof -
  have "0 \<le> a" using assms(1,3) by linarith
  with assms(2) have "a * 1 \<le> a * t" by (rule mult_left_mono)
  with assms(1) show ?thesis by linarith
qed

lemma hp_scale_nonneg: "0 \<le> hp_scale ty lvl arts"
  using hp_scale_ge [of ty lvl arts] by linarith

lemma dmg_scale_nonneg: "0 \<le> dmg_scale ty lvl arts"
  using dmg_scale_ge [of ty lvl arts] by linarith

lemma tech_mult_Suc: "tech_mult (T + 1) = tech_mult T + 0.2"
  by (simp add: tech_mult_def field_simps)

lemma floor_tech_step:
  fixes h :: real
  shows "\<bar>real_of_int \<lfloor>h * tech_mult (T + 1)\<rfloor> - real_of_int \<lfloor>h * tech_mult T\<rfloor> - 0.2 * h\<bar> < 1"
proof -
  have d: "h * tech_mult (T + 1) - h * tech_mult T = 0.2 * h"
    by (simp add: tech_mult_Suc ring_distribs)
  have "\<bar>real_of_int \<lfloor>h * tech_mult (T + 1)\<rfloor> - real_of_int \<lfloor>h * tech_mult T\<rfloor>
          - (h * tech_mult (T + 1) - h * tech_mult T)\<bar> < 1"
    by (rule floor_diff_close)
  then show ?thesis by (simp only: d)
qed

lemma getUnitStats_hp_ge_base:
  "1 \<le> T \<Longrightarrow> st_hp (UNIT_BASE_STATS ty) \<le> st_hp (getUnitStats ty lvl T arts)"
  unfolding st_hp_getUnitStats
  using base_hp_ge [of ty] hp_scale_ge_base tech_mult_ge1 by (intro floor_scaled_ge) simp_all

lemma getUnitStats_hp_pos [stat_simps]: "1 \<le> T \<Longrightarrow> 0 < st_hp (getUnitStats ty lvl T arts)"
  using getUnitStats_hp_ge_base [of T ty lvl arts] base_hp_ge [of ty] by linarith

lemma getUnitStats_damage_pos [stat_simps]: "1 \<le> T \<Longrightarrow> 0 < st_damage (getUnitStats ty lvl T arts)"
proof -
  assume "1 \<le> T"
  then have "st_damage (UNIT_BASE_STATS ty) \<le> st_damage (getUnitStats ty lvl T arts)"
    unfolding st_damage_getUnitStats
    using base_damage_ge [of ty] dmg_scale_ge_base tech_mult_ge1 by (intro floor_scaled_ge) simp_all
  then show ?thesis using base_damage_ge [of ty] by linarith
qed

subsection \<open>Properties of the Stat Model\<close>

text \<open>
  C17. For every archetype, level and artifact levels and every tech level of at least
  one (the least tech level the code ever stores or computes), the derived hit points
  and damage are at least the archetype's base values, and the attack rate, move speed
  and range are positive; in particular \<^verbatim>\<open>1000 / attackSpeed\<close> in the battle tick
  is a finite cooldown.
\<close>

theorem getUnitStats_bounds:
  assumes "1 \<le> T"
  shows "st_hp (UNIT_BASE_STATS ty) \<le> st_hp (getUnitStats ty lvl T arts)
       \<and> st_damage (UNIT_BASE_STATS ty) \<le> st_damage (getUnitStats ty lvl T arts)
       \<and> 0 < st_attackSpeed (getUnitStats ty lvl T arts)
       \<and> 0 < st_moveSpeed (getUnitStats ty lvl T arts)
       \<and> 0 < st_range (getUnitStats ty lvl T arts)"
proof (intro conjI)
  have tm: "1 \<le> tech_mult T" using assms by (rule tech_mult_ge1)
  show "st_hp (UNIT_BASE_STATS ty) \<le> st_hp (getUnitStats ty lvl T arts)"
    using assms by (rule getUnitStats_hp_ge_base)
  show "st_damage (UNIT_BASE_STATS ty) \<le> st_damage (getUnitStats ty lvl T arts)"
    unfolding st_damage_getUnitStats
    using base_damage_ge [of ty] dmg_scale_ge_base tm by (intro floor_scaled_ge) simp_all
  have "1 / 100 \<le> st_attackSpeed (UNIT_BASE_STATS ty)"
    using base_attackSpeed_ge [of ty] by simp
  then show "0 < st_attackSpeed (getUnitStats ty lvl T arts)"
    unfolding st_attackSpeed_getUnitStats by (rule speed_scaled_pos) simp
  have "1 / 100 \<le> st_moveSpeed (UNIT_BASE_STATS ty)"
    using base_moveSpeed_ge [of ty] by simp
  then show "0 < st_moveSpeed (getUnitStats ty lvl T arts)"
    unfolding st_moveSpeed_getUnitStats by (rule speed_scaled_pos) simp
  show "0 < st_range (getUnitStats ty lvl T arts)"
    using base_range_ge [of ty] by (simp add: st_range_getUnitStats)
qed

theorem getUnitStats_bounds_witness:
  "1 \<le> (1::int)
   \<and> st_hp (UNIT_BASE_STATS ARCHER) \<le> st_hp (getUnitStats ARCHER 1 1 no_artifacts)
   \<and> st_damage (UNIT_BASE_STATS ARCHER) \<le> st_damage (getUnitStats ARCHER 1 1 no_artifacts)
   \<and> 0 < st_attackSpeed (getUnitStats ARCHER 1 1 no_artifacts)
   \<and> 0 < st_moveSpeed (getUnitStats ARCHER 1 1 no_artifacts)
   \<and> 0 < st_range (getUnitStats ARCHER 1 1 no_artifacts)"
  using getUnitStats_bounds [of 1 ARCHER 1 no_artifacts] by simp

text \<open>
  Merging pays: with tech level at least one, every level step from a level of at
  least one strictly raises both the derived hit points and the derived damage.
\<close>

theorem getUnitStats_level_strict:
  assumes "1 \<le> T" and "1 \<le> lvl"
  shows "st_hp (getUnitStats ty lvl T arts) < st_hp (getUnitStats ty (Suc lvl) T arts)
       \<and> st_damage (getUnitStats ty lvl T arts) < st_damage (getUnitStats ty (Suc lvl) T arts)"
proof
  have tm: "1 \<le> tech_mult T" using assms(1) by (rule tech_mult_ge1)
  have "80 \<le> hp_scale ty lvl arts * tech_mult T"
    using hp_scale_ge tm by (rule ge_scaled) simp
  then have "hp_scale ty lvl arts * tech_mult T + 1 \<le> hp_scale ty lvl arts * 1.8 * tech_mult T"
    by (simp add: algebra_simps)
  then show "st_hp (getUnitStats ty lvl T arts) < st_hp (getUnitStats ty (Suc lvl) T arts)"
    using assms(2) by (simp add: st_hp_getUnitStats hp_scale_Suc floor_less_floor_grow)
  have "12 \<le> dmg_scale ty lvl arts * tech_mult T"
    using dmg_scale_ge tm by (rule ge_scaled) simp
  then have "dmg_scale ty lvl arts * tech_mult T + 1 \<le> dmg_scale ty lvl arts * 1.6 * tech_mult T"
    by (simp add: algebra_simps)
  then show "st_damage (getUnitStats ty lvl T arts) < st_damage (getUnitStats ty (Suc lvl) T arts)"
    using assms(2) by (simp add: st_damage_getUnitStats dmg_scale_Suc floor_less_floor_grow)
qed

theorem getUnitStats_level_strict_witness:
  "1 \<le> (1::int) \<and> 1 \<le> (1::nat)
   \<and> st_hp (getUnitStats ARCHER 1 1 no_artifacts) < st_hp (getUnitStats ARCHER (Suc 1) 1 no_artifacts)
   \<and> st_damage (getUnitStats ARCHER 1 1 no_artifacts)
       < st_damage (getUnitStats ARCHER (Suc 1) 1 no_artifacts)"
  using getUnitStats_level_strict [of 1 1 ARCHER no_artifacts] by simp

text \<open>
  Buying tech never weakens a unit: derived hit points and damage are monotone in
  the tech level, for every archetype, level and artifact levels.
\<close>

theorem getUnitStats_tech_mono:
  assumes "T \<le> T'"
  shows "st_hp (getUnitStats ty lvl T arts) \<le> st_hp (getUnitStats ty lvl T' arts)
       \<and> st_damage (getUnitStats ty lvl T arts) \<le> st_damage (getUnitStats ty lvl T' arts)"
proof -
  have tm: "tech_mult T \<le> tech_mult T'" using assms by (rule tech_mult_mono)
  have "hp_scale ty lvl arts * tech_mult T \<le> hp_scale ty lvl arts * tech_mult T'"
    using tm hp_scale_nonneg by (rule mult_left_mono)
  moreover have "dmg_scale ty lvl arts * tech_mult T \<le> dmg_scale ty lvl arts * tech_mult T'"
    using tm dmg_scale_nonneg by (rule mult_left_mono)
  ultimately show ?thesis
    by (simp add: st_hp_getUnitStats st_damage_getUnitStats floor_mono)
qed

theorem getUnitStats_tech_mono_witness:
  "(1::int) \<le> 2
   \<and> st_hp (getUnitStats MAGE 3 1 no_artifacts) \<le> st_hp (getUnitStats MAGE 3 2 no_artifacts)
   \<and> st_damage (getUnitStats MAGE 3 1 no_artifacts) \<le> st_damage (getUnitStats MAGE 3 2 no_artifacts)"
  using getUnitStats_tech_mono [of 1 2 MAGE 3 no_artifacts] by simp

text \<open>
  One tech level adds 20 percent of the level- and artifact-scaled base value to
  hit points and to damage, independently of the level: the derived values of tech
  levels \<open>T\<close> and \<open>T + 1\<close> differ by that amount up to less than one, the error of the
  single final \<^verbatim>\<open>Math.floor\<close>.
\<close>

theorem getUnitStats_tech_step:
  "\<bar>real_of_int (st_hp (getUnitStats ty lvl (T + 1) arts))
      - real_of_int (st_hp (getUnitStats ty lvl T arts))
      - 0.2 * (real_of_int (st_hp (UNIT_BASE_STATS ty)) * HP_MULTIPLIER ^ (lvl - 1)
               * (1 + real (arts ANCIENT_SHIELD) * 0.05))\<bar> < 1
   \<and> \<bar>real_of_int (st_damage (getUnitStats ty lvl (T + 1) arts))
      - real_of_int (st_damage (getUnitStats ty lvl T arts))
      - 0.2 * (real_of_int (st_damage (UNIT_BASE_STATS ty)) * DAMAGE_MULTIPLIER ^ (lvl - 1)
               * (1 + real (arts HOLY_SWORD) * 0.05))\<bar> < 1"
  unfolding st_hp_getUnitStats st_damage_getUnitStats
  using floor_tech_step [of "hp_scale ty lvl arts" T] floor_tech_step [of "dmg_scale ty lvl arts" T]
  by (simp only: hp_scale_def dmg_scale_def)

text \<open>
  The gold artifact (\<^verbatim>\<open>MIDAS_TOUCH\<close>) has no effect on any combat statistic.
\<close>

theorem getUnitStats_ignores_gold:
  "getUnitStats ty lvl T (arts(MIDAS_TOUCH := n)) = getUnitStats ty lvl T arts"
  by (simp add: getUnitStats_def)

text \<open>
  C40. Flooring happens once, on the whole product: the derived hit points do not follow
  the recurrence \<open>hp(L + 1) = floor(hp(L) * 1.8)\<close>; a level-5 archer has 839 hit points,
  the recurrence from level 4 (466) gives 838.
\<close>

theorem getUnitStats_not_recurrent:
  "st_hp (getUnitStats ARCHER 5 1 no_artifacts)
     \<noteq> \<lfloor>real_of_int (st_hp (getUnitStats ARCHER 4 1 no_artifacts)) * HP_MULTIPLIER\<rfloor>"
proof -
  have l4: "st_hp (getUnitStats ARCHER 4 1 no_artifacts) = 466"
    by (simp add: st_hp_getUnitStats hp_scale_def tech_mult_def no_artifacts_def HP_MULTIPLIER_def
        floor_eq_iff power_divide)
  have l5: "st_hp (getUnitStats ARCHER 5 1 no_artifacts) = 839"
    by (simp add: st_hp_getUnitStats hp_scale_def tech_mult_def no_artifacts_def HP_MULTIPLIER_def
        floor_eq_iff power_divide)
  have "\<lfloor>real_of_int 466 * HP_MULTIPLIER\<rfloor> = 838"
    by (simp add: HP_MULTIPLIER_def floor_eq_iff)
  with l4 l5 show ?thesis by simp
qed

text \<open>
  In battle, enemies are never scaled below the tech level their hit points were
  created with: the battle-tick formula \<open>max(1, ceil(level / 5))\<close> is at least
  the load-time formula \<open>max(1, ceil(level / 10 * enemyMult))\<close> for every level and
  difficulty.
\<close>

theorem enemyTechLevel_battle_ge_load:
  "enemyTechLevel_load lvl diff \<le> enemyTechLevel_battle lvl"
proof -
  have m: "diff_enemyMult diff \<le> 2" by (cases diff) simp_all
  have "real lvl / 10 * diff_enemyMult diff \<le> real lvl / 10 * 2"
    using m by (intro mult_left_mono) simp_all
  then have "real lvl / 10 * diff_enemyMult diff \<le> real lvl / 5" by simp
  then have "\<lceil>real lvl / 10 * diff_enemyMult diff\<rceil> \<le> \<lceil>real lvl / 5\<rceil>"
    by (rule ceiling_mono)
  then show ?thesis by (simp add: enemyTechLevel_load_def enemyTechLevel_battle_def)
qed

lemma enemy_tech_levels_differ:
  "enemyTechLevel_load 10 NORMAL = 1 \<and> enemyTechLevel_battle 10 = 2"
  by (simp add: enemyTechLevel_load_def enemyTechLevel_battle_def)

end
