(* ===== verification/Entities.thy ===== *)
theory Entities
  imports Stats
begin

text \<open>
  The Entity Store's constructors and queries of \<^verbatim>\<open>src/services/gameLogic.ts\<close>:
  \<^verbatim>\<open>createEntity\<close> (the random id is a parameter), \<^verbatim>\<open>getDistance\<close> and the
  linear scan \<^verbatim>\<open>findNearestTarget\<close>, whose \<^verbatim>\<open>minDist = Infinity\<close> is the
  \<open>None\<close> of a \<open>real option\<close>. The scan is shown to return exactly the first
  living entity of the other side at minimal distance (a functional refinement of
  that declarative choice); the roster invariant shared by the later theories
  (distinct ids, levels at least one) is defined here.
\<close>

definition createEntity ::
  "entity_id \<Rightarrow> unit_type \<Rightarrow> nat \<Rightarrow> side \<Rightarrow> int \<Rightarrow> int \<Rightarrow> int \<Rightarrow> artifact_levels \<Rightarrow> entity" where
  "createEntity newId ty lvl sd gx gy techLevel arts =
     (let stats = getUnitStats ty lvl techLevel arts
      in \<lparr>eid = newId, etype = ty, side = sd, level = lvl, gridX = gx, gridY = gy,
          posX = real_of_int gx, posY = real_of_int gy,
          hp = st_hp stats, maxHp = st_hp stats, lastAttackTime = 0, targetId = None,
          state = IDLE, facingRight = (sd = PLAYER)\<rparr>)"

definition getDistance :: "entity \<Rightarrow> entity \<Rightarrow> real" where
  "getDistance e1 e2 =
     (let dx = posX e1 - posX e2; dy = posY e1 - posY e2 in sqrt (dx * dx + dy * dy))"

text \<open>\<^verbatim>\<open>dist < minDist\<close> with \<^verbatim>\<open>minDist\<close> possibly \<^verbatim>\<open>Infinity\<close>.\<close>

fun below_min :: "real \<Rightarrow> real option \<Rightarrow> bool" where
  "below_min d None = True"
| "below_min d (Some m) = (d < m)"

text \<open>The \<^verbatim>\<open>for (const other of allEntities)\<close> loop, with \<^verbatim>\<open>nearest\<close> and
  \<^verbatim>\<open>minDist\<close> as the accumulators.\<close>

fun nearest_loop :: "entity \<Rightarrow> entity list \<Rightarrow> entity option \<Rightarrow> real option \<Rightarrow> entity option" where
  "nearest_loop me [] nearest minDist = nearest"
| "nearest_loop me (other # rest) nearest minDist =
     (if side other \<noteq> side me \<and> 0 < hp other
      then (let dist = getDistance me other
            in if below_min dist minDist then nearest_loop me rest (Some other) (Some dist)
               else nearest_loop me rest nearest minDist)
      else nearest_loop me rest nearest minDist)"

definition findNearestTarget :: "entity \<Rightarrow> entity list \<Rightarrow> entity option" where
  "findNearestTarget me allEntities = nearest_loop me allEntities None None"

text \<open>The abstract choice the scan implements.\<close>

definition is_target :: "entity \<Rightarrow> entity \<Rightarrow> bool" where
  "is_target me other \<longleftrightarrow> side other \<noteq> side me \<and> 0 < hp other"

definition nearest_spec :: "entity \<Rightarrow> entity list \<Rightarrow> entity option" where
  "nearest_spec me es =
     find (\<lambda>c. is_target me c \<and> (\<forall>c' \<in> set es. is_target me c' \<longrightarrow> getDistance me c \<le> getDistance me c'))
       es"

text \<open>The roster invariant: ids are unique and every level is at least one.\<close>

definition roster_ok :: "entity list \<Rightarrow> bool" where
  "roster_ok es \<longleftrightarrow> distinct (map eid es) \<and> (\<forall>e \<in> set es. 1 \<le> level e)"

text \<open>A two-entity roster used by the witnesses below.\<close>

definition demo_player :: entity where
  "demo_player = createEntity 1 ARCHER 1 PLAYER 0 5 1 no_artifacts"
definition demo_enemy :: entity where
  "demo_enemy = createEntity 2 INFANTRY 1 ENEMY 0 1 1 no_artifacts"

subsection \<open>The scan computes the first nearest target\<close>

lemma hp_createEntity [simp]:
  "hp (createEntity i ty lvl sd gx gy T arts) = st_hp (getUnitStats ty lvl T arts)"
  by (simp add: createEntity_def Let_def)

lemma nearest_loop_Cons:
  "nearest_loop me (c # rest) nearest minDist =
     (if is_target me c
      then (if below_min (getDistance me c) minDist
            then nearest_loop me rest (Some c) (Some (getDistance me c))
            else nearest_loop me rest nearest minDist)
      else nearest_loop me rest nearest minDist)"
  by (simp add: is_target_def Let_def)

declare nearest_loop.simps(2) [simp del]

lemma exists_nearest:
  assumes "w \<in> set xs" and "is_target me w"
  shows "\<exists>y \<in> set xs. is_target me y \<and> getDistance me y \<le> getDistance me w
           \<and> (\<forall>c' \<in> set xs. is_target me c' \<longrightarrow> getDistance me y \<le> getDistance me c')"
proof -
  let ?S = "getDistance me ` {y \<in> set xs. is_target me y}"
  have fin: "finite ?S" by simp
  have ne: "?S \<noteq> {}" using assms by blast
  have "Min ?S \<in> ?S" using fin ne by (rule Min_in)
  then obtain y where y: "y \<in> set xs" "is_target me y" "getDistance me y = Min ?S" by auto
  have "\<forall>c' \<in> set xs. is_target me c' \<longrightarrow> getDistance me y \<le> getDistance me c'"
    using fin y(3) by auto
  with y assms show ?thesis by blast
qed

lemma nearest_loop_find:
  "nearest_loop me os nearest minDist =
     (case find (\<lambda>c. is_target me c \<and> below_min (getDistance me c) minDist
                    \<and> (\<forall>c' \<in> set os. is_target me c' \<longrightarrow> getDistance me c \<le> getDistance me c')) os of
        None \<Rightarrow> nearest | Some c \<Rightarrow> Some c)"
proof (induction os arbitrary: nearest minDist)
  case Nil
  then show ?case by simp
next
  case (Cons c os)
  let ?d = "getDistance me"
  let ?min = "\<lambda>x. \<forall>c' \<in> set os. is_target me c' \<longrightarrow> ?d x \<le> ?d c'"
  show ?case
  proof (cases "is_target me c")
    case False
    with Cons.IH show ?thesis by (simp add: nearest_loop_Cons)
  next
    case tgt: True
    show ?thesis
    proof (cases "below_min (?d c) minDist")
      case below: True
      have L: "nearest_loop me (c # os) nearest minDist = nearest_loop me os (Some c) (Some (?d c))"
        using tgt below by (simp add: nearest_loop_Cons)
      have IH: "nearest_loop me os (Some c) (Some (?d c)) =
          (case find (\<lambda>x. is_target me x \<and> ?d x < ?d c \<and> ?min x) os of
             None \<Rightarrow> Some c | Some x \<Rightarrow> Some x)"
        using Cons.IH [of "Some c" "Some (?d c)"] by simp
      show ?thesis
      proof (cases "?min c")
        case True
        then have "find (\<lambda>x. is_target me x \<and> ?d x < ?d c \<and> ?min x) os = None"
          by (auto simp: find_None_iff)
        with L IH tgt below True show ?thesis by simp
      next
        case False
        then obtain w where w: "w \<in> set os" "is_target me w" "?d w < ?d c" by auto
        have same: "find (\<lambda>x. is_target me x \<and> ?d x < ?d c \<and> ?min x) os
            = find (\<lambda>x. is_target me x \<and> below_min (?d x) minDist \<and> ?d x \<le> ?d c \<and> ?min x) os"
        proof (rule find_cong [OF refl])
          fix x assume "x \<in> set os"
          show "(is_target me x \<and> ?d x < ?d c \<and> ?min x) =
                (is_target me x \<and> below_min (?d x) minDist \<and> ?d x \<le> ?d c \<and> ?min x)"
            using w below by (cases minDist) force+
        qed
        obtain y where y: "y \<in> set os" "is_target me y" "?d y \<le> ?d w" "?min y"
          using exists_nearest [OF w(1,2)] by blast
        have lt: "?d y < ?d c" using y(3) w(3) by linarith
        have nn: "find (\<lambda>x. is_target me x \<and> ?d x < ?d c \<and> ?min x) os \<noteq> None"
          unfolding find_None_iff using y(1,2,4) lt by blast
        have "nearest_loop me (c # os) nearest minDist
            = (case find (\<lambda>x. is_target me x \<and> ?d x < ?d c \<and> ?min x) os of
                 None \<Rightarrow> nearest | Some x \<Rightarrow> Some x)"
          using L IH nn by (auto split: option.split)
        also have "\<dots> = (case find (\<lambda>x. is_target me x \<and> below_min (?d x) minDist
                                  \<and> ?d x \<le> ?d c \<and> ?min x) os of
                 None \<Rightarrow> nearest | Some x \<Rightarrow> Some x)"
          by (simp only: same)
        finally show ?thesis using tgt below False by auto
      qed
    next
      case notbelow: False
      then obtain m where m: "minDist = Some m" "m \<le> ?d c" by (cases minDist) auto
      have same: "find (\<lambda>x. is_target me x \<and> below_min (?d x) minDist \<and> ?min x) os
          = find (\<lambda>x. is_target me x \<and> below_min (?d x) minDist \<and> ?d x \<le> ?d c \<and> ?min x) os"
        by (rule find_cong [OF refl]) (use m in auto)
      have L: "nearest_loop me (c # os) nearest minDist = nearest_loop me os nearest minDist"
        using tgt notbelow by (simp add: nearest_loop_Cons)
      with Cons.IH same tgt notbelow show ?thesis by simp
    qed
  qed
qed

subsection \<open>The roster invariant under updates\<close>

lemma roster_ok_update:
  assumes "roster_ok es" "k < length es" "eid v = eid (es ! k)" "1 \<le> level v"
  shows "roster_ok (es[k := v])"
  using assms set_update_subset_insert [of es k v]
  by (auto simp: roster_ok_def map_update_same)

lemma roster_ok_remove_nth: "roster_ok es \<Longrightarrow> roster_ok (remove_nth i es)"
  using set_remove_nth_subset [of i es]
  by (auto simp: roster_ok_def remove_nth_map [symmetric] distinct_remove_nth)

lemma findNearestTarget_find:
  "findNearestTarget me es =
     find (\<lambda>c. is_target me c \<and> (\<forall>c' \<in> set es. is_target me c' \<longrightarrow> getDistance me c \<le> getDistance me c')) es"
  by (simp add: findNearestTarget_def nearest_loop_find split: option.splits)

lemma nearest_loop_mem:
  "nearest_loop me os nearest minDist = Some t \<Longrightarrow>
     (t \<in> set os \<and> is_target me t) \<or> nearest = Some t"
  by (induction os arbitrary: nearest minDist) (auto simp: nearest_loop_Cons split: if_splits)

lemma findNearestTarget_SomeD:
  "findNearestTarget me es = Some t \<Longrightarrow> t \<in> set es \<and> is_target me t"
  unfolding findNearestTarget_def using nearest_loop_mem by fastforce

subsection \<open>Properties of targeting\<close>

text \<open>
  C8. Targeting refines its specification: the \<^verbatim>\<open>findNearestTarget\<close> scan returns
  exactly the first entity of the roster, in iteration order, that is alive, on the
  other side, and at minimal straight-line distance among such entities.
\<close>

theorem findNearestTarget_refines:
  "findNearestTarget me es = nearest_spec me es"
  unfolding findNearestTarget_find nearest_spec_def ..

theorem findNearestTarget_refines_witness:
  "findNearestTarget demo_player [demo_player, demo_enemy]
     = nearest_spec demo_player [demo_player, demo_enemy]"
  using findNearestTarget_refines [of demo_player "[demo_player, demo_enemy]"] by simp

text \<open>
  A target found by \<^verbatim>\<open>findNearestTarget\<close> is an entity of the roster, of the
  opposing side, alive (dead entities are never chosen), and no living opposing entity
  is closer.
\<close>

theorem findNearestTarget_result:
  assumes "findNearestTarget me es = Some t"
  shows "t \<in> set es \<and> side t \<noteq> side me \<and> 0 < hp t
       \<and> (\<forall>c \<in> set es. side c \<noteq> side me \<and> 0 < hp c \<longrightarrow> getDistance me t \<le> getDistance me c)"
  using assms unfolding findNearestTarget_find
  by (auto simp: is_target_def dest: find_Some_iff [THEN iffD1])

theorem findNearestTarget_result_witness:
  "findNearestTarget demo_player [demo_player, demo_enemy] = Some demo_enemy
   \<and> demo_enemy \<in> set [demo_player, demo_enemy] \<and> side demo_enemy \<noteq> side demo_player
   \<and> 0 < hp demo_enemy"
proof -
  have h: "0 < hp demo_enemy"
    by (simp add: demo_enemy_def st_hp_getUnitStats hp_scale_def tech_mult_def no_artifacts_def)
  have f: "findNearestTarget demo_player [demo_player, demo_enemy] = Some demo_enemy"
    using h by (simp add: findNearestTarget_def nearest_loop_Cons is_target_def
        demo_player_def demo_enemy_def createEntity_def Let_def)
  show ?thesis using f findNearestTarget_result [OF f] by simp
qed

text \<open>
  Conversely, \<^verbatim>\<open>findNearestTarget\<close> finds nothing exactly when the roster holds no living
  entity of the opposing side.
\<close>

theorem findNearestTarget_None:
  "findNearestTarget me es = None \<longleftrightarrow> (\<forall>c \<in> set es. side c = side me \<or> hp c \<le> 0)"
proof
  assume none: "findNearestTarget me es = None"
  show "\<forall>c \<in> set es. side c = side me \<or> hp c \<le> 0"
  proof (rule ccontr)
    assume "\<not> (\<forall>c \<in> set es. side c = side me \<or> hp c \<le> 0)"
    then obtain w where "w \<in> set es" "is_target me w" by (auto simp: is_target_def)
    then obtain y where "y \<in> set es" "is_target me y"
        "\<forall>c' \<in> set es. is_target me c' \<longrightarrow> getDistance me y \<le> getDistance me c'"
      using exists_nearest by blast
    with none show False
      by (auto simp: findNearestTarget_find find_None_iff)
  qed
next
  assume "\<forall>c \<in> set es. side c = side me \<or> hp c \<le> 0"
  then show "findNearestTarget me es = None"
    by (auto simp: findNearestTarget_find find_None_iff is_target_def)
qed

theorem findNearestTarget_None_witness:
  "findNearestTarget demo_player [demo_player] = None"
  using findNearestTarget_None [of demo_player "[demo_player]"] by simp

end
