(* ===== verification/App_State.thy ===== *)
theory App_State
  imports Entities
begin

text \<open>
  The session state of the \<^verbatim>\<open>App\<close> component (\<^verbatim>\<open>src/App.tsx\<close>): one record
  field per \<^verbatim>\<open>useState\<close> or \<^verbatim>\<open>useRef\<close> the game logic reads or writes.
  Modal flags, toasts, the drag position on screen and the hovered cell are pure UI and
  left out. \<open>entitiesRef\<close> is kept apart from \<open>entities\<close> because the battle tick
  reads and writes the ref while the handlers write the state, and the two are only
  synchronised during preparation. \<open>loopScheduled\<close> says whether an animation frame
  for \<^verbatim>\<open>battleTick\<close> is pending (\<^verbatim>\<open>battleLoopId\<close>). Also here: the difficulty
  order of \<^verbatim>\<open>getDifficultyRank\<close> as a \<open>linorder\<close> instance, and the derived values
  \<^verbatim>\<open>maxUnitCap\<close> and \<^verbatim>\<open>getGoldMultiplier\<close>.
\<close>

primrec getDifficultyRank :: "difficulty \<Rightarrow> nat" where
  "getDifficultyRank NORMAL = 0"
| "getDifficultyRank HARD = 1"
| "getDifficultyRank HELL = 2"

instantiation difficulty :: linorder
begin

definition less_eq_difficulty :: "difficulty \<Rightarrow> difficulty \<Rightarrow> bool" where
  "less_eq_difficulty a b \<longleftrightarrow> getDifficultyRank a \<le> getDifficultyRank b"

definition less_difficulty :: "difficulty \<Rightarrow> difficulty \<Rightarrow> bool" where
  "less_difficulty a b \<longleftrightarrow> getDifficultyRank a < getDifficultyRank b"

instance
proof
  fix a b c :: difficulty
  show "a < b \<longleftrightarrow> a \<le> b \<and> \<not> b \<le> a"
    by (auto simp: less_eq_difficulty_def less_difficulty_def)
  show "a \<le> a" by (simp add: less_eq_difficulty_def)
  show "a \<le> b \<Longrightarrow> b \<le> c \<Longrightarrow> a \<le> c" by (simp add: less_eq_difficulty_def)
  show "a \<le> b \<Longrightarrow> b \<le> a \<Longrightarrow> a = b"
    by (cases a; cases b) (simp_all add: less_eq_difficulty_def)
  show "a \<le> b \<or> b \<le> a" by (auto simp: less_eq_difficulty_def)
qed

end

record app_state =
  phase :: game_phase
  maxUnlockedDifficulty :: difficulty
  difficulty :: difficulty
  levelNo :: nat
  coins :: int
  recruitCost :: int
  unitCosts :: "unit_type \<Rightarrow> int"
  gameStats :: game_stats
  claimedAchievements :: "string set"
  globalTech :: "global_tech_type \<Rightarrow> int"
  techLevels :: "unit_type \<Rightarrow> int"
  artifactLevels :: artifact_levels
  artifactCost :: int
  selectedUnit :: "entity option"
  lastSupplyTime :: millis
  canClaimSupply :: bool
  entities :: "entity list"
  entitiesRef :: "entity list"
  lastTime :: millis
  loopScheduled :: bool
  loadingLevel :: bool
  justUnlockedDifficulty :: "difficulty option"
  draggingId :: "entity_id option"

text \<open>The initial unit prices: \<^verbatim>\<open>Math.floor(RECRUIT_COST * tierMult)\<close> per type.\<close>

definition initialUnitCosts :: "unit_type \<Rightarrow> int" where
  "initialUnitCosts ty = \<lfloor>real_of_int RECRUIT_COST * tier_costMult (tier (UNIT_BASE_STATS ty))\<rfloor>"

definition zeroStats :: game_stats where
  "zeroStats = \<lparr>kills = 0, merges = 0, wins = 0, summons = 0\<rparr>"

text \<open>The string value of a \<^verbatim>\<open>Difficulty\<close> (the enum of \<^verbatim>\<open>types.ts\<close> is a string
  enum); the effect at \<^verbatim>\<open>App.tsx\<close> line 155 stores it under \<^verbatim>\<open>aow_max_diff\<close>.\<close>

primrec difficulty_str :: "difficulty \<Rightarrow> string" where
  "difficulty_str NORMAL = ''NORMAL''"
| "difficulty_str HARD = ''HARD''"
| "difficulty_str HELL = ''HELL''"

text \<open>The validating initialiser of \<^verbatim>\<open>maxUnlockedDifficulty\<close>: the stored string when it
  names HARD or HELL, NORMAL otherwise (also when nothing is stored).\<close>

definition loadSavedDifficulty :: "string option \<Rightarrow> difficulty" where
  "loadSavedDifficulty saved =
     (if saved = Some (difficulty_str HARD) then HARD
      else if saved = Some (difficulty_str HELL) then HELL
      else NORMAL)"

text \<open>The \<^verbatim>\<open>useState\<close> initialisers; \<open>saved\<close> is what \<^verbatim>\<open>localStorage\<close>
  held under \<^verbatim>\<open>aow_max_diff\<close>, and \<open>now\<close> is \<^verbatim>\<open>Date.now()\<close> at mount.\<close>

definition initialState :: "string option \<Rightarrow> millis \<Rightarrow> app_state" where
  "initialState saved now =
     \<lparr>phase = DIFFICULTY_SELECT,
      maxUnlockedDifficulty = loadSavedDifficulty saved,
      difficulty = NORMAL, levelNo = 1, coins = 2000, recruitCost = RECRUIT_COST,
      unitCosts = initialUnitCosts, gameStats = zeroStats, claimedAchievements = {},
      globalTech = (\<lambda>_. 1), techLevels = (\<lambda>_. 1), artifactLevels = (\<lambda>_. 0),
      artifactCost = ARTIFACT_COST_BASE, selectedUnit = None,
      lastSupplyTime = now, canClaimSupply = False,
      entities = [], entitiesRef = [], lastTime = 0, loopScheduled = False,
      loadingLevel = False, justUnlockedDifficulty = None, draggingId = None\<rparr>"

definition maxUnitCap :: "app_state \<Rightarrow> int" where
  "maxUnitCap s = int BASE_UNIT_CAP + (globalTech s CAPACITY - 1) * int UNIT_CAP_PER_LEVEL"

definition getGoldMultiplier :: "app_state \<Rightarrow> real" where
  "getGoldMultiplier s = 1 + real (artifactLevels s MIDAS_TOUCH) * 0.10"

definition playerTech :: "app_state \<Rightarrow> unit_type \<Rightarrow> int" where
  "playerTech s = getPlayerTechLevel (globalTech s) (techLevels s)"

lemma initialState_fields [simp]:
  "phase (initialState saved now) = DIFFICULTY_SELECT"
  "entities (initialState saved now) = []"
  "coins (initialState saved now) = 2000"
  by (simp_all add: initialState_def)

end
