(* ===== verification/Battle.thy ===== *)
theory Battle
  imports App_State
begin

text \<open>
  The Targeting and Combat Simulation: \<^verbatim>\<open>battleTick\<close> of \<^verbatim>\<open>src/App.tsx\<close> and
  the animation-frame loop around it. The shallow copy \<^verbatim>\<open>activeEntities\<close> is a
  list that every step reads and writes by index, so that the in-place mutations of the
  source (an entity moving, a target losing hit points, both seen by the entities that
  update later in the same tick) happen in the source's order. The death sweep is
  \<open>checkAliveness\<close>; one entity's turn is \<open>updateEntity\<close>, built from the target
  lookup, the attack, the move towards the target (\<open>moveToward\<close>) and the separation
  loop (\<open>separate\<close>); \<open>updateAll\<close> is the \<^verbatim>\<open>forEach\<close> over the indices;
  \<open>battleTick\<close> adds the \<^verbatim>\<open>dt\<close> clamp, the kill counter and the phase
  transition; \<open>battleRun\<close> is a sequence of animation frames.
\<close>

text \<open>Step 1 of the tick: mark the newly dead, note which sides are alive and count the
  newly dead enemies (\<^verbatim>\<open>playerAlive\<close>, \<^verbatim>\<open>enemyAlive\<close>, \<^verbatim>\<open>newKills\<close>).\<close>

fun checkAliveness :: "entity list \<Rightarrow> entity list \<times> bool \<times> bool \<times> nat" where
  "checkAliveness [] = ([], False, False, 0)"
| "checkAliveness (e # es) =
     (let (es', playerAlive, enemyAlive, newKills) = checkAliveness es
      in if 0 < hp e
         then (e # es', playerAlive \<or> side e = PLAYER, enemyAlive \<or> side e = ENEMY, newKills)
         else if state e \<noteq> DEAD
         then (e\<lparr>state := DEAD\<rparr> # es', playerAlive, enemyAlive,
               if side e = ENEMY then newKills + 1 else newKills)
         else (e # es', playerAlive, enemyAlive, newKills))"

text \<open>The stats an entity fights with: the player's tech and artifacts for player
  units, the battle-tick enemy tech level and no artifacts for enemies.\<close>

definition entityStats :: "app_state \<Rightarrow> entity \<Rightarrow> unit_stats" where
  "entityStats s e =
     (let myTech = (if side e = PLAYER then playerTech s (etype e)
                    else enemyTechLevel_battle (levelNo s));
          myArtifacts = (if side e = PLAYER then artifactLevels s else no_artifacts)
      in getUnitStats (etype e) (level e) myTech myArtifacts)"

text \<open>The separation loop (\<^verbatim>\<open>activeEntities.forEach(other => ...)\<close>) over the
  indices \<open>ks\<close>, pushing entity \<open>i\<close> away from every living neighbour closer
  than 0.6.\<close>

fun separate :: "real \<Rightarrow> nat \<Rightarrow> entity list \<Rightarrow> nat list \<Rightarrow> entity list" where
  "separate dt i es [] = es"
| "separate dt i es (k # ks) =
     (let ent = es ! i; other = es ! k
      in if eid ent \<noteq> eid other \<and> 0 < hp other
         then (let d = getDistance ent other
               in if d < 0.6
                  then (let pushX = posX ent - posX other; pushY = posY ent - posY other
                        in separate dt i (es[i := ent\<lparr>posX := posX ent + pushX * 3 * dt,
                                                      posY := posY ent + pushY * 3 * dt\<rparr>]) ks)
                  else separate dt i es ks)
         else separate dt i es ks)"

text \<open>Moving entity \<open>i\<close> towards entity \<open>j\<close> by \<^verbatim>\<open>moveSpeed * safeDt\<close>.\<close>

definition moveToward :: "unit_stats \<Rightarrow> real \<Rightarrow> nat \<Rightarrow> nat \<Rightarrow> entity list \<Rightarrow> entity list" where
  "moveToward stats dt i j es =
     (let ent = es ! i; target = es ! j;
          moveSpeed = st_moveSpeed stats * dt;
          dx = posX target - posX ent; dy = posY target - posY ent;
          len = sqrt (dx * dx + dy * dy)
      in if 0 < len
         then es[i := ent\<lparr>posX := posX ent + dx / len * moveSpeed,
                          posY := posY ent + dy / len * moveSpeed\<rparr>]
         else es)"

text \<open>Facing, then attack or move, against the entity whose id is entity \<open>i\<close>'s
  target (\<^verbatim>\<open>activeEntities.find(e => e.id === entity.targetId)\<close>).\<close>

definition engage :: "unit_stats \<Rightarrow> millis \<Rightarrow> real \<Rightarrow> nat \<Rightarrow> entity list \<Rightarrow> entity list" where
  "engage stats timestamp dt i es =
     (case find_idx (\<lambda>e. Some (eid e) = targetId (es ! i)) es of
        None \<Rightarrow> es
      | Some j \<Rightarrow>
          (let es2 = es[i := (es ! i)\<lparr>facingRight := posX (es ! j) > posX (es ! i)\<rparr>];
               dist = getDistance (es2 ! i) (es2 ! j)
           in if dist \<le> st_range stats
              then (let es3 = es2[i := (es2 ! i)\<lparr>state := ATTACKING\<rparr>]
                    in if timestamp - lastAttackTime (es3 ! i) > 1000 / st_attackSpeed stats
                       then (let es4 = es3[j := (es3 ! j)\<lparr>hp := hp (es3 ! j) - st_damage stats\<rparr>]
                             in es4[i := (es4 ! i)\<lparr>lastAttackTime := timestamp\<rparr>])
                       else es3)
              else (let es3 = es2[i := (es2 ! i)\<lparr>state := MOVING\<rparr>];
                        es4 = moveToward stats dt i j es3
                    in separate dt i es4 [0..<length es4])))"

text \<open>One entity's turn: skip the dead, keep a living target or acquire the nearest one,
  go idle when there is none.\<close>

definition updateEntity :: "app_state \<Rightarrow> millis \<Rightarrow> real \<Rightarrow> entity list \<Rightarrow> nat \<Rightarrow> entity list" where
  "updateEntity s timestamp dt es i =
     (let entity = es ! i
      in if hp entity \<le> 0 then es
         else (let stats = entityStats s entity;
                   currentTarget = (case targetId entity of
                                      None \<Rightarrow> None
                                    | Some tid \<Rightarrow> find (\<lambda>e. eid e = tid \<and> 0 < hp e) es)
               in if currentTarget = None
                  then (case findNearestTarget entity es of
                          Some newTarget \<Rightarrow>
                            engage stats timestamp dt i (es[i := entity\<lparr>targetId := Some (eid newTarget)\<rparr>])
                        | None \<Rightarrow> es[i := entity\<lparr>state := IDLE\<rparr>])
                  else engage stats timestamp dt i es))"

definition updateAll :: "app_state \<Rightarrow> millis \<Rightarrow> real \<Rightarrow> entity list \<Rightarrow> entity list" where
  "updateAll s timestamp dt es = foldl (updateEntity s timestamp dt) es [0..<length es]"

text \<open>The tick. \<open>s\<close> supplies what the \<^verbatim>\<open>useCallback\<close> closure reads (phase,
  level, tech, artifacts) and the refs (\<^verbatim>\<open>lastTimeRef\<close>, \<^verbatim>\<open>entitiesRef\<close>).\<close>

definition battleTick :: "app_state \<Rightarrow> millis \<Rightarrow> app_state" where
  "battleTick s timestamp =
     (if phase s \<noteq> BATTLE then s\<lparr>loopScheduled := False\<rparr>
      else
        (let dt = (timestamp - lastTime s) / 1000;
             safeDt = min dt 0.1;
             (active, playerAlive, enemyAlive, newKills) = checkAliveness (entitiesRef s);
             s1 = (if 0 < newKills
                   then s\<lparr>gameStats := (gameStats s)\<lparr>kills := kills (gameStats s) + newKills\<rparr>\<rparr>
                   else s);
             active' = (if playerAlive \<and> enemyAlive then updateAll s1 timestamp safeDt active
                        else active);
             s2 = s1\<lparr>lastTime := timestamp, entitiesRef := active', entities := active'\<rparr>
         in if \<not> playerAlive \<and> \<not> enemyAlive then s2\<lparr>phase := DEFEAT, loopScheduled := False\<rparr>
            else if \<not> playerAlive then s2\<lparr>phase := DEFEAT, loopScheduled := False\<rparr>
            else if \<not> enemyAlive
            then s2\<lparr>coins := coins s2 + \<lfloor>real_of_int (150 + int (levelNo s2) * 50) * getGoldMultiplier s2\<rfloor>,
                    gameStats := (gameStats s2)\<lparr>wins := wins (gameStats s2) + 1\<rparr>,
                    phase := VICTORY, loopScheduled := False\<rparr>
            else s2\<lparr>loopScheduled := True\<rparr>))"

text \<open>What a tick may change in the roster: screen positions (not the grid cell),
  facing, state, target and attack time freely, hit points only downwards, and an entity
  that is dead (hit points at most zero) not at all.\<close>

definition tick_frame :: "entity list \<Rightarrow> entity list \<Rightarrow> bool" where
  "tick_frame es es' \<longleftrightarrow> length es' = length es \<and>
     (\<forall>k < length es. eid (es' ! k) = eid (es ! k) \<and> etype (es' ! k) = etype (es ! k)
        \<and> side (es' ! k) = side (es ! k) \<and> level (es' ! k) = level (es ! k)
        \<and> gridX (es' ! k) = gridX (es ! k) \<and> gridY (es' ! k) = gridY (es ! k)
        \<and> maxHp (es' ! k) = maxHp (es ! k) \<and> hp (es' ! k) \<le> hp (es ! k)
        \<and> (hp (es ! k) \<le> 0 \<longrightarrow> es' ! k = es ! k))"

text \<open>A run of animation frames with the given timestamps.\<close>

fun battleRun :: "app_state \<Rightarrow> millis list \<Rightarrow> app_state" where
  "battleRun s [] = s"
| "battleRun s (t # ts) = battleRun (battleTick s t) ts"

text \<open>The death sweep's effect on one entity.\<close>

definition mark_dead :: "entity \<Rightarrow> entity" where
  "mark_dead e = (if 0 < hp e then e else e\<lparr>state := DEAD\<rparr>)"

text \<open>The reference reading of the death sweep: the roster with every fallen entity marked
  DEAD, whether each side still has a living entity, and how many enemies fell since the
  last sweep.\<close>

definition aliveness_spec :: "entity list \<Rightarrow> entity list \<times> bool \<times> bool \<times> nat" where
  "aliveness_spec es =
     (map mark_dead es, list_ex (\<lambda>e. 0 < hp e \<and> side e = PLAYER) es,
      list_ex (\<lambda>e. 0 < hp e \<and> side e = ENEMY) es,
      length (filter (\<lambda>e. \<not> 0 < hp e \<and> state e \<noteq> DEAD \<and> side e = ENEMY) es))"

text \<open>A battle state built from the initial state, for the witnesses.\<close>

definition battle_demo :: "entity list \<Rightarrow> app_state" where
  "battle_demo es = (initialState None 0)\<lparr>phase := BATTLE, entities := es, entitiesRef := es\<rparr>"

subsection \<open>Frame of a tick\<close>

lemma tick_frame_refl [intro]: "tick_frame es es"
  by (simp add: tick_frame_def)

lemma tick_frame_trans:
  assumes "tick_frame a b" and "tick_frame b c"
  shows "tick_frame a c"
proof -
  have l: "length b = length a" "length c = length b" using assms by (simp_all add: tick_frame_def)
  have "\<forall>k < length a. eid (c ! k) = eid (a ! k) \<and> etype (c ! k) = etype (a ! k) \<and> side (c ! k) = side (a ! k)
        \<and> level (c ! k) = level (a ! k) \<and> gridX (c ! k) = gridX (a ! k) \<and> gridY (c ! k) = gridY (a ! k)
        \<and> maxHp (c ! k) = maxHp (a ! k) \<and> hp (c ! k) \<le> hp (a ! k)
        \<and> (hp (a ! k) \<le> 0 \<longrightarrow> c ! k = a ! k)"
  proof (intro allI impI)
    fix k assume k: "k < length a"
    then have kb: "k < length b" using l by simp
    have "eid (b ! k) = eid (a ! k) \<and> etype (b ! k) = etype (a ! k) \<and> side (b ! k) = side (a ! k)
        \<and> level (b ! k) = level (a ! k) \<and> gridX (b ! k) = gridX (a ! k) \<and> gridY (b ! k) = gridY (a ! k)
        \<and> maxHp (b ! k) = maxHp (a ! k) \<and> hp (b ! k) \<le> hp (a ! k)
        \<and> (hp (a ! k) \<le> 0 \<longrightarrow> b ! k = a ! k)"
      using assms(1) k by (simp add: tick_frame_def)
    moreover have "eid (c ! k) = eid (b ! k) \<and> etype (c ! k) = etype (b ! k) \<and> side (c ! k) = side (b ! k)
        \<and> level (c ! k) = level (b ! k) \<and> gridX (c ! k) = gridX (b ! k) \<and> gridY (c ! k) = gridY (b ! k)
        \<and> maxHp (c ! k) = maxHp (b ! k) \<and> hp (c ! k) \<le> hp (b ! k)
        \<and> (hp (b ! k) \<le> 0 \<longrightarrow> c ! k = b ! k)"
      using assms(2) kb by (simp add: tick_frame_def)
    ultimately show "eid (c ! k) = eid (a ! k) \<and> etype (c ! k) = etype (a ! k) \<and> side (c ! k) = side (a ! k)
        \<and> level (c ! k) = level (a ! k) \<and> gridX (c ! k) = gridX (a ! k) \<and> gridY (c ! k) = gridY (a ! k)
        \<and> maxHp (c ! k) = maxHp (a ! k) \<and> hp (c ! k) \<le> hp (a ! k)
        \<and> (hp (a ! k) \<le> 0 \<longrightarrow> c ! k = a ! k)"
      by auto
  qed
  with l show ?thesis by (simp add: tick_frame_def)
qed

lemma tick_frame_update:
  assumes "i < length es" and "0 < hp (es ! i)"
    and "eid v = eid (es ! i)" "etype v = etype (es ! i)" "side v = side (es ! i)"
        "level v = level (es ! i)" "gridX v = gridX (es ! i)" "gridY v = gridY (es ! i)"
        "maxHp v = maxHp (es ! i)" "hp v \<le> hp (es ! i)"
  shows "tick_frame es (es[i := v])"
  using assms by (auto simp: tick_frame_def nth_list_update)

lemma tick_frame_length: "tick_frame es es' \<Longrightarrow> length es' = length es"
  by (simp add: tick_frame_def)

lemma tick_frame_map_eid: "tick_frame es es' \<Longrightarrow> map eid es' = map eid es"
  by (auto simp: tick_frame_def intro: nth_equalityI)

lemma separate_frame:
  "i < length es \<Longrightarrow> 0 < hp (es ! i) \<Longrightarrow> tick_frame es (separate dt i es ks)"
proof (induction ks arbitrary: es)
  case Nil
  then show ?case by auto
next
  case (Cons k ks)
  let ?ent = "es ! i"
  let ?v = "?ent\<lparr>posX := posX ?ent + (posX ?ent - posX (es ! k)) * 3 * dt,
                  posY := posY ?ent + (posY ?ent - posY (es ! k)) * 3 * dt\<rparr>"
  have f1: "tick_frame es (es[i := ?v])" using Cons.prems by (intro tick_frame_update) simp_all
  have f2: "tick_frame (es[i := ?v]) (separate dt i (es[i := ?v]) ks)"
    using Cons.prems by (intro Cons.IH) simp_all
  show ?case
    using tick_frame_trans [OF f1 f2] Cons.IH [OF Cons.prems]
    by (simp add: Let_def)
qed

lemma moveToward_frame:
  "i < length es \<Longrightarrow> 0 < hp (es ! i) \<Longrightarrow> tick_frame es (moveToward stats dt i j es)"
  by (auto simp: moveToward_def Let_def intro!: tick_frame_update)

lemma moveToward_nth_i:
  "i < length es \<Longrightarrow> length (moveToward stats dt i j es) = length es \<and>
     hp (moveToward stats dt i j es ! i) = hp (es ! i)"
  by (simp add: moveToward_def Let_def)

lemma attack_frame:
  assumes i: "i < length es" and j: "j < length es"
    and ai: "0 < hp (es ! i)" and aj: "0 < hp (es ! j)" and d: "0 \<le> dmg"
  shows "tick_frame es (let es4 = es[j := (es ! j)\<lparr>hp := hp (es ! j) - dmg\<rparr>]
                        in es4[i := (es4 ! i)\<lparr>lastAttackTime := t\<rparr>])"
proof (cases "j = i")
  case True
  then have "(let es4 = es[j := (es ! j)\<lparr>hp := hp (es ! j) - dmg\<rparr>]
              in es4[i := (es4 ! i)\<lparr>lastAttackTime := t\<rparr>])
           = es[i := (es ! i)\<lparr>hp := hp (es ! i) - dmg, lastAttackTime := t\<rparr>]"
    using i by simp
  moreover have "tick_frame es (es[i := (es ! i)\<lparr>hp := hp (es ! i) - dmg, lastAttackTime := t\<rparr>])"
    using i ai d by (intro tick_frame_update) simp_all
  ultimately show ?thesis by simp
next
  case False
  let ?es4 = "es[j := (es ! j)\<lparr>hp := hp (es ! j) - dmg\<rparr>]"
  have f1: "tick_frame es ?es4" using j aj d by (intro tick_frame_update) simp_all
  have "tick_frame ?es4 (?es4[i := (?es4 ! i)\<lparr>lastAttackTime := t\<rparr>])"
    using i ai False by (intro tick_frame_update) simp_all
  then show ?thesis unfolding Let_def by (rule tick_frame_trans [OF f1])
qed

lemma engage_frame:
  assumes i: "i < length es" and ai: "0 < hp (es ! i)" and d: "0 \<le> st_damage stats"
    and tgt: "\<And>j. find_idx (\<lambda>e. Some (eid e) = targetId (es ! i)) es = Some j \<Longrightarrow> 0 < hp (es ! j)"
  shows "tick_frame es (engage stats timestamp dt i es)"
proof (cases "find_idx (\<lambda>e. Some (eid e) = targetId (es ! i)) es")
  case None
  then show ?thesis by (simp add: engage_def tick_frame_refl)
next
  case (Some j)
  then have j: "j < length es" and aj: "0 < hp (es ! j)" using tgt by auto
  let ?es2 = "es[i := (es ! i)\<lparr>facingRight := posX (es ! j) > posX (es ! i)\<rparr>]"
  have f2: "tick_frame es ?es2" using i ai by (intro tick_frame_update) simp_all
  have l2: "length ?es2 = length es" by simp
  have a2i: "0 < hp (?es2 ! i)" and a2j: "0 < hp (?es2 ! j)"
    using i j ai aj by (simp_all add: nth_list_update)
  let ?es3a = "?es2[i := (?es2 ! i)\<lparr>state := ATTACKING\<rparr>]"
  let ?es3m = "?es2[i := (?es2 ! i)\<lparr>state := MOVING\<rparr>]"
  have f3a: "tick_frame ?es2 ?es3a" and f3m: "tick_frame ?es2 ?es3m"
    using i a2i by (intro tick_frame_update; simp)+
  have a3i: "0 < hp (?es3a ! i)" "0 < hp (?es3m ! i)" and a3j: "0 < hp (?es3a ! j)"
    using i j ai aj by (simp_all add: nth_list_update)
  have fatk: "tick_frame ?es3a (let es4 = ?es3a[j := (?es3a ! j)\<lparr>hp := hp (?es3a ! j) - st_damage stats\<rparr>]
                                in es4[i := (es4 ! i)\<lparr>lastAttackTime := timestamp\<rparr>])"
    using i j by (intro attack_frame [OF _ _ a3i(1) a3j d]) simp_all
  let ?es4 = "moveToward stats dt i j ?es3m"
  have f4: "tick_frame ?es3m ?es4" using i a3i by (intro moveToward_frame) simp_all
  have a4: "i < length ?es4" "0 < hp (?es4 ! i)" using moveToward_nth_i [of i ?es3m] i a3i by simp_all
  have f5: "tick_frame ?es4 (separate dt i ?es4 [0..<length ?es4])"
    using a4 by (rule separate_frame)
  have g3a: "tick_frame es ?es3a" by (rule tick_frame_trans [OF f2 f3a])
  have g3m: "tick_frame es ?es3m" by (rule tick_frame_trans [OF f2 f3m])
  have g5: "tick_frame es (separate dt i ?es4 [0..<length ?es4])"
    by (rule tick_frame_trans [OF tick_frame_trans [OF g3m f4] f5])
  have g4: "tick_frame es (let es4 = ?es3a[j := (?es3a ! j)\<lparr>hp := hp (?es3a ! j) - st_damage stats\<rparr>]
                           in es4[i := (es4 ! i)\<lparr>lastAttackTime := timestamp\<rparr>])"
    by (rule tick_frame_trans [OF g3a fatk])
  have eq: "engage stats timestamp dt i es =
      (if getDistance (?es2 ! i) (?es2 ! j) \<le> st_range stats
       then (if timestamp - lastAttackTime (?es3a ! i) > 1000 / st_attackSpeed stats
             then (let es4 = ?es3a[j := (?es3a ! j)\<lparr>hp := hp (?es3a ! j) - st_damage stats\<rparr>]
                   in es4[i := (es4 ! i)\<lparr>lastAttackTime := timestamp\<rparr>])
             else ?es3a)
       else separate dt i ?es4 [0..<length ?es4])"
    unfolding engage_def Some option.case Let_def ..
  show ?thesis unfolding eq using g3a g4 g5 by simp
qed

lemma entityStats_damage_pos:
  "\<forall>ty. 1 \<le> playerTech s ty \<Longrightarrow> 0 < st_damage (entityStats s e)"
  by (simp add: entityStats_def Let_def enemyTechLevel_battle_def getUnitStats_damage_pos)

lemma target_alive:
  assumes "distinct (map eid es)" and "x \<in> set es" and "0 < hp x"
    and "find_idx (\<lambda>e. Some (eid e) = Some (eid x)) es = Some j"
  shows "0 < hp (es ! j)"
proof -
  obtain k where k: "k < length es" "es ! k = x" using assms(2) by (auto simp: in_set_conv_nth)
  have j: "j < length es" "eid (es ! j) = eid (es ! k)" using assms(4) k by auto
  then have "j = k" using assms(1) k(1) by (simp add: nth_eq_iff_index_eq [symmetric])
  with k assms(3) show ?thesis by simp
qed

lemma updateEntity_frame:
  assumes i: "i < length es" and dist: "distinct (map eid es)"
    and d: "0 \<le> st_damage (entityStats s (es ! i))"
  shows "tick_frame es (updateEntity s t dt es i)"
proof (cases "hp (es ! i) \<le> 0")
  case True
  then show ?thesis by (simp add: updateEntity_def tick_frame_refl)
next
  case False
  then have ai: "0 < hp (es ! i)" by simp
  let ?ent = "es ! i"
  let ?cur = "case targetId ?ent of None \<Rightarrow> None | Some tid \<Rightarrow> find (\<lambda>e. eid e = tid \<and> 0 < hp e) es"
  have ue: "updateEntity s t dt es i =
      (if ?cur = None
       then (case findNearestTarget ?ent es of
               Some newTarget \<Rightarrow>
                 engage (entityStats s ?ent) t dt i (es[i := ?ent\<lparr>targetId := Some (eid newTarget)\<rparr>])
             | None \<Rightarrow> es[i := ?ent\<lparr>state := IDLE\<rparr>])
       else engage (entityStats s ?ent) t dt i es)"
    unfolding updateEntity_def Let_def by (rule if_not_P [OF False])
  show ?thesis
  proof (cases "?cur = None")
    case cur: False
    then obtain tid x where tid: "targetId ?ent = Some tid"
        and x: "find (\<lambda>e. eid e = tid \<and> 0 < hp e) es = Some x"
      by (auto split: option.splits)
    then have xs: "x \<in> set es" "eid x = tid" "0 < hp x" by (auto simp: find_Some_iff nth_mem)
    have "tick_frame es (engage (entityStats s ?ent) t dt i es)"
      using i ai d by (rule engage_frame) (use tid xs dist target_alive in auto)
    then show ?thesis unfolding ue if_not_P [OF cur] .
  next
    case cur: True
    show ?thesis
    proof (cases "findNearestTarget ?ent es")
      case None
      have "tick_frame es (es[i := ?ent\<lparr>state := IDLE\<rparr>])"
        using i ai by (intro tick_frame_update) simp_all
      then show ?thesis unfolding ue if_P [OF cur] None option.case .
    next
      case (Some nt)
      let ?es1 = "es[i := ?ent\<lparr>targetId := Some (eid nt)\<rparr>]"
      have f1: "tick_frame es ?es1" using i ai by (intro tick_frame_update) simp_all
      obtain k where k: "k < length es" "es ! k = nt" "side nt \<noteq> side ?ent" "0 < hp nt"
        using findNearestTarget_SomeD [OF Some] by (auto simp: in_set_conv_nth is_target_def)
      then have "k \<noteq> i" by auto
      then have nt1: "nt \<in> set ?es1" using k by (metis length_list_update nth_list_update_neq nth_mem)
      have dist1: "distinct (map eid ?es1)" using dist i by (simp add: map_update_same)
      have "tick_frame ?es1 (engage (entityStats s ?ent) t dt i ?es1)"
        using i ai d by (intro engage_frame) (use nt1 dist1 k target_alive in auto)
      then show ?thesis unfolding ue if_P [OF cur] Some option.case by (rule tick_frame_trans [OF f1])
    qed
  qed
qed

lemma updateAll_fold_frame:
  assumes "distinct (map eid es)" and "\<forall>k \<in> set ks. k < length es"
    and "\<forall>e. 0 \<le> st_damage (entityStats s e)"
  shows "tick_frame es (foldl (updateEntity s t dt) es ks)"
  using assms
proof (induction ks arbitrary: es)
  case Nil
  then show ?case by (simp add: tick_frame_refl)
next
  case (Cons k ks)
  have f1: "tick_frame es (updateEntity s t dt es k)"
    using Cons.prems by (intro updateEntity_frame) simp_all
  have "tick_frame (updateEntity s t dt es k) (foldl (updateEntity s t dt) (updateEntity s t dt es k) ks)"
    using Cons.prems tick_frame_map_eid [OF f1] tick_frame_length [OF f1] by (intro Cons.IH) simp_all
  then show ?case using tick_frame_trans [OF f1] by simp
qed

lemma updateAll_frame:
  "distinct (map eid es) \<Longrightarrow> \<forall>ty. 1 \<le> playerTech s ty \<Longrightarrow> tick_frame es (updateAll s t dt es)"
  unfolding updateAll_def
  by (rule updateAll_fold_frame) (auto dest: entityStats_damage_pos [where e = e for e] intro: less_imp_le)

subsection \<open>The death sweep\<close>

lemma checkAliveness_eq:
  "checkAliveness es =
     (map mark_dead es, \<exists>e \<in> set es. 0 < hp e \<and> side e = PLAYER,
      \<exists>e \<in> set es. 0 < hp e \<and> side e = ENEMY,
      length (filter (\<lambda>e. \<not> 0 < hp e \<and> state e \<noteq> DEAD \<and> side e = ENEMY) es))"
proof (induction es)
  case Nil
  then show ?case by simp
next
  case (Cons e es)
  have "state e = DEAD \<Longrightarrow> e\<lparr>state := DEAD\<rparr> = e" by simp
  with Cons.IH show ?case by (auto simp: mark_dead_def Let_def)
qed

text \<open>C12. The single-pass death sweep of \<^verbatim>\<open>battleTick\<close> (one \<^verbatim>\<open>forEach\<close>
  updating three accumulators and the roster) computes exactly the reference reading
  \<open>aliveness_spec\<close>: each entity is marked independently, each side is alive iff it has a
  living entity, and the kill count is the number of fallen enemies not yet marked.\<close>

theorem checkAliveness_equiv: "checkAliveness es = aliveness_spec es"
  unfolding aliveness_spec_def list_ex_iff by (rule checkAliveness_eq)

subsection \<open>Properties of the tick\<close>

lemma battleTick_idle: "phase s \<noteq> BATTLE \<Longrightarrow> \<not> loopScheduled s \<Longrightarrow> battleTick s t = s"
  by (simp add: battleTick_def)

lemma battleRun_idle: "phase s \<noteq> BATTLE \<Longrightarrow> \<not> loopScheduled s \<Longrightarrow> battleRun s ts = s"
  by (induction ts) (simp_all add: battleTick_idle)

lemma mark_dead_fields [simp]:
  "eid (mark_dead e) = eid e" "etype (mark_dead e) = etype e" "side (mark_dead e) = side e"
  "level (mark_dead e) = level e" "maxHp (mark_dead e) = maxHp e" "hp (mark_dead e) = hp e"
  "gridX (mark_dead e) = gridX e" "gridY (mark_dead e) = gridY e"
  by (simp_all add: mark_dead_def)

lemmas battleTick_unfold = battleTick_def checkAliveness_eq Let_def

lemma battle_demo_fields [simp]:
  "phase (battle_demo es) = BATTLE" "entitiesRef (battle_demo es) = es" "levelNo (battle_demo es) = 1"
  "coins (battle_demo es) = 2000" "artifactLevels (battle_demo es) = (\<lambda>_. 0)"
  "gameStats (battle_demo es) = zeroStats" "playerTech (battle_demo es) = (\<lambda>_. 1)"
  by (simp_all add: battle_demo_def initialState_def playerTech_def getPlayerTechLevel_def fun_eq_iff)

lemma demo_sides [simp]:
  "side demo_player = PLAYER" "side demo_enemy = ENEMY" "eid demo_player = 1" "eid demo_enemy = 2"
  "0 < hp demo_player" "0 < hp demo_enemy" "state demo_enemy = IDLE"
  by (simp_all add: demo_player_def demo_enemy_def createEntity_def Let_def getUnitStats_hp_pos)

text \<open>
  C6. The outcome of a battle tick is decided by the sweep over the roster at the start of
  the tick: the battle is lost when no player unit is alive (also when both sides are
  wiped out at once), won when no enemy is alive, and goes on otherwise; the next
  animation frame is requested exactly when it goes on.
\<close>

theorem battleTick_outcome:
  assumes "phase s = BATTLE"
  shows "phase (battleTick s t) =
           (if \<not> (\<exists>e \<in> set (entitiesRef s). side e = PLAYER \<and> 0 < hp e) then DEFEAT
            else if \<not> (\<exists>e \<in> set (entitiesRef s). side e = ENEMY \<and> 0 < hp e) then VICTORY
            else BATTLE)
       \<and> loopScheduled (battleTick s t) =
           ((\<exists>e \<in> set (entitiesRef s). side e = PLAYER \<and> 0 < hp e)
            \<and> (\<exists>e \<in> set (entitiesRef s). side e = ENEMY \<and> 0 < hp e))"
  using assms by (simp add: battleTick_unfold conj_commute) blast

theorem battleTick_outcome_witness:
  "phase (battleTick (battle_demo [demo_player, demo_enemy\<lparr>hp := 0\<rparr>]) 16) = VICTORY"
  using battleTick_outcome [of "battle_demo [demo_player, demo_enemy\<lparr>hp := 0\<rparr>]" 16] by simp

text \<open>
  C29. A won battle pays \<^verbatim>\<open>Math.floor((150 + level * 50) * goldMult)\<close> coins, with the
  Midas multiplier of the state, and counts one more win.
\<close>

theorem battleTick_victory_reward:
  assumes "phase s = BATTLE"
    and "\<exists>e \<in> set (entitiesRef s). side e = PLAYER \<and> 0 < hp e"
    and "\<not> (\<exists>e \<in> set (entitiesRef s). side e = ENEMY \<and> 0 < hp e)"
  shows "coins (battleTick s t) = coins s + \<lfloor>real_of_int (150 + int (levelNo s) * 50) * getGoldMultiplier s\<rfloor>
       \<and> wins (gameStats (battleTick s t)) = wins (gameStats s) + 1"
  using assms by (simp add: battleTick_unfold getGoldMultiplier_def) blast

theorem battleTick_victory_reward_witness:
  "coins (battleTick (battle_demo [demo_player, demo_enemy\<lparr>hp := 0\<rparr>]) 16) = 2200"
proof -
  have "\<lfloor>real_of_int (150 + int 1 * 50) * getGoldMultiplier (battle_demo [demo_player, demo_enemy\<lparr>hp := 0\<rparr>])\<rfloor> = 200"
    by (simp add: getGoldMultiplier_def)
  then show ?thesis
    using battleTick_victory_reward [of "battle_demo [demo_player, demo_enemy\<lparr>hp := 0\<rparr>]" 16] by simp
qed

text \<open>
  C30. The kill counter grows by the number of enemies that are dead (hit points at most
  zero) but not yet marked dead at the start of the tick, so that every enemy is counted once.
\<close>

theorem battleTick_kills:
  assumes "phase s = BATTLE"
  shows "kills (gameStats (battleTick s t)) = kills (gameStats s)
           + length (filter (\<lambda>e. hp e \<le> 0 \<and> state e \<noteq> DEAD \<and> side e = ENEMY) (entitiesRef s))"
  using assms by (simp add: battleTick_unfold not_less)

theorem battleTick_kills_witness:
  "kills (gameStats (battleTick (battle_demo [demo_player, demo_enemy\<lparr>hp := 0\<rparr>]) 16)) = 1"
  using battleTick_kills [of "battle_demo [demo_player, demo_enemy\<lparr>hp := 0\<rparr>]" 16]
  by (simp add: zeroStats_def)

text \<open>
  C32. Once a tick leaves the battle phase the frame loop stops: no frame is requested and
  every later frame leaves the state unchanged.
\<close>

theorem battleTick_ends:
  assumes "phase s = BATTLE" and "phase (battleTick s t) \<noteq> BATTLE"
  shows "\<not> loopScheduled (battleTick s t) \<and> battleRun (battleTick s t) ts = battleTick s t"
proof -
  have "\<not> loopScheduled (battleTick s t)"
    using assms by (auto simp: battleTick_unfold split: if_splits)
  with assms(2) show ?thesis by (simp add: battleRun_idle)
qed

theorem battleTick_ends_witness:
  "\<not> loopScheduled (battleTick (battle_demo [demo_player\<lparr>hp := 0\<rparr>, demo_enemy]) 16)"
proof -
  have "phase (battleTick (battle_demo [demo_player\<lparr>hp := 0\<rparr>, demo_enemy]) 16) = DEFEAT"
    by (simp add: battleTick_unfold)
  then show ?thesis
    using battleTick_ends [of "battle_demo [demo_player\<lparr>hp := 0\<rparr>, demo_enemy]" 16 "[]"] by simp
qed

lemma battleTick_frame_core:
  assumes "phase s = BATTLE" and "distinct (map eid (entitiesRef s))"
    and "\<forall>ty. 1 \<le> playerTech s ty"
  shows "entities (battleTick s t) = entitiesRef (battleTick s t)
       \<and> tick_frame (map mark_dead (entitiesRef s)) (entitiesRef (battleTick s t))"
proof -
  let ?es = "map mark_dead (entitiesRef s)"
  let ?s1 = "if 0 < length (filter (\<lambda>e. \<not> 0 < hp e \<and> state e \<noteq> DEAD \<and> side e = ENEMY) (entitiesRef s))
             then s\<lparr>gameStats := (gameStats s)\<lparr>kills := kills (gameStats s)
                       + length (filter (\<lambda>e. \<not> 0 < hp e \<and> state e \<noteq> DEAD \<and> side e = ENEMY) (entitiesRef s))\<rparr>\<rparr>
             else s"
  have d: "distinct (map eid ?es)" using assms(2) by (simp add: comp_def)
  have "playerTech ?s1 = playerTech s" by (simp add: playerTech_def)
  then have "tick_frame ?es (updateAll ?s1 t (min ((t - lastTime s) / 1000) 0.1) ?es)"
    using d assms(3) by (intro updateAll_frame) simp_all
  then show ?thesis using assms(1) by (auto simp: battleTick_unfold tick_frame_refl)
qed

text \<open>
  C3. A battle tick with a roster of distinct ids and tech levels at least 1 keeps the roster
  in both state copies and only changes what combat may change: each slot keeps its id,
  type, side, level, grid cell and maximum hit points, hit points never increase, and a
  dead entity is only marked dead (it does not move, act or lose more hit points).
\<close>

theorem battleTick_frame:
  assumes "phase s = BATTLE" and "distinct (map eid (entitiesRef s))"
    and "\<forall>ty. 1 \<le> playerTech s ty"
  shows "entities (battleTick s t) = entitiesRef (battleTick s t)
       \<and> tick_frame (map mark_dead (entitiesRef s)) (entitiesRef (battleTick s t))"
  by (rule battleTick_frame_core [OF assms])

theorem battleTick_frame_witness:
  "length (entitiesRef (battleTick (battle_demo [demo_player, demo_enemy]) 16)) = 2"
proof -
  have "tick_frame (map mark_dead [demo_player, demo_enemy])
          (entitiesRef (battleTick (battle_demo [demo_player, demo_enemy]) 16))"
    using battleTick_frame [of "battle_demo [demo_player, demo_enemy]" 16] by simp
  then show ?thesis by (simp add: tick_frame_def)
qed

subsection \<open>Properties of one entity's turn\<close>

lemma separate_nth_i:
  "i < length es \<Longrightarrow> length (separate dt i es ks) = length es
     \<and> state (separate dt i es ks ! i) = state (es ! i)"
  by (induction ks arbitrary: es) (simp_all add: Let_def)

lemma moveToward_state:
  "i < length es \<Longrightarrow> state (moveToward stats dt i j es ! i) = state (es ! i)"
  by (simp add: moveToward_def Let_def)

lemma engage_attacking:
  assumes i: "i < length es" and j: "find_idx (\<lambda>e. Some (eid e) = targetId (es ! i)) es = Some j"
    and att: "state (engage stats t dt i es ! i) = ATTACKING"
  shows "j < length es \<and> Some (eid (engage stats t dt i es ! j)) = targetId (engage stats t dt i es ! i)
       \<and> getDistance (engage stats t dt i es ! i) (engage stats t dt i es ! j) \<le> st_range stats"
proof -
  have jl: "j < length es" and jt: "Some (eid (es ! j)) = targetId (es ! i)" using j by auto
  let ?es2 = "es[i := (es ! i)\<lparr>facingRight := posX (es ! j) > posX (es ! i)\<rparr>]"
  let ?es3a = "?es2[i := (?es2 ! i)\<lparr>state := ATTACKING\<rparr>]"
  let ?es3m = "?es2[i := (?es2 ! i)\<lparr>state := MOVING\<rparr>]"
  let ?es4 = "moveToward stats dt i j ?es3m"
  have eq: "engage stats t dt i es =
      (if getDistance (?es2 ! i) (?es2 ! j) \<le> st_range stats
       then (if t - lastAttackTime (?es3a ! i) > 1000 / st_attackSpeed stats
             then (let es4 = ?es3a[j := (?es3a ! j)\<lparr>hp := hp (?es3a ! j) - st_damage stats\<rparr>]
                   in es4[i := (es4 ! i)\<lparr>lastAttackTime := t\<rparr>])
             else ?es3a)
       else separate dt i ?es4 [0..<length ?es4])"
    unfolding engage_def j option.case Let_def ..
  show ?thesis
  proof (cases "getDistance (?es2 ! i) (?es2 ! j) \<le> st_range stats")
    case False
    have "state (separate dt i ?es4 [0..<length ?es4] ! i) = MOVING"
      using i separate_nth_i [of i ?es4] moveToward_state [of i ?es3m] moveToward_nth_i [of i ?es3m]
      by simp
    then show ?thesis using att False unfolding eq by simp
  next
    case True
    then show ?thesis using i jl jt unfolding eq
      by (cases "j = i") (simp_all add: Let_def getDistance_def nth_list_update)
  qed
qed

text \<open>
  C31. An entity that is in the attacking state after its turn has a target in the roster at
  distance at most its attack range.
\<close>

theorem updateEntity_attack_in_range:
  assumes i: "i < length es" and ai: "0 < hp (es ! i)" and dist: "distinct (map eid es)"
    and att: "state (updateEntity s t dt es i ! i) = ATTACKING"
  shows "\<exists>j < length es. Some (eid (updateEntity s t dt es i ! j)) = targetId (updateEntity s t dt es i ! i)
           \<and> getDistance (updateEntity s t dt es i ! i) (updateEntity s t dt es i ! j)
               \<le> st_range (entityStats s (es ! i))"
proof -
  let ?ent = "es ! i"
  let ?cur = "case targetId ?ent of None \<Rightarrow> None | Some tid \<Rightarrow> find (\<lambda>e. eid e = tid \<and> 0 < hp e) es"
  have ue: "updateEntity s t dt es i =
      (if ?cur = None
       then (case findNearestTarget ?ent es of
               Some newTarget \<Rightarrow>
                 engage (entityStats s ?ent) t dt i (es[i := ?ent\<lparr>targetId := Some (eid newTarget)\<rparr>])
             | None \<Rightarrow> es[i := ?ent\<lparr>state := IDLE\<rparr>])
       else engage (entityStats s ?ent) t dt i es)"
    unfolding updateEntity_def Let_def using ai by (intro if_not_P) simp
  show ?thesis
  proof (cases "?cur = None")
    case cur: False
    then obtain tid x where tid: "targetId ?ent = Some tid"
        and x: "find (\<lambda>e. eid e = tid \<and> 0 < hp e) es = Some x"
      by (auto split: option.splits)
    then have "x \<in> set es" "Some (eid x) = targetId ?ent" by (auto simp: find_Some_iff nth_mem)

    then obtain j where j: "find_idx (\<lambda>e. Some (eid e) = targetId ?ent) es = Some j"
      using find_idx_exists [of x es "\<lambda>e. Some (eid e) = targetId ?ent"] by auto
    have att': "state (engage (entityStats s ?ent) t dt i es ! i) = ATTACKING"
      using att unfolding ue if_not_P [OF cur] .
    show ?thesis using engage_attacking [OF i j att'] unfolding ue if_not_P [OF cur] by blast
  next
    case cur: True
    show ?thesis
    proof (cases "findNearestTarget ?ent es")
      case None
      then show ?thesis using i att unfolding ue if_P [OF cur] by simp
    next
      case (Some nt)
      let ?es1 = "es[i := ?ent\<lparr>targetId := Some (eid nt)\<rparr>]"
      obtain k where k: "k < length es" "es ! k = nt" "side nt \<noteq> side ?ent"
        using findNearestTarget_SomeD [OF Some] by (auto simp: in_set_conv_nth is_target_def)
      then have "k \<noteq> i" by auto
      then have "nt \<in> set ?es1" using k by (metis length_list_update nth_list_update_neq nth_mem)
      then obtain j where j: "find_idx (\<lambda>e. Some (eid e) = targetId (?es1 ! i)) ?es1 = Some j"
        using find_idx_exists [of nt ?es1 "\<lambda>e. Some (eid e) = targetId (?es1 ! i)"] i by auto
      have i1: "i < length ?es1" using i by simp
      have att': "state (engage (entityStats s ?ent) t dt i ?es1 ! i) = ATTACKING"
        using att unfolding ue if_P [OF cur] Some option.case .
      show ?thesis using engage_attacking [OF i1 j att'] unfolding ue if_P [OF cur] Some option.case
        by auto
    qed
  qed
qed

theorem updateEntity_attack_in_range_witness:
  "state (updateEntity (battle_demo []) 5000 0.016 [demo_player, demo_enemy\<lparr>posY := 4\<rparr>] 0 ! 0) = ATTACKING
   \<and> (\<exists>j < 2. getDistance (updateEntity (battle_demo []) 5000 0.016 [demo_player, demo_enemy\<lparr>posY := 4\<rparr>] 0 ! 0)
                  (updateEntity (battle_demo []) 5000 0.016 [demo_player, demo_enemy\<lparr>posY := 4\<rparr>] 0 ! j)
              \<le> st_range (entityStats (battle_demo []) demo_player))"
proof -
  have p: "posX demo_player = 0" "posY demo_player = 5" "posX demo_enemy = 0" "targetId demo_player = None"
    "etype demo_player = ARCHER" "\<not> hp demo_player \<le> 0"
    by (simp_all add: demo_player_def demo_enemy_def createEntity_def Let_def getUnitStats_hp_pos not_le)
  have r: "1 \<le> st_range (entityStats (battle_demo []) demo_player)"
    by (simp add: entityStats_def Let_def st_range_getUnitStats p)
  have a: "state (updateEntity (battle_demo []) 5000 0.016 [demo_player, demo_enemy\<lparr>posY := 4\<rparr>] 0 ! 0) = ATTACKING"
    using r by (simp add: updateEntity_def engage_def findNearestTarget_def nearest_loop_Cons is_target_def
        getDistance_def p Let_def)
  show ?thesis
    using a updateEntity_attack_in_range [of 0 "[demo_player, demo_enemy\<lparr>posY := 4\<rparr>]" "battle_demo []" 5000 "0.016"]
    by (simp add: numeral_2_eq_2) blast
qed

end
