(* ===== verification/Placement.thy ===== *)
theory Placement
  imports App_State
begin

text \<open>
  The Placement and Merge Resolver: \<^verbatim>\<open>finishDrag\<close> of \<^verbatim>\<open>src/App.tsx\<close>. The
  functional updater passed to \<^verbatim>\<open>setEntities\<close> is \<open>resolveDrop\<close>; it returns the
  new roster together with whether it merged (the \<^verbatim>\<open>setGameStats\<close> call it makes).
  The pointer plumbing (\<^verbatim>\<open>getGridFromClientPos\<close>, the screen distance of the
  gesture) is outside the model: \<open>finishDrag\<close> receives the gesture's screen
  distance and the grid cell under the pointer, if any. The lemmas show that a tap or a
  drop on the enemy half changes nothing, what a merge, a swap and a move produce, and
  that the placement invariant (unique ids, no two living units in one cell) is kept.
\<close>

datatype drop_outcome = Unchanged | Merged | Swapped | Moved

definition resolveDrop ::
  "(global_tech_type \<Rightarrow> int) \<Rightarrow> (unit_type \<Rightarrow> int) \<Rightarrow> artifact_levels
   \<Rightarrow> entity_id \<Rightarrow> int \<Rightarrow> int \<Rightarrow> entity list \<Rightarrow> entity list \<times> drop_outcome" where
  "resolveDrop gTech tLevels arts dragId gx gy prev =
     (case find_idx (\<lambda>e. eid e = dragId) prev of
        None \<Rightarrow> (prev, Unchanged)
      | Some meIndex \<Rightarrow>
          (let me = prev ! meIndex
           in case find_idx (\<lambda>e. gridX e = gx \<and> gridY e = gy \<and> eid e \<noteq> dragId \<and> 0 < hp e) prev of
                Some targetIndex \<Rightarrow>
                  (let target = prev ! targetIndex
                   in if etype target = etype me \<and> level target = level me
                      then (let techLvl = getPlayerTechLevel gTech tLevels (etype target);
                                newStats = getUnitStats (etype target) (level target + 1) techLvl arts;
                                newEntities = prev[targetIndex := target\<lparr>level := level target + 1,
                                                   maxHp := st_hp newStats, hp := st_hp newStats\<rparr>]
                            in (remove_nth meIndex newEntities, Merged))
                      else (prev[meIndex := me\<lparr>gridX := gridX target, gridY := gridY target,
                                     posX := real_of_int (gridX target), posY := real_of_int (gridY target)\<rparr>,
                                 targetIndex := target\<lparr>gridX := gridX me, gridY := gridY me,
                                     posX := real_of_int (gridX me), posY := real_of_int (gridY me)\<rparr>],
                            Swapped))
              | None \<Rightarrow>
                  (prev[meIndex := me\<lparr>gridX := gx, gridY := gy,
                                       posX := real_of_int gx, posY := real_of_int gy\<rparr>], Moved)))"

text \<open>The handler: a gesture shorter than 10 pixels selects the unit; otherwise a drop
  outside the grid or on the enemy half (\<^verbatim>\<open>gridY < Math.floor(GRID_ROWS/2)\<close>) is
  ignored, and any other drop runs the updater.\<close>

definition finishDrag :: "app_state \<Rightarrow> real \<Rightarrow> (int \<times> int) option \<Rightarrow> app_state" where
  "finishDrag s gestureDist targetPos =
     (case draggingId s of
        None \<Rightarrow> s
      | Some dragId \<Rightarrow>
          (let s1 = s\<lparr>draggingId := None\<rparr>
           in if gestureDist < 10
              then (case find (\<lambda>e. eid e = dragId) (entities s1) of
                      Some e \<Rightarrow> s1\<lparr>selectedUnit := Some e\<rparr>
                    | None \<Rightarrow> s1)
              else (case targetPos of
                      None \<Rightarrow> s1
                    | Some (gx, gy) \<Rightarrow>
                        if gy < GRID_ROWS div 2 then s1
                        else (let (es', outcome) = resolveDrop (globalTech s1) (techLevels s1)
                                                     (artifactLevels s1) dragId gx gy (entities s1)
                              in s1\<lparr>entities := es',
                                    gameStats := (if outcome = Merged
                                                  then (gameStats s1)\<lparr>merges := merges (gameStats s1) + 1\<rparr>
                                                  else gameStats s1)\<rparr>))))"

text \<open>The placement invariant of the preparation phase: the roster invariant, every
  entity alive (\<^verbatim>\<open>loadLevel\<close> restores player units to full health and creates
  enemies at full health), and no two entities in one grid cell.\<close>

definition cell :: "entity \<Rightarrow> int \<times> int" where
  "cell e = (gridX e, gridY e)"

definition placement_ok :: "entity list \<Rightarrow> bool" where
  "placement_ok es \<longleftrightarrow> roster_ok es \<and> (\<forall>e \<in> set es. 0 < hp e) \<and> distinct (map cell es)"

text \<open>Two level-1 archers side by side on the bottom row, the first one being dragged
  (the merge scenario of the spec), and the same with a tank as the second unit.\<close>

definition demo_archer :: "entity_id \<Rightarrow> int \<Rightarrow> entity" where
  "demo_archer k x = createEntity k ARCHER 1 PLAYER x 7 1 no_artifacts"

definition merge_demo :: app_state where
  "merge_demo = (initialState None 0)\<lparr>phase := PREPARATION,
     entities := [demo_archer 1 0, demo_archer 2 1], draggingId := Some 1\<rparr>"

definition swap_demo :: app_state where
  "swap_demo = merge_demo\<lparr>entities := [demo_archer 1 0, createEntity 2 TANK 1 PLAYER 1 7 1 no_artifacts]\<rparr>"

subsection \<open>The branches of the updater\<close>

lemma resolveDrop_Unchanged:
  "find_idx (\<lambda>e. eid e = dragId) prev = None \<Longrightarrow>
   resolveDrop gT tL arts dragId gx gy prev = (prev, Unchanged)"
  by (simp add: resolveDrop_def)

lemma resolveDrop_Moved:
  "find_idx (\<lambda>e. eid e = dragId) prev = Some i \<Longrightarrow>
   find_idx (\<lambda>e. gridX e = gx \<and> gridY e = gy \<and> eid e \<noteq> dragId \<and> 0 < hp e) prev = None \<Longrightarrow>
   resolveDrop gT tL arts dragId gx gy prev =
     (prev[i := (prev ! i)\<lparr>gridX := gx, gridY := gy, posX := real_of_int gx, posY := real_of_int gy\<rparr>],
      Moved)"
  by (simp add: resolveDrop_def Let_def)

lemma resolveDrop_Merged:
  "find_idx (\<lambda>e. eid e = dragId) prev = Some i \<Longrightarrow>
   find_idx (\<lambda>e. gridX e = gx \<and> gridY e = gy \<and> eid e \<noteq> dragId \<and> 0 < hp e) prev = Some j \<Longrightarrow>
   etype (prev ! j) = etype (prev ! i) \<Longrightarrow> level (prev ! j) = level (prev ! i) \<Longrightarrow>
   resolveDrop gT tL arts dragId gx gy prev =
     (remove_nth i (prev[j := (prev ! j)\<lparr>level := level (prev ! j) + 1,
         maxHp := st_hp (getUnitStats (etype (prev ! j)) (level (prev ! j) + 1)
                    (getPlayerTechLevel gT tL (etype (prev ! j))) arts),
         hp := st_hp (getUnitStats (etype (prev ! j)) (level (prev ! j) + 1)
                    (getPlayerTechLevel gT tL (etype (prev ! j))) arts)\<rparr>]),
      Merged)"
  by (simp add: resolveDrop_def Let_def)

lemma resolveDrop_Swapped:
  "find_idx (\<lambda>e. eid e = dragId) prev = Some i \<Longrightarrow>
   find_idx (\<lambda>e. gridX e = gx \<and> gridY e = gy \<and> eid e \<noteq> dragId \<and> 0 < hp e) prev = Some j \<Longrightarrow>
   \<not> (etype (prev ! j) = etype (prev ! i) \<and> level (prev ! j) = level (prev ! i)) \<Longrightarrow>
   resolveDrop gT tL arts dragId gx gy prev =
     (prev[i := (prev ! i)\<lparr>gridX := gridX (prev ! j), gridY := gridY (prev ! j),
                 posX := real_of_int (gridX (prev ! j)), posY := real_of_int (gridY (prev ! j))\<rparr>,
           j := (prev ! j)\<lparr>gridX := gridX (prev ! i), gridY := gridY (prev ! i),
                 posX := real_of_int (gridX (prev ! i)), posY := real_of_int (gridY (prev ! i))\<rparr>],
      Swapped)"
  by (simp add: resolveDrop_def Let_def)

lemma alive_update:
  "\<forall>e \<in> set es. 0 < hp e \<Longrightarrow> 0 < hp v \<Longrightarrow> \<forall>e \<in> set (es[k := v]). 0 < hp e"
  using set_update_subset_insert [of es k v] by auto

lemma find_idx_drop_target:
  assumes "find_idx (\<lambda>e. gridX e = gx \<and> gridY e = gy \<and> eid e \<noteq> dragId \<and> 0 < hp e) es = Some j"
    and "find_idx (\<lambda>e. eid e = dragId) es = Some i"
  shows "j < length es \<and> i < length es \<and> j \<noteq> i \<and> cell (es ! j) = (gx, gy) \<and> 0 < hp (es ! j)
         \<and> eid (es ! i) = dragId"
  using assms find_idx_SomeD [OF assms(1)] find_idx_SomeD [OF assms(2)] by (auto simp: cell_def)

lemma finishDrag_drop:
  assumes "draggingId s = Some dragId" "\<not> gestureDist < 10" "\<not> gy < GRID_ROWS div 2"
  shows "finishDrag s gestureDist (Some (gx, gy)) =
     (let (es', outcome) = resolveDrop (globalTech s) (techLevels s) (artifactLevels s)
                             dragId gx gy (entities s)
      in s\<lparr>draggingId := None, entities := es',
           gameStats := (if outcome = Merged then (gameStats s)\<lparr>merges := merges (gameStats s) + 1\<rparr>
                         else gameStats s)\<rparr>)"
  using assms by (simp add: finishDrag_def Let_def split: prod.split)

lemma resolveDrop_placement_ok:
  assumes ok: "placement_ok es" and tech: "\<forall>t. 1 \<le> getPlayerTechLevel gT tL t"
  shows "placement_ok (fst (resolveDrop gT tL arts dragId gx gy es))"
proof (cases "find_idx (\<lambda>e. eid e = dragId) es")
  case None
  with ok show ?thesis by (simp add: resolveDrop_Unchanged)
next
  case (Some i)
  have i: "i < length es" "eid (es ! i) = dragId" using find_idx_SomeD [OF Some] by auto
  have ro: "roster_ok es" and al: "\<forall>e \<in> set es. 0 < hp e" and dc: "distinct (map cell es)"
    using ok by (auto simp: placement_ok_def)
  have lv: "1 \<le> level (es ! i)" using ro i(1) by (auto simp: roster_ok_def)
  show ?thesis
  proof (cases "find_idx (\<lambda>e. gridX e = gx \<and> gridY e = gy \<and> eid e \<noteq> dragId \<and> 0 < hp e) es")
    case None
    let ?m = "(es ! i)\<lparr>gridX := gx, gridY := gy, posX := real_of_int gx, posY := real_of_int gy\<rparr>"
    have free: "(gx, gy) \<notin> set (map cell es) - {cell (es ! i)}"
    proof
      assume "(gx, gy) \<in> set (map cell es) - {cell (es ! i)}"
      then have "(gx, gy) \<in> set (map cell es)" and ne: "(gx, gy) \<noteq> cell (es ! i)" by auto
      then obtain l where l0: "l < length es" "cell (es ! l) = (gx, gy)"
        by (auto simp: in_set_conv_nth)
      with ne have l: "l < length es" "cell (es ! l) = (gx, gy)" "l \<noteq> i" by auto
      have "eid (es ! l) \<noteq> dragId"
        using ro l(1,3) i by (auto simp: roster_ok_def distinct_conv_nth)
      moreover have "0 < hp (es ! l)" using al l(1) by auto
      moreover have "es ! l \<in> set es" using l(1) by simp
      ultimately show False using None l(2) by (force simp: cell_def find_idx_None_iff)
    qed
    have "map cell (es[i := ?m]) = (map cell es)[i := (gx, gy)]"
      by (simp add: map_update cell_def)
    moreover have "distinct ((map cell es)[i := (gx, gy)])"
      by (rule distinct_list_update [OF dc]) (use free i(1) in simp)
    ultimately have "distinct (map cell (es[i := ?m]))" by simp
    moreover have "roster_ok (es[i := ?m])" using ro i lv by (intro roster_ok_update) simp_all
    moreover have "\<forall>e \<in> set (es[i := ?m]). 0 < hp e"
      using al i(1) by (intro alive_update) auto
    ultimately show ?thesis using Some None by (simp add: resolveDrop_Moved placement_ok_def)
  next
    case (Some j)
    have j: "j < length es" "j \<noteq> i" "cell (es ! j) = (gx, gy)"
      using find_idx_drop_target [OF Some \<open>find_idx _ es = Some i\<close>] by auto
    show ?thesis
    proof (cases "etype (es ! j) = etype (es ! i) \<and> level (es ! j) = level (es ! i)")
      case True
      let ?T = "getPlayerTechLevel gT tL (etype (es ! j))"
      let ?st = "getUnitStats (etype (es ! j)) (level (es ! j) + 1) ?T arts"
      let ?t = "(es ! j)\<lparr>level := level (es ! j) + 1, maxHp := st_hp ?st, hp := st_hp ?st\<rparr>"
      have hp: "0 < st_hp ?st" using tech by (intro getUnitStats_hp_pos) simp
      have r1: "roster_ok (es[j := ?t])" using ro j by (intro roster_ok_update) simp_all
      have a1: "\<forall>e \<in> set (es[j := ?t]). 0 < hp e" using al hp by (intro alive_update) simp_all
      have c1: "map cell (es[j := ?t]) = map cell es" using j(1) by (simp add: map_update_same cell_def)
      have "placement_ok (remove_nth i (es[j := ?t]))"
        using roster_ok_remove_nth [OF r1] a1 set_remove_nth_subset [of i "es[j := ?t]"]
          distinct_remove_nth [of "map cell (es[j := ?t])" i] c1 dc
        by (auto simp: placement_ok_def remove_nth_map [symmetric])
      then show ?thesis
        using \<open>find_idx _ es = Some i\<close> Some True by (simp add: resolveDrop_Merged)
    next
      case False
      let ?m = "(es ! i)\<lparr>gridX := gridX (es ! j), gridY := gridY (es ! j),
                 posX := real_of_int (gridX (es ! j)), posY := real_of_int (gridY (es ! j))\<rparr>"
      let ?t = "(es ! j)\<lparr>gridX := gridX (es ! i), gridY := gridY (es ! i),
                 posX := real_of_int (gridX (es ! i)), posY := real_of_int (gridY (es ! i))\<rparr>"
      have "map cell (es[i := ?m, j := ?t]) = (map cell es)[i := map cell es ! j, j := map cell es ! i]"
        using i(1) j(1) by (simp add: map_update cell_def)
      moreover have "distinct ((map cell es)[i := map cell es ! j, j := map cell es ! i])"
        using dc i(1) j(1) by (subst distinct_swap) simp_all
      ultimately have c: "distinct (map cell (es[i := ?m, j := ?t]))" by (simp only:)
      have r: "roster_ok (es[i := ?m, j := ?t])"
        using ro i j lv by (intro roster_ok_update) (auto simp: roster_ok_def)
      have a: "\<forall>e \<in> set (es[i := ?m, j := ?t]). 0 < hp e"
        using al i(1) j(1) by (intro alive_update) auto
      show ?thesis using \<open>find_idx _ es = Some i\<close> Some False c r a
        by (simp add: resolveDrop_Swapped placement_ok_def)
    qed
  qed
qed

subsection \<open>Properties of placement and merging\<close>

text \<open>
  C2. Placement keeps the preparation-phase invariant: if the roster has unique ids,
  levels of at least one, only living entities and no two entities in one cell, and
  every tech level is at least one, then after any drag gesture it still does.
\<close>

theorem finishDrag_placement_ok:
  assumes "placement_ok (entities s)" and "\<forall>t. 1 \<le> playerTech s t"
  shows "placement_ok (entities (finishDrag s gestureDist targetPos))"
proof -
  have tech: "\<forall>t. 1 \<le> getPlayerTechLevel (globalTech s) (techLevels s) t"
    using assms(2) by (simp add: playerTech_def)
  show ?thesis
    using assms(1) resolveDrop_placement_ok [OF assms(1) tech]
    by (auto simp: finishDrag_def Let_def case_prod_unfold split: option.split)
qed

theorem finishDrag_placement_ok_witness:
  "placement_ok (entities (finishDrag merge_demo 20 (Some (1, 7))))"
proof -
  have hpA: "st_hp (getUnitStats ARCHER (Suc 0) 1 no_artifacts) = 80"
    by (simp add: st_hp_getUnitStats hp_scale_def tech_mult_def no_artifacts_def)
  have ok: "placement_ok (entities merge_demo)"
    by (simp add: placement_ok_def roster_ok_def cell_def merge_demo_def demo_archer_def
        createEntity_def Let_def hpA)
  have t: "\<forall>t. 1 \<le> playerTech merge_demo t"
    by (simp add: playerTech_def getPlayerTechLevel_def merge_demo_def initialState_def)
  show ?thesis using finishDrag_placement_ok [OF ok t] .
qed

text \<open>
  C9. Merging: dropping a unit on a living unit of the same type and level (ids
  unique) increments the merge counter by exactly one, removes the dragged unit and
  shortens the roster by one, and leaves one unit of that type at level + 1 with full
  health equal to the derived hit points at the current tech and artifacts. That unit is
  the drop target, keeps the target's id and stands in the target's cell.
\<close>

theorem finishDrag_merge:
  assumes drag: "draggingId s = Some dragId" "10 \<le> gestureDist" "GRID_ROWS div 2 \<le> gy"
    and me: "find_idx (\<lambda>e. eid e = dragId) (entities s) = Some i"
    and tg: "find_idx (\<lambda>e. gridX e = gx \<and> gridY e = gy \<and> eid e \<noteq> dragId \<and> 0 < hp e) (entities s) = Some j"
    and same: "etype (entities s ! j) = etype (entities s ! i)" "level (entities s ! j) = level (entities s ! i)"
    and ok: "roster_ok (entities s)"
    and res: "finishDrag s gestureDist (Some (gx, gy)) = s'"
  shows "merges (gameStats s') = merges (gameStats s) + 1
       \<and> length (entities s') = length (entities s) - 1
       \<and> dragId \<notin> eid ` set (entities s')
       \<and> (\<exists>m \<in> set (entities s'). eid m = eid (entities s ! j) \<and> etype m = etype (entities s ! i)
            \<and> level m = level (entities s ! i) + 1 \<and> cell m = (gx, gy) \<and> hp m = maxHp m
            \<and> hp m = st_hp (getUnitStats (etype m) (level m) (playerTech s (etype m)) (artifactLevels s)))"
proof -
  let ?es = "entities s"
  have ij: "j < length ?es" "i < length ?es" "j \<noteq> i" "cell (?es ! j) = (gx, gy)" "eid (?es ! i) = dragId"
    using find_idx_drop_target [OF tg me] by auto
  let ?st = "getUnitStats (etype (?es ! j)) (level (?es ! j) + 1) (playerTech s (etype (?es ! j))) (artifactLevels s)"
  let ?t = "(?es ! j)\<lparr>level := level (?es ! j) + 1, maxHp := st_hp ?st, hp := st_hp ?st\<rparr>"
  have s': "s' = s\<lparr>draggingId := None, entities := remove_nth i (?es[j := ?t]),
                     gameStats := (gameStats s)\<lparr>merges := merges (gameStats s) + 1\<rparr>\<rparr>"
    using res drag me tg same
    by (simp add: finishDrag_drop resolveDrop_Merged playerTech_def)
  have mem: "?t \<in> set (remove_nth i (?es[j := ?t]))"
    using nth_in_remove_nth [of j "?es[j := ?t]" i] ij by simp
  have notin: "dragId \<notin> set (remove_nth i (map eid (?es[j := ?t])))"
  proof -
    have m: "map eid (?es[j := ?t]) = map eid ?es" using ij(1) by (simp add: map_update_same)
    have "distinct (map eid ?es)" using ok by (simp add: roster_ok_def)
    then have "map eid ?es ! i \<notin> set (remove_nth i (map eid ?es))"
      using ij(2) by (intro nth_remove_nth_notin) simp_all
    then show ?thesis using m ij(2,5) by simp
  qed
  have A: "merges (gameStats s') = merges (gameStats s) + 1" by (simp add: s')
  have B: "length (entities s') = length ?es - 1" using ij by (simp add: s')
  have C: "dragId \<notin> eid ` set (entities s')"
    using notin by (simp add: s' remove_nth_map)
  have D: "?t \<in> set (entities s')" using mem by (simp add: s')
  have E: "eid ?t = eid (?es ! j) \<and> etype ?t = etype (?es ! i) \<and> level ?t = level (?es ! i) + 1
      \<and> cell ?t = (gx, gy) \<and> hp ?t = maxHp ?t
      \<and> hp ?t = st_hp (getUnitStats (etype ?t) (level ?t) (playerTech s (etype ?t)) (artifactLevels s))"
    using same ij by (simp add: cell_def)
  from A B C D E show ?thesis by blast
qed

theorem finishDrag_merge_witness:
  "merges (gameStats (finishDrag merge_demo 20 (Some (1, 7)))) = merges (gameStats merge_demo) + 1
   \<and> length (entities (finishDrag merge_demo 20 (Some (1, 7)))) = length (entities merge_demo) - 1"
proof -
  have hp80: "st_hp (getUnitStats ARCHER (Suc 0) 1 no_artifacts) = 80"
    by (simp add: st_hp_getUnitStats hp_scale_def tech_mult_def no_artifacts_def)
  have ok: "roster_ok (entities merge_demo)"
    by (simp add: merge_demo_def roster_ok_def demo_archer_def createEntity_def Let_def)
  show ?thesis
    using finishDrag_merge [of merge_demo 1 20 7 0 1 1 "finishDrag merge_demo 20 (Some (1, 7))", OF _ _ _ _ _ _ _ ok refl]
    by (simp add: merge_demo_def demo_archer_def createEntity_def Let_def hp80 GRID_ROWS_def)
qed

text \<open>
  C39. Swapping: dropping a unit on a living unit of another type or level exchanges
  their grid cells (and resets both continuous positions to those cells), leaves every
  id, type, level and hit point value unchanged, and does not count a merge.
\<close>

theorem finishDrag_swap:
  assumes drag: "draggingId s = Some dragId" "10 \<le> gestureDist" "GRID_ROWS div 2 \<le> gy"
    and me: "find_idx (\<lambda>e. eid e = dragId) (entities s) = Some i"
    and tg: "find_idx (\<lambda>e. gridX e = gx \<and> gridY e = gy \<and> eid e \<noteq> dragId \<and> 0 < hp e) (entities s) = Some j"
    and differ: "etype (entities s ! j) \<noteq> etype (entities s ! i) \<or> level (entities s ! j) \<noteq> level (entities s ! i)"
    and res: "finishDrag s gestureDist (Some (gx, gy)) = s'"
  shows "length (entities s') = length (entities s)
       \<and> cell (entities s' ! i) = cell (entities s ! j) \<and> cell (entities s' ! j) = cell (entities s ! i)
       \<and> posX (entities s' ! i) = real_of_int (gridX (entities s ! j))
       \<and> posY (entities s' ! i) = real_of_int (gridY (entities s ! j))
       \<and> posX (entities s' ! j) = real_of_int (gridX (entities s ! i))
       \<and> posY (entities s' ! j) = real_of_int (gridY (entities s ! i))
       \<and> map (\<lambda>e. (eid e, etype e, level e, hp e, maxHp e)) (entities s')
           = map (\<lambda>e. (eid e, etype e, level e, hp e, maxHp e)) (entities s)
       \<and> gameStats s' = gameStats s"
proof -
  let ?es = "entities s"
  have ij: "j < length ?es" "i < length ?es" "j \<noteq> i"
    using find_idx_drop_target [OF tg me] by auto
  let ?m = "(?es ! i)\<lparr>gridX := gridX (?es ! j), gridY := gridY (?es ! j),
                 posX := real_of_int (gridX (?es ! j)), posY := real_of_int (gridY (?es ! j))\<rparr>"
  let ?t = "(?es ! j)\<lparr>gridX := gridX (?es ! i), gridY := gridY (?es ! i),
                 posX := real_of_int (gridX (?es ! i)), posY := real_of_int (gridY (?es ! i))\<rparr>"
  have s': "s' = s\<lparr>draggingId := None, entities := ?es[i := ?m, j := ?t]\<rparr>"
    using res drag me tg differ by (auto simp: finishDrag_drop resolveDrop_Swapped)
  have "map (\<lambda>e. (eid e, etype e, level e, hp e, maxHp e)) (?es[i := ?m, j := ?t])
      = map (\<lambda>e. (eid e, etype e, level e, hp e, maxHp e)) ?es"
    using ij by (simp add: map_update_same)
  then show ?thesis using ij by (simp add: s' cell_def)
qed

theorem finishDrag_swap_witness:
  "length (entities (finishDrag swap_demo 20 (Some (1, 7)))) = length (entities swap_demo)
   \<and> cell (entities (finishDrag swap_demo 20 (Some (1, 7))) ! 0) = cell (entities swap_demo ! 1)"
proof -
  have hpA: "st_hp (getUnitStats ARCHER (Suc 0) 1 no_artifacts) = 80"
    by (simp add: st_hp_getUnitStats hp_scale_def tech_mult_def no_artifacts_def)
  have hpT: "st_hp (getUnitStats TANK (Suc 0) 1 no_artifacts) = 300"
    by (simp add: st_hp_getUnitStats hp_scale_def tech_mult_def no_artifacts_def)
  show ?thesis
    using finishDrag_swap [of swap_demo 1 20 7 0 1 1 "finishDrag swap_demo 20 (Some (1, 7))", OF _ _ _ _ _ _ refl]
    by (simp add: swap_demo_def merge_demo_def demo_archer_def createEntity_def Let_def hpA hpT
        GRID_ROWS_def)
qed

text \<open>
  A gesture shorter than the tap threshold, or a drop on the enemy half of the
  grid, never changes the roster or the merge counter.
\<close>

theorem finishDrag_no_effect:
  assumes "gestureDist < 10 \<or> gy < GRID_ROWS div 2"
  shows "entities (finishDrag s gestureDist (Some (gx, gy))) = entities s
       \<and> gameStats (finishDrag s gestureDist (Some (gx, gy))) = gameStats s"
  using assms by (auto simp: finishDrag_def Let_def split: option.split)

theorem finishDrag_no_effect_witness:
  "entities (finishDrag merge_demo 5 (Some (1, 7))) = entities merge_demo
   \<and> gameStats (finishDrag merge_demo 5 (Some (1, 7))) = gameStats merge_demo"
  using finishDrag_no_effect [of 5 7 merge_demo 1] by simp

end
