(* ===== verification/Economy.thy ===== *)
theory Economy
  imports Placement
begin

text \<open>
  The Economy handlers of \<^verbatim>\<open>src/App.tsx\<close>: recruitment (\<^verbatim>\<open>handleBuyUnit\<close>),
  unit and global research (\<^verbatim>\<open>applyTechUpgrade\<close>, \<^verbatim>\<open>applyGlobalUpgrade\<close>),
  artifacts (\<^verbatim>\<open>handleBuyArtifact\<close>), selling (\<^verbatim>\<open>handleSellUnit\<close>), synthesis
  (\<^verbatim>\<open>handleSynthesize\<close>), achievements (\<^verbatim>\<open>claimAchievement\<close>) and the supply drop
  (\<^verbatim>\<open>claimSupply\<close> and its timer). Each handler returns \<open>Inr\<close> of the new state, or
  \<open>Inl\<close> of the reason when the source returns early (with a toast and no state change).
  \<^verbatim>\<open>Math.random()\<close> draws and the fresh entity id are parameters; the handler is
  modelled for every value they can take.
\<close>

datatype buy_kind = RANDOM | PREMIUM | SPECIFIC unit_type

datatype shop_error =
  CapacityFull | NotEnoughCoins | NoFreeSpot | MaxLevelReached | MissingIngredients
  | AlreadyClaimed | NothingToSell

definition playerUnitCount :: "entity list \<Rightarrow> nat" where
  "playerUnitCount es = length (filter (\<lambda>e. side e = PLAYER) es)"

text \<open>The free-cell scan of \<^verbatim>\<open>handleBuyUnit\<close>: rows from \<^verbatim>\<open>GRID_ROWS - 1\<close> down to
  \<^verbatim>\<open>Math.floor(GRID_ROWS / 2)\<close>, columns left to right, a cell being free when no
  living entity stands on it.\<close>

definition availableSpots :: "entity list \<Rightarrow> (int \<times> int) list" where
  "availableSpots es =
     concat (map (\<lambda>y. concat (map (\<lambda>x. if find (\<lambda>e. gridX e = x \<and> gridY e = y \<and> 0 < hp e) es = None
                                         then [(x, y)] else [])
                                   [0..GRID_COLS - 1]))
                 (rev [GRID_ROWS div 2..GRID_ROWS - 1]))"

text \<open>\<^verbatim>\<open>types.filter(t => UNIT_BASE_STATS[t].tier === tier)\<close>.\<close>

definition tier_units :: "unit_tier \<Rightarrow> unit_type list" where
  "tier_units t = filter (\<lambda>ty. tier (UNIT_BASE_STATS ty) = t) all_unit_types"

text \<open>The normal gacha: tier thresholds from the luck level, then a type of that tier.\<close>

definition rollRandom :: "real \<Rightarrow> real \<Rightarrow> real \<Rightarrow> unit_type" where
  "rollRandom luckLvl rand r2 =
     (let legendProb = 0.01 + luckLvl * 0.005;
          epicProb = 0.09 + luckLvl * 0.01;
          rareProb = 0.30 + luckLvl * 0.02;
          legendThreshold = 1 - legendProb;
          epicThreshold = legendThreshold - epicProb;
          rareThreshold = epicThreshold - rareProb
      in if rand > legendThreshold then pick (tier_units LEGENDARY) r2
         else if rand > epicThreshold then pick (tier_units EPIC) r2
         else if rand > rareThreshold then pick (tier_units RARE) r2
         else pick (tier_units COMMON) r2)"

text \<open>The premium gacha: no common tier.\<close>

definition rollPremium :: "real \<Rightarrow> real \<Rightarrow> real \<Rightarrow> unit_type" where
  "rollPremium luckLvl rand r2 =
     (let legendProb = 0.10 + luckLvl * 0.01;
          epicProb = 0.40 + luckLvl * 0.02
      in if rand > 1 - legendProb then pick (tier_units LEGENDARY) r2
         else if rand > 1 - legendProb - epicProb then pick (tier_units EPIC) r2
         else pick (tier_units RARE) r2)"

text \<open>The type a purchase yields: a roll for the two gachas, the named type otherwise.\<close>

definition rollType :: "real \<Rightarrow> buy_kind \<Rightarrow> real \<Rightarrow> real \<Rightarrow> unit_type" where
  "rollType luckLvl b rand r2 =
     (case b of RANDOM \<Rightarrow> rollRandom luckLvl rand r2 | PREMIUM \<Rightarrow> rollPremium luckLvl rand r2
              | SPECIFIC ty \<Rightarrow> ty)"

definition buyCost :: "app_state \<Rightarrow> buy_kind \<Rightarrow> int" where
  "buyCost s b = (case b of RANDOM \<Rightarrow> recruitCost s | PREMIUM \<Rightarrow> recruitCost s * 2
                           | SPECIFIC ty \<Rightarrow> unitCosts s ty)"

text \<open>\<^verbatim>\<open>handleBuyUnit\<close>: the capacity check, the price check, the first free spot,
  the roll, then coins, prices, roster and the summon counter. \<open>rand\<close> and \<open>r2\<close>
  are the two \<^verbatim>\<open>Math.random()\<close> draws, \<open>newId\<close> the id \<^verbatim>\<open>createEntity\<close>
  draws.\<close>

definition handleBuyUnit ::
  "app_state \<Rightarrow> buy_kind \<Rightarrow> real \<Rightarrow> real \<Rightarrow> entity_id \<Rightarrow> shop_error + app_state" where
  "handleBuyUnit s buyType rand r2 newId =
     (if maxUnitCap s \<le> int (playerUnitCount (entities s)) then Inl CapacityFull
      else
        (let c = buyCost s buyType
         in if \<not> c \<le> coins s then Inl NotEnoughCoins
            else
              (case availableSpots (entities s) of
                 [] \<Rightarrow> Inl NoFreeSpot
               | (x, y) # _ \<Rightarrow>
                   (let finalType = rollType (real_of_int (globalTech s LUCK - 1)) buyType rand r2;
                        newUnit = createEntity newId finalType 1 PLAYER x y
                                    (playerTech s finalType) (artifactLevels s)
                    in Inr (s\<lparr>coins := coins s - c,
                              recruitCost := (case buyType of SPECIFIC _ \<Rightarrow> recruitCost s
                                              | _ \<Rightarrow> recruitCost s + RECRUIT_COST_INCREASE),
                              unitCosts := (case buyType of SPECIFIC ty \<Rightarrow> (unitCosts s)(ty := unitCosts s ty + 10)
                                            | _ \<Rightarrow> unitCosts s),
                              entities := entities s @ [newUnit],
                              gameStats := (gameStats s)\<lparr>summons := summons (gameStats s) + 1\<rparr>\<rparr>)))))"

text \<open>\<^verbatim>\<open>applyTechUpgrade\<close>: pay \<^verbatim>\<open>TECH_COST_BASE + (lvl - 1) * TECH_COST_INCREASE\<close>,
  raise the type's tech level and restore every player unit of that type to the full
  hit points of the new level (the \<^verbatim>\<open>setEntities\<close> call inside the
  \<^verbatim>\<open>setTechLevels\<close> updater). Without the coins the source does nothing.\<close>

definition applyTechUpgrade :: "app_state \<Rightarrow> unit_type \<Rightarrow> shop_error + app_state" where
  "applyTechUpgrade s ty =
     (let lvl = techLevels s ty;
          c = TECH_COST_BASE + (lvl - 1) * TECH_COST_INCREASE
      in if c \<le> coins s
         then (let newLevel = lvl + 1
               in Inr (s\<lparr>coins := coins s - c,
                         techLevels := (techLevels s)(ty := newLevel),
                         entities := map (\<lambda>ent. if side ent = PLAYER \<and> etype ent = ty
                                                then (let newStats = getUnitStats (etype ent) (level ent) newLevel
                                                                       (artifactLevels s)
                                                      in ent\<lparr>maxHp := st_hp newStats, hp := st_hp newStats\<rparr>)
                                                else ent) (entities s)\<rparr>))
         else Inl NotEnoughCoins)"

text \<open>\<^verbatim>\<open>applyGlobalUpgrade\<close>: refused at the maximum level; otherwise pay, raise the
  level, and for mythic mastery restore every player mythic unit to the full hit points
  of the new level.\<close>

definition applyGlobalUpgrade :: "app_state \<Rightarrow> global_tech_type \<Rightarrow> shop_error + app_state" where
  "applyGlobalUpgrade s gt =
     (let lvl = globalTech s gt
      in if int (gt_maxLevel gt) \<le> lvl then Inl MaxLevelReached
         else (let c = gt_baseCost gt + (lvl - 1) * gt_costInc gt
               in if c \<le> coins s
                  then (let newLvl = lvl + 1
                        in Inr (s\<lparr>coins := coins s - c,
                                  globalTech := (globalTech s)(gt := newLvl),
                                  entities :=
                                    (if gt = MYTHIC_MASTERY
                                     then map (\<lambda>ent. if side ent = PLAYER \<and> tier (UNIT_BASE_STATS (etype ent)) = MYTHIC
                                                     then (let newStats = getUnitStats (etype ent) (level ent) newLvl
                                                                            (artifactLevels s)
                                                           in ent\<lparr>maxHp := st_hp newStats, hp := st_hp newStats\<rparr>)
                                                     else ent) (entities s)
                                     else entities s)\<rparr>))
                  else Inl NotEnoughCoins))"

text \<open>\<^verbatim>\<open>handleBuyArtifact\<close>: pay the artifact price, raise a random artifact (\<open>r\<close> is
  the \<^verbatim>\<open>Math.random()\<close> draw), recompute every player unit's maximum hit points and
  shift its current hit points by the same amount, and raise the price.\<close>

definition handleBuyArtifact :: "app_state \<Rightarrow> real \<Rightarrow> shop_error + app_state" where
  "handleBuyArtifact s r =
     (if artifactCost s \<le> coins s
      then (let randomType = pick all_artifact_types r;
                newLvl = artifactLevels s randomType + 1;
                newLevels = (artifactLevels s)(randomType := newLvl)
            in Inr (s\<lparr>coins := coins s - artifactCost s,
                      artifactLevels := newLevels,
                      entities := map (\<lambda>ent. if side ent = PLAYER
                                             then (let techLvl = playerTech s (etype ent);
                                                       newStats = getUnitStats (etype ent) (level ent) techLvl newLevels
                                                   in ent\<lparr>maxHp := st_hp newStats,
                                                          hp := hp ent + (st_hp newStats - maxHp ent)\<rparr>)
                                             else ent) (entities s),
                      artifactCost := artifactCost s + ARTIFACT_COST_INCREASE\<rparr>))
      else Inl NotEnoughCoins)"

text \<open>\<^verbatim>\<open>handleSellUnit\<close>: a fifth of the unit's value, the value being the tier price
  at the current recruit cost times \<^verbatim>\<open>Math.pow(2, level - 1)\<close> (written
  \<open>2 ^ level / 2\<close>, which is exact also for level 0).\<close>

definition sellRefund :: "app_state \<Rightarrow> entity \<Rightarrow> int" where
  "sellRefund s u =
     (let baseValue = \<lfloor>real_of_int (recruitCost s) * tier_costMult (tier (UNIT_BASE_STATS (etype u)))\<rfloor>;
          totalValue = real_of_int baseValue * 2 ^ level u / 2
      in \<lfloor>totalValue * 0.2\<rfloor>)"

definition handleSellUnit :: "app_state \<Rightarrow> shop_error + app_state" where
  "handleSellUnit s =
     (case selectedUnit s of
        None \<Rightarrow> Inl NothingToSell
      | Some u \<Rightarrow>
          if side u \<noteq> PLAYER then Inl NothingToSell
          else Inr (s\<lparr>coins := coins s + sellRefund s u,
                      entities := filter (\<lambda>e. eid e \<noteq> eid u) (entities s),
                      selectedUnit := None\<rparr>))"

text \<open>\<^verbatim>\<open>handleSynthesize\<close>: the price check, the two ingredients (the second with
  another id) among the player's units, then the updater: remove both and add the
  recipe's unit at level 1 in the first ingredient's cell.\<close>

definition findIngredients :: "synthesis_recipe \<Rightarrow> entity list \<Rightarrow> (entity \<times> entity) option" where
  "findIngredients recipe es =
     (let playerEntities = filter (\<lambda>e. side e = PLAYER) es;
          ing1 = find (\<lambda>e. etype e = ingredients recipe ! 0 \<and> minLevel recipe \<le> level e) playerEntities
      in case ing1 of
           None \<Rightarrow> None
         | Some i1 \<Rightarrow>
             (case find (\<lambda>e. etype e = ingredients recipe ! 1 \<and> minLevel recipe \<le> level e \<and> eid e \<noteq> eid i1)
                     playerEntities of
                None \<Rightarrow> None
              | Some i2 \<Rightarrow> Some (i1, i2)))"

definition handleSynthesize ::
  "app_state \<Rightarrow> synthesis_recipe \<Rightarrow> entity_id \<Rightarrow> shop_error + app_state" where
  "handleSynthesize s recipe newId =
     (if coins s < cost recipe then Inl NotEnoughCoins
      else (case findIngredients recipe (entities s) of
              None \<Rightarrow> Inl MissingIngredients
            | Some (ing1, ing2) \<Rightarrow>
                Inr (s\<lparr>coins := coins s - cost recipe,
                       entities :=
                         (let prev = entities s
                          in if list_ex (\<lambda>e. eid e = eid ing1) prev \<and> list_ex (\<lambda>e. eid e = eid ing2) prev
                             then filter (\<lambda>e. eid e \<noteq> eid ing1 \<and> eid e \<noteq> eid ing2) prev
                                  @ [createEntity newId (result recipe) 1 PLAYER (gridX ing1) (gridY ing1)
                                       (playerTech s (result recipe)) (artifactLevels s)]
                             else prev)\<rparr>)))"

text \<open>\<^verbatim>\<open>claimAchievement\<close>: paid once per achievement id.\<close>

definition claimAchievement :: "app_state \<Rightarrow> string \<Rightarrow> int \<Rightarrow> shop_error + app_state" where
  "claimAchievement s achId reward =
     (if achId \<in> claimedAchievements s then Inl AlreadyClaimed
      else Inr (s\<lparr>coins := coins s + reward,
                  claimedAchievements := insert achId (claimedAchievements s)\<rparr>))"

definition hasClaimableAchievements :: "app_state \<Rightarrow> bool" where
  "hasClaimableAchievements s =
     list_ex (\<lambda>ach. ach_target ach \<le> stat_value (gameStats s) (ach_type ach)
                     \<and> ach_id ach \<notin> claimedAchievements s) ACHIEVEMENTS"

text \<open>The supply drop: the once-a-second timer sets the flag 30 seconds after the last
  claim (outside difficulty selection); \<^verbatim>\<open>claimSupply\<close> pays
  \<^verbatim>\<open>Math.floor((100 + level * 10) * goldMult)\<close> and restarts the clock.\<close>

definition supplyTimerTick :: "app_state \<Rightarrow> millis \<Rightarrow> app_state" where
  "supplyTimerTick s now =
     (if \<not> canClaimSupply s \<and> now - lastSupplyTime s > 30000 \<and> phase s \<noteq> DIFFICULTY_SELECT
      then s\<lparr>canClaimSupply := True\<rparr> else s)"

definition claimSupply :: "app_state \<Rightarrow> millis \<Rightarrow> app_state" where
  "claimSupply s now =
     (let baseAmount = 100 + int (levelNo s) * 10;
          mult = getGoldMultiplier s;
          finalAmount = \<lfloor>real_of_int baseAmount * mult\<rfloor>
      in s\<lparr>coins := coins s + finalAmount, lastSupplyTime := now, canClaimSupply := False\<rparr>)"

text \<open>Preparation states for the witnesses: two level-1 archers (the merge scenario)
  with the first one selected, and a level-3 infantry and tank for the paladin recipe.\<close>

definition sell_demo :: app_state where
  "sell_demo = merge_demo\<lparr>selectedUnit := Some (demo_archer 1 0)\<rparr>"

definition synth_demo :: app_state where
  "synth_demo = merge_demo\<lparr>entities := [createEntity 1 INFANTRY 3 PLAYER 0 7 1 no_artifacts,
                                         createEntity 2 TANK 3 PLAYER 1 7 1 no_artifacts]\<rparr>"

subsection \<open>Scans, rolls and the shape of a purchase\<close>

lemma set_availableSpots:
  "p \<in> set (availableSpots es) \<longleftrightarrow>
     0 \<le> fst p \<and> fst p < GRID_COLS \<and> GRID_ROWS div 2 \<le> snd p \<and> snd p < GRID_ROWS
     \<and> (\<forall>e \<in> set es. \<not> (gridX e = fst p \<and> gridY e = snd p \<and> 0 < hp e))"
proof -
  have c: "set (concat (map (\<lambda>y. concat (map (\<lambda>x. if Q x y then [(x, y)] else []) xs)) ys))
      = {(x, y). x \<in> set xs \<and> y \<in> set ys \<and> Q x y}" for Q :: "int \<Rightarrow> int \<Rightarrow> bool" and xs ys
    by auto
  show ?thesis
    unfolding availableSpots_def c by (cases p) (auto simp: find_None_iff)
qed

lemma tier_units_tier: "ty \<in> set (tier_units t) \<Longrightarrow> tier (UNIT_BASE_STATS ty) = t"
  by (simp add: tier_units_def)

lemma tier_units_nonempty: "tier_units t \<noteq> []"
  by (cases t) (simp_all add: tier_units_def all_unit_types_def)

lemma pick_tier:
  "0 \<le> r \<Longrightarrow> r < 1 \<Longrightarrow> tier (UNIT_BASE_STATS (pick (tier_units t) r)) = t"
  using pick_in_set [OF tier_units_nonempty] tier_units_tier by blast

lemma handleBuyUnit_Inr:
  assumes "handleBuyUnit s b rand r2 newId = Inr s'"
  obtains x y rest where "availableSpots (entities s) = (x, y) # rest"
    "int (playerUnitCount (entities s)) < maxUnitCap s" "buyCost s b \<le> coins s"
    "s' = s\<lparr>coins := coins s - buyCost s b,
              recruitCost := (case b of SPECIFIC _ \<Rightarrow> recruitCost s | _ \<Rightarrow> recruitCost s + RECRUIT_COST_INCREASE),
              unitCosts := (case b of SPECIFIC ty \<Rightarrow> (unitCosts s)(ty := unitCosts s ty + 10) | _ \<Rightarrow> unitCosts s),
              entities := entities s @ [createEntity newId (rollType (real_of_int (globalTech s LUCK - 1)) b rand r2)
                   1 PLAYER x y (playerTech s (rollType (real_of_int (globalTech s LUCK - 1)) b rand r2))
                   (artifactLevels s)],
              gameStats := (gameStats s)\<lparr>summons := summons (gameStats s) + 1\<rparr>\<rparr>"
  using assms
  by (auto simp: handleBuyUnit_def Let_def not_le split: if_splits list.splits prod.splits)

lemma createEntity_fields [simp]:
  "eid (createEntity i ty lvl sd gx gy T arts) = i"
  "etype (createEntity i ty lvl sd gx gy T arts) = ty"
  "level (createEntity i ty lvl sd gx gy T arts) = lvl"
  "side (createEntity i ty lvl sd gx gy T arts) = sd"
  "gridX (createEntity i ty lvl sd gx gy T arts) = gx"
  "gridY (createEntity i ty lvl sd gx gy T arts) = gy"
  "maxHp (createEntity i ty lvl sd gx gy T arts) = st_hp (getUnitStats ty lvl T arts)"
  by (simp_all add: createEntity_def Let_def)

lemma placement_ok_snoc:
  assumes "placement_ok es" "eid u \<notin> eid ` set es" "1 \<le> level u" "0 < hp u" "cell u \<notin> cell ` set es"
  shows "placement_ok (es @ [u])"
  using assms by (auto simp: placement_ok_def roster_ok_def)

lemma free_spot_cell:
  assumes "placement_ok es" "p \<in> set (availableSpots es)"
  shows "p \<notin> cell ` set es"
  using assms by (auto simp: placement_ok_def set_availableSpots cell_def)

lemma playerUnitCount_snoc [simp]:
  "playerUnitCount (es @ [u]) = playerUnitCount es + (if side u = PLAYER then 1 else 0)"
  by (simp add: playerUnitCount_def)

subsection \<open>Research, selling, synthesis and rewards\<close>

lemma playerTech_nonmythic:
  "tier (UNIT_BASE_STATS ty) \<noteq> MYTHIC \<Longrightarrow> playerTech s ty = techLevels s ty"
  by (simp add: playerTech_def getPlayerTechLevel_def)

lemma sellRefund_nonneg: "0 \<le> recruitCost s \<Longrightarrow> 0 \<le> sellRefund s u"
proof -
  assume r: "0 \<le> recruitCost s"
  have "0 \<le> tier_costMult t" for t by (cases t) simp_all
  then have "0 \<le> \<lfloor>real_of_int (recruitCost s) * tier_costMult (tier (UNIT_BASE_STATS (etype u)))\<rfloor>"
    using r by simp
  then show ?thesis by (simp add: sellRefund_def Let_def)
qed

lemma find_SomeD: "find P xs = Some x \<Longrightarrow> x \<in> set xs \<and> P x"
  by (induction xs) (auto split: if_splits)

lemma findIngredients_SomeD:
  assumes "findIngredients recipe es = Some (i1, i2)"
  shows "i1 \<in> set es \<and> i2 \<in> set es \<and> eid i2 \<noteq> eid i1 \<and> side i1 = PLAYER \<and> side i2 = PLAYER"
  using assms
  by (auto simp: findIngredients_def Let_def split: option.splits dest!: find_SomeD)

lemma length_filter_eid:
  "distinct (map eid es) \<Longrightarrow> a \<in> eid ` set es \<Longrightarrow> length (filter (\<lambda>e. eid e \<noteq> a) es) = length es - 1"
proof (induction es)
  case Nil
  then show ?case by simp
next
  case (Cons e es)
  show ?case
  proof (cases "eid e = a")
    case True
    have "eid e \<notin> set (map eid es)" using Cons.prems(1) by simp
    with True have "\<forall>x \<in> set es. eid x \<noteq> a" by (metis list.set_map rev_image_eqI)
    with True show ?thesis by simp
  next
    case False
    with Cons.prems have "a \<in> eid ` set es" by auto
    with Cons False have "length (filter (\<lambda>e. eid e \<noteq> a) es) = length es - 1" by simp
    moreover have "es \<noteq> []" using \<open>a \<in> eid ` set es\<close> by auto
    ultimately show ?thesis using False by simp
  qed
qed

lemma length_filter_two_eids:
  assumes "distinct (map eid es)" "x \<in> set es" "y \<in> set es" "eid y \<noteq> eid x"
  shows "length (filter (\<lambda>e. eid e \<noteq> eid x \<and> eid e \<noteq> eid y) es) = length es - 2"
proof -
  have "filter (\<lambda>e. eid e \<noteq> eid x \<and> eid e \<noteq> eid y) es = filter (\<lambda>e. eid e \<noteq> eid x) (filter (\<lambda>e. eid e \<noteq> eid y) es)"
    by (simp add: conj_commute)
  moreover have "length (filter (\<lambda>e. eid e \<noteq> eid y) es) = length es - 1"
    using assms by (intro length_filter_eid) auto
  moreover have "length (filter (\<lambda>e. eid e \<noteq> eid x) (filter (\<lambda>e. eid e \<noteq> eid y) es))
      = length (filter (\<lambda>e. eid e \<noteq> eid y) es) - 1"
    using assms by (intro length_filter_eid) (auto simp: distinct_map_filter)
  ultimately show ?thesis by simp
qed

lemma placement_ok_filter: "placement_ok es \<Longrightarrow> placement_ok (filter P es)"
  by (auto simp: placement_ok_def roster_ok_def distinct_map_filter)

lemma cell_free_after_filter:
  assumes "placement_ok es" "x \<in> set es"
  shows "cell x \<notin> cell ` set (filter (\<lambda>e. eid e \<noteq> eid x \<and> Q e) es)"
proof
  assume "cell x \<in> cell ` set (filter (\<lambda>e. eid e \<noteq> eid x \<and> Q e) es)"
  then obtain e where e: "e \<in> set es" "eid e \<noteq> eid x" "cell e = cell x" by auto
  have "inj_on cell (set es)" using assms(1) by (simp add: placement_ok_def distinct_map)
  then have "e = x" using e(1,3) assms(2) by (auto dest: inj_onD)
  with e(2) show False by simp
qed

lemma floor_ge_base: "0 \<le> b \<Longrightarrow> 1 \<le> m \<Longrightarrow> b \<le> \<lfloor>real_of_int b * m\<rfloor>"
  using floor_mono_mult_ge1 [of "real_of_int b" m] by simp

subsection \<open>The witness states\<close>

lemma merge_demo_facts:
  "entities merge_demo = [demo_archer 1 0, demo_archer 2 1]" "coins merge_demo = 2000"
  "maxUnitCap merge_demo = 10" "playerTech merge_demo = (\<lambda>_. 1)" "artifactLevels merge_demo = (\<lambda>_. 0)"
  "unitCosts merge_demo = initialUnitCosts" "globalTech merge_demo = (\<lambda>_. 1)"
  by (simp_all add: merge_demo_def initialState_def maxUnitCap_def BASE_UNIT_CAP_def playerTech_def
      getPlayerTechLevel_def fun_eq_iff)

lemma demo_archer_fields [simp]:
  "gridX (demo_archer k x) = x" "gridY (demo_archer k x) = 7" "0 < hp (demo_archer k x)"
  "side (demo_archer k x) = PLAYER" "eid (demo_archer k x) = k" "level (demo_archer k x) = 1"
  by (simp_all add: demo_archer_def getUnitStats_hp_pos)

lemma merge_demo_spots: "\<exists>rest. availableSpots (entities merge_demo) = (2, 7) # rest"
  by (simp add: merge_demo_facts availableSpots_def GRID_ROWS_def GRID_COLS_def upto.simps)

lemma merge_demo_buy: "\<exists>s'. handleBuyUnit merge_demo (SPECIFIC TANK) 0 0 3 = Inr s'"
proof -
  obtain rest where sp: "availableSpots (entities merge_demo) = (2, 7) # rest"
    using merge_demo_spots by blast
  have c: "buyCost merge_demo (SPECIFIC TANK) \<le> 2000"
    by (simp add: buyCost_def merge_demo_facts initialUnitCosts_def RECRUIT_COST_def)
  show ?thesis using c sp by (simp add: handleBuyUnit_def merge_demo_facts playerUnitCount_def Let_def)
qed

lemma merge_demo_ok: "placement_ok (entities merge_demo)"
  by (simp add: merge_demo_facts placement_ok_def roster_ok_def cell_def)

lemma synth_demo_facts:
  "coins synth_demo = 2000" "playerTech synth_demo = (\<lambda>_. 1)" "artifactLevels synth_demo = (\<lambda>_. 0)"
  "entities synth_demo = [createEntity 1 INFANTRY 3 PLAYER 0 7 1 no_artifacts,
                          createEntity 2 TANK 3 PLAYER 1 7 1 no_artifacts]"
  by (simp_all add: synth_demo_def merge_demo_facts playerTech_def getPlayerTechLevel_def fun_eq_iff
      merge_demo_def initialState_def)

subsection \<open>Properties of the economy handlers\<close>

text \<open>
  C10. Recruiting keeps the placement invariant: with a fresh id and tech levels of at least
  one, a successful purchase adds a living level-1 unit on a cell no unit occupies.
\<close>

theorem handleBuyUnit_placement_ok:
  assumes ok: "placement_ok (entities s)" and fresh: "newId \<notin> eid ` set (entities s)"
    and tech: "\<forall>t. 1 \<le> playerTech s t"
    and res: "handleBuyUnit s b rand r2 newId = Inr s'"
  shows "placement_ok (entities s')"
proof -
  obtain x y rest where sp: "availableSpots (entities s) = (x, y) # rest"
    and s': "entities s' = entities s @ [createEntity newId (rollType (real_of_int (globalTech s LUCK - 1)) b rand r2)
                   1 PLAYER x y (playerTech s (rollType (real_of_int (globalTech s LUCK - 1)) b rand r2))
                   (artifactLevels s)]"
    using res by (rule handleBuyUnit_Inr) simp
  have "(x, y) \<notin> cell ` set (entities s)" using free_spot_cell [OF ok] sp by simp
  then show ?thesis unfolding s'
    using ok fresh tech by (intro placement_ok_snoc) (simp_all add: getUnitStats_hp_pos cell_def)
qed

theorem handleBuyUnit_placement_ok_witness:
  "\<exists>s'. handleBuyUnit merge_demo (SPECIFIC TANK) 0 0 3 = Inr s' \<and> placement_ok (entities s')"
proof -
  obtain s' where r: "handleBuyUnit merge_demo (SPECIFIC TANK) 0 0 3 = Inr s'" using merge_demo_buy by blast
  have "placement_ok (entities s')"
    using handleBuyUnit_placement_ok [OF merge_demo_ok _ _ r] by (simp add: merge_demo_facts)
  with r show ?thesis by blast
qed

text \<open>
  C11. A successful purchase respects the unit cap (the player's unit count after it is at
  most \<^verbatim>\<open>maxUnitCap\<close>), adds exactly one player unit, charges exactly the price of
  the chosen kind, never overdraws the coins and counts one summon.
\<close>

theorem handleBuyUnit_budget:
  assumes "handleBuyUnit s b rand r2 newId = Inr s'"
  shows "int (playerUnitCount (entities s')) \<le> maxUnitCap s'
       \<and> playerUnitCount (entities s') = playerUnitCount (entities s) + 1
       \<and> coins s' = coins s - buyCost s b \<and> 0 \<le> coins s'
       \<and> summons (gameStats s') = summons (gameStats s) + 1"
proof -
  obtain x y rest where "int (playerUnitCount (entities s)) < maxUnitCap s" "buyCost s b \<le> coins s"
    and s': "s' = s\<lparr>coins := coins s - buyCost s b,
              recruitCost := (case b of SPECIFIC _ \<Rightarrow> recruitCost s | _ \<Rightarrow> recruitCost s + RECRUIT_COST_INCREASE),
              unitCosts := (case b of SPECIFIC ty \<Rightarrow> (unitCosts s)(ty := unitCosts s ty + 10) | _ \<Rightarrow> unitCosts s),
              entities := entities s @ [createEntity newId (rollType (real_of_int (globalTech s LUCK - 1)) b rand r2)
                   1 PLAYER x y (playerTech s (rollType (real_of_int (globalTech s LUCK - 1)) b rand r2))
                   (artifactLevels s)],
              gameStats := (gameStats s)\<lparr>summons := summons (gameStats s) + 1\<rparr>\<rparr>"
    using assms by (rule handleBuyUnit_Inr)
  then show ?thesis by (simp add: maxUnitCap_def)
qed

theorem handleBuyUnit_budget_witness:
  "\<exists>s'. handleBuyUnit merge_demo (SPECIFIC TANK) 0 0 3 = Inr s' \<and> playerUnitCount (entities s') = 3"
proof -
  obtain s' where r: "handleBuyUnit merge_demo (SPECIFIC TANK) 0 0 3 = Inr s'" using merge_demo_buy by blast
  have "playerUnitCount (entities s') = 3"
    using handleBuyUnit_budget [OF r] by (simp add: merge_demo_facts playerUnitCount_def)
  with r show ?thesis by blast
qed

text \<open>
  A purchased unit stands on the first free cell of the scan (bottom row first, left to
  right), inside the player's half of the grid, at level 1 with the given id and full health.
\<close>

theorem handleBuyUnit_spot:
  assumes "handleBuyUnit s b rand r2 newId = Inr s'"
  shows "cell (last (entities s')) = hd (availableSpots (entities s))
       \<and> GRID_ROWS div 2 \<le> gridY (last (entities s')) \<and> gridY (last (entities s')) < GRID_ROWS
       \<and> 0 \<le> gridX (last (entities s')) \<and> gridX (last (entities s')) < GRID_COLS
       \<and> side (last (entities s')) = PLAYER \<and> level (last (entities s')) = 1
       \<and> eid (last (entities s')) = newId \<and> hp (last (entities s')) = maxHp (last (entities s'))"
proof -
  obtain x y rest where sp: "availableSpots (entities s) = (x, y) # rest"
    and s': "entities s' = entities s @ [createEntity newId (rollType (real_of_int (globalTech s LUCK - 1)) b rand r2)
                   1 PLAYER x y (playerTech s (rollType (real_of_int (globalTech s LUCK - 1)) b rand r2))
                   (artifactLevels s)]"
    using assms by (rule handleBuyUnit_Inr) simp
  have "(x, y) \<in> set (availableSpots (entities s))" using sp by simp
  then have "GRID_ROWS div 2 \<le> y \<and> y < GRID_ROWS \<and> 0 \<le> x \<and> x < GRID_COLS"
    unfolding set_availableSpots by simp
  with sp show ?thesis by (simp add: s' cell_def)
qed

theorem handleBuyUnit_spot_witness:
  "\<exists>s'. handleBuyUnit merge_demo (SPECIFIC TANK) 0 0 3 = Inr s' \<and> cell (last (entities s')) = (2, 7)"
proof -
  obtain rest where sp: "availableSpots (entities merge_demo) = (2, 7) # rest"
    using merge_demo_spots by blast
  have c: "buyCost merge_demo (SPECIFIC TANK) \<le> 2000"
    by (simp add: buyCost_def merge_demo_facts initialUnitCosts_def RECRUIT_COST_def)
  have "\<exists>s'. handleBuyUnit merge_demo (SPECIFIC TANK) 0 0 3 = Inr s'"
    using c sp by (simp add: handleBuyUnit_def merge_demo_facts playerUnitCount_def Let_def)
  then obtain s' where r: "handleBuyUnit merge_demo (SPECIFIC TANK) 0 0 3 = Inr s'" by blast
  show ?thesis using r handleBuyUnit_spot [OF r] sp by auto
qed

text \<open>
  C37. The normal gacha never yields a mythic unit, and the premium gacha only yields rare,
  epic or legendary units, for every luck level and every pair of random draws.
\<close>

theorem rolls_tiers:
  assumes "0 \<le> r2" and "r2 < 1"
  shows "tier (UNIT_BASE_STATS (rollRandom luckLvl rand r2)) \<noteq> MYTHIC
       \<and> tier (UNIT_BASE_STATS (rollPremium luckLvl rand r2)) \<in> {RARE, EPIC, LEGENDARY}"
  using pick_tier [OF assms] by (simp add: rollRandom_def rollPremium_def Let_def)

theorem rolls_tiers_witness:
  "tier (UNIT_BASE_STATS (rollRandom 0 0.995 0.5)) \<noteq> MYTHIC"
  using rolls_tiers [of "1/2" 0 "0.995"] by simp

text \<open>
  The normal gacha's label in the shop promises common to epic units only, while its roll
  gives a legendary unit when the first draw is above the legendary threshold.
\<close>

lemma normal_gacha_legendary: "tier (UNIT_BASE_STATS (rollRandom 0 0.995 0.5)) = LEGENDARY"
  using pick_tier [of "0.5" LEGENDARY] by (simp add: rollRandom_def Let_def)

text \<open>
  Researching a non-mythic unit type charges
  \<^verbatim>\<open>TECH_COST_BASE + (lvl - 1) * TECH_COST_INCREASE\<close>, raises that type's tech level
  by one, keeps the roster's ids, and leaves every player unit of that type at full health
  equal to its derived hit points at the new effective tech level.
\<close>

theorem applyTechUpgrade_effect:
  assumes res: "applyTechUpgrade s ty = Inr s'" and nm: "tier (UNIT_BASE_STATS ty) \<noteq> MYTHIC"
  shows "coins s' = coins s - (TECH_COST_BASE + (techLevels s ty - 1) * TECH_COST_INCREASE) \<and> 0 \<le> coins s'
       \<and> techLevels s' = (techLevels s)(ty := techLevels s ty + 1)
       \<and> map eid (entities s') = map eid (entities s)
       \<and> (\<forall>e \<in> set (entities s'). side e = PLAYER \<and> etype e = ty \<longrightarrow>
            hp e = maxHp e \<and> maxHp e = st_hp (getUnitStats ty (level e) (playerTech s' ty) (artifactLevels s')))"
proof -
  let ?c = "TECH_COST_BASE + (techLevels s ty - 1) * TECH_COST_INCREASE"
  have c: "?c \<le> coins s" using res by (simp add: applyTechUpgrade_def Let_def split: if_splits)
  have s': "s' = s\<lparr>coins := coins s - ?c, techLevels := (techLevels s)(ty := techLevels s ty + 1),
      entities := map (\<lambda>ent. if side ent = PLAYER \<and> etype ent = ty
                             then ent\<lparr>maxHp := st_hp (getUnitStats (etype ent) (level ent) (techLevels s ty + 1) (artifactLevels s)),
                                      hp := st_hp (getUnitStats (etype ent) (level ent) (techLevels s ty + 1) (artifactLevels s))\<rparr>
                             else ent) (entities s)\<rparr>"
    using res c unfolding applyTechUpgrade_def Let_def by auto
  have t: "playerTech s' ty = techLevels s ty + 1" using nm by (simp add: playerTech_nonmythic s')
  have E: "\<forall>e \<in> set (entities s'). side e = PLAYER \<and> etype e = ty \<longrightarrow>
      hp e = maxHp e \<and> maxHp e = st_hp (getUnitStats ty (level e) (techLevels s ty + 1) (artifactLevels s))"
  proof (intro ballI impI)
    fix e assume "e \<in> set (entities s')" and pe: "side e = PLAYER \<and> etype e = ty"
    then obtain x where "x \<in> set (entities s)" and ex: "e = (if side x = PLAYER \<and> etype x = ty
        then x\<lparr>maxHp := st_hp (getUnitStats (etype x) (level x) (techLevels s ty + 1) (artifactLevels s)),
               hp := st_hp (getUnitStats (etype x) (level x) (techLevels s ty + 1) (artifactLevels s))\<rparr>
        else x)" unfolding s' by auto
    then have "side x = PLAYER \<and> etype x = ty" using pe by (auto split: if_splits)
    then show "hp e = maxHp e \<and> maxHp e = st_hp (getUnitStats ty (level e) (techLevels s ty + 1) (artifactLevels s))"
      using ex by simp
  qed
  have A: "artifactLevels s' = artifactLevels s" by (simp add: s')
  have M: "map eid (entities s') = map eid (entities s)" by (simp add: s' comp_def)
  have C: "coins s' = coins s - ?c" "techLevels s' = (techLevels s)(ty := techLevels s ty + 1)"
    by (simp_all add: s')
  show ?thesis unfolding t A C using c E M by simp
qed

theorem applyTechUpgrade_effect_witness:
  "\<exists>s'. applyTechUpgrade merge_demo ARCHER = Inr s' \<and> techLevels s' ARCHER = 2"
proof -
  have "\<exists>s'. applyTechUpgrade merge_demo ARCHER = Inr s'"
    by (simp add: applyTechUpgrade_def Let_def merge_demo_def initialState_def TECH_COST_BASE_def)
  then obtain s' where r: "applyTechUpgrade merge_demo ARCHER = Inr s'" by blast
  have "techLevels s' ARCHER = 2"
    using applyTechUpgrade_effect [OF r] by (simp add: merge_demo_def initialState_def)
  with r show ?thesis by blast
qed

text \<open>
  A global research step raises exactly one global tech level by one and never beyond
  its maximum, charges its price without overdrawing, and a barracks (capacity) step
  raises the unit cap by \<^verbatim>\<open>UNIT_CAP_PER_LEVEL\<close>.
\<close>

theorem applyGlobalUpgrade_effect:
  assumes res: "applyGlobalUpgrade s gt = Inr s'"
  shows "globalTech s' = (globalTech s)(gt := globalTech s gt + 1)
       \<and> globalTech s' gt \<le> int (gt_maxLevel gt) \<and> 0 \<le> coins s'
       \<and> coins s' = coins s - (gt_baseCost gt + (globalTech s gt - 1) * gt_costInc gt)
       \<and> maxUnitCap s' = maxUnitCap s + (if gt = CAPACITY then int UNIT_CAP_PER_LEVEL else 0)"
  using res by (auto simp: applyGlobalUpgrade_def Let_def maxUnitCap_def left_diff_distrib distrib_right split: if_splits)

theorem applyGlobalUpgrade_effect_witness:
  "\<exists>s'. applyGlobalUpgrade merge_demo CAPACITY = Inr s' \<and> maxUnitCap s' = 12"
proof -
  have "\<exists>s'. applyGlobalUpgrade merge_demo CAPACITY = Inr s'"
    by (simp add: applyGlobalUpgrade_def Let_def merge_demo_def initialState_def)
  then obtain s' where r: "applyGlobalUpgrade merge_demo CAPACITY = Inr s'" by blast
  have "maxUnitCap s' = 12"
    using applyGlobalUpgrade_effect [OF r] by (simp add: merge_demo_facts UNIT_CAP_PER_LEVEL_def)
  with r show ?thesis by blast
qed

text \<open>
  Buying an artifact raises exactly one artifact level by one, charges the current price,
  raises the price by \<^verbatim>\<open>ARTIFACT_COST_INCREASE\<close>, and keeps every unit's missing hit
  points (maximum minus current), so that a unit is healed by exactly its gain in maximum.
\<close>

theorem handleBuyArtifact_effect:
  assumes res: "handleBuyArtifact s r = Inr s'"
  shows "(\<exists>t. artifactLevels s' = (artifactLevels s)(t := artifactLevels s t + 1))
       \<and> coins s' = coins s - artifactCost s \<and> 0 \<le> coins s'
       \<and> artifactCost s' = artifactCost s + ARTIFACT_COST_INCREASE
       \<and> map (\<lambda>e. (eid e, maxHp e - hp e)) (entities s') = map (\<lambda>e. (eid e, maxHp e - hp e)) (entities s)"
  using res by (auto simp: handleBuyArtifact_def Let_def split: if_splits)

theorem handleBuyArtifact_effect_witness:
  "\<exists>s'. handleBuyArtifact merge_demo 0 = Inr s' \<and> artifactCost s' = 250"
proof -
  have "\<exists>s'. handleBuyArtifact merge_demo 0 = Inr s'"
    by (simp add: handleBuyArtifact_def Let_def merge_demo_def initialState_def ARTIFACT_COST_BASE_def)
  then obtain s' where r: "handleBuyArtifact merge_demo 0 = Inr s'" by blast
  have "artifactCost s' = 250"
    using handleBuyArtifact_effect [OF r]
    by (simp add: merge_demo_def initialState_def ARTIFACT_COST_BASE_def ARTIFACT_COST_INCREASE_def)
  with r show ?thesis by blast
qed

text \<open>
  Selling the selected player unit pays its non-negative refund, removes exactly the
  entities with its id and clears the selection.
\<close>

theorem handleSellUnit_effect:
  assumes sel: "selectedUnit s = Some u" and res: "handleSellUnit s = Inr s'" and rc: "0 \<le> recruitCost s"
  shows "coins s' = coins s + sellRefund s u \<and> coins s \<le> coins s'
       \<and> set (entities s') = {e \<in> set (entities s). eid e \<noteq> eid u} \<and> selectedUnit s' = None"
  using sel res sellRefund_nonneg [OF rc, of u]
  by (auto simp: handleSellUnit_def split: if_splits)

theorem handleSellUnit_effect_witness:
  "\<exists>s'. handleSellUnit sell_demo = Inr s' \<and> coins sell_demo \<le> coins s'"
proof -
  have "\<exists>s'. handleSellUnit sell_demo = Inr s'" by (simp add: handleSellUnit_def sell_demo_def)
  then obtain s' where r: "handleSellUnit sell_demo = Inr s'" by blast
  have "coins sell_demo \<le> coins s'"
    using handleSellUnit_effect [OF _ r] by (simp add: sell_demo_def merge_demo_def initialState_def RECRUIT_COST_def)
  with r show ?thesis by blast
qed

text \<open>
  C16. Synthesis keeps the placement invariant and consumes exactly two units for one: the
  roster shrinks by one, the new unit is the recipe's result at level 1, and the price is
  paid without overdrawing.
\<close>

theorem handleSynthesize_effect:
  assumes ok: "placement_ok (entities s)" and fresh: "newId \<notin> eid ` set (entities s)"
    and tech: "\<forall>t. 1 \<le> playerTech s t"
    and res: "handleSynthesize s recipe newId = Inr s'"
  shows "placement_ok (entities s') \<and> length (entities s') + 1 = length (entities s)
       \<and> coins s' = coins s - cost recipe \<and> 0 \<le> coins s'
       \<and> etype (last (entities s')) = result recipe \<and> level (last (entities s')) = 1"
proof -
  obtain i1 i2 where fi: "findIngredients recipe (entities s) = Some (i1, i2)" and c: "cost recipe \<le> coins s"
    using res by (auto simp: handleSynthesize_def split: if_splits option.splits)
  have ii: "i1 \<in> set (entities s)" "i2 \<in> set (entities s)" "eid i2 \<noteq> eid i1"
    using findIngredients_SomeD [OF fi] by auto
  let ?rest = "filter (\<lambda>e. eid e \<noteq> eid i1 \<and> eid e \<noteq> eid i2) (entities s)"
  let ?u = "createEntity newId (result recipe) 1 PLAYER (gridX i1) (gridY i1)
              (playerTech s (result recipe)) (artifactLevels s)"
  have ex: "list_ex (\<lambda>e. eid e = eid i1) (entities s)" "list_ex (\<lambda>e. eid e = eid i2) (entities s)"
    using ii by (auto simp: list_ex_iff)
  have s': "coins s' = coins s - cost recipe" "entities s' = ?rest @ [?u]"
    using res fi c ex by (auto simp: handleSynthesize_def)
  have d: "distinct (map eid (entities s))" using ok by (simp add: placement_ok_def roster_ok_def)
  have P: "placement_ok (?rest @ [?u])"
  proof (rule placement_ok_snoc)
    show "placement_ok ?rest" using ok by (rule placement_ok_filter)
    show "eid ?u \<notin> eid ` set ?rest" using fresh by auto
    show "cell ?u \<notin> cell ` set ?rest"
      using cell_free_after_filter [OF ok ii(1), of "\<lambda>e. eid e \<noteq> eid i2"] by (simp add: cell_def)
  qed (simp_all add: tech getUnitStats_hp_pos)
  have L: "length ?rest = length (entities s) - 2"
    using length_filter_two_eids [OF d ii(1) ii(2) ii(3)] .
  have "2 \<le> length (entities s)"
  proof -
    have "{i1, i2} \<subseteq> set (entities s)" using ii by auto
    moreover have "i1 \<noteq> i2" using ii(3) by auto
    then have "card {i1, i2} = 2" by simp
    ultimately have "2 \<le> card (set (entities s))" by (metis card_mono finite_set)
    then show ?thesis using card_length order_trans by blast
  qed
  then show ?thesis using P L c by (simp add: s')
qed

theorem handleSynthesize_effect_witness:
  "\<exists>s'. handleSynthesize synth_demo (hd SYNTHESIS_RECIPES) 3 = Inr s'
        \<and> etype (last (entities s')) = PALADIN"
proof -
  have ok: "placement_ok (entities synth_demo)"
    by (simp add: synth_demo_facts placement_ok_def roster_ok_def cell_def getUnitStats_hp_pos)
  have "\<exists>s'. handleSynthesize synth_demo (hd SYNTHESIS_RECIPES) 3 = Inr s'"
    by (simp add: handleSynthesize_def SYNTHESIS_RECIPES_def synth_demo_facts findIngredients_def)
  then obtain s' where r: "handleSynthesize synth_demo (hd SYNTHESIS_RECIPES) 3 = Inr s'" by blast
  have "etype (last (entities s')) = PALADIN"
    using handleSynthesize_effect [OF ok _ _ r] by (simp add: synth_demo_facts SYNTHESIS_RECIPES_def)
  with r show ?thesis by blast
qed

text \<open>
  C38. An achievement pays its reward once: a successful claim records the id, and claiming
  the same id again is refused.
\<close>

theorem claimAchievement_once:
  assumes "claimAchievement s a r = Inr s'"
  shows "a \<notin> claimedAchievements s \<and> coins s' = coins s + r
       \<and> claimedAchievements s' = insert a (claimedAchievements s)
       \<and> claimAchievement s' a r' = Inl AlreadyClaimed"
  using assms by (auto simp: claimAchievement_def split: if_splits)

theorem claimAchievement_once_witness:
  "\<exists>s'. claimAchievement merge_demo ''kill_1'' 100 = Inr s' \<and> coins s' = 2100"
proof -
  have "\<exists>s'. claimAchievement merge_demo ''kill_1'' 100 = Inr s'"
    by (simp add: claimAchievement_def merge_demo_def initialState_def)
  then obtain s' where r: "claimAchievement merge_demo ''kill_1'' 100 = Inr s'" by blast
  have "coins s' = 2100" using claimAchievement_once [OF r] by (simp add: merge_demo_facts)
  with r show ?thesis by blast
qed

text \<open>
  The supply drop pays at least \<^verbatim>\<open>100 + 10 * level\<close> coins and lowers the flag,
  and the timer raises it again exactly when more than 30 seconds have passed since the
  claim, outside difficulty selection.
\<close>

theorem claimSupply_timer:
  "\<not> canClaimSupply (claimSupply s t0)
   \<and> coins s + 100 + 10 * int (levelNo s) \<le> coins (claimSupply s t0)
   \<and> canClaimSupply (supplyTimerTick (claimSupply s t0) now)
       = (now - t0 > 30000 \<and> phase s \<noteq> DIFFICULTY_SELECT)"
proof -
  have "100 + int (levelNo s) * 10 \<le> \<lfloor>real_of_int (100 + int (levelNo s) * 10) * getGoldMultiplier s\<rfloor>"
    by (rule floor_ge_base) (simp_all add: getGoldMultiplier_def)
  then show ?thesis by (simp add: claimSupply_def supplyTimerTick_def Let_def)
qed

end
