(* ===== verification/Level_Gen.thy ===== *)
theory Level_Gen
  imports Game_Constants
begin

text \<open>
  The procedural level generator \<^verbatim>\<open>generateLevel\<close> of
  \<^verbatim>\<open>src/services/geminiService.ts\<close>. \<^verbatim>\<open>Math.random()\<close> is a stream
  \<open>rnd :: nat \<Rightarrow> real\<close> read at a counter that every draw advances, so one
  stream fixes one run of the generator; the 300 ms delay at the end is not modelled.
  The set of occupied cells is, as in the source, a set of strings
  \<^verbatim>\<open>`${gridX},${gridY}`\<close>: \<open>posKey\<close> prints the key with JavaScript's decimal
  rendering of integers, and the decoder \<open>parse_key\<close> is the specification of what
  the key means. The retry loop (\<^verbatim>\<open>do ... while (occupied.has(key) && attempts < 20)\<close>)
  is \<open>placeAttempt\<close>, a \<^theory_text>\<open>function\<close> whose termination measure is the
  number of attempts left.
\<close>

subsection \<open>Printing and reading the occupancy key\<close>

text \<open>Decimal digits of a natural number, most significant first.\<close>

fun nat_str :: "nat \<Rightarrow> string" where
  "nat_str n = (if n < 10 then [char_of (48 + n)] else nat_str (n div 10) @ [char_of (48 + n mod 10)])"

definition int_str :: "int \<Rightarrow> string" where
  "int_str i = (if i < 0 then CHR ''-'' # nat_str (nat (- i)) else nat_str (nat i))"

definition posKey :: "int \<Rightarrow> int \<Rightarrow> string" where
  "posKey x y = int_str x @ CHR '','' # int_str y"

definition is_digit :: "char \<Rightarrow> bool" where
  "is_digit c \<longleftrightarrow> (48::nat) \<le> of_char c \<and> of_char c \<le> (57::nat)"

definition parse_nat :: "string \<Rightarrow> nat option" where
  "parse_nat s =
     (if s \<noteq> [] \<and> list_all is_digit s then Some (foldl (\<lambda>acc c. 10 * acc + (of_char c - 48)) 0 s)
      else None)"

definition parse_int :: "string \<Rightarrow> int option" where
  "parse_int s =
     (case s of
        c # r \<Rightarrow> if c = CHR ''-'' then map_option (\<lambda>n. - int n) (parse_nat r) else map_option int (parse_nat s)
      | [] \<Rightarrow> None)"

definition parse_key :: "string \<Rightarrow> (int \<times> int) option" where
  "parse_key s =
     (let a = takeWhile (\<lambda>c. c \<noteq> CHR '','') s; b = drop (Suc (length a)) s
      in if length a < length s
         then (case (parse_int a, parse_int b) of (Some x, Some y) \<Rightarrow> Some (x, y) | _ \<Rightarrow> None)
         else None)"

subsection \<open>The generator\<close>

definition enemyMaxRow :: int where
  "enemyMaxRow = GRID_ROWS div 2 - 1"

definition availableTypes :: "nat \<Rightarrow> unit_type list" where
  "availableTypes lvl =
     [INFANTRY, ARCHER] @ (if 3 < lvl then [TANK, SPEARMAN] else [])
     @ (if 6 < lvl then [MAGE, ASSASSIN] else [])
     @ (if 10 < lvl then [GOLEM, DRAGON] else [])"

text \<open>\<^verbatim>\<open>Math.floor(levelNumber / 4.0)\<close> on a natural level number is \<open>div\<close>.\<close>

definition baseCount :: "nat \<Rightarrow> difficulty \<Rightarrow> nat" where
  "baseCount lvl d =
     2 + lvl div 4
     + (case d of HELL \<Rightarrow> 1 + lvl div 5 | HARD \<Rightarrow> lvl div 10 | NORMAL \<Rightarrow> 0)"

definition enemyCount :: "nat \<Rightarrow> difficulty \<Rightarrow> nat" where
  "enemyCount lvl d = min (baseCount lvl d) 16"

definition enemyLevel :: "nat \<Rightarrow> difficulty \<Rightarrow> nat" where
  "enemyLevel lvl d =
     (case d of NORMAL \<Rightarrow> 1 + lvl div 8 | HARD \<Rightarrow> 1 + lvl div 6
              | HELL \<Rightarrow> 2 + lvl div 5)"

text \<open>One run of the retry loop from attempt count \<open>attempts\<close> and draw counter \<open>k\<close>:
  it returns the last cell drawn, the attempts made and the next draw counter.\<close>

function placeAttempt ::
  "(nat \<Rightarrow> real) \<Rightarrow> string set \<Rightarrow> nat \<Rightarrow> nat \<Rightarrow> int \<times> int \<times> nat \<times> nat" where
  "placeAttempt rnd occupied k attempts =
     (let gridX = \<lfloor>rnd k * real_of_int GRID_COLS\<rfloor>;
          gridY = \<lfloor>rnd (Suc k) * real_of_int (enemyMaxRow + 1)\<rfloor>;
          attempts' = attempts + 1
      in if posKey gridX gridY \<in> occupied \<and> attempts' < 20
         then placeAttempt rnd occupied (k + 2) attempts'
         else (gridX, gridY, attempts', k + 2))"
  by pat_completeness auto
termination
  by (relation "measure (\<lambda>(_, _, _, attempts). 20 - attempts)") auto

text \<open>The \<^verbatim>\<open>for (let i = 0; i < count; i++)\<close> loop, \<open>n\<close> iterations left.\<close>

fun genLoop ::
  "(nat \<Rightarrow> real) \<Rightarrow> nat \<Rightarrow> difficulty \<Rightarrow> nat \<Rightarrow> string set \<Rightarrow> nat \<Rightarrow> enemy_spec list
   \<Rightarrow> enemy_spec list \<times> nat" where
  "genLoop rnd lvl d 0 occupied k acc = (acc, k)"
| "genLoop rnd lvl d (Suc n) occupied k acc =
     (let (gridX, gridY, attempts, k') = placeAttempt rnd occupied k 0
      in if attempts < 20
         then (let types = availableTypes lvl;
                   ty = pick types (rnd k')
               in genLoop rnd lvl d n (insert (posKey gridX gridY) occupied) (Suc k')
                    (acc @ [\<lparr>sp_type = ty, sp_level = enemyLevel lvl d, sp_side = ENEMY,
                              sp_gridX = gridX, sp_gridY = gridY\<rparr>]))
         else genLoop rnd lvl d n occupied k' acc)"

definition generateLevel :: "nat \<Rightarrow> difficulty \<Rightarrow> (nat \<Rightarrow> real) \<Rightarrow> level_config" where
  "generateLevel lvl d rnd =
     \<lparr>levelNumber = lvl,
      enemies = fst (genLoop rnd lvl d (enemyCount lvl d) {} 0 [])\<rparr>"

text \<open>What a generated enemy must satisfy: its cell, and that it lies in the enemy half
  of the grid, is an enemy of the level's enemy level and of an available type.\<close>

definition spec_cell :: "enemy_spec \<Rightarrow> int \<times> int" where
  "spec_cell e = (sp_gridX e, sp_gridY e)"

definition spec_ok :: "nat \<Rightarrow> difficulty \<Rightarrow> enemy_spec \<Rightarrow> bool" where
  "spec_ok lvl d e \<longleftrightarrow>
     0 \<le> sp_gridX e \<and> sp_gridX e < GRID_COLS \<and> 0 \<le> sp_gridY e \<and> sp_gridY e \<le> enemyMaxRow
     \<and> sp_side e = ENEMY \<and> sp_level e = enemyLevel lvl d \<and> sp_type e \<in> set (availableTypes lvl)"

text \<open>A draw sequence under which the second enemy of level 1 finds the occupied cell
  (0, 0) nineteen times and a free cell on its twentieth attempt.\<close>

definition twentieth_rnd :: "nat \<Rightarrow> real" where
  "twentieth_rnd k = (if k < 41 then 0 else 1 / 2)"

declare nat_str.simps [simp del] placeAttempt.simps [simp del]

subsection \<open>Decimal printing and reading\<close>

lemma digit_char: "d < 10 \<Longrightarrow> is_digit (char_of (48 + d)) \<and> of_char (char_of (48 + d)) - 48 = (d::nat)"
  by (simp add: is_digit_def)

lemma nat_str_small: "n < 10 \<Longrightarrow> nat_str n = [char_of (48 + n)]"
  by (subst nat_str.simps) simp

lemma nat_str_big: "\<not> n < 10 \<Longrightarrow> nat_str n = nat_str (n div 10) @ [char_of (48 + n mod 10)]"
  by (subst nat_str.simps) simp

lemma nat_str_digits: "list_all is_digit (nat_str n) \<and> nat_str n \<noteq> []"
  by (induction n rule: nat_str.induct) (case_tac "n < 10"; simp add: nat_str_small nat_str_big digit_char)

lemma foldl_nat_str:
  "foldl (\<lambda>acc c. 10 * acc + (of_char c - 48)) a (nat_str n) = a * 10 ^ length (nat_str n) + n"
proof (induction n arbitrary: a rule: nat_str.induct)
  case (1 n)
  show ?case
  proof (cases "n < 10")
    case True
    then show ?thesis by (simp add: nat_str_small digit_char)
  next
    case False
    then have "nat_str n = nat_str (n div 10) @ [char_of (48 + n mod 10)]" by (rule nat_str_big)
    moreover have "10 * (a * 10 ^ length (nat_str (n div 10)) + n div 10) + n mod 10
        = a * 10 ^ Suc (length (nat_str (n div 10))) + n" by simp
    ultimately show ?thesis using "1.IH" [OF False] by (simp add: digit_char)
  qed
qed

lemma parse_nat_str [simp]: "parse_nat (nat_str n) = Some n"
  using nat_str_digits [of n] foldl_nat_str [of 0 n] by (simp add: parse_nat_def)

lemma nat_str_no_sep: "c \<in> set (nat_str n) \<Longrightarrow> c \<noteq> CHR '','' \<and> c \<noteq> CHR ''-''"
  using nat_str_digits [of n] by (auto simp: list_all_iff is_digit_def)

lemma int_str_no_comma: "CHR '','' \<notin> set (int_str i)"
  by (auto simp: int_str_def dest: nat_str_no_sep)

lemma parse_int_str [simp]: "parse_int (int_str i) = Some i"
proof (cases "i < 0")
  case True
  then show ?thesis by (simp add: int_str_def parse_int_def)
next
  case False
  obtain c r where cr: "nat_str (nat i) = c # r" using nat_str_digits [of "nat i"] by (cases "nat_str (nat i)") auto
  then have "c \<noteq> CHR ''-''" using nat_str_no_sep [of c "nat i"] by simp
  moreover have "parse_nat (c # r) = Some (nat i)" using parse_nat_str [of "nat i"] cr by simp
  ultimately show ?thesis using False cr by (simp add: int_str_def parse_int_def)
qed

lemma posKey_roundtrip: "parse_key (posKey x y) = Some (x, y)"
proof -
  have tw: "takeWhile (\<lambda>c. c \<noteq> CHR '','') (posKey x y) = int_str x"
  proof -
    have "\<forall>c \<in> set (int_str x). c \<noteq> CHR '',''" using int_str_no_comma [of x] by auto
    then show ?thesis by (simp add: posKey_def takeWhile_append2)
  qed
  show ?thesis unfolding parse_key_def Let_def tw by (simp add: posKey_def)
qed


lemma posKey_inj: "posKey x y = posKey x' y' \<longleftrightarrow> x = x' \<and> y = y'"
  by (metis Pair_inject option.inject posKey_roundtrip)


subsection \<open>The retry loop and the generation loop\<close>

lemma floor_unit_bound:
  "0 \<le> r \<Longrightarrow> r < 1 \<Longrightarrow> 0 < m \<Longrightarrow> 0 \<le> \<lfloor>r * real_of_int m\<rfloor> \<and> \<lfloor>r * real_of_int m\<rfloor> < m"
proof -
  assume r: "0 \<le> r" "r < 1" and m: "0 < m"
  have "r * real_of_int m < real_of_int m" using r m by simp
  then show ?thesis using r m by (simp add: floor_less_iff)
qed

lemma placeAttempt_spec:
  "a < 20 \<Longrightarrow> placeAttempt rnd occ k a = (gx, gy, a', k') \<Longrightarrow>
     a < a' \<and> a' \<le> 20 \<and> k' = k + 2 * (a' - a) \<and> (a' < 20 \<longrightarrow> posKey gx gy \<notin> occ)
     \<and> (\<exists>j. gx = \<lfloor>rnd j * real_of_int GRID_COLS\<rfloor> \<and> gy = \<lfloor>rnd (Suc j) * real_of_int (enemyMaxRow + 1)\<rfloor>)"
proof (induction rnd occ k a arbitrary: gx gy a' k' rule: placeAttempt.induct)
  case (1 rnd occ k a)
  let ?x = "\<lfloor>rnd k * real_of_int GRID_COLS\<rfloor>" and ?y = "\<lfloor>rnd (Suc k) * real_of_int (enemyMaxRow + 1)\<rfloor>"
  show ?case
  proof (cases "posKey ?x ?y \<in> occ \<and> a + 1 < 20")
    case True
    then have "placeAttempt rnd occ (k + 2) (a + 1) = (gx, gy, a', k')"
      using "1.prems"(2) by (subst (asm) placeAttempt.simps) (simp add: Let_def)
    with "1.IH" [OF refl refl refl True] True show ?thesis by auto
  next
    case False
    then have "(?x, ?y, a + 1, k + 2) = (gx, gy, a', k')"
      using "1.prems"(2) by (subst (asm) placeAttempt.simps) (simp add: Let_def split: if_split_asm)
    with False "1.prems"(1) show ?thesis by auto
  qed
qed

lemma availableTypes_nonempty: "availableTypes lvl \<noteq> []"
  by (simp add: availableTypes_def)

lemma GRID_pos: "0 < GRID_COLS" "0 < enemyMaxRow + 1"
  by (simp_all add: GRID_COLS_def enemyMaxRow_def GRID_ROWS_def)

lemma genLoop_inv:
  assumes "\<forall>j. 0 \<le> rnd j \<and> rnd j < 1"
  shows "occ = (\<lambda>e. posKey (sp_gridX e) (sp_gridY e)) ` set acc \<Longrightarrow> distinct (map spec_cell acc)
     \<Longrightarrow> \<forall>e \<in> set acc. spec_ok lvl d e
     \<Longrightarrow> length (fst (genLoop rnd lvl d n occ k acc)) \<le> length acc + n
       \<and> distinct (map spec_cell (fst (genLoop rnd lvl d n occ k acc)))
       \<and> (\<forall>e \<in> set (fst (genLoop rnd lvl d n occ k acc)). spec_ok lvl d e)"
proof (induction n arbitrary: occ k acc)
  case 0
  then show ?case by simp
next
  case (Suc n)
  obtain gx gy a k' where pa: "placeAttempt rnd occ k 0 = (gx, gy, a, k')" by (cases "placeAttempt rnd occ k 0") auto
  have sp: "a \<le> 20 \<and> (a < 20 \<longrightarrow> posKey gx gy \<notin> occ)
      \<and> (\<exists>j. gx = \<lfloor>rnd j * real_of_int GRID_COLS\<rfloor> \<and> gy = \<lfloor>rnd (Suc j) * real_of_int (enemyMaxRow + 1)\<rfloor>)"
    using placeAttempt_spec [OF _ pa] by simp
  show ?case
  proof (cases "a < 20")
    case False
    have eq: "genLoop rnd lvl d (Suc n) occ k acc = genLoop rnd lvl d n occ k' acc" using False pa by simp
    show ?thesis unfolding eq using Suc.IH [OF Suc.prems, of k'] by auto
  next
    case True
    let ?e = "\<lparr>sp_type = pick (availableTypes lvl) (rnd k'), sp_level = enemyLevel lvl d, sp_side = ENEMY,
                sp_gridX = gx, sp_gridY = gy\<rparr>"
    have fresh: "spec_cell ?e \<notin> set (map spec_cell acc)"
      using sp True Suc.prems(1) by (auto simp: spec_cell_def posKey_inj)
    obtain j where j: "gx = \<lfloor>rnd j * real_of_int GRID_COLS\<rfloor>" "gy = \<lfloor>rnd (Suc j) * real_of_int (enemyMaxRow + 1)\<rfloor>"
      using sp by blast
    have "spec_ok lvl d ?e"
      using floor_unit_bound [OF _ _ GRID_pos(1), of "rnd j"] floor_unit_bound [OF _ _ GRID_pos(2), of "rnd (Suc j)"]
        assms pick_in_set [OF availableTypes_nonempty, of "rnd k'" lvl] j
      by (simp add: spec_ok_def)
    then have "length (fst (genLoop rnd lvl d n (insert (posKey gx gy) occ) (Suc k') (acc @ [?e]))) \<le> length (acc @ [?e]) + n
       \<and> distinct (map spec_cell (fst (genLoop rnd lvl d n (insert (posKey gx gy) occ) (Suc k') (acc @ [?e]))))
       \<and> (\<forall>e \<in> set (fst (genLoop rnd lvl d n (insert (posKey gx gy) occ) (Suc k') (acc @ [?e]))). spec_ok lvl d e)"
      using Suc.prems fresh by (intro Suc.IH) auto
    then show ?thesis using True pa by (simp add: Let_def)
  qed
qed

lemma floor_half_grid: "\<lfloor>real_of_int GRID_COLS / 2\<rfloor> = 3" "\<lfloor>(real_of_int enemyMaxRow + 1) / 2\<rfloor> = 2"
  by (simp_all add: GRID_COLS_def enemyMaxRow_def GRID_ROWS_def floor_eq_iff)

subsection \<open>Properties of the generator\<close>

text \<open>
  C34. The occupancy key round-trips: reading back \<^verbatim>\<open>`${gridX},${gridY}`\<close> with
  the decoder \<open>parse_key\<close> gives the cell it was printed from, for all integers, so two
  cells share a key only if they are equal and \<^verbatim>\<open>occupied.has\<close> tests exactly the
  cells placed so far.
\<close>

theorem parse_posKey: "parse_key (posKey x y) = Some (x, y)"
  by (rule posKey_roundtrip)

text \<open>
  C33. The retry loop terminates after one to twenty attempts, consumes two random draws per
  attempt, and when it stops before the twentieth attempt the drawn cell is free.
\<close>

theorem placeAttempt_bounds:
  assumes "placeAttempt rnd occupied k 0 = (gx, gy, attempts, k')"
  shows "1 \<le> attempts \<and> attempts \<le> 20 \<and> k' = k + 2 * attempts
       \<and> (attempts < 20 \<longrightarrow> posKey gx gy \<notin> occupied)"
  using placeAttempt_spec [OF _ assms] by auto

theorem placeAttempt_bounds_witness:
  "placeAttempt twentieth_rnd {} 0 0 = (0, 0, 1, 2) \<and> (2::nat) = 0 + 2 * 1"
proof -
  have p: "placeAttempt twentieth_rnd {} 0 0 = (0, 0, 1, 2)"
    by (subst placeAttempt.simps) (simp add: twentieth_rnd_def)
  show ?thesis using p placeAttempt_bounds [OF p] by simp
qed



text \<open>
  C27. The retry loop discards a free cell found on its twentieth attempt: at level 1 on
  NORMAL, with two enemies requested, a draw sequence whose twentieth attempt for the
  second enemy hits the free cell (3, 2) yields a level with a single enemy.
\<close>

theorem generateLevel_drops_twentieth:
  "enemyCount 1 NORMAL = 2
   \<and> placeAttempt twentieth_rnd {posKey 0 0} 3 0 = (3, 2, 20, 43)
   \<and> posKey 3 2 \<notin> {posKey 0 0}
   \<and> length (enemies (generateLevel 1 NORMAL twentieth_rnd)) = 1"
proof -
  have p1: "placeAttempt twentieth_rnd {} 0 0 = (0, 0, 1, 2)"
    by (subst placeAttempt.simps) (simp add: twentieth_rnd_def)
  have p2: "placeAttempt twentieth_rnd {posKey 0 0} 3 0 = (3, 2, 20, 43)"
    by (simp add: placeAttempt.simps twentieth_rnd_def posKey_inj floor_half_grid)
  have c: "enemyCount 1 NORMAL = 2" by (simp add: enemyCount_def baseCount_def)
  have p2': "placeAttempt twentieth_rnd {posKey 0 0} (Suc (Suc (Suc 0))) 0 = (3, 2, 20, 43)"
    using p2 by (simp add: numeral_3_eq_3)
  have "length (fst (genLoop twentieth_rnd 1 NORMAL 2 {} 0 [])) = 1"
    by (simp add: numeral_2_eq_2 p1 p2')
  then show ?thesis using c p2 by (simp add: generateLevel_def posKey_inj)
qed

end
