(* ===== verification/Session.thy ===== *)
theory Session
  imports Battle Economy Level_Gen
begin

text \<open>
  The Session and Phase Manager of \<^verbatim>\<open>src/App.tsx\<close>: loading a level
  (\<^verbatim>\<open>loadLevel\<close>, which refreshes the player's units and creates the generated
  enemies), the run reset (\<^verbatim>\<open>resetRunData\<close>), starting a game, advancing or retrying
  a level, the two resets of the help modal, starting a battle, returning to the title,
  selecting or grabbing a unit (\<^verbatim>\<open>handleMouseDown\<close>), and the effects that keep
  \<^verbatim>\<open>entitiesRef\<close> in step with \<^verbatim>\<open>entities\<close> during preparation and that schedule
  the first battle frame. \<^verbatim>\<open>loadLevel\<close> awaits the generator; the model performs
  it at once, so the state in which \<^verbatim>\<open>loadingLevel\<close> is set is not a state of the
  model. The generator's draws are the stream \<open>rnd\<close>, the ids that
  \<^verbatim>\<open>createEntity\<close> draws for the enemies are the stream \<open>ids\<close>, and the
  \<^verbatim>\<open>window.confirm\<close> answer is a parameter.
\<close>

text \<open>A player unit as \<^verbatim>\<open>loadLevel\<close> restores it: back on its cell, at the full hit
  points of the current tech and artifacts, without target, idle and facing right.\<close>

definition refreshPlayerUnit :: "app_state \<Rightarrow> entity \<Rightarrow> entity" where
  "refreshPlayerUnit s e =
     (let techLvl = playerTech s (etype e);
          stats = getUnitStats (etype e) (level e) techLvl (artifactLevels s)
      in e\<lparr>posX := real_of_int (gridX e), posY := real_of_int (gridY e), hp := st_hp stats,
           maxHp := st_hp stats, targetId := None, state := IDLE, facingRight := True\<rparr>)"

text \<open>The enemies of a level configuration, created at the load-time enemy tech level
  and with no artifacts; the \<open>i\<close>-th enemy gets the id \<open>ids i\<close>.\<close>

definition enemyUnits :: "nat \<Rightarrow> difficulty \<Rightarrow> level_config \<Rightarrow> (nat \<Rightarrow> entity_id) \<Rightarrow> entity list" where
  "enemyUnits lvl d config ids =
     (let enemyTechLevel = enemyTechLevel_load lvl d
      in map (\<lambda>i. let sp = enemies config ! i
                   in createEntity (ids i) (sp_type sp) (sp_level sp) ENEMY (sp_gridX sp) (sp_gridY sp)
                        enemyTechLevel no_artifacts)
             [0..<length (enemies config)])"

definition loadLevel ::
  "app_state \<Rightarrow> nat \<Rightarrow> difficulty \<Rightarrow> (nat \<Rightarrow> real) \<Rightarrow> (nat \<Rightarrow> entity_id) \<Rightarrow> app_state" where
  "loadLevel s lvl d rnd ids =
     (let playerUnits = map (refreshPlayerUnit s) (filter (\<lambda>e. side e = PLAYER) (entitiesRef s));
          config = generateLevel lvl d rnd;
          nextEntities = playerUnits @ enemyUnits lvl d config ids
      in s\<lparr>selectedUnit := None, entities := nextEntities, entitiesRef := nextEntities,
           phase := PREPARATION, loadingLevel := False\<rparr>)"

text \<open>\<^verbatim>\<open>resetRunData\<close>, with the \<^verbatim>\<open>cancelAnimationFrame\<close> it starts with.\<close>

definition resetRunData :: "app_state \<Rightarrow> app_state" where
  "resetRunData s =
     s\<lparr>loopScheduled := False, levelNo := 1, coins := 2000, recruitCost := RECRUIT_COST,
       unitCosts := initialUnitCosts, gameStats := zeroStats, globalTech := (\<lambda>_. 1),
       techLevels := (\<lambda>_. 1), artifactLevels := (\<lambda>_. 0), artifactCost := ARTIFACT_COST_BASE,
       entities := [], entitiesRef := []\<rparr>"

definition startGame ::
  "app_state \<Rightarrow> difficulty \<Rightarrow> (nat \<Rightarrow> real) \<Rightarrow> (nat \<Rightarrow> entity_id) \<Rightarrow> app_state" where
  "startGame s d rnd ids = loadLevel (resetRunData (s\<lparr>difficulty := d\<rparr>)) 1 d rnd ids"

text \<open>\<^verbatim>\<open>nextLevel\<close>: past the difficulty's last level the run is cleared and the next
  difficulty unlocked (\<open>justUnlockedDifficulty\<close> records which; the source stores its
  display name); otherwise the next level is loaded.\<close>

definition nextLevel :: "app_state \<Rightarrow> (nat \<Rightarrow> real) \<Rightarrow> (nat \<Rightarrow> entity_id) \<Rightarrow> app_state" where
  "nextLevel s rnd ids =
     (if diff_maxLevel (difficulty s) \<le> levelNo s
      then (let s1 = (if difficulty s = NORMAL \<and> getDifficultyRank (maxUnlockedDifficulty s) < getDifficultyRank HARD
                      then s\<lparr>maxUnlockedDifficulty := HARD, justUnlockedDifficulty := Some HARD\<rparr>
                      else if difficulty s = HARD \<and> getDifficultyRank (maxUnlockedDifficulty s) < getDifficultyRank HELL
                      then s\<lparr>maxUnlockedDifficulty := HELL, justUnlockedDifficulty := Some HELL\<rparr>
                      else s\<lparr>justUnlockedDifficulty := None\<rparr>)
            in s1\<lparr>phase := GAME_CLEAR\<rparr>)
      else loadLevel (s\<lparr>levelNo := levelNo s + 1\<rparr>) (levelNo s + 1) (difficulty s) rnd ids)"

definition retryLevel :: "app_state \<Rightarrow> (nat \<Rightarrow> real) \<Rightarrow> (nat \<Rightarrow> entity_id) \<Rightarrow> app_state" where
  "retryLevel s rnd ids = loadLevel s (levelNo s) (difficulty s) rnd ids"

text \<open>The two resets of the help modal; \<open>confirmed\<close> is the answer to
  \<^verbatim>\<open>window.confirm\<close>. The mode reset reloads level 1 of the current difficulty (in
  a \<^verbatim>\<open>setTimeout\<close> whose closure reads the emptied \<^verbatim>\<open>entitiesRef\<close>); the full
  reset also forgets the unlocked difficulties and the claimed achievements.\<close>

definition handleModeReset ::
  "app_state \<Rightarrow> bool \<Rightarrow> (nat \<Rightarrow> real) \<Rightarrow> (nat \<Rightarrow> entity_id) \<Rightarrow> app_state" where
  "handleModeReset s confirmed rnd ids =
     (if confirmed then loadLevel ((resetRunData s)\<lparr>phase := PREPARATION\<rparr>) 1 (difficulty s) rnd ids
      else s)"

definition handleFullReset :: "app_state \<Rightarrow> bool \<Rightarrow> app_state" where
  "handleFullReset s confirmed =
     (if confirmed
      then (resetRunData (s\<lparr>maxUnlockedDifficulty := NORMAL, claimedAchievements := {}\<rparr>))
             \<lparr>phase := DIFFICULTY_SELECT\<rparr>
      else s)"

text \<open>The fight button (\<^verbatim>\<open>setPhase(GamePhase.BATTLE)\<close>) followed by the battle
  effect, which sets \<^verbatim>\<open>lastTimeRef\<close> to \<^verbatim>\<open>performance.now()\<close> and requests the
  first frame; and the button of the clear screen.\<close>

definition startBattle :: "app_state \<Rightarrow> millis \<Rightarrow> app_state" where
  "startBattle s now = s\<lparr>phase := BATTLE, lastTime := now, loopScheduled := True\<rparr>"

definition backToTitle :: "app_state \<Rightarrow> app_state" where
  "backToTitle s = s\<lparr>phase := DIFFICULTY_SELECT\<rparr>"

text \<open>The effect that copies \<^verbatim>\<open>entities\<close> into \<^verbatim>\<open>entitiesRef\<close> during preparation.\<close>

definition syncRef :: "app_state \<Rightarrow> app_state" where
  "syncRef s = (if phase s = PREPARATION then s\<lparr>entitiesRef := entities s\<rparr> else s)"

text \<open>\<^verbatim>\<open>handleMouseDown\<close> (and \<^verbatim>\<open>handleTouchStart\<close>): only in preparation; an
  enemy is selected, a player unit is grabbed (\<^verbatim>\<open>startDrag\<close> sets
  \<^verbatim>\<open>draggingId\<close>; the screen offsets are not modelled).\<close>

definition handleMouseDown :: "app_state \<Rightarrow> entity \<Rightarrow> app_state" where
  "handleMouseDown s e =
     (if phase s \<noteq> PREPARATION then s
      else if side e \<noteq> PLAYER then s\<lparr>selectedUnit := Some e\<rparr>
      else s\<lparr>draggingId := Some (eid e)\<rparr>)"

text \<open>Where the two sides stand: every entity inside the grid, the player's units on the
  lower half (rows \<^verbatim>\<open>GRID_ROWS/2\<close> and below, the only rows \<^verbatim>\<open>finishDrag\<close>
  and the recruiting scan use) and the enemies on the upper half (the generator's
  \<^verbatim>\<open>enemyMaxRow\<close>).\<close>

definition halves_ok :: "entity list \<Rightarrow> bool" where
  "halves_ok es \<longleftrightarrow> (\<forall>e \<in> set es. 0 \<le> gridX e \<and> gridX e < GRID_COLS \<and> 0 \<le> gridY e
     \<and> gridY e < GRID_ROWS \<and> (side e = PLAYER \<longleftrightarrow> GRID_ROWS div 2 \<le> gridY e))"

text \<open>Two preparation states for the examples below: a player archer after a won battle,
  alive in the first and dead in the second.\<close>

definition load_demo :: app_state where
  "load_demo = (initialState None 0)\<lparr>phase := VICTORY, entitiesRef := [demo_archer 1 0]\<rparr>"

definition revive_demo :: app_state where
  "revive_demo = (initialState None 0)\<lparr>phase := VICTORY,
     entitiesRef := [(demo_archer 1 0)\<lparr>hp := -5, state := DEAD\<rparr>]\<rparr>"

subsection \<open>Loading a level\<close>

lemma refreshPlayerUnit_fields [simp]:
  "eid (refreshPlayerUnit s e) = eid e" "etype (refreshPlayerUnit s e) = etype e"
  "side (refreshPlayerUnit s e) = side e" "level (refreshPlayerUnit s e) = level e"
  "gridX (refreshPlayerUnit s e) = gridX e" "gridY (refreshPlayerUnit s e) = gridY e"
  "cell (refreshPlayerUnit s e) = cell e"
  "hp (refreshPlayerUnit s e) = st_hp (getUnitStats (etype e) (level e) (playerTech s (etype e)) (artifactLevels s))"
  "maxHp (refreshPlayerUnit s e) = hp (refreshPlayerUnit s e)"
  by (simp_all add: refreshPlayerUnit_def Let_def cell_def)

lemma enemyUnits_eid: "map eid (enemyUnits lvl d config ids) = map ids [0..<length (enemies config)]"
  by (simp add: enemyUnits_def Let_def createEntity_def)

lemma enemyUnits_cell: "map cell (enemyUnits lvl d config ids) = map spec_cell (enemies config)"
proof -
  have "map cell (enemyUnits lvl d config ids)
      = map spec_cell (map (\<lambda>i. enemies config ! i) [0..<length (enemies config)])"
    by (simp add: enemyUnits_def Let_def createEntity_def cell_def spec_cell_def del: map_nth)
  then show ?thesis by (simp only: map_nth)
qed

lemma enemyUnits_set:
  "e \<in> set (enemyUnits lvl d config ids) \<Longrightarrow> \<exists>sp \<in> set (enemies config).
     side e = ENEMY \<and> cell e = spec_cell sp \<and> level e = sp_level sp \<and> etype e = sp_type sp
     \<and> hp e = st_hp (getUnitStats (sp_type sp) (sp_level sp) (enemyTechLevel_load lvl d) no_artifacts)
     \<and> maxHp e = hp e"
  by (auto simp: enemyUnits_def Let_def createEntity_def cell_def spec_cell_def)

lemma enemyUnits_players: "filter (\<lambda>e. side e = PLAYER) (enemyUnits lvl d config ids) = []"
  by (simp add: enemyUnits_def Let_def createEntity_def filter_empty_conv)

lemma enemyTechLevel_load_ge1: "1 \<le> enemyTechLevel_load lvl d"
  by (simp add: enemyTechLevel_load_def)

lemma loadLevel_fields [simp]:
  "entities (loadLevel s lvl d rnd ids) = map (refreshPlayerUnit s) (filter (\<lambda>e. side e = PLAYER) (entitiesRef s))
     @ enemyUnits lvl d (generateLevel lvl d rnd) ids"
  "entitiesRef (loadLevel s lvl d rnd ids) = entities (loadLevel s lvl d rnd ids)"
  "phase (loadLevel s lvl d rnd ids) = PREPARATION"
  "selectedUnit (loadLevel s lvl d rnd ids) = None"
  by (simp_all add: loadLevel_def Let_def)

lemma generateLevel_ok:
  assumes "\<forall>j. 0 \<le> rnd j \<and> rnd j < 1"
  shows "distinct (map spec_cell (enemies (generateLevel lvl d rnd)))
       \<and> (\<forall>sp \<in> set (enemies (generateLevel lvl d rnd)). spec_ok lvl d sp)"
  using genLoop_inv [OF assms, of "{}" "[]" lvl d "enemyCount lvl d" 0] by (simp add: generateLevel_def)

lemma enemyLevel_ge1: "1 \<le> enemyLevel lvl d"
  by (cases d) (simp_all add: enemyLevel_def)

lemma placement_ok_append:
  assumes "placement_ok A" "placement_ok B" "eid ` set A \<inter> eid ` set B = {}"
    "cell ` set A \<inter> cell ` set B = {}"
  shows "placement_ok (A @ B)"
  using assms by (auto simp: placement_ok_def roster_ok_def)

lemma halves_sides_disjoint:
  assumes "halves_ok A" "halves_ok B" "\<forall>e \<in> set A. side e = PLAYER" "\<forall>e \<in> set B. side e = ENEMY"
  shows "cell ` set A \<inter> cell ` set B = {}"
  using assms by (fastforce simp: halves_ok_def cell_def)

lemma enemyUnits_ok:
  assumes sp: "\<forall>sp \<in> set (enemies config). spec_ok lvl d sp"
    and dc: "distinct (map spec_cell (enemies config))" and inj: "inj ids"
  shows "placement_ok (enemyUnits lvl d config ids) \<and> halves_ok (enemyUnits lvl d config ids)
       \<and> (\<forall>e \<in> set (enemyUnits lvl d config ids). side e = ENEMY \<and> hp e = maxHp e)"
proof -
  let ?E = "enemyUnits lvl d config ids"
  have each: "\<forall>e \<in> set ?E. side e = ENEMY \<and> hp e = maxHp e \<and> 1 \<le> level e \<and> 0 < hp e
      \<and> 0 \<le> gridX e \<and> gridX e < GRID_COLS \<and> 0 \<le> gridY e \<and> gridY e \<le> enemyMaxRow"
  proof
    fix e assume "e \<in> set ?E"
    then obtain p where p: "p \<in> set (enemies config)" "side e = ENEMY" "cell e = spec_cell p"
      "level e = sp_level p" "hp e = st_hp (getUnitStats (sp_type p) (sp_level p) (enemyTechLevel_load lvl d) no_artifacts)"
      "maxHp e = hp e"
      using enemyUnits_set by blast
    have "spec_ok lvl d p" using sp p(1) by blast
    then show "side e = ENEMY \<and> hp e = maxHp e \<and> 1 \<le> level e \<and> 0 < hp e
      \<and> 0 \<le> gridX e \<and> gridX e < GRID_COLS \<and> 0 \<le> gridY e \<and> gridY e \<le> enemyMaxRow"
      using p enemyLevel_ge1 [of lvl d] getUnitStats_hp_pos [OF enemyTechLevel_load_ge1]
      by (simp add: spec_ok_def cell_def spec_cell_def)
  qed
  have "distinct (map eid ?E)"
    using inj by (simp add: enemyUnits_eid distinct_map inj_on_def)
  moreover have "distinct (map cell ?E)" using dc by (simp add: enemyUnits_cell)
  moreover have "halves_ok ?E"
    using each by (auto simp: halves_ok_def enemyMaxRow_def GRID_ROWS_def)
  ultimately show ?thesis using each unfolding placement_ok_def roster_ok_def by blast
qed

lemma refreshed_ok:
  assumes "roster_ok P" "distinct (map cell P)" "halves_ok P" "\<forall>e \<in> set P. side e = PLAYER"
    "\<forall>t. 1 \<le> playerTech s t"
  shows "placement_ok (map (refreshPlayerUnit s) P) \<and> halves_ok (map (refreshPlayerUnit s) P)
       \<and> (\<forall>e \<in> set (map (refreshPlayerUnit s) P). side e = PLAYER \<and> hp e = maxHp e)"
proof -
  have "map eid (map (refreshPlayerUnit s) P) = map eid P" "map cell (map (refreshPlayerUnit s) P) = map cell P"
    by simp_all
  then show ?thesis
    using assms getUnitStats_hp_pos
    by (auto simp: placement_ok_def roster_ok_def halves_ok_def simp del: map_map)
qed

lemma roster_ok_filter: "roster_ok es \<Longrightarrow> roster_ok (filter P es)"
  by (auto simp: roster_ok_def distinct_map_filter)

lemma loadLevel_ok:
  assumes ro: "roster_ok (entitiesRef s)"
    and dc: "distinct (map cell (filter (\<lambda>e. side e = PLAYER) (entitiesRef s)))"
    and hv: "halves_ok (filter (\<lambda>e. side e = PLAYER) (entitiesRef s))"
    and tech: "\<forall>t. 1 \<le> playerTech s t" and rnd: "\<forall>j. 0 \<le> rnd j \<and> rnd j < 1"
    and inj: "inj ids" and fresh: "\<forall>i. ids i \<notin> eid ` set (entitiesRef s)"
  shows "placement_ok (entities (loadLevel s lvl d rnd ids)) \<and> halves_ok (entities (loadLevel s lvl d rnd ids))
       \<and> (\<forall>e \<in> set (entities (loadLevel s lvl d rnd ids)). hp e = maxHp e)"
proof -
  let ?P = "filter (\<lambda>e. side e = PLAYER) (entitiesRef s)"
  let ?R = "map (refreshPlayerUnit s) ?P" and ?E = "enemyUnits lvl d (generateLevel lvl d rnd) ids"
  have sides: "\<forall>e \<in> set ?P. side e = PLAYER" by simp
  note R = refreshed_ok [OF roster_ok_filter [OF ro] dc hv sides tech]
  note gen = generateLevel_ok [OF rnd, of lvl d]
  note E = enemyUnits_ok [OF conjunct2 [OF gen] conjunct1 [OF gen] inj]
  have Rp: "\<forall>e \<in> set ?R. side e = PLAYER" and Ee: "\<forall>e \<in> set ?E. side e = ENEMY"
    using R E by blast+
  have ids: "eid ` set ?R \<inter> eid ` set ?E = {}"
  proof -
    have "eid ` set ?E = ids ` {..<length (enemies (generateLevel lvl d rnd))}"
      using arg_cong [OF enemyUnits_eid, of set lvl d "generateLevel lvl d rnd" ids] by (simp add: atLeast0LessThan)
    then have eq: "eid ` set ?E \<subseteq> range ids" by auto
    have sub: "eid ` set ?R \<subseteq> eid ` set (entitiesRef s)" by auto
    show ?thesis
    proof (intro equals0I)
      fix x assume x: "x \<in> eid ` set ?R \<inter> eid ` set ?E"
      then obtain i where "x = ids i" using eq by auto
      moreover have "x \<in> eid ` set (entitiesRef s)" using x sub by blast
      ultimately show False using fresh by simp
    qed
  qed
  have cells: "cell ` set ?R \<inter> cell ` set ?E = {}"
    using halves_sides_disjoint [of ?R ?E] R E Rp Ee by blast
  have "placement_ok (?R @ ?E)"
    using placement_ok_append [of ?R ?E] R E ids cells by blast
  moreover have "halves_ok (?R @ ?E)" using R E unfolding halves_ok_def by auto
  moreover have "\<forall>e \<in> set (?R @ ?E). hp e = maxHp e" using R E by auto
  ultimately show ?thesis by simp
qed

lemma loadLevel_refreshed_mem:
  "e \<in> set (entitiesRef s) \<Longrightarrow> side e = PLAYER \<Longrightarrow> refreshPlayerUnit s e \<in> set (entities (loadLevel s lvl d rnd ids))"
  by simp

lemma loadLevel_keeps [simp]:
  "levelNo (loadLevel s lvl d rnd ids) = levelNo s" "coins (loadLevel s lvl d rnd ids) = coins s"
  "difficulty (loadLevel s lvl d rnd ids) = difficulty s"
  "maxUnlockedDifficulty (loadLevel s lvl d rnd ids) = maxUnlockedDifficulty s"
  "claimedAchievements (loadLevel s lvl d rnd ids) = claimedAchievements s"
  "techLevels (loadLevel s lvl d rnd ids) = techLevels s" "globalTech (loadLevel s lvl d rnd ids) = globalTech s"
  "artifactLevels (loadLevel s lvl d rnd ids) = artifactLevels s" "gameStats (loadLevel s lvl d rnd ids) = gameStats s"
  "loopScheduled (loadLevel s lvl d rnd ids) = loopScheduled s"
  "recruitCost (loadLevel s lvl d rnd ids) = recruitCost s"
  "draggingId (loadLevel s lvl d rnd ids) = draggingId s"
  by (simp_all add: loadLevel_def Let_def)

lemma enemyUnits_enemies: "filter (\<lambda>e. side e = ENEMY) (enemyUnits lvl d config ids) = enemyUnits lvl d config ids"
  by (simp add: enemyUnits_def Let_def createEntity_def)

lemma loadLevel_enemies:
  "filter (\<lambda>e. side e = ENEMY) (entities (loadLevel s lvl d rnd ids))
   = enemyUnits lvl d (generateLevel lvl d rnd) ids"
  by (simp add: loadLevel_def Let_def enemyUnits_enemies filter_empty_conv)

subsection \<open>Properties of the session handlers\<close>

text \<open>
  C4. Loading a level composes the generator, \<^verbatim>\<open>createEntity\<close> and the refresh of
  the player's units into a valid preparation board: if the roster carried over has
  unique ids and levels of at least one, its player units stand on distinct cells of the
  lower half, every tech level is at least one, the generator's draws are in [0, 1) and
  the enemy ids are fresh and pairwise distinct, then every entity of the loaded level is
  alive at full health, ids and cells are unique, and each side is on its own half.
\<close>

theorem loadLevel_placement_ok:
  assumes "roster_ok (entitiesRef s)"
    and "distinct (map cell (filter (\<lambda>e. side e = PLAYER) (entitiesRef s)))"
    and "halves_ok (filter (\<lambda>e. side e = PLAYER) (entitiesRef s))"
    and "\<forall>t. 1 \<le> playerTech s t" and "\<forall>j. 0 \<le> rnd j \<and> rnd j < 1"
    and "inj ids" and "\<forall>i. ids i \<notin> eid ` set (entitiesRef s)"
  shows "placement_ok (entities (loadLevel s lvl d rnd ids)) \<and> halves_ok (entities (loadLevel s lvl d rnd ids))
       \<and> (\<forall>e \<in> set (entities (loadLevel s lvl d rnd ids)). hp e = maxHp e)"
  by (rule loadLevel_ok [OF assms])

theorem loadLevel_placement_ok_witness:
  "placement_ok (entities (loadLevel load_demo 1 NORMAL (\<lambda>_. 1 / 2) (\<lambda>i. i + 10)))"
proof -
  have "inj (\<lambda>i::nat. i + 10)" by (simp add: inj_on_def)
  moreover have "\<forall>t. 1 \<le> playerTech load_demo t"
    by (simp add: load_demo_def playerTech_def getPlayerTechLevel_def initialState_def)
  moreover have "roster_ok (entitiesRef load_demo)"
    by (simp add: load_demo_def roster_ok_def)
  moreover have "halves_ok (filter (\<lambda>e. side e = PLAYER) (entitiesRef load_demo))"
    by (simp add: load_demo_def halves_ok_def GRID_COLS_def GRID_ROWS_def)
  moreover have "\<forall>i. (\<lambda>i. i + 10) i \<notin> eid ` set (entitiesRef load_demo)"
    by (simp add: load_demo_def)
  moreover have "distinct (map cell (filter (\<lambda>e. side e = PLAYER) (entitiesRef load_demo)))"
    by (simp add: load_demo_def)
  moreover have "\<forall>j. 0 \<le> (\<lambda>_. 1 / 2 :: real) j \<and> (\<lambda>_. 1 / 2 :: real) j < 1" by simp
  ultimately show ?thesis
    using loadLevel_placement_ok [of load_demo "\<lambda>_. 1 / 2" "\<lambda>i. i + 10" 1 NORMAL] by blast
qed

text \<open>
  C18. Loading a level brings back every player unit of the previous board, dead ones
  included: \<^verbatim>\<open>loadLevel\<close> filters \<^verbatim>\<open>entitiesRef\<close> by side only, so a unit
  killed in the battle just won (hp at most zero, state DEAD) returns on its cell, at its
  level, idle and at full health.
\<close>

theorem loadLevel_revives:
  assumes "e \<in> set (entitiesRef s)" "side e = PLAYER" "\<forall>t. 1 \<le> playerTech s t"
  shows "\<exists>e' \<in> set (entities (loadLevel s lvl d rnd ids)).
           eid e' = eid e \<and> cell e' = cell e \<and> level e' = level e \<and> 0 < hp e' \<and> hp e' = maxHp e' \<and> state e' = IDLE"
proof -
  have "0 < hp (refreshPlayerUnit s e)" using assms(3) getUnitStats_hp_pos by simp
  moreover have "state (refreshPlayerUnit s e) = IDLE" by (simp add: refreshPlayerUnit_def Let_def)
  ultimately show ?thesis
    by (intro bexI [where x = "refreshPlayerUnit s e"] loadLevel_refreshed_mem [OF assms(1,2)]) simp_all
qed

theorem loadLevel_revives_witness:
  "hp (hd (entitiesRef revive_demo)) < 0
   \<and> (\<exists>e' \<in> set (entities (loadLevel revive_demo 1 NORMAL (\<lambda>_. 1 / 2) (\<lambda>i. i + 10))). eid e' = 1 \<and> 0 < hp e')"
proof -
  let ?d = "(demo_archer 1 0)\<lparr>hp := -5, state := DEAD\<rparr>"
  have tech: "\<forall>t. 1 \<le> playerTech revive_demo t"
    by (simp add: revive_demo_def playerTech_def getPlayerTechLevel_def initialState_def)
  have m: "?d \<in> set (entitiesRef revive_demo)" "side ?d = PLAYER" by (simp_all add: revive_demo_def)
  obtain e' where "e' \<in> set (entities (loadLevel revive_demo 1 NORMAL (\<lambda>_. 1 / 2) (\<lambda>i. i + 10)))"
      "eid e' = eid ?d" "0 < hp e'"
    using loadLevel_revives [OF m tech, of 1 NORMAL "\<lambda>_. 1 / 2" "\<lambda>i. i + 10"] by blast
  moreover have "hp (hd (entitiesRef revive_demo)) < 0" by (simp add: revive_demo_def)
  ultimately show ?thesis by auto
qed

text \<open>
  C35. The unlocked difficulty survives a reload: the string the save effect writes for
  any difficulty is read back by the validating initialiser as that difficulty.
\<close>

theorem saved_difficulty_roundtrip:
  "maxUnlockedDifficulty (initialState (Some (difficulty_str m)) now) = m"
  by (cases m) (simp_all add: initialState_def loadSavedDifficulty_def)

text \<open>
  C28. The victory button advances the run: below the difficulty's last level it bumps the
  level counter and loads the board of that next level, whose enemies are exactly those the
  generator produces for it; at the last level it ends in the clear screen. The unlocked difficulty never
  decreases, and clearing NORMAL or HARD leaves a harder difficulty unlocked.
\<close>

theorem nextLevel_progress:
  "phase (nextLevel s rnd ids) = (if diff_maxLevel (difficulty s) \<le> levelNo s then GAME_CLEAR else PREPARATION)
   \<and> levelNo (nextLevel s rnd ids) = (if diff_maxLevel (difficulty s) \<le> levelNo s then levelNo s else levelNo s + 1)
   \<and> maxUnlockedDifficulty s \<le> maxUnlockedDifficulty (nextLevel s rnd ids)
   \<and> (diff_maxLevel (difficulty s) \<le> levelNo s \<and> difficulty s \<noteq> HELL
        \<longrightarrow> difficulty s < maxUnlockedDifficulty (nextLevel s rnd ids))
   \<and> (\<not> diff_maxLevel (difficulty s) \<le> levelNo s
        \<longrightarrow> filter (\<lambda>e. side e = ENEMY) (entities (nextLevel s rnd ids))
            = enemyUnits (levelNo s + 1) (difficulty s) (generateLevel (levelNo s + 1) (difficulty s) rnd) ids)"
  by (cases "difficulty s"; cases "maxUnlockedDifficulty s")
     (simp_all add: nextLevel_def Let_def less_eq_difficulty_def less_difficulty_def loadLevel_enemies enemyUnits_enemies)

theorem nextLevel_progress_witness:
  "phase (nextLevel ((initialState None 0)\<lparr>phase := VICTORY, levelNo := 30\<rparr>) (\<lambda>_. 0) id) = GAME_CLEAR
   \<and> maxUnlockedDifficulty (nextLevel ((initialState None 0)\<lparr>phase := VICTORY, levelNo := 30\<rparr>) (\<lambda>_. 0) id) = HARD"
proof -
  let ?s = "(initialState None 0)\<lparr>phase := VICTORY, levelNo := 30\<rparr>"
  have "NORMAL < maxUnlockedDifficulty (nextLevel ?s (\<lambda>_. 0) id)" "phase (nextLevel ?s (\<lambda>_. 0) id) = GAME_CLEAR"
    using nextLevel_progress [of ?s "\<lambda>_. 0" id] by (simp_all add: initialState_def)
  moreover have "maxUnlockedDifficulty (nextLevel ?s (\<lambda>_. 0) id) \<noteq> HELL"
    by (simp add: nextLevel_def initialState_def loadSavedDifficulty_def)
  ultimately show ?thesis
    by (cases "maxUnlockedDifficulty (nextLevel ?s (\<lambda>_. 0) id)") (simp_all add: less_difficulty_def)
qed

text \<open>
  Starting a game resets the run (level 1, 2000 coins, tech and artifacts at their
  initial levels, statistics zeroed, no battle frame pending), drops every unit of the
  previous run and loads level 1 of the chosen difficulty, keeping the unlocked difficulty
  and the claimed achievements.
\<close>

theorem startGame_effect:
  "difficulty (startGame s d rnd ids) = d \<and> levelNo (startGame s d rnd ids) = 1
   \<and> coins (startGame s d rnd ids) = 2000 \<and> phase (startGame s d rnd ids) = PREPARATION
   \<and> techLevels (startGame s d rnd ids) = (\<lambda>_. 1) \<and> globalTech (startGame s d rnd ids) = (\<lambda>_. 1)
   \<and> artifactLevels (startGame s d rnd ids) = (\<lambda>_. 0) \<and> gameStats (startGame s d rnd ids) = zeroStats
   \<and> \<not> loopScheduled (startGame s d rnd ids)
   \<and> filter (\<lambda>e. side e = PLAYER) (entities (startGame s d rnd ids)) = []
   \<and> maxUnlockedDifficulty (startGame s d rnd ids) = maxUnlockedDifficulty s
   \<and> claimedAchievements (startGame s d rnd ids) = claimedAchievements s"
  by (simp add: startGame_def resetRunData_def enemyUnits_players)

text \<open>
  C36. The two resets of the help modal: cancelled, they change nothing; the mode reset
  restarts level 1 of the current difficulty (the counter, and the enemies generated for
  level 1) without the player's units and keeps the
  unlocked difficulty; the full reset also relocks HARD and HELL, forgets the claimed
  achievements and returns to the title with an empty board and no battle frame pending.
\<close>

theorem resets_effect:
  "handleModeReset s False rnd ids = s \<and> handleFullReset s False = s
   \<and> levelNo (handleModeReset s True rnd ids) = 1 \<and> coins (handleModeReset s True rnd ids) = 2000
   \<and> phase (handleModeReset s True rnd ids) = PREPARATION
   \<and> difficulty (handleModeReset s True rnd ids) = difficulty s
   \<and> maxUnlockedDifficulty (handleModeReset s True rnd ids) = maxUnlockedDifficulty s
   \<and> filter (\<lambda>e. side e = PLAYER) (entities (handleModeReset s True rnd ids)) = []
   \<and> filter (\<lambda>e. side e = ENEMY) (entities (handleModeReset s True rnd ids))
       = enemyUnits 1 (difficulty s) (generateLevel 1 (difficulty s) rnd) ids
   \<and> phase (handleFullReset s True) = DIFFICULTY_SELECT
   \<and> maxUnlockedDifficulty (handleFullReset s True) = NORMAL
   \<and> claimedAchievements (handleFullReset s True) = {}
   \<and> levelNo (handleFullReset s True) = 1 \<and> coins (handleFullReset s True) = 2000
   \<and> entities (handleFullReset s True) = [] \<and> \<not> loopScheduled (handleFullReset s True)"
  by (simp add: handleModeReset_def handleFullReset_def resetRunData_def enemyUnits_players loadLevel_enemies enemyUnits_enemies)

end
