(* ===== verification/Machine.thy ===== *)
theory Machine
  imports Session
begin

text \<open>
  The whole application as one state machine. Every handler of \<^verbatim>\<open>App.tsx\<close> that a
  user action, a timer or an animation frame can run is an operation of \<open>app_op\<close>;
  \<open>app_step\<close> runs the handler (an early return of a shop handler leaves the state as
  it was) followed by the ref-sync effect. \<open>enabled\<close> says which operations the
  interface offers in a state and what the environment supplies: buttons shown only in
  one phase, the sell button only for a selected player unit, the supply gift only when it
  is ready, an achievement's claim only when it is completed and unclaimed, the generator's
  draws in [0, 1), fresh ids for new units and a drop cell inside the grid. The buttons that
  load, reset or leave a level and the battle button are enabled only while no unit is
  dragged: the model assumes they are not pressed in the middle of a drag. With a mouse the
  drag ends at the button's release before any click; a second touch could press them, and
  the source has no guard against it. The lists of the
  modals (\<open>Modals\<close>) are not used here: a listed action whose button is disabled is
  let through and refused by its handler, which changes nothing. \<open>reachable\<close> is the set of states a session
  can reach from \<open>initialState\<close>. The invariant \<open>app_inv\<close> holds of every
  reachable state; in particular every preparation board satisfies the placement
  invariant that the handlers' own theorems assume.
\<close>

abbreviation players :: "entity list \<Rightarrow> entity list" where
  "players es \<equiv> filter (\<lambda>e. side e = PLAYER) es"

datatype app_op =
    StartGame difficulty "nat \<Rightarrow> real" "nat \<Rightarrow> entity_id"
  | NextLevel "nat \<Rightarrow> real" "nat \<Rightarrow> entity_id"
  | RetryLevel "nat \<Rightarrow> real" "nat \<Rightarrow> entity_id"
  | ModeReset bool "nat \<Rightarrow> real" "nat \<Rightarrow> entity_id"
  | FullReset bool
  | BackToTitle
  | MouseDown entity
  | FinishDrag real "(int \<times> int) option"
  | BuyUnit buy_kind real real entity_id
  | TechUpgrade unit_type
  | GlobalUpgrade global_tech_type
  | BuyArtifact real
  | SellUnit
  | CloseUnitInfo
  | Synthesize synthesis_recipe entity_id
  | ClaimAchievement string int
  | SupplyTick millis
  | ClaimSupply millis
  | StartBattle millis
  | Frame millis

text \<open>A shop handler's result: an early return (a toast in the source) changes nothing.\<close>

definition shop :: "app_state \<Rightarrow> shop_error + app_state \<Rightarrow> app_state" where
  "shop s r = (case r of Inl _ \<Rightarrow> s | Inr s' \<Rightarrow> s')"

primrec handle :: "app_state \<Rightarrow> app_op \<Rightarrow> app_state" where
  "handle s (StartGame d rnd ids) = startGame s d rnd ids"
| "handle s (NextLevel rnd ids) = nextLevel s rnd ids"
| "handle s (RetryLevel rnd ids) = retryLevel s rnd ids"
| "handle s (ModeReset c rnd ids) = handleModeReset s c rnd ids"
| "handle s (FullReset c) = handleFullReset s c"
| "handle s BackToTitle = backToTitle s"
| "handle s (MouseDown e) = handleMouseDown s e"
| "handle s (FinishDrag gesture target) = finishDrag s gesture target"
| "handle s (BuyUnit b rand r2 newId) = shop s (handleBuyUnit s b rand r2 newId)"
| "handle s (TechUpgrade ty) = shop s (applyTechUpgrade s ty)"
| "handle s (GlobalUpgrade gt) = shop s (applyGlobalUpgrade s gt)"
| "handle s (BuyArtifact r) = shop s (handleBuyArtifact s r)"
| "handle s SellUnit = shop s (handleSellUnit s)"
| "handle s CloseUnitInfo = s\<lparr>selectedUnit := None\<rparr>"
| "handle s (Synthesize recipe newId) = shop s (handleSynthesize s recipe newId)"
| "handle s (ClaimAchievement achId reward) = shop s (claimAchievement s achId reward)"
| "handle s (SupplyTick now) = supplyTimerTick s now"
| "handle s (ClaimSupply now) = claimSupply s now"
| "handle s (StartBattle now) = startBattle s now"
| "handle s (Frame t) = battleTick s t"

definition app_step :: "app_state \<Rightarrow> app_op \<Rightarrow> app_state" where
  "app_step s op = syncRef (handle s op)"

text \<open>The environment's side of a step.\<close>

definition draws_ok :: "(nat \<Rightarrow> real) \<Rightarrow> bool" where
  "draws_ok rnd \<longleftrightarrow> (\<forall>j. 0 \<le> rnd j \<and> rnd j < 1)"

definition fresh_ids :: "(nat \<Rightarrow> entity_id) \<Rightarrow> entity list \<Rightarrow> bool" where
  "fresh_ids ids es \<longleftrightarrow> inj ids \<and> (\<forall>i. ids i \<notin> eid ` set es)"

primrec enabled :: "app_state \<Rightarrow> app_op \<Rightarrow> bool" where
  "enabled s (StartGame d rnd ids) \<longleftrightarrow> phase s = DIFFICULTY_SELECT \<and> d \<le> maxUnlockedDifficulty s
     \<and> draggingId s = None \<and> draws_ok rnd \<and> inj ids"
| "enabled s (NextLevel rnd ids) \<longleftrightarrow> phase s = VICTORY \<and> draggingId s = None \<and> draws_ok rnd
     \<and> fresh_ids ids (entitiesRef s)"
| "enabled s (RetryLevel rnd ids) \<longleftrightarrow> phase s = DEFEAT \<and> draggingId s = None \<and> draws_ok rnd
     \<and> fresh_ids ids (entitiesRef s)"
| "enabled s (ModeReset c rnd ids) \<longleftrightarrow> draggingId s = None \<and> draws_ok rnd \<and> inj ids"
| "enabled s (FullReset c) \<longleftrightarrow> draggingId s = None"
| "enabled s BackToTitle \<longleftrightarrow> phase s = GAME_CLEAR \<and> draggingId s = None"
| "enabled s (MouseDown e) \<longleftrightarrow> e \<in> set (entities s)"
| "enabled s (FinishDrag gesture target) \<longleftrightarrow>
     (case target of None \<Rightarrow> True
      | Some (gx, gy) \<Rightarrow> 0 \<le> gx \<and> gx < GRID_COLS \<and> 0 \<le> gy \<and> gy < GRID_ROWS)"
| "enabled s (BuyUnit b rand r2 newId) \<longleftrightarrow> phase s = PREPARATION \<and> newId \<notin> eid ` set (entities s)"
| "enabled s (TechUpgrade ty) \<longleftrightarrow> phase s = PREPARATION \<and> tier (UNIT_BASE_STATS ty) \<noteq> MYTHIC"
| "enabled s (GlobalUpgrade gt) \<longleftrightarrow> phase s = PREPARATION"
| "enabled s (BuyArtifact r) \<longleftrightarrow> phase s = PREPARATION"
| "enabled s SellUnit \<longleftrightarrow> phase s = PREPARATION
     \<and> (case selectedUnit s of Some u \<Rightarrow> side u = PLAYER | None \<Rightarrow> False)"
| "enabled s CloseUnitInfo \<longleftrightarrow> selectedUnit s \<noteq> None"
| "enabled s (Synthesize recipe newId) \<longleftrightarrow> phase s = PREPARATION \<and> newId \<notin> eid ` set (entities s)"
| "enabled s (ClaimAchievement achId reward) \<longleftrightarrow>
     list_ex (\<lambda>a. ach_id a = achId \<and> ach_reward a = reward
                  \<and> ach_target a \<le> stat_value (gameStats s) (ach_type a) \<and> ach_id a \<notin> claimedAchievements s)
             ACHIEVEMENTS"
| "enabled s (SupplyTick now) \<longleftrightarrow> True"
| "enabled s (ClaimSupply now) \<longleftrightarrow> canClaimSupply s"
| "enabled s (StartBattle now) \<longleftrightarrow> phase s = PREPARATION \<and> draggingId s = None"
| "enabled s (Frame t) \<longleftrightarrow> True"

inductive reachable :: "app_state \<Rightarrow> bool" where
  init: "reachable (initialState saved now)"
| step: "reachable s \<Longrightarrow> enabled s op \<Longrightarrow> reachable (app_step s op)"

text \<open>The invariant, in parts. \<open>unitMaxHp\<close> is the maximum hit points a player unit
  has under the current research and artifacts.\<close>

definition unitMaxHp :: "app_state \<Rightarrow> entity \<Rightarrow> int" where
  "unitMaxHp s e = st_hp (getUnitStats (etype e) (level e) (playerTech s (etype e)) (artifactLevels s))"

definition tech_ok :: "app_state \<Rightarrow> bool" where
  "tech_ok s \<longleftrightarrow> (\<forall>t. 1 \<le> techLevels s t) \<and> (\<forall>g. 1 \<le> globalTech s g)"

definition purse_ok :: "app_state \<Rightarrow> bool" where
  "purse_ok s \<longleftrightarrow> 0 \<le> coins s \<and> 0 \<le> recruitCost s"

definition roster_home :: "entity list \<Rightarrow> bool" where
  "roster_home es \<longleftrightarrow> roster_ok es \<and> distinct (map cell (players es)) \<and> halves_ok (players es)"

definition board_ok :: "app_state \<Rightarrow> bool" where
  "board_ok s \<longleftrightarrow> placement_ok (entities s) \<and> halves_ok (entities s)
     \<and> (\<forall>e \<in> set (entities s). side e = PLAYER \<longrightarrow> maxHp e = unitMaxHp s e)
     \<and> int (playerUnitCount (entities s)) \<le> maxUnitCap s"

definition drag_ok :: "app_state \<Rightarrow> bool" where
  "drag_ok s \<longleftrightarrow> (case draggingId s of None \<Rightarrow> True
     | Some i \<Rightarrow> phase s = PREPARATION \<and> (\<forall>e \<in> set (entities s). eid e = i \<longrightarrow> side e = PLAYER))"

definition app_inv :: "app_state \<Rightarrow> bool" where
  "app_inv s \<longleftrightarrow> tech_ok s \<and> purse_ok s \<and> roster_home (entitiesRef s)
     \<and> int (playerUnitCount (entitiesRef s)) \<le> maxUnitCap s
     \<and> (phase s = PREPARATION \<longrightarrow> entitiesRef s = entities s \<and> board_ok s) \<and> drag_ok s"

text \<open>A preparation state as the handlers leave it, before the ref-sync effect.\<close>

definition prep_ok :: "app_state \<Rightarrow> bool" where
  "prep_ok s \<longleftrightarrow> phase s = PREPARATION \<and> tech_ok s \<and> purse_ok s \<and> board_ok s \<and> drag_ok s"

text \<open>The state after choosing NORMAL on the title screen, for the examples; the draws
  place the two enemies of level 1 on the cells (0, 0) and (3, 2).\<close>

definition demo_draws :: "nat \<Rightarrow> real" where
  "demo_draws k = (if k < 2 then 0 else 1 / 2)"

definition start_demo :: app_state where
  "start_demo = app_step (initialState None 0) (StartGame NORMAL demo_draws (\<lambda>i. i + 10))"

subsection \<open>Counting, halves and seats\<close>

lemma playerUnitCount_side: "playerUnitCount es = length (filter (\<lambda>x. x = PLAYER) (map side es))"
  by (simp add: playerUnitCount_def filter_map comp_def)

lemma playerUnitCount_update:
  assumes "side v = side (es ! i)"
  shows "playerUnitCount (es[i := v]) = playerUnitCount es"
proof -
  have "map side (es[i := v]) = map side es"
    using assms by (cases "i < length es") (simp_all add: map_update, metis list_update_id nth_map, simp add: list_update_beyond)
  then show ?thesis by (simp only: playerUnitCount_side)
qed

lemma playerUnitCount_remove_nth: "playerUnitCount (remove_nth i es) \<le> playerUnitCount es"
proof -
  have "mset (filter (\<lambda>e. side e = PLAYER) (remove_nth i es)) \<subseteq># mset (filter (\<lambda>e. side e = PLAYER) es)"
  proof (cases "i < length es")
    case True
    then show ?thesis by (simp add: mset_remove_nth mset_filter multiset_filter_mono)
  next
    case False
    then show ?thesis by (simp add: remove_nth_def)
  qed
  then show ?thesis unfolding playerUnitCount_def by (metis size_mset size_mset_mono)
qed

lemma playerUnitCount_filter: "playerUnitCount (filter P es) \<le> playerUnitCount es"
  by (induction es) (auto simp: playerUnitCount_def)

lemma halves_ok_update: "halves_ok es \<Longrightarrow> halves_ok [v] \<Longrightarrow> halves_ok (es[k := v])"
  using set_update_subset_insert [of es k v] by (auto simp: halves_ok_def)

lemma halves_ok_remove_nth: "halves_ok es \<Longrightarrow> halves_ok (remove_nth i es)"
  using set_remove_nth_subset [of i es] by (auto simp: halves_ok_def)

lemma halves_ok_player:
  "halves_ok es \<Longrightarrow> e \<in> set es \<Longrightarrow> side e = PLAYER \<longleftrightarrow> GRID_ROWS div 2 \<le> gridY e"
  by (auto simp: halves_ok_def)

lemma map_cell_players:
  "map cell (players es) = map snd (filter (\<lambda>p. fst p = PLAYER) (map (\<lambda>e. (side e, cell e)) es))"
  by (induction es) auto

lemma halves_ok_players_cells:
  "halves_ok (players es) \<longleftrightarrow>
     (\<forall>p \<in> set (map cell (players es)). 0 \<le> fst p \<and> fst p < GRID_COLS \<and> GRID_ROWS div 2 \<le> snd p \<and> snd p < GRID_ROWS)"
  by (auto simp: halves_ok_def cell_def)

lemma roster_ok_seats:
  "roster_ok es \<longleftrightarrow> distinct (map eid es) \<and> (\<forall>l \<in> set (map level es). 1 \<le> l)"
  by (auto simp: roster_ok_def)

lemma seats_roster_home:
  assumes "map (\<lambda>e. (eid e, level e, side e, cell e)) es' = map (\<lambda>e. (eid e, level e, side e, cell e)) es"
  shows "roster_home es' = roster_home es \<and> playerUnitCount es' = playerUnitCount es"
proof -
  have e: "map eid es' = map eid es" using arg_cong [OF assms, of "map fst"] by (simp add: comp_def)
  have l: "map level es' = map level es" using arg_cong [OF assms, of "map (\<lambda>x. fst (snd x))"] by (simp add: comp_def)
  have c: "map (\<lambda>e. (side e, cell e)) es' = map (\<lambda>e. (side e, cell e)) es"
    using arg_cong [OF assms, of "map (\<lambda>x. snd (snd x))"] by (simp add: comp_def)
  have p: "map cell (players es') = map cell (players es)" by (simp only: map_cell_players c)
  have "playerUnitCount es' = length (map cell (players es'))" by (simp add: playerUnitCount_def)
  then have n: "playerUnitCount es' = playerUnitCount es" by (simp only: p) (simp add: playerUnitCount_def)
  show ?thesis
    unfolding roster_home_def roster_ok_seats e l halves_ok_players_cells p using n by simp
qed

lemma tick_frame_seats:
  "tick_frame es es' \<Longrightarrow> map (\<lambda>e. (eid e, level e, side e, cell e)) es' = map (\<lambda>e. (eid e, level e, side e, cell e)) es"
  by (auto simp: tick_frame_def cell_def intro: nth_equalityI)

subsection \<open>The drop updater keeps the sides on their halves\<close>

lemma all_update: "\<forall>e \<in> set es. P e \<Longrightarrow> P v \<Longrightarrow> \<forall>e \<in> set (es[k := v]). P e"
  using set_update_subset_insert [of es k v] by auto

lemma resolveDrop_board:
  assumes ok: "placement_ok es" and hv: "halves_ok es"
    and mx: "\<forall>e \<in> set es. side e = PLAYER \<longrightarrow>
               maxHp e = st_hp (getUnitStats (etype e) (level e) (getPlayerTechLevel gT tL (etype e)) arts)"
    and drag: "\<forall>e \<in> set es. eid e = dragId \<longrightarrow> side e = PLAYER"
    and tgt: "0 \<le> gx" "gx < GRID_COLS" "GRID_ROWS div 2 \<le> gy" "gy < GRID_ROWS"
  shows "halves_ok (fst (resolveDrop gT tL arts dragId gx gy es))
       \<and> (\<forall>e \<in> set (fst (resolveDrop gT tL arts dragId gx gy es)). side e = PLAYER \<longrightarrow>
            maxHp e = st_hp (getUnitStats (etype e) (level e) (getPlayerTechLevel gT tL (etype e)) arts))
       \<and> playerUnitCount (fst (resolveDrop gT tL arts dragId gx gy es)) \<le> playerUnitCount es"
proof (cases "find_idx (\<lambda>e. eid e = dragId) es")
  case None
  then show ?thesis using hv mx by (simp add: resolveDrop_Unchanged)
next
  case (Some i)
  have i: "i < length es" "eid (es ! i) = dragId" using find_idx_SomeD [OF Some] by auto
  have pi: "side (es ! i) = PLAYER" using drag i by auto
  have mxi: "\<forall>k < length es. side (es ! k) = PLAYER \<longrightarrow>
      maxHp (es ! k) = st_hp (getUnitStats (etype (es ! k)) (level (es ! k)) (getPlayerTechLevel gT tL (etype (es ! k))) arts)"
    using mx by auto
  show ?thesis
  proof (cases "find_idx (\<lambda>e. gridX e = gx \<and> gridY e = gy \<and> eid e \<noteq> dragId \<and> 0 < hp e) es")
    case None
    let ?m = "(es ! i)\<lparr>gridX := gx, gridY := gy, posX := real_of_int gx, posY := real_of_int gy\<rparr>"
    have "halves_ok (es[i := ?m])" using hv pi tgt by (intro halves_ok_update) (auto simp: halves_ok_def)
    moreover have "\<forall>e \<in> set (es[i := ?m]). side e = PLAYER \<longrightarrow>
        maxHp e = st_hp (getUnitStats (etype e) (level e) (getPlayerTechLevel gT tL (etype e)) arts)"
      using mx mxi i(1) pi set_update_subset_insert [of es i ?m] by auto
    moreover have "playerUnitCount (es[i := ?m]) = playerUnitCount es" by (rule playerUnitCount_update) simp
    ultimately show ?thesis using Some None by (simp add: resolveDrop_Moved)
  next
    case (Some j)
    have j: "j < length es" "j \<noteq> i" "cell (es ! j) = (gx, gy)"
      using find_idx_drop_target [OF Some \<open>find_idx _ es = Some i\<close>] by auto
    have pj: "side (es ! j) = PLAYER"
      using halves_ok_player [OF hv nth_mem [OF j(1)]] j(3) tgt by (simp add: cell_def)
    show ?thesis
    proof (cases "etype (es ! j) = etype (es ! i) \<and> level (es ! j) = level (es ! i)")
      case True
      let ?T = "getPlayerTechLevel gT tL (etype (es ! j))"
      let ?st = "getUnitStats (etype (es ! j)) (level (es ! j) + 1) ?T arts"
      let ?t = "(es ! j)\<lparr>level := level (es ! j) + 1, maxHp := st_hp ?st, hp := st_hp ?st\<rparr>"
      have h1: "halves_ok (es[j := ?t])" using hv j(1) by (intro halves_ok_update) (auto simp: halves_ok_def)
      have m1: "\<forall>e \<in> set (es[j := ?t]). side e = PLAYER \<longrightarrow>
          maxHp e = st_hp (getUnitStats (etype e) (level e) (getPlayerTechLevel gT tL (etype e)) arts)"
        using mx set_update_subset_insert [of es j ?t] by auto
      have c1: "playerUnitCount (es[j := ?t]) = playerUnitCount es" by (rule playerUnitCount_update) simp
      have "halves_ok (remove_nth i (es[j := ?t]))" using h1 by (rule halves_ok_remove_nth)
      moreover have "\<forall>e \<in> set (remove_nth i (es[j := ?t])). side e = PLAYER \<longrightarrow>
          maxHp e = st_hp (getUnitStats (etype e) (level e) (getPlayerTechLevel gT tL (etype e)) arts)"
        using m1 set_remove_nth_subset [of i "es[j := ?t]"] by blast
      moreover have "playerUnitCount (remove_nth i (es[j := ?t])) \<le> playerUnitCount es"
        using playerUnitCount_remove_nth [of i "es[j := ?t]"] c1 by simp
      ultimately show ?thesis
        using \<open>find_idx _ es = Some i\<close> Some True by (simp add: resolveDrop_Merged)
    next
      case False
      let ?m = "(es ! i)\<lparr>gridX := gridX (es ! j), gridY := gridY (es ! j),
                 posX := real_of_int (gridX (es ! j)), posY := real_of_int (gridY (es ! j))\<rparr>"
      let ?t = "(es ! j)\<lparr>gridX := gridX (es ! i), gridY := gridY (es ! i),
                 posX := real_of_int (gridX (es ! i)), posY := real_of_int (gridY (es ! i))\<rparr>"
      have hi: "halves_ok [es ! i]" "halves_ok [es ! j]"
        using hv nth_mem [OF i(1)] nth_mem [OF j(1)] by (auto simp: halves_ok_def)
      have "halves_ok (es[i := ?m, j := ?t])"
        using hv hi pi pj by (intro halves_ok_update) (auto simp: halves_ok_def)
      moreover have "\<forall>e \<in> set (es[i := ?m, j := ?t]). side e = PLAYER \<longrightarrow>
          maxHp e = st_hp (getUnitStats (etype e) (level e) (getPlayerTechLevel gT tL (etype e)) arts)"
        using mx mxi i(1) j(1) by (intro all_update) auto
      moreover have "playerUnitCount (es[i := ?m, j := ?t]) = playerUnitCount es"
        using playerUnitCount_update [of ?m es i] playerUnitCount_update [of ?t "es[i := ?m]" j] j(2) by simp
      ultimately show ?thesis
        using \<open>find_idx _ es = Some i\<close> Some False by (simp add: resolveDrop_Swapped)
    qed
  qed
qed

subsection \<open>Parts of the invariant\<close>

lemma board_roster_home: "board_ok s \<Longrightarrow> roster_home (entities s)"
  by (auto simp: board_ok_def roster_home_def placement_ok_def roster_ok_def halves_ok_def
                 distinct_map_filter)

lemma prep_inv: "prep_ok s \<Longrightarrow> app_inv (syncRef s)"
  using board_roster_home [of s]
  by (auto simp: prep_ok_def app_inv_def syncRef_def board_ok_def tech_ok_def purse_ok_def
                 drag_ok_def maxUnitCap_def unitMaxHp_def playerTech_def split: option.splits)

lemma inv_prep: "app_inv s \<Longrightarrow> phase s = PREPARATION \<Longrightarrow> prep_ok s"
  by (simp add: app_inv_def prep_ok_def)

lemma syncRef_inv: "app_inv s \<Longrightarrow> syncRef s = s"
  by (auto simp: app_inv_def syncRef_def)

lemma placement_ok_map:
  assumes "placement_ok es" "\<forall>e \<in> set es. eid (f e) = eid e \<and> level (f e) = level e \<and> cell (f e) = cell e \<and> 0 < hp (f e)"
  shows "placement_ok (map f es)"
proof -
  have e: "map (eid \<circ> f) es = map eid es" and c: "map (cell \<circ> f) es = map cell es"
    using assms(2) by (auto intro: map_cong)
  show ?thesis using assms unfolding placement_ok_def roster_ok_def map_map e c by auto
qed

lemma halves_ok_map:
  "halves_ok es \<Longrightarrow> \<forall>e \<in> set es. side (f e) = side e \<and> gridX (f e) = gridX e \<and> gridY (f e) = gridY e
   \<Longrightarrow> halves_ok (map f es)"
  by (auto simp: halves_ok_def)

lemma playerUnitCount_map: "\<forall>e \<in> set es. side (f e) = side e \<Longrightarrow> playerUnitCount (map f es) = playerUnitCount es"
  by (simp add: playerUnitCount_side comp_def cong: map_cong)

lemma playerTech_pos: "tech_ok s \<Longrightarrow> 1 \<le> playerTech s t"
  by (simp add: tech_ok_def playerTech_def getPlayerTechLevel_def)

lemma st_hp_shield_mono:
  assumes "arts ANCIENT_SHIELD \<le> arts' ANCIENT_SHIELD" "1 \<le> T"
  shows "st_hp (getUnitStats ty lvl T arts) \<le> st_hp (getUnitStats ty lvl T arts')"
proof -
  have b: "0 \<le> real_of_int (st_hp (UNIT_BASE_STATS ty)) * HP_MULTIPLIER ^ (lvl - 1)"
    using base_hp_ge [of ty] HP_MULTIPLIER_ge1 by simp
  have "hp_scale ty lvl arts \<le> hp_scale ty lvl arts'"
    unfolding hp_scale_def using assms(1) by (intro mult_left_mono [OF _ b]) simp
  moreover have "0 \<le> tech_mult T" using tech_mult_ge1 [OF assms(2)] by simp
  ultimately show ?thesis by (simp add: st_hp_getUnitStats floor_mono mult_right_mono)
qed

lemma achievements_reward_nonneg: "enabled s (ClaimAchievement i r) \<Longrightarrow> 0 \<le> r"
  by (auto simp: ACHIEVEMENTS_def)

end
