(* ===== verification/Machine_Shop.thy ===== *)
theory Machine_Shop
  imports Machine
begin

text \<open>
  Each shop handler of \<^verbatim>\<open>App.tsx\<close> that succeeds (\<open>Inr\<close>) leaves a valid
  preparation state (\<open>prep_ok\<close>): purchase, research, global research, artifacts,
  sale, synthesis and achievement rewards each keep the placement invariant, the halves,
  the unit cap, the maximum hit points of the current research, and a non-negative purse.
\<close>

subsection \<open>Purchases\<close>

lemma drag_ok_snoc:
  "drag_ok s \<Longrightarrow> side u = PLAYER \<Longrightarrow> draggingId s' = draggingId s \<Longrightarrow> phase s' = phase s
   \<Longrightarrow> set (entities s') \<subseteq> insert u (set (entities s)) \<Longrightarrow> drag_ok s'"
  by (auto simp: drag_ok_def split: option.splits)

lemma unitMaxHp_eq:
  "globalTech s' = globalTech s \<Longrightarrow> techLevels s' = techLevels s \<Longrightarrow> artifactLevels s' = artifactLevels s
   \<Longrightarrow> unitMaxHp s' = unitMaxHp s"
  unfolding unitMaxHp_def playerTech_def by simp

lemma buy_prep:
  assumes p: "prep_ok s" and fresh: "newId \<notin> eid ` set (entities s)"
    and res: "handleBuyUnit s b rand r2 newId = Inr s'"
  shows "prep_ok s'"
proof -
  let ?ty = "rollType (real_of_int (globalTech s LUCK - 1)) b rand r2"
  obtain x y rest where sp: "availableSpots (entities s) = (x, y) # rest"
    and cap: "int (playerUnitCount (entities s)) < maxUnitCap s" and c: "buyCost s b \<le> coins s"
    and s': "s' = s\<lparr>coins := coins s - buyCost s b,
              recruitCost := (case b of SPECIFIC _ \<Rightarrow> recruitCost s | _ \<Rightarrow> recruitCost s + RECRUIT_COST_INCREASE),
              unitCosts := (case b of SPECIFIC ty \<Rightarrow> (unitCosts s)(ty := unitCosts s ty + 10) | _ \<Rightarrow> unitCosts s),
              entities := entities s @ [createEntity newId ?ty 1 PLAYER x y (playerTech s ?ty) (artifactLevels s)],
              gameStats := (gameStats s)\<lparr>summons := summons (gameStats s) + 1\<rparr>\<rparr>"
    using res by (rule handleBuyUnit_Inr)
  let ?u = "createEntity newId ?ty 1 PLAYER x y (playerTech s ?ty) (artifactLevels s)"
  have ok: "placement_ok (entities s)" and hv: "halves_ok (entities s)"
    and mx: "\<forall>e \<in> set (entities s). side e = PLAYER \<longrightarrow> maxHp e = unitMaxHp s e"
    and tk: "tech_ok s" and pu: "purse_ok s" and dr: "drag_ok s" and ph: "phase s = PREPARATION"
    using p by (auto simp: prep_ok_def board_ok_def)
  have xy: "0 \<le> x \<and> x < GRID_COLS \<and> GRID_ROWS div 2 \<le> y \<and> y < GRID_ROWS"
    using set_availableSpots [of "(x, y)" "entities s"] sp by simp
  have "(x, y) \<notin> cell ` set (entities s)" using free_spot_cell [OF ok] sp by simp
  then have P: "placement_ok (entities s @ [?u])"
    using ok fresh playerTech_pos [OF tk] by (intro placement_ok_snoc) (simp_all add: getUnitStats_hp_pos cell_def)
  have H: "halves_ok (entities s @ [?u])" using hv xy by (simp add: halves_ok_def GRID_ROWS_def)
  have M: "\<forall>e \<in> set (entities s @ [?u]). side e = PLAYER \<longrightarrow> maxHp e = unitMaxHp s e"
    using mx by (simp add: unitMaxHp_def)
  have C: "int (playerUnitCount (entities s @ [?u])) \<le> maxUnitCap s" using cap by simp
  have R: "0 \<le> recruitCost s'" using pu by (cases b) (simp_all add: s' purse_ok_def RECRUIT_COST_INCREASE_def)
  have "unitMaxHp s' = unitMaxHp s" by (rule unitMaxHp_eq) (simp_all add: s')
  moreover have "maxUnitCap s' = maxUnitCap s" "tech_ok s' = tech_ok s"
    by (simp_all add: s' maxUnitCap_def tech_ok_def)
  moreover have "board_ok s'" using P H M C calculation by (simp add: board_ok_def s')
  moreover have "drag_ok s'" using dr by (rule drag_ok_snoc [of s ?u]) (auto simp: s')
  ultimately show ?thesis using tk pu R ph c by (simp add: prep_ok_def purse_ok_def s')
qed

subsection \<open>Research\<close>

lemma refresh_board:
  assumes ok: "placement_ok es" and hv: "halves_ok es" and cap: "int (playerUnitCount es) \<le> m"
    and f: "\<forall>e. eid (f e) = eid e \<and> level (f e) = level e \<and> cell (f e) = cell e \<and> side (f e) = side e
              \<and> gridX (f e) = gridX e \<and> gridY (f e) = gridY e \<and> etype (f e) = etype e"
    and pos: "\<forall>e \<in> set es. 0 < hp (f e)"
    and mx: "\<forall>e \<in> set es. side e = PLAYER \<longrightarrow> maxHp (f e) = M (f e)"
  shows "placement_ok (map f es) \<and> halves_ok (map f es) \<and> (\<forall>e \<in> set (map f es). side e = PLAYER \<longrightarrow> maxHp e = M e)
       \<and> int (playerUnitCount (map f es)) \<le> m"
proof -
  have "placement_ok (map f es)" using ok f pos by (intro placement_ok_map) auto
  moreover have "halves_ok (map f es)" using hv f by (intro halves_ok_map) auto
  moreover have "playerUnitCount (map f es) = playerUnitCount es" using f by (intro playerUnitCount_map) auto
  ultimately show ?thesis using mx cap f by auto
qed

lemma tech_prep:
  assumes p: "prep_ok s" and nm: "tier (UNIT_BASE_STATS ty) \<noteq> MYTHIC"
    and res: "applyTechUpgrade s ty = Inr s'"
  shows "prep_ok s'"
proof -
  let ?n = "techLevels s ty + 1"
  let ?f = "\<lambda>ent. if side ent = PLAYER \<and> etype ent = ty
                 then ent\<lparr>maxHp := st_hp (getUnitStats (etype ent) (level ent) ?n (artifactLevels s)),
                          hp := st_hp (getUnitStats (etype ent) (level ent) ?n (artifactLevels s))\<rparr>
                 else ent"
  have c: "TECH_COST_BASE + (techLevels s ty - 1) * TECH_COST_INCREASE \<le> coins s"
    and s': "s' = s\<lparr>coins := coins s - (TECH_COST_BASE + (techLevels s ty - 1) * TECH_COST_INCREASE),
                     techLevels := (techLevels s)(ty := ?n), entities := map ?f (entities s)\<rparr>"
    using res by (auto simp: applyTechUpgrade_def Let_def split: if_splits)
  have ok: "placement_ok (entities s)" and hv: "halves_ok (entities s)"
    and mx: "\<forall>e \<in> set (entities s). side e = PLAYER \<longrightarrow> maxHp e = unitMaxHp s e"
    and cap: "int (playerUnitCount (entities s)) \<le> maxUnitCap s"
    and tk: "tech_ok s" and pu: "purse_ok s" and dr: "drag_ok s" and ph: "phase s = PREPARATION"
    using p by (auto simp: prep_ok_def board_ok_def)
  have n1: "1 \<le> ?n" using tk unfolding tech_ok_def by (metis add_increasing2 zero_le_one order_trans)
  have pt: "\<And>t. playerTech s' t = (if t = ty then ?n else playerTech s t)"
    using nm by (auto simp: s' playerTech_def getPlayerTechLevel_def)
  have um: "\<And>e. unitMaxHp s' e = (if etype e = ty then st_hp (getUnitStats (etype e) (level e) ?n (artifactLevels s))
                                      else unitMaxHp s e)"
    unfolding unitMaxHp_def pt by (simp add: s')
  have f: "\<forall>e. eid (?f e) = eid e \<and> level (?f e) = level e \<and> cell (?f e) = cell e \<and> side (?f e) = side e
              \<and> gridX (?f e) = gridX e \<and> gridY (?f e) = gridY e \<and> etype (?f e) = etype e"
    by (simp add: cell_def)
  have pos: "\<forall>e \<in> set (entities s). 0 < hp (?f e)"
    using ok getUnitStats_hp_pos [OF n1] by (auto simp: placement_ok_def)
  have m: "\<forall>e \<in> set (entities s). side e = PLAYER \<longrightarrow> maxHp (?f e) = unitMaxHp s' (?f e)"
    using mx by (simp add: um)
  have es': "entities s' = map ?f (entities s)" and cap': "maxUnitCap s' = maxUnitCap s"
    by (simp_all add: s' maxUnitCap_def)
  have "board_ok s'" unfolding board_ok_def es' cap' by (rule refresh_board [OF ok hv cap f pos m])
  moreover have "tech_ok s'" using tk n1 by (simp add: tech_ok_def s')
  moreover have "drag_ok s'" using dr by (auto simp: drag_ok_def s' split: option.splits)
  ultimately show ?thesis using pu c ph by (simp add: prep_ok_def purse_ok_def s')
qed

lemma maxUnitCap_mono: "globalTech s CAPACITY \<le> globalTech s' CAPACITY \<Longrightarrow> maxUnitCap s \<le> maxUnitCap s'"
  by (simp add: maxUnitCap_def UNIT_CAP_PER_LEVEL_def)

lemma global_prep:
  assumes p: "prep_ok s" and res: "applyGlobalUpgrade s gt = Inr s'"
  shows "prep_ok s'"
proof -
  let ?n = "globalTech s gt + 1"
  let ?c = "gt_baseCost gt + (globalTech s gt - 1) * gt_costInc gt"
  let ?g = "\<lambda>ent. if side ent = PLAYER \<and> tier (UNIT_BASE_STATS (etype ent)) = MYTHIC
                 then ent\<lparr>maxHp := st_hp (getUnitStats (etype ent) (level ent) ?n (artifactLevels s)),
                          hp := st_hp (getUnitStats (etype ent) (level ent) ?n (artifactLevels s))\<rparr>
                 else ent"
  have c: "?c \<le> coins s"
    and s': "s' = s\<lparr>coins := coins s - ?c, globalTech := (globalTech s)(gt := ?n),
                     entities := (if gt = MYTHIC_MASTERY then map ?g (entities s) else entities s)\<rparr>"
    using res by (auto simp: applyGlobalUpgrade_def Let_def split: if_splits)
  have ok: "placement_ok (entities s)" and hv: "halves_ok (entities s)"
    and mx: "\<forall>e \<in> set (entities s). side e = PLAYER \<longrightarrow> maxHp e = unitMaxHp s e"
    and cap0: "int (playerUnitCount (entities s)) \<le> maxUnitCap s"
    and tk: "tech_ok s" and pu: "purse_ok s" and dr: "drag_ok s" and ph: "phase s = PREPARATION"
    using p by (auto simp: prep_ok_def board_ok_def)
  have n1: "1 \<le> ?n" using tk unfolding tech_ok_def by (metis add_increasing2 zero_le_one order_trans)
  have capm: "maxUnitCap s \<le> maxUnitCap s'" by (rule maxUnitCap_mono) (simp add: s')
  then have cap: "int (playerUnitCount (entities s)) \<le> maxUnitCap s'" using cap0 by simp
  have tk': "tech_ok s'" using tk n1 by (simp add: tech_ok_def s')
  have dr': "drag_ok s'" using dr by (auto simp: drag_ok_def s' split: option.splits)
  have "board_ok s'"
  proof (cases "gt = MYTHIC_MASTERY")
    case True
    have um: "\<And>e. unitMaxHp s' e = (if tier (UNIT_BASE_STATS (etype e)) = MYTHIC
                 then st_hp (getUnitStats (etype e) (level e) ?n (artifactLevels s)) else unitMaxHp s e)"
      using True unfolding unitMaxHp_def by (simp add: s' playerTech_def getPlayerTechLevel_def)
    have es': "entities s' = map ?g (entities s)" using True by (simp add: s')
    have f: "\<forall>e. eid (?g e) = eid e \<and> level (?g e) = level e \<and> cell (?g e) = cell e \<and> side (?g e) = side e
              \<and> gridX (?g e) = gridX e \<and> gridY (?g e) = gridY e \<and> etype (?g e) = etype e"
      by (simp add: cell_def)
    have pos: "\<forall>e \<in> set (entities s). 0 < hp (?g e)"
      using ok getUnitStats_hp_pos [OF n1] by (auto simp: placement_ok_def)
    have m: "\<forall>e \<in> set (entities s). side e = PLAYER \<longrightarrow> maxHp (?g e) = unitMaxHp s' (?g e)"
      using mx by (simp add: um)
    show ?thesis unfolding board_ok_def es' by (rule refresh_board [OF ok hv cap f pos m])
  next
    case False
    have "MYTHIC_MASTERY \<noteq> gt" using False by simp
    then have "unitMaxHp s' = unitMaxHp s"
      unfolding unitMaxHp_def by (simp add: s' playerTech_def getPlayerTechLevel_def cong: if_cong)
    then show ?thesis using ok hv mx cap False by (simp add: board_ok_def s')
  qed
  then show ?thesis using tk' dr' pu c ph by (simp add: prep_ok_def purse_ok_def s')
qed

subsection \<open>Artifacts, sales, synthesis and rewards\<close>

lemma artifact_prep:
  assumes p: "prep_ok s" and res: "handleBuyArtifact s r = Inr s'"
  shows "prep_ok s'"
proof -
  let ?a = "pick all_artifact_types r"
  let ?L = "(artifactLevels s)(?a := artifactLevels s ?a + 1)"
  let ?st = "\<lambda>ent. st_hp (getUnitStats (etype ent) (level ent) (playerTech s (etype ent)) ?L)"
  let ?h = "\<lambda>ent. if side ent = PLAYER then ent\<lparr>maxHp := ?st ent, hp := hp ent + (?st ent - maxHp ent)\<rparr> else ent"
  have c: "artifactCost s \<le> coins s"
    and s': "s' = s\<lparr>coins := coins s - artifactCost s, artifactLevels := ?L, entities := map ?h (entities s),
                     artifactCost := artifactCost s + ARTIFACT_COST_INCREASE\<rparr>"
    using res by (auto simp: handleBuyArtifact_def Let_def split: if_splits)
  have ok: "placement_ok (entities s)" and hv: "halves_ok (entities s)"
    and mx: "\<forall>e \<in> set (entities s). side e = PLAYER \<longrightarrow> maxHp e = unitMaxHp s e"
    and cap: "int (playerUnitCount (entities s)) \<le> maxUnitCap s"
    and tk: "tech_ok s" and pu: "purse_ok s" and dr: "drag_ok s" and ph: "phase s = PREPARATION"
    using p by (auto simp: prep_ok_def board_ok_def)
  have um: "\<And>e. unitMaxHp s' e = ?st e" by (simp add: unitMaxHp_def playerTech_def s')
  have f: "\<forall>e. eid (?h e) = eid e \<and> level (?h e) = level e \<and> cell (?h e) = cell e \<and> side (?h e) = side e
              \<and> gridX (?h e) = gridX e \<and> gridY (?h e) = gridY e \<and> etype (?h e) = etype e"
    by (simp add: cell_def)
  have pos: "\<forall>e \<in> set (entities s). 0 < hp (?h e)"
  proof
    fix e assume e: "e \<in> set (entities s)"
    have h0: "0 < hp e" using ok e by (simp add: placement_ok_def)
    show "0 < hp (?h e)"
    proof (cases "side e = PLAYER")
      case True
      have "unitMaxHp s e \<le> ?st e"
        unfolding unitMaxHp_def using playerTech_pos [OF tk] by (intro st_hp_shield_mono) simp_all
      then show ?thesis using True h0 mx e by simp
    qed (use h0 in simp)
  qed
  have m: "\<forall>e \<in> set (entities s). side e = PLAYER \<longrightarrow> maxHp (?h e) = unitMaxHp s' (?h e)"
    by (simp add: um)
  have es': "entities s' = map ?h (entities s)" and cap': "maxUnitCap s' = maxUnitCap s"
    by (simp_all add: s' maxUnitCap_def)
  have "board_ok s'" unfolding board_ok_def es' cap' by (rule refresh_board [OF ok hv cap f pos m])
  moreover have "tech_ok s'" using tk by (simp add: tech_ok_def s')
  moreover have "drag_ok s'" using dr by (auto simp: drag_ok_def s' split: option.splits)
  ultimately show ?thesis using pu c ph by (simp add: prep_ok_def purse_ok_def s')
qed

lemma sell_prep:
  assumes p: "prep_ok s" and res: "handleSellUnit s = Inr s'"
  shows "prep_ok s'"
proof -
  obtain u where u: "selectedUnit s = Some u"
    and s': "s' = s\<lparr>coins := coins s + sellRefund s u, entities := filter (\<lambda>e. eid e \<noteq> eid u) (entities s),
                     selectedUnit := None\<rparr>"
    using res by (auto simp: handleSellUnit_def split: option.splits if_splits)
  have ok: "placement_ok (entities s)" and hv: "halves_ok (entities s)"
    and mx: "\<forall>e \<in> set (entities s). side e = PLAYER \<longrightarrow> maxHp e = unitMaxHp s e"
    and cap: "int (playerUnitCount (entities s)) \<le> maxUnitCap s"
    and tk: "tech_ok s" and pu: "purse_ok s" and dr: "drag_ok s" and ph: "phase s = PREPARATION"
    using p by (auto simp: prep_ok_def board_ok_def)
  have "unitMaxHp s' = unitMaxHp s" by (rule unitMaxHp_eq) (simp_all add: s')
  moreover have "playerUnitCount (filter (\<lambda>e. eid e \<noteq> eid u) (entities s)) \<le> playerUnitCount (entities s)"
    by (rule playerUnitCount_filter)
  ultimately have "board_ok s'"
    using placement_ok_filter [OF ok] hv mx cap
    by (auto simp: board_ok_def s' halves_ok_def maxUnitCap_def)
  moreover have "0 \<le> sellRefund s u" using pu by (intro sellRefund_nonneg) (simp add: purse_ok_def)
  moreover have "drag_ok s'" using dr by (auto simp: drag_ok_def s' split: option.splits)
  ultimately show ?thesis using pu tk ph by (simp add: prep_ok_def purse_ok_def tech_ok_def s')
qed

lemma playerUnitCount_filter_less:
  "x \<in> set es \<Longrightarrow> side x = PLAYER \<Longrightarrow> \<not> P x \<Longrightarrow> playerUnitCount (filter P es) < playerUnitCount es"
proof (induction es)
  case Nil
  then show ?case by simp
next
  case (Cons y ys)
  have le: "playerUnitCount (filter P ys) \<le> playerUnitCount ys" by (rule playerUnitCount_filter)
  show ?case
  proof (cases "x = y")
    case True
    then show ?thesis using Cons.prems le by (simp add: playerUnitCount_def)
  next
    case False
    then have "playerUnitCount (filter P ys) < playerUnitCount ys" using Cons by simp
    then show ?thesis by (simp add: playerUnitCount_def)
  qed
qed

lemma synth_prep:
  assumes p: "prep_ok s" and fresh: "newId \<notin> eid ` set (entities s)"
    and res: "handleSynthesize s recipe newId = Inr s'"
  shows "prep_ok s'"
proof -
  obtain i1 i2 where fi: "findIngredients recipe (entities s) = Some (i1, i2)" and c: "cost recipe \<le> coins s"
    using res by (auto simp: handleSynthesize_def split: if_splits option.splits)
  have ii: "i1 \<in> set (entities s)" "i2 \<in> set (entities s)" "side i1 = PLAYER"
    using findIngredients_SomeD [OF fi] by auto
  let ?rest = "filter (\<lambda>e. eid e \<noteq> eid i1 \<and> eid e \<noteq> eid i2) (entities s)"
  let ?u = "createEntity newId (result recipe) 1 PLAYER (gridX i1) (gridY i1)
              (playerTech s (result recipe)) (artifactLevels s)"
  have ex: "list_ex (\<lambda>e. eid e = eid i1) (entities s)" "list_ex (\<lambda>e. eid e = eid i2) (entities s)"
    using ii by (auto simp: list_ex_iff)
  have s': "s' = s\<lparr>coins := coins s - cost recipe, entities := ?rest @ [?u]\<rparr>"
    using res fi c ex by (auto simp: handleSynthesize_def)
  have ok: "placement_ok (entities s)" and hv: "halves_ok (entities s)"
    and mx: "\<forall>e \<in> set (entities s). side e = PLAYER \<longrightarrow> maxHp e = unitMaxHp s e"
    and cap: "int (playerUnitCount (entities s)) \<le> maxUnitCap s"
    and tk: "tech_ok s" and pu: "purse_ok s" and dr: "drag_ok s" and ph: "phase s = PREPARATION"
    using p by (auto simp: prep_ok_def board_ok_def)
  have P: "placement_ok (?rest @ [?u])"
  proof (rule placement_ok_snoc)
    show "placement_ok ?rest" using ok by (rule placement_ok_filter)
    show "eid ?u \<notin> eid ` set ?rest" using fresh by auto
    show "cell ?u \<notin> cell ` set ?rest"
      using cell_free_after_filter [OF ok ii(1), of "\<lambda>e. eid e \<noteq> eid i2"] by (simp add: cell_def)
  qed (simp_all add: playerTech_pos [OF tk] getUnitStats_hp_pos)
  have "halves_ok [i1]" using hv ii(1) by (simp add: halves_ok_def)
  then have H: "halves_ok (?rest @ [?u])" using hv ii(3) by (auto simp: halves_ok_def)
  have um: "unitMaxHp s' = unitMaxHp s" by (rule unitMaxHp_eq) (simp_all add: s')
  have M: "\<forall>e \<in> set (?rest @ [?u]). side e = PLAYER \<longrightarrow> maxHp e = unitMaxHp s' e"
    using mx by (simp add: um unitMaxHp_def)
  have "playerUnitCount ?rest < playerUnitCount (entities s)"
    using ii by (intro playerUnitCount_filter_less) auto
  then have C: "int (playerUnitCount (?rest @ [?u])) \<le> maxUnitCap s'"
    using cap by (simp add: s' maxUnitCap_def)
  have "board_ok s'" using P H M C by (simp add: board_ok_def s')
  moreover have "drag_ok s'"
    using dr by (rule drag_ok_snoc [of s ?u]) (auto simp: s')
  ultimately show ?thesis using pu tk ph c by (simp add: prep_ok_def purse_ok_def tech_ok_def s')
qed

lemma achievement_prep:
  assumes p: "prep_ok s" and r: "0 \<le> reward" and res: "claimAchievement s achId reward = Inr s'"
  shows "prep_ok s'"
proof -
  have s': "s' = s\<lparr>coins := coins s + reward, claimedAchievements := insert achId (claimedAchievements s)\<rparr>"
    using res by (auto simp: claimAchievement_def split: if_splits)
  have "unitMaxHp s' = unitMaxHp s" by (rule unitMaxHp_eq) (simp_all add: s')
  then show ?thesis using p r
    by (auto simp: prep_ok_def board_ok_def tech_ok_def purse_ok_def drag_ok_def maxUnitCap_def s'
             split: option.splits)
qed

end
