(* ===== verification/Machine_Inv.thy ===== *)
theory Machine_Inv
  imports Machine_Shop
begin

text \<open>
  The invariant \<open>app_inv\<close> holds of every reachable state: the initial state has it
  and every enabled step keeps it (\<open>app_step_inv\<close>, one case per operation, using the
  shop lemmas of \<open>Machine_Shop\<close>, the level-load lemma \<open>loadLevel_ok\<close> of
  \<open>Session\<close>, the drop lemmas and the battle frame of \<open>Battle\<close>). From it follow
  the validity of every reachable preparation board and the hypotheses of the handlers'
  theorems.
\<close>

subsection \<open>Session, drag and battle steps\<close>

lemma app_inv_cong:
  assumes "app_inv s" "entities s' = entities s" "entitiesRef s' = entitiesRef s"
    "globalTech s' = globalTech s" "techLevels s' = techLevels s" "artifactLevels s' = artifactLevels s"
    "phase s' = PREPARATION \<longrightarrow> phase s = PREPARATION" "drag_ok s'"
    "coins s \<le> coins s'" "recruitCost s' = recruitCost s"
  shows "app_inv s'"
proof -
  have "unitMaxHp s' = unitMaxHp s" using assms(4-6) by (rule unitMaxHp_eq)
  then show ?thesis using assms
    by (auto simp: app_inv_def tech_ok_def purse_ok_def board_ok_def maxUnitCap_def)
qed

lemma drag_ok_none: "draggingId s = None \<Longrightarrow> drag_ok s"
  by (simp add: drag_ok_def)

lemma shop_inv:
  assumes "app_inv s" "phase s = PREPARATION" "\<And>s'. r = Inr s' \<Longrightarrow> prep_ok s'"
  shows "app_inv (syncRef (shop s r))"
proof (cases r)
  case (Inl e)
  then show ?thesis using assms(1) by (simp add: shop_def syncRef_inv)
next
  case (Inr s')
  then show ?thesis using assms(3) prep_inv by (simp add: shop_def)
qed

lemma roster_home_Nil: "roster_home []"
  by (simp add: roster_home_def roster_ok_def halves_ok_def)

lemma loadLevel_prep:
  assumes rh: "roster_home (entitiesRef s)" and tk: "tech_ok s" and pu: "purse_ok s"
    and cap: "int (playerUnitCount (entitiesRef s)) \<le> maxUnitCap s"
    and rnd: "draws_ok rnd" and ids: "fresh_ids ids (entitiesRef s)" and dr: "draggingId s = None"
  shows "prep_ok (loadLevel s lvl d rnd ids)"
proof -
  let ?s' = "loadLevel s lvl d rnd ids"
  let ?P = "players (entitiesRef s)"
  have L: "placement_ok (entities ?s') \<and> halves_ok (entities ?s')"
    using loadLevel_ok [of s rnd ids lvl d] rh tk rnd ids playerTech_pos [OF tk]
    by (simp add: roster_home_def draws_ok_def fresh_ids_def)
  have um: "unitMaxHp ?s' = unitMaxHp s" by (rule unitMaxHp_eq) simp_all
  have M: "\<forall>e \<in> set (entities ?s'). side e = PLAYER \<longrightarrow> maxHp e = unitMaxHp ?s' e"
  proof (intro ballI impI)
    fix e assume e: "e \<in> set (entities ?s')" "side e = PLAYER"
    have "e \<notin> set (enemyUnits lvl d (generateLevel lvl d rnd) ids)" using e(2) enemyUnits_set by force
    then obtain e0 where "e = refreshPlayerUnit s e0" using e(1) by auto
    then show "maxHp e = unitMaxHp ?s' e" by (simp add: um unitMaxHp_def)
  qed
  have "playerUnitCount (entities ?s') = playerUnitCount (entitiesRef s)"
    using enemyUnits_players [of lvl d "generateLevel lvl d rnd" ids]
    by (simp add: playerUnitCount_def comp_def)
  then have C: "int (playerUnitCount (entities ?s')) \<le> maxUnitCap ?s'" using cap by (simp add: maxUnitCap_def)
  have "board_ok ?s'" using L M C by (simp add: board_ok_def)
  moreover have "drag_ok ?s'" using dr by (simp add: drag_ok_def)
  ultimately show ?thesis using tk pu by (simp add: prep_ok_def tech_ok_def purse_ok_def)
qed

lemma reset_load_prep:
  assumes "draws_ok rnd" "inj ids" "draggingId s = None"
  shows "prep_ok (loadLevel (resetRunData s) lvl d rnd ids)"
  using assms roster_home_Nil
  by (intro loadLevel_prep)
     (simp_all add: resetRunData_def tech_ok_def purse_ok_def playerUnitCount_def maxUnitCap_def
                    fresh_ids_def RECRUIT_COST_def)

lemma loot_nonneg: "0 \<le> \<lfloor>real_of_int (150 + int n * 50) * getGoldMultiplier s\<rfloor>"
  by (simp add: getGoldMultiplier_def)

lemma battleTick_fields:
  assumes "phase s = BATTLE"
  shows "globalTech (battleTick s t) = globalTech s \<and> techLevels (battleTick s t) = techLevels s
       \<and> artifactLevels (battleTick s t) = artifactLevels s \<and> recruitCost (battleTick s t) = recruitCost s
       \<and> draggingId (battleTick s t) = draggingId s \<and> coins s \<le> coins (battleTick s t)
       \<and> phase (battleTick s t) \<noteq> PREPARATION"
  using assms loot_nonneg by (simp add: battleTick_unfold)

lemma battleTick_inv:
  assumes inv: "app_inv s"
  shows "app_inv (syncRef (battleTick s t))"
proof (cases "phase s = BATTLE")
  case False
  have "app_inv (s\<lparr>loopScheduled := False\<rparr>)"
    using inv by (rule app_inv_cong) (use inv in \<open>auto simp: app_inv_def drag_ok_def split: option.splits\<close>)
  then show ?thesis using False by (simp add: battleTick_def syncRef_inv)
next
  case True
  let ?s' = "battleTick s t"
  have rh: "roster_home (entitiesRef s)" and tk: "tech_ok s" and dr: "drag_ok s"
    and cap: "int (playerUnitCount (entitiesRef s)) \<le> maxUnitCap s" and pu: "purse_ok s"
    using inv by (auto simp: app_inv_def)
  have d: "distinct (map eid (entitiesRef s))" using rh by (simp add: roster_home_def roster_ok_def)
  have fr: "tick_frame (map mark_dead (entitiesRef s)) (entitiesRef ?s')"
    using battleTick_frame_core [OF True d] playerTech_pos [OF tk] by simp
  have m: "map (\<lambda>e. (eid e, level e, side e, cell e)) (map mark_dead (entitiesRef s))
      = map (\<lambda>e. (eid e, level e, side e, cell e)) (entitiesRef s)"
    by (simp add: cell_def)
  have seq: "map (\<lambda>e. (eid e, level e, side e, cell e)) (entitiesRef ?s')
      = map (\<lambda>e. (eid e, level e, side e, cell e)) (entitiesRef s)"
    by (rule trans [OF tick_frame_seats [OF fr] m])
  have rh': "roster_home (entitiesRef ?s') \<and> playerUnitCount (entitiesRef ?s') = playerUnitCount (entitiesRef s)"
    using seats_roster_home [OF seq] rh by blast
  have f: "globalTech ?s' = globalTech s \<and> techLevels ?s' = techLevels s
       \<and> artifactLevels ?s' = artifactLevels s \<and> recruitCost ?s' = recruitCost s
       \<and> draggingId ?s' = draggingId s \<and> coins s \<le> coins ?s' \<and> phase ?s' \<noteq> PREPARATION"
    using True by (rule battleTick_fields)
  have none: "draggingId s = None" using dr True by (auto simp: drag_ok_def split: option.splits)
  have "app_inv ?s'"
    using rh' f tk pu cap none
    by (auto simp: app_inv_def tech_ok_def purse_ok_def maxUnitCap_def drag_ok_def)
  then show ?thesis by (simp add: syncRef_inv)
qed

lemma prep_ok_update:
  assumes p: "prep_ok s" and f: "phase s' = PREPARATION" "globalTech s' = globalTech s"
      "techLevels s' = techLevels s" "artifactLevels s' = artifactLevels s" "coins s' = coins s"
      "recruitCost s' = recruitCost s" "draggingId s' = None"
    and b: "placement_ok (entities s')" "halves_ok (entities s')"
      "\<forall>e \<in> set (entities s'). side e = PLAYER \<longrightarrow> maxHp e = unitMaxHp s e"
      "int (playerUnitCount (entities s')) \<le> maxUnitCap s"
  shows "prep_ok s'"
proof -
  have "unitMaxHp s' = unitMaxHp s" using f(2-4) by (rule unitMaxHp_eq)
  moreover have "maxUnitCap s' = maxUnitCap s" using f(2) by (simp add: maxUnitCap_def)
  ultimately show ?thesis using p f b
    by (simp add: prep_ok_def board_ok_def tech_ok_def purse_ok_def drag_ok_def)
qed

lemma drag_ok_same:
  "drag_ok s \<Longrightarrow> draggingId s' = draggingId s \<Longrightarrow> phase s' = phase s \<Longrightarrow> entities s' = entities s
   \<Longrightarrow> drag_ok s'"
  by (simp add: drag_ok_def split: option.splits)

lemma distinct_eid_unique:
  "distinct (map eid es) \<Longrightarrow> e \<in> set es \<Longrightarrow> e' \<in> set es \<Longrightarrow> eid e' = eid e \<Longrightarrow> e' = e"
  by (metis distinct_map inj_onD)

lemma mouseDown_inv:
  assumes inv: "app_inv s" and e: "e \<in> set (entities s)"
  shows "app_inv (syncRef (handleMouseDown s e))"
proof -
  have "app_inv (handleMouseDown s e)"
  proof (cases "phase s = PREPARATION")
    case True
    then have p: "prep_ok s" using inv by (rule inv_prep [rotated])
    have d: "distinct (map eid (entities s))"
      using p by (simp add: prep_ok_def board_ok_def placement_ok_def roster_ok_def)
    show ?thesis
    proof (cases "side e = PLAYER")
      case True
      have "drag_ok (s\<lparr>draggingId := Some (eid e)\<rparr>)"
        using \<open>phase s = PREPARATION\<close> True distinct_eid_unique [OF d e] by (auto simp: drag_ok_def)
      then have "app_inv (s\<lparr>draggingId := Some (eid e)\<rparr>)" by (intro app_inv_cong [OF inv]) simp_all
      then show ?thesis using True \<open>phase s = PREPARATION\<close> by (simp add: handleMouseDown_def)
    next
      case False
      have "app_inv (s\<lparr>selectedUnit := Some e\<rparr>)"
      proof (rule app_inv_cong [OF inv])
        show "drag_ok (s\<lparr>selectedUnit := Some e\<rparr>)"
          by (rule drag_ok_same [of s]) (use inv in \<open>simp_all add: app_inv_def\<close>)
      qed simp_all
      then show ?thesis using False \<open>phase s = PREPARATION\<close> by (simp add: handleMouseDown_def)
    qed
  qed (use inv in \<open>simp add: handleMouseDown_def\<close>)
  then show ?thesis by (simp add: syncRef_inv)
qed

lemma finishDrag_inv:
  assumes inv: "app_inv s"
    and tgt: "\<forall>gx gy. target = Some (gx, gy) \<longrightarrow> 0 \<le> gx \<and> gx < GRID_COLS \<and> 0 \<le> gy \<and> gy < GRID_ROWS"
  shows "app_inv (syncRef (finishDrag s g target))"
proof (cases "draggingId s")
  case None
  then show ?thesis using inv by (simp add: finishDrag_def syncRef_inv)
next
  case (Some i)
  have ph: "phase s = PREPARATION" and dr: "\<forall>e \<in> set (entities s). eid e = i \<longrightarrow> side e = PLAYER"
    using inv Some by (auto simp: app_inv_def drag_ok_def)
  have p: "prep_ok s" using inv ph by (rule inv_prep)
  have ok: "placement_ok (entities s)" and hv: "halves_ok (entities s)"
    and mx: "\<forall>e \<in> set (entities s). side e = PLAYER \<longrightarrow> maxHp e = unitMaxHp s e"
    and cap: "int (playerUnitCount (entities s)) \<le> maxUnitCap s" and tk: "tech_ok s"
    using p by (auto simp: prep_ok_def board_ok_def)
  have same: "prep_ok (s\<lparr>draggingId := None\<rparr>)" "prep_ok (s\<lparr>draggingId := None, selectedUnit := x\<rparr>)" for x
    using ok hv mx cap ph by (auto intro!: prep_ok_update [OF p])
  have "prep_ok (finishDrag s g target)"
  proof (cases "g < 10 \<or> target = None")
    case True
    then show ?thesis using Some same by (auto simp: finishDrag_def Let_def split: option.splits)
  next
    case False
    then obtain gx gy where t: "target = Some (gx, gy)" and g: "\<not> g < 10" by auto
    show ?thesis
    proof (cases "gy < GRID_ROWS div 2")
      case True
      then show ?thesis using Some same t g by (simp add: finishDrag_def Let_def)
    next
      case False
      let ?es' = "fst (resolveDrop (globalTech s) (techLevels s) (artifactLevels s) i gx gy (entities s))"
      have tech: "\<forall>t. 1 \<le> getPlayerTechLevel (globalTech s) (techLevels s) t"
        using playerTech_pos [OF tk] by (simp add: playerTech_def)
      have mx': "\<forall>e \<in> set (entities s). side e = PLAYER \<longrightarrow> maxHp e =
          st_hp (getUnitStats (etype e) (level e) (getPlayerTechLevel (globalTech s) (techLevels s) (etype e)) (artifactLevels s))"
        using mx by (simp add: unitMaxHp_def playerTech_def)
      have bnd: "0 \<le> gx" "gx < GRID_COLS" "GRID_ROWS div 2 \<le> gy" "gy < GRID_ROWS" using tgt t False by auto
      note RB = resolveDrop_board [OF ok hv mx' dr bnd]
      have P: "placement_ok ?es'" by (rule resolveDrop_placement_ok [OF ok tech])
      have eq: "finishDrag s g target = s\<lparr>draggingId := None, entities := ?es',
           gameStats := (if snd (resolveDrop (globalTech s) (techLevels s) (artifactLevels s) i gx gy (entities s)) = Merged
                         then (gameStats s)\<lparr>merges := merges (gameStats s) + 1\<rparr> else gameStats s)\<rparr>"
        using finishDrag_drop [OF Some g False] t by (simp add: Let_def split: prod.split)
      show ?thesis unfolding eq
        using P RB cap ph by (intro prep_ok_update [OF p]) (simp_all add: unitMaxHp_def playerTech_def)
    qed
  qed
  then show ?thesis by (rule prep_inv)
qed

lemma supply_nonneg: "0 \<le> \<lfloor>real_of_int (100 + int n * 10) * getGoldMultiplier s\<rfloor>"
  by (simp add: getGoldMultiplier_def)

lemma keep_inv:
  assumes inv: "app_inv s" and f: "entities s' = entities s" "entitiesRef s' = entitiesRef s"
      "globalTech s' = globalTech s" "techLevels s' = techLevels s" "artifactLevels s' = artifactLevels s"
      "phase s' = phase s" "draggingId s' = draggingId s" "coins s \<le> coins s'" "recruitCost s' = recruitCost s"
  shows "app_inv (syncRef s')"
proof -
  have "drag_ok s'" by (rule drag_ok_same [of s]) (use inv f in \<open>simp_all add: app_inv_def\<close>)
  then have "app_inv s'" using f by (intro app_inv_cong [OF inv]) simp_all
  then show ?thesis by (simp add: syncRef_inv)
qed

lemma leave_inv:
  assumes inv: "app_inv s" and f: "entities s' = entities s" "entitiesRef s' = entitiesRef s"
      "globalTech s' = globalTech s" "techLevels s' = techLevels s" "artifactLevels s' = artifactLevels s"
      "phase s' \<noteq> PREPARATION" "draggingId s' = None" "coins s \<le> coins s'" "recruitCost s' = recruitCost s"
  shows "app_inv (syncRef s')"
proof -
  have "app_inv s'" using f drag_ok_none [OF f(7)] by (intro app_inv_cong [OF inv]) simp_all
  then show ?thesis by (simp add: syncRef_inv)
qed

lemma reset_state_inv:
  "phase s \<noteq> PREPARATION \<Longrightarrow> draggingId s = None \<Longrightarrow> app_inv (resetRunData s)"
  by (simp add: app_inv_def resetRunData_def tech_ok_def purse_ok_def roster_home_Nil drag_ok_def
                playerUnitCount_def maxUnitCap_def RECRUIT_COST_def)

lemma load_inv:
  assumes inv: "app_inv s" "draws_ok rnd" "fresh_ids ids (entitiesRef s)" "draggingId s = None"
  shows "app_inv (syncRef (loadLevel s lvl d rnd ids))"
  using inv by (intro prep_inv loadLevel_prep) (simp_all add: app_inv_def)

lemma app_inv_init: "app_inv (initialState saved now)"
  by (simp add: app_inv_def initialState_def tech_ok_def purse_ok_def roster_home_Nil drag_ok_def
                playerUnitCount_def maxUnitCap_def RECRUIT_COST_def)

subsection \<open>Every step keeps the invariant\<close>

lemma app_step_inv:
  assumes inv: "app_inv s" and en: "enabled s op"
  shows "app_inv (app_step s op)"
proof (cases op)
  case (StartGame d rnd ids)
  have "prep_ok (loadLevel (resetRunData (s\<lparr>difficulty := d\<rparr>)) 1 d rnd ids)"
    using en StartGame by (intro reset_load_prep) (simp_all add: draws_ok_def)
  then show ?thesis using StartGame by (simp add: app_step_def startGame_def prep_inv)
next
  case (NextLevel rnd ids)
  show ?thesis
  proof (cases "diff_maxLevel (difficulty s) \<le> levelNo s")
    case True
    then show ?thesis unfolding NextLevel app_step_def handle.simps
      using en NextLevel by (intro leave_inv [OF inv]) (auto simp: nextLevel_def Let_def)
  next
    case False
    then have "nextLevel s rnd ids = loadLevel (s\<lparr>levelNo := levelNo s + 1\<rparr>) (levelNo s + 1) (difficulty s) rnd ids"
      by (simp add: nextLevel_def)
    moreover have "app_inv (s\<lparr>levelNo := levelNo s + 1\<rparr>)"
    proof (rule app_inv_cong [OF inv])
      show "drag_ok (s\<lparr>levelNo := levelNo s + 1\<rparr>)"
        by (rule drag_ok_same [of s]) (use inv in \<open>simp_all add: app_inv_def\<close>)
    qed simp_all
    ultimately show ?thesis using en NextLevel by (simp add: app_step_def load_inv)
  qed
next
  case (RetryLevel rnd ids)
  then show ?thesis using inv en by (simp add: app_step_def retryLevel_def load_inv)
next
  case (ModeReset c rnd ids)
  show ?thesis
  proof (cases c)
    case True
    have "prep_ok (loadLevel ((resetRunData s)\<lparr>phase := PREPARATION\<rparr>) 1 (difficulty s) rnd ids)"
      using en ModeReset roster_home_Nil
      by (intro loadLevel_prep)
         (simp_all add: resetRunData_def tech_ok_def purse_ok_def playerUnitCount_def maxUnitCap_def
                        fresh_ids_def RECRUIT_COST_def)
    then show ?thesis using ModeReset True by (simp add: app_step_def handleModeReset_def prep_inv)
  qed (use inv ModeReset in \<open>simp add: app_step_def handleModeReset_def syncRef_inv\<close>)
next
  case (FullReset c)
  show ?thesis
  proof (cases c)
    case True
    have "app_inv ((resetRunData (s\<lparr>maxUnlockedDifficulty := NORMAL, claimedAchievements := {}\<rparr>))
                    \<lparr>phase := DIFFICULTY_SELECT\<rparr>)"
      using en FullReset by (simp add: app_inv_def resetRunData_def tech_ok_def purse_ok_def roster_home_Nil
                                        drag_ok_def playerUnitCount_def maxUnitCap_def RECRUIT_COST_def)
    then show ?thesis using FullReset True by (simp add: app_step_def handleFullReset_def syncRef_inv)
  qed (use inv FullReset in \<open>simp add: app_step_def handleFullReset_def syncRef_inv\<close>)
next
  case BackToTitle
  then show ?thesis unfolding BackToTitle app_step_def handle.simps backToTitle_def
    using en BackToTitle by (intro leave_inv [OF inv]) simp_all
next
  case (MouseDown e)
  then show ?thesis using mouseDown_inv [OF inv] en by (simp add: app_step_def)
next
  case (FinishDrag g target)
  have "\<forall>gx gy. target = Some (gx, gy) \<longrightarrow> 0 \<le> gx \<and> gx < GRID_COLS \<and> 0 \<le> gy \<and> gy < GRID_ROWS"
    using en FinishDrag by (auto split: option.splits)
  then show ?thesis using finishDrag_inv [OF inv] FinishDrag by (simp add: app_step_def)
next
  case (BuyUnit b rand r2 newId)
  then have ph: "phase s = PREPARATION" and p: "prep_ok s" using en inv inv_prep by auto
  show ?thesis unfolding BuyUnit app_step_def handle.simps
    using en BuyUnit by (intro shop_inv [OF inv ph]) (auto intro: buy_prep [OF p])
next
  case (TechUpgrade ty)
  then have ph: "phase s = PREPARATION" and p: "prep_ok s" using en inv inv_prep by auto
  show ?thesis unfolding TechUpgrade app_step_def handle.simps
    using en TechUpgrade by (intro shop_inv [OF inv ph]) (auto intro: tech_prep [OF p])
next
  case (GlobalUpgrade gt)
  then have ph: "phase s = PREPARATION" and p: "prep_ok s" using en inv inv_prep by auto
  show ?thesis unfolding GlobalUpgrade app_step_def handle.simps
    by (intro shop_inv [OF inv ph]) (auto intro: global_prep [OF p])
next
  case (BuyArtifact r)
  then have ph: "phase s = PREPARATION" and p: "prep_ok s" using en inv inv_prep by auto
  show ?thesis unfolding BuyArtifact app_step_def handle.simps
    by (intro shop_inv [OF inv ph]) (auto intro: artifact_prep [OF p])
next
  case SellUnit
  then have ph: "phase s = PREPARATION" and p: "prep_ok s" using en inv inv_prep by auto
  show ?thesis unfolding SellUnit app_step_def handle.simps
    by (intro shop_inv [OF inv ph]) (auto intro: sell_prep [OF p])
next
  case (Synthesize recipe newId)
  then have ph: "phase s = PREPARATION" and p: "prep_ok s" using en inv inv_prep by auto
  show ?thesis unfolding Synthesize app_step_def handle.simps
    using en Synthesize by (intro shop_inv [OF inv ph]) (auto intro: synth_prep [OF p])
next
  case (ClaimAchievement achId reward)
  have r: "0 \<le> reward" using en unfolding ClaimAchievement by (rule achievements_reward_nonneg)
  have "s' = s\<lparr>coins := coins s + reward, claimedAchievements := insert achId (claimedAchievements s)\<rparr>"
    if "claimAchievement s achId reward = Inr s'" for s'
    using that by (auto simp: claimAchievement_def split: if_splits)
  then have "shop s (claimAchievement s achId reward)
      = (if achId \<in> claimedAchievements s then s
         else s\<lparr>coins := coins s + reward, claimedAchievements := insert achId (claimedAchievements s)\<rparr>)"
    by (simp add: shop_def claimAchievement_def)
  then show ?thesis unfolding ClaimAchievement app_step_def handle.simps
    using r by (cases "achId \<in> claimedAchievements s") (simp add: syncRef_inv inv, intro keep_inv [OF inv], simp_all)
next
  case CloseUnitInfo
  show ?thesis unfolding CloseUnitInfo app_step_def handle.simps by (intro keep_inv [OF inv]) simp_all
next
  case (SupplyTick now)
  then show ?thesis unfolding SupplyTick app_step_def handle.simps supplyTimerTick_def
    using keep_inv [OF inv, of "s\<lparr>canClaimSupply := True\<rparr>"] inv by (simp add: syncRef_inv)
next
  case (ClaimSupply now)
  then show ?thesis unfolding ClaimSupply app_step_def handle.simps claimSupply_def Let_def
    using supply_nonneg by (intro keep_inv [OF inv]) simp_all
next
  case (StartBattle now)
  then show ?thesis unfolding StartBattle app_step_def handle.simps startBattle_def
    using en StartBattle by (intro leave_inv [OF inv]) simp_all
next
  case (Frame t)
  then show ?thesis using battleTick_inv [OF inv] by (simp add: app_step_def)
qed

theorem reachable_inv: "reachable s \<Longrightarrow> app_inv s"
proof (induction rule: reachable.induct)
  case (init saved now)
  show ?case by (rule app_inv_init)
next
  case (step s op)
  from step.IH step.hyps(2) show ?case by (rule app_step_inv)
qed

lemma start_demo_reachable: "reachable start_demo"
proof -
  have "enabled (initialState None 0) (StartGame NORMAL demo_draws (\<lambda>i. i + 10))"
    by (simp add: initialState_def less_eq_difficulty_def draws_ok_def inj_on_def demo_draws_def)
  then show ?thesis unfolding start_demo_def by (rule reachable.step [OF reachable.init])
qed

lemma start_demo_phase: "phase start_demo = PREPARATION"
  by (simp add: start_demo_def app_step_def startGame_def syncRef_def)

lemma start_demo_ref: "entitiesRef start_demo = entities start_demo"
  by (simp add: start_demo_def app_step_def startGame_def syncRef_def)

lemma start_demo_length: "length (entities start_demo) = 2"
proof -
  have p1: "placeAttempt demo_draws {} 0 0 = (0, 0, 1, 2)"
    by (subst placeAttempt.simps) (simp add: demo_draws_def)
  have p2: "placeAttempt demo_draws {posKey 0 0} 3 0 = (3, 2, 1, 5)"
    by (subst placeAttempt.simps) (simp add: demo_draws_def posKey_inj floor_half_grid)
  have p2': "placeAttempt demo_draws {posKey 0 0} (Suc (Suc (Suc 0))) 0 = (3, 2, 1, 5)"
    using p2 by (simp add: numeral_3_eq_3)
  have "length (fst (genLoop demo_draws 1 NORMAL 2 {} 0 [])) = 2"
    by (simp add: numeral_2_eq_2 p1 p2')
  moreover have "enemyCount 1 NORMAL = 2" by (simp add: enemyCount_def baseCount_def)
  ultimately show ?thesis
    by (simp add: start_demo_def app_step_def startGame_def syncRef_def resetRunData_def generateLevel_def
                  enemyUnits_def Let_def)
qed

subsection \<open>Properties of the whole application\<close>

text \<open>
  C1. Every preparation board a session can reach is valid: whatever sequence of purchases,
  research, artifact buys, sales, syntheses, drags, battles, level loads and resets led to
  it, the roster has unique ids and levels of at least one, every unit is alive, no two
  units share a cell, each side stands on its own half of the grid, the battle's copy of
  the roster is the same list, the player has no more units than the cap allows, every
  player unit's maximum hit points are those of its current research and artifacts, and
  the coin balance is not negative.
\<close>

theorem reachable_board_ok:
  assumes "reachable s" and "phase s = PREPARATION"
  shows "placement_ok (entities s) \<and> halves_ok (entities s) \<and> entitiesRef s = entities s
       \<and> int (playerUnitCount (entities s)) \<le> maxUnitCap s
       \<and> (\<forall>e \<in> set (entities s). side e = PLAYER \<longrightarrow> maxHp e = unitMaxHp s e)
       \<and> 0 \<le> coins s"
  using reachable_inv [OF assms(1)] assms(2)
  by (simp add: app_inv_def board_ok_def purse_ok_def)

theorem reachable_board_ok_witness:
  "placement_ok (entities start_demo) \<and> length (entities start_demo) = 2"
proof -
  have "placement_ok (entities start_demo)"
    using reachable_board_ok [OF start_demo_reachable start_demo_phase] by simp
  then show ?thesis using start_demo_length by simp
qed

text \<open>
  C5. Every reachable state meets the hypotheses under which the handlers' own theorems
  are stated: every tech level the stat model reads is at least one, the battle roster has
  unique ids, every entity has level at least one, and a unit being dragged is a player
  unit of the preparation board.
\<close>

theorem reachable_hypotheses:
  assumes "reachable s"
  shows "(\<forall>t. 1 \<le> playerTech s t) \<and> distinct (map eid (entitiesRef s))
       \<and> (\<forall>e \<in> set (entitiesRef s). 1 \<le> level e)
       \<and> (\<forall>i. draggingId s = Some i \<longrightarrow> phase s = PREPARATION
              \<and> (\<forall>e \<in> set (entities s). eid e = i \<longrightarrow> side e = PLAYER))"
proof -
  have inv: "app_inv s" by (rule reachable_inv [OF assms])
  then have "tech_ok s" "roster_home (entitiesRef s)" "drag_ok s" by (simp_all add: app_inv_def)
  then show ?thesis
    by (auto simp: playerTech_pos roster_home_def roster_ok_def drag_ok_def)
qed

theorem reachable_hypotheses_witness:
  "distinct (map eid (entitiesRef start_demo)) \<and> length (entitiesRef start_demo) = 2"
  using reachable_hypotheses [OF start_demo_reachable] start_demo_length start_demo_ref by simp

end
