(* ===== verification/Machine_Vitals.thy ===== *)
theory Machine_Vitals
  imports Machine_Inv
begin

text \<open>
  A well-formedness invariant of the entity values, in every phase: each entity of the
  roster and of the ref has positive maximum hit points and no more hit points than that.
  Units are created and refreshed at full health, research and merges restore full health
  at the new maximum, an artifact shifts current and maximum hit points by the same amount,
  and a battle frame only lowers hit points. The health bar of \<open>Unit_View\<close> relies on it.
\<close>

definition vitals_ok :: "entity list \<Rightarrow> bool" where
  "vitals_ok es \<longleftrightarrow> (\<forall>e \<in> set es. 0 < maxHp e \<and> hp e \<le> maxHp e)"

definition vitals :: "app_state \<Rightarrow> bool" where
  "vitals s \<longleftrightarrow> vitals_ok (entities s) \<and> vitals_ok (entitiesRef s)"

text \<open>The per-type research level of a mythic type is never raised: the lab lists only
  non-mythic types (mythic units use the global mythic mastery instead).\<close>

definition mythic_tech_ok :: "app_state \<Rightarrow> bool" where
  "mythic_tech_ok s \<longleftrightarrow> (\<forall>t. tier (UNIT_BASE_STATS t) = MYTHIC \<longrightarrow> techLevels s t = 1)"

subsection \<open>Rosters\<close>

lemma vitals_ok_simps [simp]:
  "vitals_ok []"
  "vitals_ok (e # es) \<longleftrightarrow> 0 < maxHp e \<and> hp e \<le> maxHp e \<and> vitals_ok es"
  "vitals_ok (es @ es') \<longleftrightarrow> vitals_ok es \<and> vitals_ok es'"
  by (auto simp: vitals_ok_def)

lemma vitals_ok_filter: "vitals_ok es \<Longrightarrow> vitals_ok (filter P es)"
  by (auto simp: vitals_ok_def)

lemma vitals_ok_remove_nth: "vitals_ok es \<Longrightarrow> vitals_ok (remove_nth i es)"
  using set_remove_nth_subset by (fastforce simp: vitals_ok_def)

lemma vitals_ok_update:
  "vitals_ok es \<Longrightarrow> 0 < maxHp v \<Longrightarrow> hp v \<le> maxHp v \<Longrightarrow> vitals_ok (es[k := v])"
  by (auto simp: vitals_ok_def dest: set_update_subset_insert [THEN subsetD])

lemma vitals_ok_nth: "vitals_ok es \<Longrightarrow> k < length es \<Longrightarrow> 0 < maxHp (es ! k) \<and> hp (es ! k) \<le> maxHp (es ! k)"
  by (simp add: vitals_ok_def)

lemma vitals_ok_map:
  assumes "vitals_ok es"
    and "\<And>e. e \<in> set es \<Longrightarrow> 0 < maxHp e \<Longrightarrow> hp e \<le> maxHp e \<Longrightarrow> 0 < maxHp (f e) \<and> hp (f e) \<le> maxHp (f e)"
  shows "vitals_ok (map f es)"
  using assms by (auto simp: vitals_ok_def)

lemma createEntity_vitals:
  "1 \<le> T \<Longrightarrow> vitals_ok [createEntity i ty lvl sd x y T arts]"
  by (simp add: createEntity_def Let_def getUnitStats_hp_pos)

lemma tick_frame_vitals:
  assumes tf: "tick_frame es es'" and v: "vitals_ok es"
  shows "vitals_ok es'"
  unfolding vitals_ok_def
proof
  fix e' assume "e' \<in> set es'"
  then obtain k where k: "k < length es'" and e': "e' = es' ! k" by (auto simp: in_set_conv_nth)
  have "k < length es" using tf k by (simp add: tick_frame_def)
  then show "0 < maxHp e' \<and> hp e' \<le> maxHp e'"
    using tf vitals_ok_nth [OF v] e' by (force simp: tick_frame_def)
qed

lemma vitals_syncRef: "vitals s \<Longrightarrow> vitals (syncRef s)"
  by (simp add: vitals_def syncRef_def)

subsection \<open>Session handlers\<close>

lemma loadLevel_vitals:
  assumes tk: "tech_ok s"
  shows "vitals (loadLevel s lvl d rnd ids)"
proof -
  have p: "vitals_ok (map (refreshPlayerUnit s) es)" for es
    using playerTech_pos [OF tk] by (auto simp: vitals_ok_def getUnitStats_hp_pos)
  have e: "vitals_ok (enemyUnits lvl d config ids)" for config
    using getUnitStats_hp_pos [OF enemyTechLevel_load_ge1] by (auto simp: vitals_ok_def dest!: enemyUnits_set)
  show ?thesis using p e by (simp add: vitals_def loadLevel_def Let_def)
qed

lemma reset_tech_ok: "tech_ok (resetRunData s)"
  by (simp add: tech_ok_def resetRunData_def)

lemma reset_vitals: "vitals (resetRunData s)"
  by (simp add: vitals_def resetRunData_def)

lemma vitals_cong:
  "vitals s \<Longrightarrow> entities s' = entities s \<Longrightarrow> entitiesRef s' = entitiesRef s \<Longrightarrow> vitals s'"
  by (simp add: vitals_def)

subsection \<open>Drag and drop\<close>

lemma resolveDrop_vitals:
  assumes v: "vitals_ok prev" and tech: "\<forall>t. 1 \<le> getPlayerTechLevel gTech tLevels t"
  shows "vitals_ok (fst (resolveDrop gTech tLevels arts dragId gx gy prev))"
proof (cases "find_idx (\<lambda>e. eid e = dragId) prev")
  case None
  then show ?thesis using v by (simp add: resolveDrop_def)
next
  case (Some i)
  then have i: "i < length prev" by auto
  note vi = vitals_ok_nth [OF v i]
  show ?thesis
  proof (cases "find_idx (\<lambda>e. gridX e = gx \<and> gridY e = gy \<and> eid e \<noteq> dragId \<and> 0 < hp e) prev")
    case None
    then show ?thesis using Some v vi by (simp add: resolveDrop_def Let_def vitals_ok_update)
  next
    case (Some j)
    then have j: "j < length prev" by auto
    note vj = vitals_ok_nth [OF v j]
    have up: "vitals_ok (prev[j := (prev ! j)\<lparr>level := n,
                 maxHp := st_hp (getUnitStats ty l (getPlayerTechLevel gTech tLevels ty) arts),
                 hp := st_hp (getUnitStats ty l (getPlayerTechLevel gTech tLevels ty) arts)\<rparr>])" for ty l n
      using v tech by (simp add: vitals_ok_update getUnitStats_hp_pos)
    have sw: "vitals_ok (prev[i := (prev ! i)\<lparr>gridX := a, gridY := b, posX := c, posY := d\<rparr>,
                             j := (prev ! j)\<lparr>gridX := a', gridY := b', posX := c', posY := d'\<rparr>])"
      for a b c d a' b' c' d'
      using v vi vj by (simp add: vitals_ok_update)
    show ?thesis using \<open>find_idx _ prev = Some i\<close> Some sw vitals_ok_remove_nth [OF up]
      by (simp add: resolveDrop_def Let_def)
  qed
qed

lemma finishDrag_vitals:
  assumes v: "vitals s" and tk: "tech_ok s"
  shows "vitals (finishDrag s g target)"
proof -
  have tech: "\<forall>t. 1 \<le> getPlayerTechLevel (globalTech s) (techLevels s) t"
    using playerTech_pos [OF tk] by (simp add: playerTech_def)
  have "vitals_ok (fst (resolveDrop (globalTech s) (techLevels s) (artifactLevels s) i gx gy (entities s)))"
    for i gx gy using v tech by (intro resolveDrop_vitals) (simp_all add: vitals_def)
  then show ?thesis using v
    by (auto simp: finishDrag_def Let_def split_def vitals_def split: option.splits)
qed

subsection \<open>Shop handlers\<close>

lemma shop_vitals: "vitals s \<Longrightarrow> (\<And>s'. r = Inr s' \<Longrightarrow> vitals s') \<Longrightarrow> vitals (shop s r)"
  by (cases r) (simp_all add: shop_def)

lemma buy_vitals:
  assumes "handleBuyUnit s b rand r2 newId = Inr s'" "tech_ok s" "vitals s"
  shows "vitals s'"
  using assms createEntity_vitals [OF playerTech_pos [OF assms(2)]]
  by (auto simp: handleBuyUnit_def Let_def vitals_def split: if_splits list.splits prod.splits)

lemma tech_vitals:
  assumes "applyTechUpgrade s ty = Inr s'" "tech_ok s" "vitals s"
  shows "vitals s'"
proof -
  have "1 \<le> techLevels s ty" using assms(2) by (simp add: tech_ok_def)
  then have "1 \<le> techLevels s ty + 1" by simp
  then show ?thesis using assms
    by (auto simp: applyTechUpgrade_def Let_def vitals_def getUnitStats_hp_pos split: if_splits
             intro!: vitals_ok_map)
qed

lemma global_vitals:
  assumes "applyGlobalUpgrade s gt = Inr s'" "tech_ok s" "vitals s"
  shows "vitals s'"
proof -
  have "1 \<le> globalTech s gt" using assms(2) by (simp add: tech_ok_def)
  then have "1 \<le> globalTech s gt + 1" by simp
  then show ?thesis using assms
    by (auto simp: applyGlobalUpgrade_def Let_def vitals_def getUnitStats_hp_pos split: if_splits
             intro!: vitals_ok_map)
qed

lemma artifact_vitals:
  assumes "handleBuyArtifact s r = Inr s'" "tech_ok s" "vitals s"
  shows "vitals s'"
  using assms getUnitStats_hp_pos [OF playerTech_pos [OF assms(2)]]
  by (auto simp: handleBuyArtifact_def Let_def vitals_def split: if_splits intro!: vitals_ok_map)

lemma sell_vitals:
  assumes "handleSellUnit s = Inr s'" "vitals s"
  shows "vitals s'"
  using assms by (auto simp: handleSellUnit_def vitals_def vitals_ok_filter split: option.splits if_splits)

lemma synth_vitals:
  assumes "handleSynthesize s recipe newId = Inr s'" "tech_ok s" "vitals s"
  shows "vitals s'"
  using assms createEntity_vitals [OF playerTech_pos [OF assms(2)]]
  by (auto simp: handleSynthesize_def Let_def vitals_def vitals_ok_filter split: if_splits option.splits)

lemma achievement_vitals:
  assumes "claimAchievement s achId reward = Inr s'" "vitals s"
  shows "vitals s'"
  using assms by (auto simp: claimAchievement_def vitals_def split: if_splits)

subsection \<open>Battle frames\<close>

lemma battleTick_vitals:
  assumes inv: "app_inv s" and v: "vitals s"
  shows "vitals (battleTick s t)"
proof (cases "phase s = BATTLE")
  case False
  then show ?thesis using v by (simp add: battleTick_def vitals_def)
next
  case True
  have d: "distinct (map eid (entitiesRef s))" and tk: "tech_ok s"
    using inv by (auto simp: app_inv_def roster_home_def roster_ok_def)
  have fr: "entities (battleTick s t) = entitiesRef (battleTick s t)
      \<and> tick_frame (map mark_dead (entitiesRef s)) (entitiesRef (battleTick s t))"
    using battleTick_frame_core [OF True d] playerTech_pos [OF tk] by simp
  have "vitals_ok (map mark_dead (entitiesRef s))"
    using v by (intro vitals_ok_map) (simp_all add: vitals_def)
  then have "vitals_ok (entitiesRef (battleTick s t))" using fr by (blast intro: tick_frame_vitals)
  then show ?thesis using fr by (simp add: vitals_def)
qed

subsection \<open>Every step keeps the vitals\<close>

lemma handle_vitals:
  assumes inv: "app_inv s" and v: "vitals s" and en: "enabled s op"
  shows "vitals (handle s op)"
proof -
  have tk: "tech_ok s" using inv by (simp add: app_inv_def)
  have rs: "vitals (loadLevel (resetRunData s') lvl d rnd ids)"
    "vitals (loadLevel ((resetRunData s')\<lparr>phase := p\<rparr>) lvl d rnd ids)" for s' lvl d rnd ids p
    using reset_tech_ok [of s'] by (simp_all add: loadLevel_vitals tech_ok_def)
  have lv: "vitals (loadLevel (s\<lparr>levelNo := n\<rparr>) lvl d rnd ids)" for n lvl d rnd ids
    using tk by (simp add: loadLevel_vitals tech_ok_def)
  show ?thesis
  proof (cases op)
    case (NextLevel rnd ids)
    then show ?thesis using v lv by (simp add: nextLevel_def Let_def vitals_def)
  next
    case (RetryLevel rnd ids)
    then show ?thesis using tk by (simp add: retryLevel_def loadLevel_vitals)
  next
    case (FinishDrag g target)
    then show ?thesis using finishDrag_vitals [OF v tk] by simp
  next
    case (BuyUnit b rand r2 newId)
    then show ?thesis using v buy_vitals [OF _ tk v] by (simp add: shop_vitals)
  next
    case (TechUpgrade ty)
    then show ?thesis using v tech_vitals [OF _ tk v] by (simp add: shop_vitals)
  next
    case (GlobalUpgrade gt)
    then show ?thesis using v global_vitals [OF _ tk v] by (simp add: shop_vitals)
  next
    case (BuyArtifact r)
    then show ?thesis using v artifact_vitals [OF _ tk v] by (simp add: shop_vitals)
  next
    case SellUnit
    then show ?thesis using v sell_vitals [OF _ v] by (simp add: shop_vitals)
  next
    case (Synthesize recipe newId)
    then show ?thesis using v synth_vitals [OF _ tk v] by (simp add: shop_vitals)
  next
    case (ClaimAchievement achId reward)
    then show ?thesis using v achievement_vitals [OF _ v] by (simp add: shop_vitals)
  next
    case (Frame t)
    then show ?thesis using battleTick_vitals [OF inv v] by simp
  qed (use v rs reset_vitals in \<open>simp_all add: startGame_def handleModeReset_def handleFullReset_def
         backToTitle_def handleMouseDown_def supplyTimerTick_def claimSupply_def startBattle_def
         Let_def vitals_def\<close>)
qed

lemma vitals_init: "vitals (initialState saved now)"
  by (simp add: vitals_def initialState_def)

lemma reachable_vitals: "reachable s \<Longrightarrow> vitals s"
proof (induction rule: reachable.induct)
  case (init saved now)
  show ?case by (rule vitals_init)
next
  case (step s op)
  have "vitals (handle s op)" using reachable_inv [OF step.hyps(1)] step.IH step.hyps(2) by (rule handle_vitals)
  then show ?case by (simp add: app_step_def vitals_syncRef)
qed

subsection \<open>Mythic research levels\<close>

lemma shop_techLevels:
  "(\<And>s'. r = Inr s' \<Longrightarrow> techLevels s' = techLevels s) \<Longrightarrow> techLevels (shop s r) = techLevels s"
  by (cases r) (simp_all add: shop_def)

lemma handle_techLevels:
  assumes "\<And>ty. op \<noteq> TechUpgrade ty"
  shows "techLevels (handle s op) = techLevels s \<or> techLevels (handle s op) = (\<lambda>_. 1)"
proof (cases op)
  case (BuyUnit b rand r2 newId)
  have "techLevels (shop s (handleBuyUnit s b rand r2 newId)) = techLevels s"
    by (rule shop_techLevels) (auto simp: handleBuyUnit_def Let_def split: if_splits list.splits prod.splits)
  then show ?thesis using BuyUnit by simp
next
  case (GlobalUpgrade gt)
  have "techLevels (shop s (applyGlobalUpgrade s gt)) = techLevels s"
    by (rule shop_techLevels) (auto simp: applyGlobalUpgrade_def Let_def split: if_splits)
  then show ?thesis using GlobalUpgrade by simp
next
  case (BuyArtifact r)
  have "techLevels (shop s (handleBuyArtifact s r)) = techLevels s"
    by (rule shop_techLevels) (auto simp: handleBuyArtifact_def Let_def split: if_splits)
  then show ?thesis using BuyArtifact by simp
next
  case SellUnit
  have "techLevels (shop s (handleSellUnit s)) = techLevels s"
    by (rule shop_techLevels) (auto simp: handleSellUnit_def split: if_splits option.splits)
  then show ?thesis using SellUnit by simp
next
  case (Synthesize recipe newId)
  have "techLevels (shop s (handleSynthesize s recipe newId)) = techLevels s"
    by (rule shop_techLevels) (auto simp: handleSynthesize_def split: if_splits option.splits)
  then show ?thesis using Synthesize by simp
next
  case (ClaimAchievement achId reward)
  have "techLevels (shop s (claimAchievement s achId reward)) = techLevels s"
    by (rule shop_techLevels) (auto simp: claimAchievement_def split: if_splits)
  then show ?thesis using ClaimAchievement by simp
next
  case (FinishDrag g target)
  have "techLevels (finishDrag s g target) = techLevels s"
    by (auto simp: finishDrag_def Let_def split_def split: option.splits)
  then show ?thesis using FinishDrag by simp
next
  case (Frame t)
  have "techLevels (battleTick s t) = techLevels s" by (simp add: battleTick_unfold)
  then show ?thesis using Frame by simp
qed (use assms in \<open>simp_all add: startGame_def nextLevel_def retryLevel_def handleModeReset_def
       handleFullReset_def backToTitle_def handleMouseDown_def supplyTimerTick_def claimSupply_def
       startBattle_def resetRunData_def Let_def\<close>)

lemma mythic_tech_step: "mythic_tech_ok s \<Longrightarrow> enabled s op \<Longrightarrow> mythic_tech_ok (app_step s op)"
proof (cases "\<exists>ty. op = TechUpgrade ty")
  case True
  then obtain ty where op: "op = TechUpgrade ty" by blast
  assume m: "mythic_tech_ok s" and en: "enabled s op"
  have nm: "tier (UNIT_BASE_STATS ty) \<noteq> MYTHIC" using en op by simp
  have keep: "techLevels (shop s (applyTechUpgrade s ty)) t = techLevels s t" if "t \<noteq> ty" for t
    using that by (auto simp: shop_def applyTechUpgrade_def Let_def split: sum.splits if_splits)
  have "mythic_tech_ok (shop s (applyTechUpgrade s ty))"
    unfolding mythic_tech_ok_def
  proof (intro allI impI)
    fix t assume "tier (UNIT_BASE_STATS t) = MYTHIC"
    moreover from this nm have "t \<noteq> ty" by auto
    ultimately show "techLevels (shop s (applyTechUpgrade s ty)) t = 1"
      using m keep by (simp add: mythic_tech_ok_def)
  qed
  then show ?thesis using op by (simp add: mythic_tech_ok_def app_step_def syncRef_def)
next
  case False
  then show "mythic_tech_ok s \<Longrightarrow> enabled s op \<Longrightarrow> mythic_tech_ok (app_step s op)"
    using handle_techLevels [of op s] by (auto simp: mythic_tech_ok_def app_step_def syncRef_def)
qed

lemma reachable_mythic_tech: "reachable s \<Longrightarrow> mythic_tech_ok s"
proof (induction rule: reachable.induct)
  case (init saved now)
  show ?case by (simp add: mythic_tech_ok_def initialState_def)
next
  case (step s op)
  from step.IH step.hyps(2) show ?case by (rule mythic_tech_step)
qed

subsection \<open>Well-formed hit points\<close>

text \<open>
  C7. Every entity value a session can reach is well formed in its hit points: in every
  phase, each entity of the rendered roster and of the battle's ref has positive maximum
  hit points and at most that many current hit points.
\<close>

theorem reachable_entity_vitals:
  assumes "reachable s" and "e \<in> set (entities s) \<union> set (entitiesRef s)"
  shows "0 < maxHp e \<and> hp e \<le> maxHp e"
  using reachable_vitals [OF assms(1)] assms(2) by (auto simp: vitals_def vitals_ok_def)

theorem reachable_entity_vitals_witness:
  "reachable start_demo \<and> hd (entities start_demo) \<in> set (entities start_demo) \<union> set (entitiesRef start_demo)
   \<and> 0 < maxHp (hd (entities start_demo)) \<and> hp (hd (entities start_demo)) \<le> maxHp (hd (entities start_demo))"
proof -
  have m: "hd (entities start_demo) \<in> set (entities start_demo) \<union> set (entitiesRef start_demo)"
    using start_demo_length by (cases "entities start_demo") simp_all
  show ?thesis using reachable_entity_vitals [OF start_demo_reachable m] start_demo_reachable m by simp
qed

end
