(* ===== verification/Unit_View.thy ===== *)
theory Unit_View
  imports Machine_Vitals
begin

text \<open>
  The presentational components of \<^verbatim>\<open>src/components/\<close> as functions from their props
  to what they display, and the places in \<^verbatim>\<open>App.tsx\<close> that mount them. \<open>Unit\<close>
  (\<^verbatim>\<open>Unit.tsx\<close>) yields a \<open>unit_view\<close>: the colour and border classes, the
  glow of the high tiers, the stars, the facing, the dead and attacking animations and the
  health bar with its width in percent. \<open>boardView\<close> and \<open>dragGhost\<close> are the two
  mounts of the board; \<open>controlsView\<close> is the preparation bar with the store card
  (\<^verbatim>\<open>StoreCard.tsx\<close>), the capacity label and the lab card (\<^verbatim>\<open>UpgradeCard.tsx\<close>)
  whose indicator is \<open>hasUpgradable\<close>. Layout, sizes in pixels of the cards, icons and
  click handlers that only open a modal are not modelled.
\<close>

definition TILE_SIZE :: real where "TILE_SIZE = 50"

definition ENEMY_COLOR :: string where "ENEMY_COLOR = ''bg-red-600''"

text \<open>\<^verbatim>\<open>TIER_INFO[t].borderColor\<close> and \<^verbatim>\<open>UNIT_BASE_STATS[t].color\<close>.\<close>

primrec tier_borderColor :: "unit_tier \<Rightarrow> string" where
  "tier_borderColor COMMON = ''border-gray-400''"
| "tier_borderColor RARE = ''border-blue-500''"
| "tier_borderColor EPIC = ''border-purple-500''"
| "tier_borderColor LEGENDARY = ''border-yellow-400''"
| "tier_borderColor MYTHIC = ''border-red-500''"

primrec unit_color :: "unit_type \<Rightarrow> string" where
  "unit_color INFANTRY = ''bg-slate-600''"
| "unit_color ARCHER = ''bg-slate-600''"
| "unit_color TANK = ''bg-blue-700''"
| "unit_color SPEARMAN = ''bg-blue-700''"
| "unit_color MAGE = ''bg-purple-700''"
| "unit_color ASSASSIN = ''bg-purple-700''"
| "unit_color GOLEM = ''bg-yellow-700''"
| "unit_color DRAGON = ''bg-yellow-700''"
| "unit_color PALADIN = ''bg-red-900''"
| "unit_color SNIPER = ''bg-red-900''"
| "unit_color VOID_WALKER = ''bg-red-900''"

text \<open>What \<^verbatim>\<open>Unit\<close> renders. \<open>uv_healthBar\<close> is the bar's colour class and width
  in percent when \<^verbatim>\<open>showHealth\<close> is set; \<open>uv_hidden\<close> is the
  \<^verbatim>\<open>opacity-0 scale-0\<close> of a dead unit, \<open>uv_popping\<close> the attack animation and
  \<open>uv_lifted\<close> the raised layer and grab cursor of a dragged unit.\<close>

record unit_view =
  uv_bgColor :: string
  uv_size :: real
  uv_stars :: nat
  uv_rotation :: string
  uv_border :: string
  uv_glow :: string
  uv_hidden :: bool
  uv_popping :: bool
  uv_lifted :: bool
  uv_healthBar :: "(string \<times> real) option"

definition DEFAULT_GLOW :: string where
  "DEFAULT_GLOW = ''shadow-[inset_0_2px_4px_rgba(255,255,255,0.3)]''"

text \<open>The \<^verbatim>\<open>let glowClass\<close> of \<^verbatim>\<open>Unit.tsx\<close> and its reassignments.\<close>

definition glowClass :: "bool \<Rightarrow> unit_tier \<Rightarrow> string" where
  "glowClass isEnemy t =
     (if \<not> isEnemy
      then (if t = MYTHIC
            then ''shadow-[0_0_20px_rgba(239,68,68,0.9),0_0_40px_rgba(239,68,68,0.5)] ring-2 ring-red-400 animate-pulse z-20''
            else if t = LEGENDARY then ''shadow-[0_0_15px_rgba(234,179,8,0.8)]''
            else if t = EPIC then ''shadow-[0_0_10px_rgba(168,85,247,0.6)]''
            else DEFAULT_GLOW)
      else DEFAULT_GLOW)"

text \<open>\<^verbatim>\<open>(entity.hp / entity.maxHp) * 100\<close>. For \<^verbatim>\<open>maxHp = 0\<close> JavaScript yields
  \<^verbatim>\<open>NaN\<close> or an infinity where HOL's division yields 0; no reachable entity has
  \<open>maxHp = 0\<close> (\<open>Machine_Vitals\<close>).\<close>

definition hpPercent :: "entity \<Rightarrow> real" where
  "hpPercent e = real_of_int (hp e) / real_of_int (maxHp e) * 100"

definition Unit :: "entity \<Rightarrow> real \<Rightarrow> bool \<Rightarrow> bool \<Rightarrow> unit_view" where
  "Unit entity tileSize isDragging showHealth =
     (let stats = UNIT_BASE_STATS (etype entity);
          isEnemy = (side entity = ENEMY);
          bgColor = (if isEnemy then ENEMY_COLOR else unit_color (etype entity));
          size = tileSize * 0.9;
          hpP = hpPercent entity;
          rotation = (if facingRight entity then ''scale-x-[-1]'' else ''scale-x-[1]'');
          borderColorClass = (if isEnemy then ''border-red-800'' else tier_borderColor (tier stats))
      in \<lparr>uv_bgColor = bgColor, uv_size = size, uv_stars = level entity, uv_rotation = rotation,
          uv_border = borderColorClass, uv_glow = glowClass isEnemy (tier stats),
          uv_hidden = (state entity = DEAD), uv_popping = (state entity = ATTACKING),
          uv_lifted = isDragging,
          uv_healthBar = (if showHealth
                          then Some (if isEnemy then ''bg-red-500'' else ''bg-green-400'', max 0 hpP)
                          else None)\<rparr>)"

text \<open>The board: every entity but the dragged one, placed at its position in percent of
  the grid, with the health bar during the battle; and the copy of the dragged unit that
  follows the pointer (the pointer position \<^verbatim>\<open>dragPos\<close> is set together with
  \<^verbatim>\<open>draggingId\<close> and not modelled).\<close>

definition boardView :: "app_state \<Rightarrow> real \<Rightarrow> (real \<times> real \<times> unit_view) list" where
  "boardView s tileSize =
     map (\<lambda>entity. (posX entity / real_of_int GRID_COLS * 100, posY entity / real_of_int GRID_ROWS * 100,
                    Unit entity tileSize False (phase s = BATTLE)))
         (filter (\<lambda>entity. draggingId s \<noteq> Some (eid entity)) (entities s))"

definition dragGhost :: "app_state \<Rightarrow> real \<Rightarrow> unit_view option" where
  "dragGhost s tileSize =
     (case draggingId s of
        None \<Rightarrow> None
      | Some i \<Rightarrow> (case find (\<lambda>e. eid e = i) (entities s) of
                    None \<Rightarrow> None
                  | Some entity \<Rightarrow> Some (Unit entity tileSize True False)))"

text \<open>The preparation bar. The store card gets \<^verbatim>\<open>canAfford={true}\<close>, a prop
  \<^verbatim>\<open>StoreCard\<close> never reads, so it is left out.\<close>

record controls_view =
  cv_cost :: int
  cv_unitCount :: nat
  cv_unitCap :: int
  cv_hasUpgradable :: bool

definition hasUpgradable :: "app_state \<Rightarrow> bool" where
  "hasUpgradable s =
     list_ex (\<lambda>t. coins s \<ge> TECH_COST_BASE + (techLevels s t - 1) * TECH_COST_INCREASE) all_unit_types"

definition controlsView :: "app_state \<Rightarrow> controls_view option" where
  "controlsView s =
     (if phase s = PREPARATION
      then Some \<lparr>cv_cost = recruitCost s, cv_unitCount = length (filter (\<lambda>e. side e = PLAYER) (entities s)),
                 cv_unitCap = maxUnitCap s, cv_hasUpgradable = hasUpgradable s\<rparr>
      else None)"

text \<open>The research list of the lab modal: the non-mythic types, each affordable when the
  coins cover its price (the \<^verbatim>\<open>disabled={!canAfford}\<close> of its button).\<close>

definition labTypes :: "unit_type list" where
  "labTypes = filter (\<lambda>t. tier (UNIT_BASE_STATS t) \<noteq> MYTHIC) all_unit_types"

text \<open>The state of the examples: the fight button pressed on the first board of a NORMAL run.\<close>

definition battle_demo_start :: app_state where
  "battle_demo_start = app_step start_demo (StartBattle 0)"

definition labAffordable :: "app_state \<Rightarrow> unit_type \<Rightarrow> bool" where
  "labAffordable s t \<longleftrightarrow> coins s \<ge> TECH_COST_BASE + (techLevels s t - 1) * TECH_COST_INCREASE"

subsection \<open>The health bar\<close>

lemma hpPercent_bounds:
  assumes "0 < maxHp e" "hp e \<le> maxHp e"
  shows "0 \<le> max 0 (hpPercent e) \<and> max 0 (hpPercent e) \<le> 100
       \<and> (max 0 (hpPercent e) = 0 \<longleftrightarrow> hp e \<le> 0)"
proof -
  have m: "0 < real_of_int (maxHp e)" "real_of_int (hp e) \<le> real_of_int (maxHp e)" using assms by simp_all
  have le: "hpPercent e \<le> 100" using m by (simp add: hpPercent_def divide_le_eq)
  have "0 < hpPercent e \<longleftrightarrow> 0 < hp e" using m(1) by (simp add: hpPercent_def zero_less_divide_iff)
  then show ?thesis using le by (auto simp: max_def)
qed

lemma boardView_mem:
  "(x, y, v) \<in> set (boardView s tile) \<Longrightarrow>
     \<exists>e \<in> set (entities s). v = Unit e tile False (phase s = BATTLE)"
  by (auto simp: boardView_def)

lemma Unit_healthBar:
  "uv_healthBar (Unit e tile d sh) = Some (c, w) \<longleftrightarrow>
     sh \<and> c = (if side e = ENEMY then ''bg-red-500'' else ''bg-green-400'') \<and> w = max 0 (hpPercent e)"
  by (auto simp: Unit_def Let_def)

subsection \<open>The examples\<close>

lemma start_demo_idle: "draggingId start_demo = None"
  by (simp add: start_demo_def app_step_def startGame_def syncRef_def resetRunData_def initialState_def)

lemma battle_demo_start_reachable: "reachable battle_demo_start"
  unfolding battle_demo_start_def
  by (rule reachable.step [OF start_demo_reachable]) (simp add: start_demo_phase start_demo_idle)

lemma battle_demo_start_fields:
  "phase battle_demo_start = BATTLE" "entities battle_demo_start = entities start_demo"
  "draggingId battle_demo_start = None"
  by (simp_all add: battle_demo_start_def app_step_def startBattle_def syncRef_def start_demo_idle)

lemma battle_demo_start_board: "hd (boardView battle_demo_start 50) \<in> set (boardView battle_demo_start 50)"
proof -
  have "length (boardView battle_demo_start 50) = 2"
    using start_demo_length by (simp add: boardView_def battle_demo_start_fields)
  then show ?thesis by (cases "boardView battle_demo_start 50") simp_all
qed

subsection \<open>Properties of the views\<close>

text \<open>
  C14. On every board a session can reach, a unit shows a health bar only during the battle,
  and the bar's width is a percentage between 0 and 100 that is 0 exactly when the unit has
  no hit points left: the \<^verbatim>\<open>Math.max(0, hpPercent)\<close> clamp covers the
  negative hit points of an overkill, and no unit has more hit points than its maximum.
\<close>

theorem reachable_health_bar:
  assumes "reachable s" and "(x, y, v) \<in> set (boardView s tile)" and "uv_healthBar v = Some (c, w)"
  shows "phase s = BATTLE
       \<and> (\<exists>e \<in> set (entities s). v = Unit e tile False True \<and> 0 \<le> w \<and> w \<le> 100 \<and> (w = 0 \<longleftrightarrow> hp e \<le> 0))"
proof -
  obtain e where e: "e \<in> set (entities s)" and v: "v = Unit e tile False (phase s = BATTLE)"
    using boardView_mem [OF assms(2)] by blast
  have b: "phase s = BATTLE" and w: "w = max 0 (hpPercent e)"
    using assms(3) unfolding v Unit_healthBar by simp_all
  have "0 < maxHp e" "hp e \<le> maxHp e"
    using reachable_vitals [OF assms(1)] e by (simp_all add: vitals_def vitals_ok_def)
  then show ?thesis using hpPercent_bounds [of e] e v b w by auto
qed

theorem reachable_health_bar_witness:
  "reachable battle_demo_start \<and> hd (boardView battle_demo_start 50) \<in> set (boardView battle_demo_start 50)
   \<and> uv_healthBar (snd (snd (hd (boardView battle_demo_start 50))))
       = Some (the (uv_healthBar (snd (snd (hd (boardView battle_demo_start 50))))))
   \<and> 0 \<le> snd (the (uv_healthBar (snd (snd (hd (boardView battle_demo_start 50))))))
   \<and> snd (the (uv_healthBar (snd (snd (hd (boardView battle_demo_start 50)))))) \<le> 100"
proof -
  obtain x y v where h: "hd (boardView battle_demo_start 50) = (x, y, v)" by (cases "hd (boardView battle_demo_start 50)") auto
  have m: "(x, y, v) \<in> set (boardView battle_demo_start 50)" using battle_demo_start_board h by simp
  obtain e where "v = Unit e 50 False True"
    using boardView_mem [OF m] battle_demo_start_fields by auto
  then obtain c w where cw: "uv_healthBar v = Some (c, w)" by (simp add: Unit_def Let_def)
  have "0 \<le> w \<and> w \<le> 100"
    using reachable_health_bar [OF battle_demo_start_reachable m cw] by auto
  then show ?thesis using battle_demo_start_reachable battle_demo_start_board h cw by simp
qed

text \<open>
  C19. The lab card's indicator (\<^verbatim>\<open>hasUpgradable\<close>) tests every unit type,
  mythic ones included, while the lab offers only the non-mythic types and mythic research
  levels never rise. So in every reachable state the indicator is lit exactly when the
  player has the 100 coins of a level-1 research, whatever the lab's prices are.
\<close>

theorem hasUpgradable_reachable:
  assumes "reachable s"
  shows "hasUpgradable s \<longleftrightarrow> TECH_COST_BASE \<le> coins s"
proof -
  have m: "techLevels s PALADIN = 1" using reachable_mythic_tech [OF assms] by (simp add: mythic_tech_ok_def)
  have t: "1 \<le> techLevels s ty" for ty using reachable_inv [OF assms] by (simp add: app_inv_def tech_ok_def)
  have ge: "TECH_COST_BASE \<le> TECH_COST_BASE + (techLevels s ty - 1) * TECH_COST_INCREASE" for ty
    using t [of ty] by (simp add: TECH_COST_INCREASE_def)
  show ?thesis
  proof
    assume "hasUpgradable s"
    then obtain ty where "TECH_COST_BASE + (techLevels s ty - 1) * TECH_COST_INCREASE \<le> coins s"
      by (auto simp: hasUpgradable_def list_ex_iff)
    then show "TECH_COST_BASE \<le> coins s" using ge [of ty] by linarith
  next
    assume "TECH_COST_BASE \<le> coins s"
    then show "hasUpgradable s" using m by (simp add: hasUpgradable_def all_unit_types_def)
  qed
qed

theorem hasUpgradable_reachable_witness: "reachable start_demo \<and> hasUpgradable start_demo"
proof -
  have "coins start_demo = 2000"
    by (simp add: start_demo_def app_step_def startGame_def syncRef_def resetRunData_def)
  then show ?thesis using hasUpgradable_reachable [OF start_demo_reachable] start_demo_reachable
    by (simp add: TECH_COST_BASE_def)
qed

text \<open>The two disagree: with 100 coins and every lab research at level 2 (price 120) the
  indicator is lit although no button of the lab is enabled.\<close>

lemma upgrade_indicator_example:
  "hasUpgradable (start_demo\<lparr>coins := 100, techLevels := (\<lambda>t. if tier (UNIT_BASE_STATS t) = MYTHIC then 1 else 2)\<rparr>)
   \<and> \<not> list_ex (labAffordable (start_demo\<lparr>coins := 100,
          techLevels := (\<lambda>t. if tier (UNIT_BASE_STATS t) = MYTHIC then 1 else 2)\<rparr>)) labTypes"
  by (simp add: hasUpgradable_def labAffordable_def labTypes_def all_unit_types_def
                TECH_COST_BASE_def TECH_COST_INCREASE_def)

end
