(* ===== verification/Pointer.thy ===== *)
theory Pointer
  imports Unit_View
begin

text \<open>
  The pointer layer of a drag in \<^verbatim>\<open>App.tsx\<close>: \<^verbatim>\<open>getGridFromClientPos\<close>,
  \<^verbatim>\<open>startDrag\<close>, \<^verbatim>\<open>moveDrag\<close> and the part of \<^verbatim>\<open>finishDrag\<close> that
  measures the gesture and finds the drop cell, with the tiles of \<^verbatim>\<open>renderTiles\<close>.
  The DOM is what the page renders: the element under the pointer is given by the
  attribute list of its closest ancestor carrying \<^verbatim>\<open>data-grid-x\<close> (\<open>None\<close> when there
  is none), and the page's only such elements are the tiles and the units of the board.
  Attribute values are strings (React renders a number with \<^verbatim>\<open>String\<close>, here
  \<open>int_str\<close>), read back by \<^verbatim>\<open>parseInt\<close> (\<open>parse_int\<close>, \<open>None\<close> for
  \<^verbatim>\<open>NaN\<close>). A JavaScript object such as \<^verbatim>\<open>{ gridX, gridY }\<close> is a list of
  named fields, so that reading a field it does not have yields \<^verbatim>\<open>undefined\<close>.
\<close>

type_synonym attrs = "(string \<times> string) list"
type_synonym js_object = "(string \<times> int option) list"

text \<open>The refs and the state the drag uses besides \<open>draggingId\<close>.\<close>

record pointer_state =
  dragOffset :: "real \<times> real"
  dragStartPos :: "real \<times> real"
  dragPos :: "(real \<times> real) option"
  hoveredGrid :: "js_object option"

definition initialPointer :: pointer_state where
  "initialPointer = \<lparr>dragOffset = (0, 0), dragStartPos = (0, 0), dragPos = None, hoveredGrid = None\<rparr>"

primrec side_str :: "side \<Rightarrow> string" where
  "side_str PLAYER = ''PLAYER''"
| "side_str ENEMY = ''ENEMY''"

text \<open>The attributes of a tile (\<^verbatim>\<open>renderTiles\<close>) and of a unit (\<^verbatim>\<open>Unit.tsx\<close>;
  the model's ids are numbers, written with \<open>nat_str\<close>).\<close>

definition tileAttrs :: "int \<Rightarrow> int \<Rightarrow> attrs" where
  "tileAttrs x y = [(''data-grid-x'', int_str x), (''data-grid-y'', int_str y)]"

definition unitAttrs :: "entity \<Rightarrow> attrs" where
  "unitAttrs e = [(''data-grid-x'', int_str (gridX e)), (''data-grid-y'', int_str (gridY e)),
                  (''data-unit-id'', nat_str (eid e)), (''data-side'', side_str (side e))]"

text \<open>The elements of the page a pointer can hit: every tile, and every unit of the board
  but the dragged one (its copy under the pointer has \<^verbatim>\<open>pointerEvents: 'none'\<close>).\<close>

definition pageTargets :: "app_state \<Rightarrow> attrs list" where
  "pageTargets s =
     concat (map (\<lambda>y. map (\<lambda>x. tileAttrs x y) [0..GRID_COLS - 1]) [0..GRID_ROWS - 1])
     @ map unitAttrs (filter (\<lambda>entity. draggingId s \<noteq> Some (eid entity)) (entities s))"

definition getGridFromClientPos :: "attrs option \<Rightarrow> js_object option" where
  "getGridFromClientPos hit =
     (case hit of
        None \<Rightarrow> None
      | Some target \<Rightarrow>
          (let gridX = parse_int (case map_of target ''data-grid-x'' of Some v \<Rightarrow> v | None \<Rightarrow> ''-1'');
               gridY = parse_int (case map_of target ''data-grid-y'' of Some v \<Rightarrow> v | None \<Rightarrow> ''-1'')
           in if gridX = Some (-1) \<or> gridY = Some (-1) then None
              else Some [(''gridX'', gridX), (''gridY'', gridY)]))"

definition startDrag :: "pointer_state \<Rightarrow> real \<times> real \<Rightarrow> real \<times> real \<Rightarrow> pointer_state" where
  "startDrag p client rect =
     (let offsetX = fst client - fst rect; offsetY = snd client - snd rect
      in p\<lparr>dragOffset := (offsetX, offsetY), dragStartPos := client,
           dragPos := Some (fst client - offsetX, snd client - offsetY)\<rparr>)"

definition moveDrag :: "pointer_state \<Rightarrow> real \<times> real \<Rightarrow> attrs option \<Rightarrow> pointer_state" where
  "moveDrag p client hit =
     p\<lparr>dragPos := Some (fst client - fst (dragOffset p), snd client - snd (dragOffset p)),
       hoveredGrid := (case getGridFromClientPos hit of Some gridPos \<Rightarrow> Some gridPos | None \<Rightarrow> None)\<rparr>"

text \<open>\<^verbatim>\<open>Math.sqrt(Math.pow(dx, 2) + Math.pow(dy, 2))\<close> from the press to the release.\<close>

definition gestureDist :: "pointer_state \<Rightarrow> real \<times> real \<Rightarrow> real" where
  "gestureDist p client =
     sqrt ((fst client - fst (dragStartPos p))\<^sup>2 + (snd client - snd (dragStartPos p))\<^sup>2)"

text \<open>The drop cell \<^verbatim>\<open>finishDrag\<close> destructures from \<^verbatim>\<open>getGridFromClientPos\<close>.
  A \<^verbatim>\<open>NaN\<close> field would reach the updater in the source; here it counts as no
  cell. No element of the page has such a field (\<open>dropCell_page\<close>).\<close>

definition dropCell :: "attrs option \<Rightarrow> (int \<times> int) option" where
  "dropCell hit =
     (case getGridFromClientPos hit of
        None \<Rightarrow> None
      | Some targetPos \<Rightarrow>
          (case (map_of targetPos ''gridX'', map_of targetPos ''gridY'') of
             (Some (Some gx), Some (Some gy)) \<Rightarrow> Some (gx, gy)
           | _ \<Rightarrow> None))"

text \<open>The pointer-up: \<^verbatim>\<open>finishDrag\<close> of the game state with the measured gesture and
  the drop cell, and the cleared drag position and hover.\<close>

definition pointerUp ::
  "app_state \<Rightarrow> pointer_state \<Rightarrow> real \<times> real \<Rightarrow> attrs option \<Rightarrow> app_state \<times> pointer_state" where
  "pointerUp s p client hit =
     (finishDrag s (gestureDist p client) (dropCell hit), p\<lparr>dragPos := None, hoveredGrid := None\<rparr>)"

text \<open>\<^verbatim>\<open>hoveredGrid?.x === x && hoveredGrid?.y === y\<close> in \<^verbatim>\<open>renderTiles\<close>.\<close>

definition isHovered :: "js_object option \<Rightarrow> int \<Rightarrow> int \<Rightarrow> bool" where
  "isHovered hg x y \<longleftrightarrow>
     (case hg of None \<Rightarrow> False
      | Some obj \<Rightarrow> map_of obj ''x'' = Some (Some x) \<and> map_of obj ''y'' = Some (Some y))"

text \<open>The highlight class of a tile: the hover colour of its half while preparing, replaced
  by the range colour when the selected unit reaches it.\<close>

definition tileHighlight :: "app_state \<Rightarrow> pointer_state \<Rightarrow> int \<Rightarrow> int \<Rightarrow> string" where
  "tileHighlight s p x y =
     (let isEnemyTerritory = real_of_int y < real_of_int GRID_ROWS / 2;
          highlightClass =
            (if isHovered (hoveredGrid p) x y \<and> phase s = PREPARATION
             then (if isEnemyTerritory then ''bg-red-500/50 shadow-[inset_0_0_20px_rgba(239,68,68,0.8)]''
                   else ''bg-green-500/50 shadow-[inset_0_0_20px_rgba(34,197,94,0.8)]'')
             else '''')
      in case selectedUnit s of
           None \<Rightarrow> highlightClass
         | Some u \<Rightarrow>
             if phase s = PREPARATION
             then (let tech = (if side u = PLAYER then playerTech s (etype u) else 1);
                       arts = (if side u = PLAYER then artifactLevels s else no_artifacts);
                       stats = getUnitStats (etype u) (level u) tech arts;
                       dist = sqrt ((real_of_int (x - gridX u))\<^sup>2 + (real_of_int (y - gridY u))\<^sup>2)
                   in if dist \<le> st_range stats
                      then (if side u = PLAYER then ''bg-green-400/30 border-2 border-green-400/50''
                            else ''bg-red-400/30 border-2 border-red-400/50'')
                      else highlightClass)
             else highlightClass)"

subsection \<open>Reading the page\<close>

lemma getGridFromClientPos_keys:
  "getGridFromClientPos hit = Some obj \<Longrightarrow> map_of obj ''x'' = None \<and> map_of obj ''y'' = None"
  by (auto simp: getGridFromClientPos_def Let_def split: option.splits if_splits)

lemma dropCell_attrs:
  assumes "map_of a ''data-grid-x'' = Some (int_str x)" "map_of a ''data-grid-y'' = Some (int_str y)"
    and "x \<noteq> -1" "y \<noteq> -1"
  shows "dropCell (Some a) = Some (x, y)"
  using assms by (simp add: dropCell_def getGridFromClientPos_def)

lemma dropCell_tile: "0 \<le> x \<Longrightarrow> 0 \<le> y \<Longrightarrow> dropCell (Some (tileAttrs x y)) = Some (x, y)"
  by (rule dropCell_attrs) (simp_all add: tileAttrs_def)

lemma dropCell_unit: "0 \<le> gridX e \<Longrightarrow> 0 \<le> gridY e \<Longrightarrow> dropCell (Some (unitAttrs e)) = Some (gridX e, gridY e)"
  by (rule dropCell_attrs) (simp_all add: unitAttrs_def)

lemma pageTargets_cells:
  assumes hv: "halves_ok (entities s)" and a: "a \<in> set (pageTargets s)"
  shows "\<exists>x y. dropCell (Some a) = Some (x, y) \<and> 0 \<le> x \<and> x < GRID_COLS \<and> 0 \<le> y \<and> y < GRID_ROWS"
proof -
  have "a \<in> set (concat (map (\<lambda>y. map (\<lambda>x. tileAttrs x y) [0..GRID_COLS - 1]) [0..GRID_ROWS - 1]))
      \<or> a \<in> set (map unitAttrs (filter (\<lambda>entity. draggingId s \<noteq> Some (eid entity)) (entities s)))"
    using a by (simp add: pageTargets_def)
  then show ?thesis
  proof
    assume "a \<in> set (concat (map (\<lambda>y. map (\<lambda>x. tileAttrs x y) [0..GRID_COLS - 1]) [0..GRID_ROWS - 1]))"
    then obtain x y where "a = tileAttrs x y" "0 \<le> x" "x < GRID_COLS" "0 \<le> y" "y < GRID_ROWS" by auto
    then show ?thesis using dropCell_tile by blast
  next
    assume "a \<in> set (map unitAttrs (filter (\<lambda>entity. draggingId s \<noteq> Some (eid entity)) (entities s)))"
    then obtain e where "a = unitAttrs e" "e \<in> set (entities s)" by auto
    then show ?thesis using hv dropCell_unit [of e] by (auto simp: halves_ok_def)
  qed
qed

subsection \<open>Properties of the pointer layer\<close>

text \<open>
  C20. The hover highlight of the tiles never appears: \<^verbatim>\<open>moveDrag\<close> stores the object
  \<^verbatim>\<open>{ gridX, gridY }\<close> that \<^verbatim>\<open>getGridFromClientPos\<close> returns, while
  \<^verbatim>\<open>renderTiles\<close> compares its fields \<^verbatim>\<open>x\<close> and \<^verbatim>\<open>y\<close>, which that object
  does not have. After any pointer move, over any element, no tile counts as hovered and no
  tile gets either hover colour.
\<close>

theorem moveDrag_never_hovers:
  "\<not> isHovered (hoveredGrid (moveDrag p client hit)) x y
   \<and> tileHighlight s (moveDrag p client hit) x y
       \<notin> {''bg-red-500/50 shadow-[inset_0_0_20px_rgba(239,68,68,0.8)]'',
           ''bg-green-500/50 shadow-[inset_0_0_20px_rgba(34,197,94,0.8)]''}"
proof -
  have h: "\<not> isHovered (hoveredGrid (moveDrag p client hit)) x' y'" for x' y'
    using getGridFromClientPos_keys
    by (auto simp: moveDrag_def isHovered_def split: option.splits)
  then show ?thesis
    using h [of x y] by (auto simp: tileHighlight_def Let_def split: option.splits)
qed

text \<open>
  C15. Every pointer-up on the rendered preparation page is a step of the application
  machine: whatever element of the page the pointer is released over (a tile, a unit, or
  none), the drop cell \<^verbatim>\<open>finishDrag\<close> reads from it lies inside the grid, so the release
  is an enabled \<open>FinishDrag\<close> event with the measured gesture, and the state after it and
  the ref-sync effect is again reachable.
\<close>

theorem pointerUp_step:
  assumes "reachable s" and "phase s = PREPARATION" and "hit \<in> insert None (Some ` set (pageTargets s))"
  shows "enabled s (FinishDrag (gestureDist p client) (dropCell hit))
       \<and> reachable (syncRef (fst (pointerUp s p client hit)))"
proof -
  have hv: "halves_ok (entities s)"
    using reachable_inv [OF assms(1)] assms(2) by (simp add: app_inv_def board_ok_def)
  have en: "enabled s (FinishDrag (gestureDist p client) (dropCell hit))"
  proof (cases hit)
    case None
    then show ?thesis by (simp add: dropCell_def getGridFromClientPos_def)
  next
    case (Some a)
    then have "a \<in> set (pageTargets s)" using assms(3) by auto
    then show ?thesis using pageTargets_cells [OF hv] Some by fastforce
  qed
  have "reachable (app_step s (FinishDrag (gestureDist p client) (dropCell hit)))"
    by (rule reachable.step [OF assms(1) en])
  then show ?thesis using en by (simp add: app_step_def pointerUp_def)
qed

theorem pointerUp_step_witness:
  "reachable start_demo \<and> phase start_demo = PREPARATION
   \<and> Some (tileAttrs 0 4) \<in> insert None (Some ` set (pageTargets start_demo))
   \<and> enabled start_demo (FinishDrag (gestureDist initialPointer (0, 0)) (dropCell (Some (tileAttrs 0 4))))"
proof -
  have "tileAttrs 0 4 \<in> set (pageTargets start_demo)"
    by (simp add: pageTargets_def GRID_COLS_def GRID_ROWS_def upto.simps)
  then have m: "Some (tileAttrs 0 4) \<in> insert None (Some ` set (pageTargets start_demo))" by simp
  show ?thesis
    using pointerUp_step [OF start_demo_reachable start_demo_phase m] start_demo_reachable start_demo_phase m
    by simp
qed

end
