(* ===== verification/Modals.thy ===== *)
theory Modals
  imports Unit_View
begin

text \<open>
  The modals of \<^verbatim>\<open>App.tsx\<close> through which the preparation handlers are reached: the
  shop (gacha banners, tier tabs and the list of a tier's units), the artifact draw, the
  altar's recipes, the achievement list and the research modal (global research and the
  lab). Each is modelled by the buttons it renders with the value it shows and its
  \<^verbatim>\<open>disabled\<close> flag (or, for achievements, whether the claim button is there). The
  theorems compare each flag with the handler the button calls: the page offers an
  action exactly when the handler accepts it, with the exceptions the shop leaves to the
  handler's toasts.
\<close>

text \<open>\<^verbatim>\<open>Object.values(UnitTier)\<close> and \<^verbatim>\<open>Object.values(GlobalTechType)\<close>.\<close>

definition all_unit_tiers :: "unit_tier list" where
  "all_unit_tiers = [COMMON, RARE, EPIC, LEGENDARY, MYTHIC]"

definition all_global_tech_types :: "global_tech_type list" where
  "all_global_tech_types = [CAPACITY, LUCK, MYTHIC_MASTERY]"

text \<open>The shop: its tabs (no mythic tab), the two banners and the units of the open tab,
  each as (purchase, price shown, disabled).\<close>

definition shopTabs :: "unit_tier list" where
  "shopTabs = filter (\<lambda>tier. tier \<noteq> MYTHIC) all_unit_tiers"

definition shopButtons :: "app_state \<Rightarrow> unit_tier \<Rightarrow> (buy_kind \<times> int \<times> bool) list" where
  "shopButtons s shopTab =
     [(RANDOM, recruitCost s, coins s < recruitCost s),
      (PREMIUM, recruitCost s * 2, coins s < recruitCost s * 2)]
     @ map (\<lambda>type. (SPECIFIC type, unitCosts s type, coins s < unitCosts s type))
           (filter (\<lambda>type. tier (UNIT_BASE_STATS type) = shopTab) all_unit_types)"

definition artifactButton :: "app_state \<Rightarrow> int \<times> bool" where
  "artifactButton s = (artifactCost s, coins s < artifactCost s)"

text \<open>The altar: per recipe, whether the player has the ingredients (two units when the
  recipe names one type twice) and the coins.\<close>

definition altarButtons :: "app_state \<Rightarrow> (synthesis_recipe \<times> bool) list" where
  "altarButtons s =
     map (\<lambda>recipe.
            let ok = (\<lambda>k e. etype e = ingredients recipe ! k \<and> minLevel recipe \<le> level e \<and> side e = PLAYER);
                hasIng1 = list_ex (ok 0) (entities s);
                hasIng2 = (if ingredients recipe ! 0 = ingredients recipe ! 1
                           then 2 \<le> length (filter (ok 0) (entities s))
                           else list_ex (ok 1) (entities s));
                canCraft = hasIng1 \<and> hasIng2 \<and> cost recipe \<le> coins s
            in (recipe, \<not> canCraft))
         SYNTHESIS_RECIPES"

text \<open>The achievement list: progress in percent and the claim button, shown only for a
  completed achievement not yet claimed.\<close>

definition achievementRows :: "app_state \<Rightarrow> (achievement \<times> real \<times> (string \<times> int) option) list" where
  "achievementRows s =
     map (\<lambda>ach.
            let current = stat_value (gameStats s) (ach_type ach);
                progress = min 100 (real current / real (ach_target ach) * 100);
                isCompleted = ach_target ach \<le> current;
                isClaimed = ach_id ach \<in> claimedAchievements s
            in (ach, progress, if isCompleted \<and> \<not> isClaimed then Some (ach_id ach, ach_reward ach) else None))
         ACHIEVEMENTS"

text \<open>The research modal: global research (refused at the maximum level) and the lab.\<close>

definition globalButtons :: "app_state \<Rightarrow> (global_tech_type \<times> int \<times> bool) list" where
  "globalButtons s =
     map (\<lambda>type.
            let lvl = globalTech s type;
                cost = gt_baseCost type + (lvl - 1) * gt_costInc type;
                isMax = int (gt_maxLevel type) \<le> lvl;
                canAfford = cost \<le> coins s \<and> \<not> isMax
            in (type, cost, \<not> canAfford))
         all_global_tech_types"

definition labButtons :: "app_state \<Rightarrow> (unit_type \<times> int \<times> bool) list" where
  "labButtons s =
     map (\<lambda>type. (type, TECH_COST_BASE + (techLevels s type - 1) * TECH_COST_INCREASE,
                  \<not> labAffordable s type))
         labTypes"

subsection \<open>Research\<close>

lemma globalButtons_mem:
  "(ty, c, d) \<in> set (globalButtons s) \<longleftrightarrow>
     c = gt_baseCost ty + (globalTech s ty - 1) * gt_costInc ty
     \<and> d = (\<not> (c \<le> coins s \<and> \<not> int (gt_maxLevel ty) \<le> globalTech s ty))"
  by (cases ty) (auto simp: globalButtons_def all_global_tech_types_def Let_def)

lemma labButtons_mem:
  "(ty, c, d) \<in> set (labButtons s) \<longleftrightarrow>
     tier (UNIT_BASE_STATS ty) \<noteq> MYTHIC \<and> c = TECH_COST_BASE + (techLevels s ty - 1) * TECH_COST_INCREASE
     \<and> d = (\<not> c \<le> coins s)"
  by (auto simp: labButtons_def labTypes_def labAffordable_def)

subsection \<open>Properties of the modals\<close>

text \<open>
  C23. The research modal offers exactly the research its handlers perform: a global research
  button is enabled exactly when \<^verbatim>\<open>applyGlobalUpgrade\<close> accepts (neither at the
  maximum level nor short of coins), a lab button exactly when \<^verbatim>\<open>applyTechUpgrade\<close>
  accepts, and an accepted research charges the price the button shows.
\<close>

theorem research_buttons_agree:
  "(\<forall>(ty, c, d) \<in> set (globalButtons s).
      \<not> d \<longleftrightarrow> (\<exists>s'. applyGlobalUpgrade s ty = Inr s' \<and> coins s' = coins s - c))
   \<and> (\<forall>(ty, c, d) \<in> set (labButtons s).
      \<not> d \<longleftrightarrow> (\<exists>s'. applyTechUpgrade s ty = Inr s' \<and> coins s' = coins s - c))"
proof (intro conjI ballI)
  fix x assume x0: "x \<in> set (globalButtons s)"
  obtain ty c d where x: "x = (ty, c, d)" by (rule prod_cases3)
  with x0 have m: "(ty, c, d) \<in> set (globalButtons s)" by simp
  show "case x of (ty, c, d) \<Rightarrow> \<not> d \<longleftrightarrow> (\<exists>s'. applyGlobalUpgrade s ty = Inr s' \<and> coins s' = coins s - c)"
    using m unfolding x globalButtons_mem by (auto simp: applyGlobalUpgrade_def Let_def)
next
  fix x assume x0: "x \<in> set (labButtons s)"
  obtain ty c d where x: "x = (ty, c, d)" by (rule prod_cases3)
  with x0 have m: "(ty, c, d) \<in> set (labButtons s)" by simp
  show "case x of (ty, c, d) \<Rightarrow> \<not> d \<longleftrightarrow> (\<exists>s'. applyTechUpgrade s ty = Inr s' \<and> coins s' = coins s - c)"
    using m unfolding x labButtons_mem by (auto simp: applyTechUpgrade_def Let_def)
qed

theorem research_buttons_agree_witness:
  "(CAPACITY, 200, False) \<in> set (globalButtons (initialState None 0))
   \<and> (\<exists>s'. applyGlobalUpgrade (initialState None 0) CAPACITY = Inr s' \<and> coins s' = 1800)"
proof -
  have m: "(CAPACITY, 200, False) \<in> set (globalButtons (initialState None 0))"
    by (simp add: globalButtons_mem initialState_def)
  have "coins (initialState None 0) = 2000" by (simp add: initialState_def)
  then show ?thesis using research_buttons_agree [of "initialState None 0"] m by fastforce
qed

subsection \<open>The altar\<close>

lemma find_two_disjoint:
  assumes d: "distinct (map eid xs)" and pq: "\<And>e. P e \<Longrightarrow> \<not> Q e"
  shows "(\<exists>i1 i2. find P xs = Some i1 \<and> find (\<lambda>e. Q e \<and> eid e \<noteq> eid i1) xs = Some i2)
       \<longleftrightarrow> list_ex P xs \<and> list_ex Q xs"
proof
  assume "\<exists>i1 i2. find P xs = Some i1 \<and> find (\<lambda>e. Q e \<and> eid e \<noteq> eid i1) xs = Some i2"
  then obtain i1 i2 where "find P xs = Some i1" "find (\<lambda>e. Q e \<and> eid e \<noteq> eid i1) xs = Some i2" by blast
  then show "list_ex P xs \<and> list_ex Q xs"
    by (auto simp: list_ex_iff find_Some_iff dest!: nth_mem)
next
  assume "list_ex P xs \<and> list_ex Q xs"
  then obtain e1 e2 where e1: "e1 \<in> set xs" "P e1" and e2: "e2 \<in> set xs" "Q e2" by (auto simp: list_ex_iff)
  then obtain i1 where f1: "find P xs = Some i1" by (cases "find P xs") (auto simp: find_None_iff)
  then have i1: "i1 \<in> set xs" "P i1" by (auto simp: find_Some_iff)
  have "e2 \<noteq> i1" using e2(2) i1(2) pq by blast
  then have "eid e2 \<noteq> eid i1" using d e2(1) i1(1) by (auto simp: distinct_map inj_on_def)
  then obtain i2 where "find (\<lambda>e. Q e \<and> eid e \<noteq> eid i1) xs = Some i2"
    using e2 by (cases "find (\<lambda>e. Q e \<and> eid e \<noteq> eid i1) xs") (auto simp: find_None_iff)
  with f1 show "\<exists>i1 i2. find P xs = Some i1 \<and> find (\<lambda>e. Q e \<and> eid e \<noteq> eid i1) xs = Some i2" by blast
qed

lemma altarButtons_mem:
  "(recipe, disabled) \<in> set (altarButtons s) \<Longrightarrow> recipe \<in> set SYNTHESIS_RECIPES
     \<and> disabled = (\<not> (list_ex (\<lambda>e. etype e = ingredients recipe ! 0 \<and> minLevel recipe \<le> level e \<and> side e = PLAYER) (entities s)
                 \<and> list_ex (\<lambda>e. etype e = ingredients recipe ! 1 \<and> minLevel recipe \<le> level e \<and> side e = PLAYER) (entities s)
                 \<and> cost recipe \<le> coins s))
     \<and> ingredients recipe ! 0 \<noteq> ingredients recipe ! 1"
  by (auto simp: altarButtons_def SYNTHESIS_RECIPES_def)

lemma handleSynthesize_accepts:
  assumes d: "distinct (map eid (entities s))" and t: "ingredients recipe ! 0 \<noteq> ingredients recipe ! 1"
  shows "(\<exists>s'. handleSynthesize s recipe newId = Inr s') \<longleftrightarrow>
     list_ex (\<lambda>e. etype e = ingredients recipe ! 0 \<and> minLevel recipe \<le> level e \<and> side e = PLAYER) (entities s)
     \<and> list_ex (\<lambda>e. etype e = ingredients recipe ! 1 \<and> minLevel recipe \<le> level e \<and> side e = PLAYER) (entities s)
     \<and> cost recipe \<le> coins s"
proof -
  let ?xs = "filter (\<lambda>e. side e = PLAYER) (entities s)"
  let ?P = "\<lambda>e. etype e = ingredients recipe ! 0 \<and> minLevel recipe \<le> level e"
  let ?Q = "\<lambda>e. etype e = ingredients recipe ! 1 \<and> minLevel recipe \<le> level e"
  have dx: "distinct (map eid ?xs)" using d by (rule distinct_map_filter)
  have "(findIngredients recipe (entities s) \<noteq> None) \<longleftrightarrow> list_ex ?P ?xs \<and> list_ex ?Q ?xs"
    using find_two_disjoint [OF dx, of ?P ?Q] t
    by (auto simp: findIngredients_def Let_def split: option.splits)
  moreover have "list_ex ?P ?xs \<longleftrightarrow> list_ex (\<lambda>e. ?P e \<and> side e = PLAYER) (entities s)"
    "list_ex ?Q ?xs \<longleftrightarrow> list_ex (\<lambda>e. ?Q e \<and> side e = PLAYER) (entities s)"
    by (auto simp: list_ex_iff)
  ultimately show ?thesis
    by (auto simp: handleSynthesize_def not_less split: option.splits)
qed

text \<open>
  C21. The altar offers exactly the syntheses the handler performs: when entity ids are
  unique (as on every reachable preparation board), a recipe's button is enabled exactly
  when \<^verbatim>\<open>handleSynthesize\<close> accepts, that is, when the player has a unit of each
  ingredient type at the recipe's minimum level and the coins.
\<close>

theorem altar_buttons_agree:
  assumes "distinct (map eid (entities s))" and "(recipe, disabled) \<in> set (altarButtons s)"
  shows "\<not> disabled \<longleftrightarrow> (\<exists>s'. handleSynthesize s recipe newId = Inr s')"
  using altarButtons_mem [OF assms(2)] handleSynthesize_accepts [OF assms(1)] by auto

theorem altar_buttons_agree_witness:
  "distinct (map eid (entities synth_demo)) \<and> (hd SYNTHESIS_RECIPES, False) \<in> set (altarButtons synth_demo)
   \<and> (\<exists>s'. handleSynthesize synth_demo (hd SYNTHESIS_RECIPES) 3 = Inr s')"
proof -
  have d: "distinct (map eid (entities synth_demo))"
    by (simp add: synth_demo_def createEntity_def Let_def)
  have m: "(hd SYNTHESIS_RECIPES, False) \<in> set (altarButtons synth_demo)"
    by (simp add: altarButtons_def SYNTHESIS_RECIPES_def synth_demo_def merge_demo_def initialState_def
                  createEntity_def Let_def)
  show ?thesis using altar_buttons_agree [OF d m, of 3] d m by simp
qed

subsection \<open>Achievements and the shop\<close>

lemma achievementRows_mem:
  "(ach, progress, btn) \<in> set (achievementRows s) \<Longrightarrow>
     progress = min 100 (real (stat_value (gameStats s) (ach_type ach)) / real (ach_target ach) * 100)
     \<and> btn = (if ach_target ach \<le> stat_value (gameStats s) (ach_type ach) \<and> ach_id ach \<notin> claimedAchievements s
              then Some (ach_id ach, ach_reward ach) else None)"
  by (auto simp: achievementRows_def Let_def)

lemma shopButtons_mem:
  "(k, price, d) \<in> set (shopButtons s tab) \<Longrightarrow>
     price = buyCost s k \<and> d = (coins s < price)
     \<and> (\<forall>ty. k = SPECIFIC ty \<longrightarrow> tier (UNIT_BASE_STATS ty) = tab)"
  by (auto simp: shopButtons_def buyCost_def)

text \<open>
  C24. The achievement list shows each achievement's progress as a percentage between 0 and
  100, and its claim button exactly when the achievement is completed and not yet claimed;
  a claim from that button is never refused and pays the reward shown.
\<close>

theorem achievement_rows_ok:
  assumes "(ach, progress, btn) \<in> set (achievementRows s)"
  shows "0 \<le> progress \<and> progress \<le> 100
       \<and> (btn \<noteq> None \<longleftrightarrow> ach_target ach \<le> stat_value (gameStats s) (ach_type ach)
                          \<and> ach_id ach \<notin> claimedAchievements s)
       \<and> (\<forall>i r. btn = Some (i, r) \<longrightarrow> claimAchievement s i r
            = Inr (s\<lparr>coins := coins s + r, claimedAchievements := insert i (claimedAchievements s)\<rparr>))"
  using achievementRows_mem [OF assms] by (auto simp: claimAchievement_def)

theorem achievement_rows_ok_witness:
  "(hd ACHIEVEMENTS, 100, Some (''kill_1'', 100))
     \<in> set (achievementRows ((initialState None 0)\<lparr>gameStats := zeroStats\<lparr>kills := 1\<rparr>\<rparr>))
   \<and> claimAchievement ((initialState None 0)\<lparr>gameStats := zeroStats\<lparr>kills := 1\<rparr>\<rparr>) ''kill_1'' 100
     = Inr ((initialState None 0)\<lparr>gameStats := zeroStats\<lparr>kills := 1\<rparr>, coins := 2100,
                                  claimedAchievements := {''kill_1''}\<rparr>)"
proof -
  let ?s = "(initialState None 0)\<lparr>gameStats := zeroStats\<lparr>kills := 1\<rparr>\<rparr>"
  have m: "(hd ACHIEVEMENTS, 100, Some (''kill_1'', 100)) \<in> set (achievementRows ?s)"
    by (simp add: achievementRows_def ACHIEVEMENTS_def initialState_def zeroStats_def)
  show ?thesis using achievement_rows_ok [OF m] m by (simp add: initialState_def)
qed

text \<open>
  C22. The shop shows the price each purchase charges and disables a button exactly when the
  coins do not cover it; it never offers a mythic unit. A disabled purchase would be
  refused by \<^verbatim>\<open>handleBuyUnit\<close>, and an enabled one is refused only for a full
  barracks or a full board, which the shop leaves to the handler's toasts.
\<close>

theorem shop_buttons_agree:
  assumes "tab \<in> set shopTabs" and "(k, price, d) \<in> set (shopButtons s tab)"
  shows "price = buyCost s k \<and> (d \<longleftrightarrow> coins s < price)
       \<and> (\<forall>ty. k = SPECIFIC ty \<longrightarrow> tier (UNIT_BASE_STATS ty) \<noteq> MYTHIC)
       \<and> (d \<longrightarrow> handleBuyUnit s k rand r2 newId \<in> {Inl CapacityFull, Inl NotEnoughCoins})
       \<and> (\<not> d \<longrightarrow> (\<exists>s'. handleBuyUnit s k rand r2 newId = Inr s')
              \<or> handleBuyUnit s k rand r2 newId \<in> {Inl CapacityFull, Inl NoFreeSpot})"
proof -
  have t: "tab \<noteq> MYTHIC" using assms(1) by (simp add: shopTabs_def)
  note m = shopButtons_mem [OF assms(2)]
  show ?thesis
    using m t by (auto simp: handleBuyUnit_def Let_def split: list.splits prod.splits)
qed

theorem shop_buttons_agree_witness:
  "COMMON \<in> set shopTabs \<and> (RANDOM, 100, False) \<in> set (shopButtons (initialState None 0) COMMON)
   \<and> buyCost (initialState None 0) RANDOM = 100"
proof -
  have t: "COMMON \<in> set shopTabs" by (simp add: shopTabs_def all_unit_tiers_def)
  have m: "(RANDOM, 100, False) \<in> set (shopButtons (initialState None 0) COMMON)"
    by (simp add: shopButtons_def initialState_def RECRUIT_COST_def)
  show ?thesis using shop_buttons_agree [OF t m, of 0 0 1] t m by simp
qed

end
