(* ===== verification/Unit_Info.thy ===== *)
theory Unit_Info
  imports Unit_View
begin

text \<open>
  The unit info panel of \<^verbatim>\<open>App.tsx\<close>, shown while a unit is selected: the stats it
  displays (\<^verbatim>\<open>getUnitStats\<close> at the player's research and artifacts for a player
  unit, at tech level 1 without artifacts for an enemy), and the sell button with the
  value it shows, present only for a player unit during preparation. Also the top bar:
  level, the difficulty's last level, the achievement badge, the supply gift and the coins.
\<close>

definition unitInfoStats :: "app_state \<Rightarrow> entity \<Rightarrow> unit_stats" where
  "unitInfoStats s u =
     (let tech = (if side u = PLAYER then playerTech s (etype u) else 1);
          arts = (if side u = PLAYER then artifactLevels s else no_artifacts)
      in getUnitStats (etype u) (level u) tech arts)"

text \<open>\<^verbatim>\<open>Math.floor(Math.floor(recruitCost * costMult) * Math.pow(2, level - 1) * 0.2)\<close>.\<close>

definition sellValue :: "app_state \<Rightarrow> entity \<Rightarrow> int" where
  "sellValue s u =
     \<lfloor>real_of_int \<lfloor>real_of_int (recruitCost s) * tier_costMult (tier (UNIT_BASE_STATS (etype u)))\<rfloor>
        * (if level u = 0 then 1 / 2 else 2 ^ (level u - 1)) * 0.2\<rfloor>"

record unit_info =
  ui_stats :: unit_stats
  ui_sell :: "int option"

definition unitInfo :: "app_state \<Rightarrow> unit_info option" where
  "unitInfo s =
     map_option (\<lambda>u. \<lparr>ui_stats = unitInfoStats s u,
                       ui_sell = (if side u = PLAYER \<and> phase s = PREPARATION then Some (sellValue s u) else None)\<rparr>)
       (selectedUnit s)"

record top_bar =
  tb_level :: nat
  tb_maxLevel :: nat
  tb_badge :: bool
  tb_supplyReady :: bool
  tb_coins :: int

definition topBar :: "app_state \<Rightarrow> top_bar" where
  "topBar s = \<lparr>tb_level = levelNo s, tb_maxLevel = diff_maxLevel (difficulty s),
               tb_badge = hasClaimableAchievements s, tb_supplyReady = canClaimSupply s, tb_coins = coins s\<rparr>"

text \<open>A preparation state with a level-1 enemy infantry created at tech level 2 selected.\<close>

definition info_demo :: app_state where
  "info_demo = merge_demo\<lparr>selectedUnit := Some (createEntity 9 INFANTRY 1 ENEMY 0 0 2 no_artifacts)\<rparr>"

subsection \<open>The panel against the handlers\<close>

lemma sellValue_eq: "sellValue s u = sellRefund s u"
proof -
  have eq: "(if level u = 0 then 1 / 2 else 2 ^ (level u - 1)) = (2::real) ^ level u / 2"
    by (cases "level u") simp_all
  show ?thesis unfolding sellValue_def sellRefund_def Let_def eq by (simp only: times_divide_eq_right)
qed

lemma st_hp_tech_strict:
  assumes "2 \<le> T"
  shows "st_hp (getUnitStats ty lvl 1 arts) < st_hp (getUnitStats ty lvl T arts)"
proof -
  let ?h = "hp_scale ty lvl arts"
  have h: "80 \<le> ?h" by (rule hp_scale_ge)
  have "2 * ?h \<le> real_of_int T * ?h" using assms h by (intro mult_right_mono) simp_all
  then have "?h * tech_mult 1 + 1 \<le> ?h * tech_mult T" using h by (simp add: tech_mult_def algebra_simps, linarith)
  then show ?thesis unfolding st_hp_getUnitStats by (rule floor_less_floor_grow)
qed

subsection \<open>Properties of the panel\<close>

text \<open>
  C25. The sell button of the unit info panel is shown exactly when the machine lets the sale
  through, and the value it shows is what the sale pays: \<^verbatim>\<open>handleSellUnit\<close> accepts,
  adds exactly that many coins and closes the panel.
\<close>

theorem sell_button_pays:
  "((\<exists>i v. unitInfo s = Some i \<and> ui_sell i = Some v) \<longleftrightarrow> enabled s SellUnit)
   \<and> (\<forall>i v. unitInfo s = Some i \<longrightarrow> ui_sell i = Some v \<longrightarrow>
        (\<exists>s'. handleSellUnit s = Inr s' \<and> coins s' = coins s + v \<and> selectedUnit s' = None))"
proof (cases "selectedUnit s")
  case None
  then show ?thesis by (simp add: unitInfo_def)
next
  case (Some u)
  then show ?thesis by (auto simp: unitInfo_def handleSellUnit_def sellValue_eq)
qed

theorem sell_button_pays_witness:
  "(\<exists>i v. unitInfo sell_demo = Some i \<and> ui_sell i = Some v) \<and> enabled sell_demo SellUnit
   \<and> \<not> enabled info_demo SellUnit
   \<and> (\<exists>s'. handleSellUnit sell_demo = Inr s'
          \<and> coins s' = coins sell_demo + sellValue sell_demo (demo_archer 1 0) \<and> selectedUnit s' = None)"
proof -
  have i: "unitInfo sell_demo = Some (the (unitInfo sell_demo))"
    and v: "ui_sell (the (unitInfo sell_demo)) = Some (sellValue sell_demo (demo_archer 1 0))"
    by (simp_all add: unitInfo_def sell_demo_def merge_demo_def demo_archer_def createEntity_def Let_def)
  have n: "\<not> (\<exists>i v. unitInfo info_demo = Some i \<and> ui_sell i = Some v)"
    by (simp add: unitInfo_def info_demo_def createEntity_def Let_def)
  show ?thesis
    using sell_button_pays [of sell_demo] sell_button_pays [of info_demo] i v n by blast
qed

text \<open>
  C26. The panel shows an enemy's stats at tech level 1 and without artifacts, while enemies
  are created at the load-time enemy tech level (2 from level 13 on NORMAL): for any enemy
  created at tech level 2 or more, the hit points the panel shows are strictly below the
  enemy's actual maximum hit points.
\<close>

theorem unit_info_enemy_stats:
  assumes "selectedUnit s = Some u" and "side u = ENEMY"
    and "maxHp u = st_hp (getUnitStats (etype u) (level u) T no_artifacts)" and "2 \<le> T"
  shows "\<exists>i. unitInfo s = Some i \<and> ui_stats i = getUnitStats (etype u) (level u) 1 no_artifacts
           \<and> st_hp (ui_stats i) < maxHp u"
  using assms st_hp_tech_strict [OF assms(4)] by (simp add: unitInfo_def unitInfoStats_def)

theorem unit_info_enemy_stats_witness:
  "selectedUnit info_demo = Some (createEntity 9 INFANTRY 1 ENEMY 0 0 2 no_artifacts)
   \<and> maxHp (createEntity 9 INFANTRY 1 ENEMY 0 0 2 no_artifacts) = st_hp (getUnitStats INFANTRY 1 2 no_artifacts)
   \<and> (\<exists>i. unitInfo info_demo = Some i
          \<and> st_hp (ui_stats i) < maxHp (createEntity 9 INFANTRY 1 ENEMY 0 0 2 no_artifacts))"
proof -
  have u: "selectedUnit info_demo = Some (createEntity 9 INFANTRY 1 ENEMY 0 0 2 no_artifacts)"
    by (simp add: info_demo_def)
  have m: "maxHp (createEntity 9 INFANTRY 1 ENEMY 0 0 2 no_artifacts) = st_hp (getUnitStats INFANTRY 1 2 no_artifacts)"
    by (simp add: createEntity_def Let_def)
  have e: "side (createEntity 9 INFANTRY 1 ENEMY 0 0 2 no_artifacts) = ENEMY"
    "etype (createEntity 9 INFANTRY 1 ENEMY 0 0 2 no_artifacts) = INFANTRY"
    "level (createEntity 9 INFANTRY 1 ENEMY 0 0 2 no_artifacts) = 1"
    by (simp_all add: createEntity_def Let_def)
  show ?thesis using unit_info_enemy_stats [OF u e(1), of 2] m e u by auto
qed

end
