(* ===== verification/Spec2Isabelle.thy ===== *)
theory Spec2Isabelle
  imports Pointer Modals Unit_Info
begin

text \<open>
  \<^bold>\<open>A verification development of the auto-battler in \<^verbatim>\<open>src/\<close>.\<close>

  \<^bold>\<open>The program.\<close> The game is one React component, \<^verbatim>\<open>App\<close> in
  \<^verbatim>\<open>src/App.tsx\<close>, over the data types of \<^verbatim>\<open>src/types.ts\<close>, the tables of
  \<^verbatim>\<open>src/constants.ts\<close>, the pure helpers of \<^verbatim>\<open>src/services/gameLogic.ts\<close>
  and the procedural level generator of \<^verbatim>\<open>src/services/geminiService.ts\<close>. From the
  difficulty screen a run starts (\<^verbatim>\<open>startGame\<close>); each level is loaded
  (\<^verbatim>\<open>loadLevel\<close>: the player's units are refreshed, enemies are generated); in the
  preparation phase the player buys, researches, sells, synthesises and drags units on the
  lower half of a 7 x 8 grid; the fight button starts the animation-frame loop
  (\<^verbatim>\<open>battleTick\<close>) that runs until one side is wiped out; victory advances to the
  next level or, at the last one, to the clear screen that unlocks the next difficulty.

  \<^bold>\<open>Theories and what they model.\<close>
  \<^item> \<open>Prelude\<close>: the JavaScript primitives the code relies on: \<^verbatim>\<open>findIndex\<close>
    (\<open>find_idx\<close>, \<open>None\<close> for -1), \<^verbatim>\<open>splice(i, 1)\<close> (\<open>remove_nth\<close>),
    \<^verbatim>\<open>Number(x.toFixed(2))\<close> (\<open>js_toFixed2\<close>) and
    \<^verbatim>\<open>list[Math.floor(Math.random() * list.length)]\<close> (\<open>pick\<close>).
  \<^item> \<open>Game_Types\<close>, \<open>Game_Constants\<close>: every enum of \<^verbatim>\<open>types.ts\<close> as a
    datatype, every interface the logic reads as a record, and the numeric tables of
    \<^verbatim>\<open>constants.ts\<close> with their lower bounds (collection \<open>stat_simps\<close>).
  \<^item> \<open>Stats\<close>: \<open>getUnitStats\<close>, the tech-level lookup \<open>getPlayerTechLevel\<close> and
    the two enemy tech formulas of \<^verbatim>\<open>App.tsx\<close> (\<open>enemyTechLevel_load\<close>,
    \<open>enemyTechLevel_battle\<close>).
  \<^item> \<open>Entities\<close>: \<open>createEntity\<close>, \<open>getDistance\<close>, the scan
    \<open>findNearestTarget\<close> with its specification \<open>nearest_spec\<close>, and the roster
    invariant \<open>roster_ok\<close>.
  \<^item> \<open>App_State\<close>: the state of \<^verbatim>\<open>App\<close> as the record \<open>app_state\<close> (one
    field per \<^verbatim>\<open>useState\<close>/\<^verbatim>\<open>useRef\<close> the logic touches), the
    \<^verbatim>\<open>useState\<close> initialisers \<open>initialState\<close> with the validated
    \<^verbatim>\<open>localStorage\<close> value (\<open>loadSavedDifficulty\<close>), the difficulty order, the
    unit cap and the gold multiplier.
  \<^item> \<open>Placement\<close>: \<^verbatim>\<open>finishDrag\<close> and its updater \<open>resolveDrop\<close> (merge,
    swap, move); the placement invariant \<open>placement_ok\<close>.
  \<^item> \<open>Battle\<close>: \<^verbatim>\<open>battleTick\<close> from the death sweep \<open>checkAliveness\<close>, one
    entity's turn \<open>updateEntity\<close> (\<open>engage\<close>, \<open>moveToward\<close>,
    \<open>separate\<close>) and the \<^verbatim>\<open>forEach\<close> \<open>updateAll\<close>; \<open>battleRun\<close> feeds
    it frame timestamps. The roster copy is a list read and written by index, so the
    in-place mutations happen in the source's order.
  \<^item> \<open>Economy\<close>: \<^verbatim>\<open>handleBuyUnit\<close> with its free-cell scan and gacha rolls,
    \<^verbatim>\<open>applyTechUpgrade\<close>, \<^verbatim>\<open>applyGlobalUpgrade\<close>,
    \<^verbatim>\<open>handleBuyArtifact\<close>, \<^verbatim>\<open>handleSellUnit\<close>,
    \<^verbatim>\<open>handleSynthesize\<close>, \<^verbatim>\<open>claimAchievement\<close> and the supply drop; each
    early return with a toast is an \<open>Inl\<close> value of \<open>shop_error\<close>.
  \<^item> \<open>Level_Gen\<close>: \<^verbatim>\<open>generateLevel\<close> with the placement loop
    \<open>placeAttempt\<close> (the do-while, a \<open>function\<close> whose termination measure is
    \<open>20 - attempts\<close>), the outer \<^verbatim>\<open>for\<close> loop \<open>genLoop\<close> and the string
    occupancy keys \<open>posKey\<close> with a decoder for the round trip.
  \<^item> \<open>Session\<close>: \<^verbatim>\<open>loadLevel\<close>, \<^verbatim>\<open>resetRunData\<close>,
    \<^verbatim>\<open>startGame\<close>, \<^verbatim>\<open>nextLevel\<close>, \<^verbatim>\<open>retryLevel\<close>, the two
    help-modal resets, the fight button with the battle effect (\<open>startBattle\<close>), the
    clear-screen button, the ref-sync effect (\<open>syncRef\<close>) and
    \<^verbatim>\<open>handleMouseDown\<close>.
  \<^item> \<open>Machine\<close>: the whole \<^verbatim>\<open>App\<close> as one state machine. \<open>app_op\<close> has one
    constructor per event the page can deliver (each button, pointer event, timer and
    animation frame of \<^verbatim>\<open>App.tsx\<close>); \<open>handle\<close> runs its handler (a refused
    shop action leaves the state as it was) and \<open>app_step\<close> adds the ref-sync effect.
    \<open>enabled\<close> says which events the rendered page offers in a state (buttons exist
    only in their phase, the lab lists no mythic type) and what the environment supplies
    (draws in [0, 1), fresh ids, a drop cell inside the grid). \<open>reachable\<close> is the
    inductive set of states reachable from \<open>initialState\<close>; \<open>app_inv\<close> is the
    invariant, split into research levels, purse, battle roster, preparation board and drag.
  \<^item> \<open>Machine_Shop\<close>, \<open>Machine_Inv\<close>: one preservation lemma per handler, then
    \<open>reachable_inv\<close> by rule induction, and its consequences for every reachable board.
  \<^item> \<open>Machine_Vitals\<close>: two further invariants by rule induction: every reachable
    entity has positive maximum hit points and no more hit points than that, and the
    per-type research level of a mythic type stays 1.
  \<^item> \<open>Unit_View\<close>: the components of \<^verbatim>\<open>src/components/\<close> as functions of their
    props: \<open>Unit\<close> (\<^verbatim>\<open>Unit.tsx\<close>) to a \<open>unit_view\<close> record, the board and the
    drag ghost of \<^verbatim>\<open>App.tsx\<close> (\<open>boardView\<close>, \<open>dragGhost\<close>), and the
    preparation bar with the store and lab cards (\<open>controlsView\<close>,
    \<open>hasUpgradable\<close>); the lab modal's list \<open>labTypes\<close>.
  \<^item> \<open>Pointer\<close>: the pointer layer of a drag: \<^verbatim>\<open>getGridFromClientPos\<close> over the
    attributes of the page's elements (\<open>pageTargets\<close>: the tiles of
    \<^verbatim>\<open>renderTiles\<close> and the units of the board), \<^verbatim>\<open>startDrag\<close>,
    \<^verbatim>\<open>moveDrag\<close>, the gesture length and drop cell of \<^verbatim>\<open>finishDrag\<close>
    (\<open>pointerUp\<close>), and the tile highlight (\<open>tileHighlight\<close>).
  \<^item> \<open>Modals\<close>: the buttons of the shop, artifact, altar, achievement and research
    modals with the price or progress they show and their \<^verbatim>\<open>disabled\<close> flag
    (\<open>shopButtons\<close>, \<open>artifactButton\<close>, \<open>altarButtons\<close>,
    \<open>achievementRows\<close>, \<open>globalButtons\<close>, \<open>labButtons\<close>). \<open>enabled\<close> of
    \<open>Machine\<close> over-approximates them (it lets every listed action through and leaves
    the refusal to the handler), so the invariants hold a fortiori for the page.
  \<^item> \<open>Unit_Info\<close>: the panel of a selected unit (\<open>unitInfo\<close>: the stats shown, the
    sell button and its value) and the top bar (\<open>topBar\<close>); closing the panel is the
    machine operation \<open>CloseUnitInfo\<close>.

  \<^bold>\<open>State and effects.\<close> Every handler is a function from \<open>app_state\<close> to
  \<open>app_state\<close> (or to \<open>shop_error + app_state\<close>); React's batched
  \<^verbatim>\<open>setState\<close> calls are applied in program order to the returned record.
  \<open>entitiesRef\<close> and \<open>entities\<close> are separate fields, as in the source;
  \<open>loopScheduled\<close> stands for a pending \<^verbatim>\<open>requestAnimationFrame\<close>.
  \<^verbatim>\<open>Math.random()\<close> draws, \<^verbatim>\<open>Date.now()\<close>, the
  \<^verbatim>\<open>window.confirm\<close> answer and fresh entity ids (random strings in the source)
  are inputs; the generator's draws are a stream \<open>nat \<Rightarrow> real\<close>. Hit points, damage
  and coins are \<open>int\<close>, positions, speeds and times \<open>real\<close>; IEEE rounding is not
  modelled. No loop needs fuel: the generator's do-while is bounded by its 20 attempts
  (a terminating \<open>function\<close>), every other loop runs over a finite list.

  \<^bold>\<open>What is proved.\<close> Each claim is a theorem after a text block naming its id.
  Placement: a drag keeps the placement invariant, merges and swaps do what they should,
  taps and drops on the enemy half do nothing. Battle: the outcome of a tick, its loot,
  each kill counted once, the loop stops after the end, a tick changes only what combat
  may change and never touches the dead, an attacker has its target in range. Targeting:
  the scan refines its specification. Economy: purchases keep the invariant, the unit cap
  and the budget; the rolls respect their tiers; research, artifacts, selling, synthesis
  and rewards have their effect, and every refusal leaves the state unchanged. Level
  generation: the retry loop terminates, keys round-trip, generated levels are valid.
  Session: loading a level yields a valid board (composing generator, entity creation and
  refresh), the run progression (the next level's enemies are those generated for it) and
  unlocks, the resets, the persisted difficulty. Stats:
  bounds, growth, tech monotonicity and step. Death sweep: the single-pass loop equals its
  reference reading \<open>aliveness_spec\<close>. Whole application: every reachable preparation
  board is valid and every reachable state meets the hypotheses of the handlers' theorems,
  so those theorems apply along any session; every reachable entity has well-formed hit
  points; every health bar on a reachable board is between 0 and 100 percent and empty
  exactly for a fallen unit; the lab indicator reduces to a coin test; a pointer-up over any
  element of the rendered page is an enabled machine step (so the environment assumption
  of \<open>enabled\<close> on drop cells is met by the page); the hover highlight never shows.
  Modals: the altar and research buttons are enabled exactly when their handlers accept,
  the shop disables exactly the unaffordable purchases and offers no mythic unit, and the
  achievement list offers a claim exactly for completed unclaimed achievements.
  Unit info: the sell button is shown exactly when the sale is an enabled step, and shows
  exactly the refund the sale pays.

  \<^bold>\<open>Findings.\<close> The merge upgrades the target in place instead of spawning a new
  unit; hit points are floored once, not per level as the spec's recurrence says; the
  battle tick's enemy tech formula differs from the load-time one; the generator drops a
  free cell found on the twentieth attempt; \<^verbatim>\<open>loadLevel\<close> revives the player units
  killed in battle; the lab card's indicator counts the mythic types, which the lab never
  offers, so it is lit with 100 coins even when no research is affordable; the store card
  is passed \<^verbatim>\<open>canAfford={true}\<close> and never reads it; \<^verbatim>\<open>moveDrag\<close> stores
  \<^verbatim>\<open>{ gridX, gridY }\<close> as the hovered cell while \<^verbatim>\<open>renderTiles\<close> reads its
  \<^verbatim>\<open>x\<close> and \<^verbatim>\<open>y\<close>, so no tile is ever highlighted under a dragged unit.
  The unit info panel shows enemy stats at tech level 1, below the real values of the
  enemies created at a higher tech level; the comment of \<^verbatim>\<open>handleSellUnit\<close> promises
  a 50 percent refund where the code pays 20 percent; the normal gacha is labelled common to
  epic but its roll gives a legendary unit at least one time in a hundred.

  \<^bold>\<open>Not modelled.\<close> The markup of the components beyond the values they
  compute (layout classes, icons, texts); the two cards that only open a modal
  (\<^verbatim>\<open>ArtifactCard\<close>, \<^verbatim>\<open>AltarCard\<close>) and the modal-opening clicks of the
  others; the modal texts, icons and open/close flags; toasts and sound; the browser's hit
  test (\<^verbatim>\<open>elementFromPoint\<close>: the element under the pointer is an input, one of the
  page's elements or none) and a \<^verbatim>\<open>NaN\<close> drop cell, which no element of the page
  produces; the 300 ms delay of the generator and the intermediate loading state of \<^verbatim>\<open>loadLevel\<close>
  (a load is one step), and the unreachable \<^verbatim>\<open>catch\<close> of \<^verbatim>\<open>loadLevel\<close>;
  a press of the level, reset, title or battle buttons while a unit is dragged
  (\<open>enabled\<close> requires no drag for them: a mouse drag ends before any click, and only
  a second touch could press them, which the source does not guard).
\<close>

end
